(* ===== verification/Rust_Std.thy ===== *)
theory Rust_Std
  imports Main "HOL-Library.Sublist" "HOL-Library.Code_Target_Numeral"
begin

text \<open>
  The part of Rust's standard library that the program's own code uses on values: text
  (\<open>str\<close>, \<open>String\<close>), integers parsed from and printed as text, and Unix path texts
  (\<open>std::path\<close>). A text is the list of its bytes. Case mapping and white space are those of
  the ASCII range, which is all that the program's flags, algorithm names and numbers use;
  the functions that Rust restricts to ASCII (\<open>eq_ignore_ascii_case\<close>,
  \<open>to_ascii_lowercase\<close>) are exact. Each group ends with the laws that the component
  theories use, collected in \<open>text_laws\<close> where they rewrite.
\<close>

named_theorems text_laws \<open>rewrite rules for texts, numbers and paths\<close>

section \<open>Characters and texts\<close>

text \<open>\<open>char::is_whitespace\<close> on ASCII, \<open>str::trim\<close> and \<open>str::trim_end_matches\<close>.\<close>

definition is_ws :: "char \<Rightarrow> bool" where
  "is_ws c = (let n = (of_char c :: nat) in n = 32 \<or> (9 \<le> n \<and> n \<le> 13))"

definition trim :: "string \<Rightarrow> string" where
  "trim s = rev (dropWhile is_ws (rev (dropWhile is_ws s)))"

definition trim_end_matches :: "char \<Rightarrow> string \<Rightarrow> string" where
  "trim_end_matches c s = rev (dropWhile (\<lambda>d. d = c) (rev s))"

definition newline :: char where
  "newline = char_of (10 :: nat)"

definition lower_char :: "char \<Rightarrow> char" where
  "lower_char c = (let n = (of_char c :: nat) in if 65 \<le> n \<and> n \<le> 90 then char_of (n + 32) else c)"

definition upper_char :: "char \<Rightarrow> char" where
  "upper_char c = (let n = (of_char c :: nat) in if 97 \<le> n \<and> n \<le> 122 then char_of (n - 32) else c)"

definition to_lower :: "string \<Rightarrow> string" where
  "to_lower s = map lower_char s"

definition to_upper :: "string \<Rightarrow> string" where
  "to_upper s = map upper_char s"

definition eq_ignore_case :: "string \<Rightarrow> string \<Rightarrow> bool" where
  "eq_ignore_case a b = (to_lower a = to_lower b)"

text \<open>\<open>str::strip_prefix\<close>, \<open>str::strip_suffix\<close>; \<open>starts_with\<close>, \<open>ends_with\<close> and
  \<open>contains\<close> are the library's \<open>prefix\<close>, \<open>suffix\<close> and \<open>sublist\<close>.\<close>

definition strip_prefix :: "string \<Rightarrow> string \<Rightarrow> string option" where
  "strip_prefix p s = (if prefix p s then Some (drop (length p) s) else None)"

definition strip_suffix :: "string \<Rightarrow> string \<Rightarrow> string option" where
  "strip_suffix p s = (if suffix p s then Some (take (length s - length p) s) else None)"

fun split_once :: "char \<Rightarrow> string \<Rightarrow> (string \<times> string) option" where
  "split_once c [] = None"
| "split_once c (x # xs) =
     (if x = c then Some ([], xs)
      else (case split_once c xs of None \<Rightarrow> None | Some (a, b) \<Rightarrow> Some (x # a, b)))"

fun split_on :: "char \<Rightarrow> string \<Rightarrow> string list" where
  "split_on c [] = [[]]"
| "split_on c (x # xs) =
     (if x = c then [] # split_on c xs
      else (case split_on c xs of [] \<Rightarrow> [[x]] | y # ys \<Rightarrow> (x # y) # ys))"

fun join :: "string \<Rightarrow> string list \<Rightarrow> string" where
  "join sep [] = []"
| "join sep [x] = x"
| "join sep (x # y # ys) = x @ sep @ join sep (y # ys)"

text \<open>Format width \<open>{:<n}\<close>: pad on the right with blanks. The width counts characters, which are the
  bytes that do not continue one (\<open>10xxxxxx\<close>).\<close>

definition char_count :: "string \<Rightarrow> nat" where
  "char_count s = length [c \<leftarrow> s. \<not> (let n = (of_char c :: nat) in 128 \<le> n \<and> n \<le> 191)]"

definition pad_right :: "nat \<Rightarrow> string \<Rightarrow> string" where
  "pad_right n s = s @ replicate (n - char_count s) (CHR '' '')"

text \<open>The dash, the check mark and the ellipsis of the messages, as their UTF-8 bytes.\<close>

definition em_dash :: string where "em_dash = [CHR 0xE2, CHR 0x80, CHR 0x94]"
definition check_mark :: string where "check_mark = [CHR 0xE2, CHR 0x9C, CHR 0x93]"
definition ellipsis :: string where "ellipsis = [CHR 0xE2, CHR 0x80, CHR 0xA6]"

text \<open>\<open>{:?}\<close> of a text: quoted, with the escapes of \<open>str::escape_debug\<close> for the ASCII characters:
  quotes, backslashes, tabs and line ends, NUL, and \<open>\u{..}\<close> for the other control characters.
  (Unprintable characters outside ASCII, which Rust escapes as well, are kept.)\<close>

definition hex_digit :: "nat \<Rightarrow> char" where
  "hex_digit n = char_of (if n < 10 then 48 + n else 87 + n)"

definition quote_char :: string where "quote_char = [CHR 0x22]"

definition escape_char :: "char \<Rightarrow> string" where
  "escape_char c =
     (if c = CHR 0x22 then [CHR 0x5C, CHR 0x22]
      else if c = CHR 0x5C then [CHR 0x5C, CHR 0x5C]
      else if c = CHR 0x0A then [CHR 0x5C, CHR ''n'']
      else if c = CHR 0x0D then [CHR 0x5C, CHR ''r'']
      else if c = CHR 0x09 then [CHR 0x5C, CHR ''t'']
      else if c = CHR 0x00 then [CHR 0x5C, CHR ''0'']
      else (let n = (of_char c :: nat)
        in if n < 16 then [CHR 0x5C] @ ''u{'' @ [hex_digit n] @ ''}''
           else if n < 32 \<or> n = 127 then [CHR 0x5C] @ ''u{'' @ [hex_digit (n div 16), hex_digit (n mod 16)] @ ''}''
           else [c]))"

definition debug_text :: "string \<Rightarrow> string" where
  "debug_text s = quote_char @ concat (map escape_char s) @ quote_char"

text \<open>\<open>str::from_utf8\<close>: whether bytes are well-formed UTF-8 (no overlong forms, no
  surrogates, nothing above U+10FFFF).\<close>

fun utf8_ok :: "nat list \<Rightarrow> bool" where
  "utf8_ok [] = True"
| "utf8_ok (a # r) =
     (if a < 128 then utf8_ok r
      else (case r of
        [] \<Rightarrow> False
      | b # r2 \<Rightarrow>
          if 194 \<le> a \<and> a \<le> 223 then 128 \<le> b \<and> b \<le> 191 \<and> utf8_ok r2
          else (case r2 of
            [] \<Rightarrow> False
          | c # r3 \<Rightarrow>
              if 224 \<le> a \<and> a \<le> 239 then
                (if a = 224 then 160 \<le> b \<and> b \<le> 191
                 else if a = 237 then 128 \<le> b \<and> b \<le> 159 else 128 \<le> b \<and> b \<le> 191)
                \<and> 128 \<le> c \<and> c \<le> 191 \<and> utf8_ok r3
              else (case r3 of
                [] \<Rightarrow> False
              | d # r4 \<Rightarrow>
                  240 \<le> a \<and> a \<le> 244
                  \<and> (if a = 240 then 144 \<le> b \<and> b \<le> 191
                     else if a = 244 then 128 \<le> b \<and> b \<le> 143 else 128 \<le> b \<and> b \<le> 191)
                  \<and> 128 \<le> c \<and> c \<le> 191 \<and> 128 \<le> d \<and> d \<le> 191 \<and> utf8_ok r4))))"

definition valid_utf8 :: "string \<Rightarrow> bool" where
  "valid_utf8 s = utf8_ok (map of_char s)"

section \<open>Numbers as text\<close>

definition digit_char :: "nat \<Rightarrow> char" where
  "digit_char d = char_of (48 + d)"

definition is_digit :: "char \<Rightarrow> bool" where
  "is_digit c = (let n = (of_char c :: nat) in 48 \<le> n \<and> n \<le> 57)"

definition digit_val :: "char \<Rightarrow> nat" where
  "digit_val c = of_char c - 48"

fun show_nat :: "nat \<Rightarrow> string" where
  "show_nat n = (if n < 10 then [digit_char n] else show_nat (n div 10) @ [digit_char (n mod 10)])"

declare show_nat.simps [simp del]

definition show_int :: "int \<Rightarrow> string" where
  "show_int i = (if i < 0 then CHR ''-'' # show_nat (nat (- i)) else show_nat (nat i))"

definition digits_val :: "string \<Rightarrow> nat" where
  "digits_val s = foldl (\<lambda>acc c. 10 * acc + digit_val c) 0 s"

text \<open>\<open>str::parse\<close> for an unsigned type whose largest value is \<open>mx\<close>: an optional plus
  sign, at least one digit, only digits, and a value that fits (\<open>None\<close> is
  \<open>ParseIntError\<close>).\<close>

definition parse_unsigned :: "nat \<Rightarrow> string \<Rightarrow> nat option" where
  "parse_unsigned mx s =
     (let ds = (case s of c # r \<Rightarrow> (if c = CHR ''+'' then r else s) | [] \<Rightarrow> s)
      in if ds \<noteq> [] \<and> list_all is_digit ds \<and> digits_val ds \<le> mx
         then Some (digits_val ds) else None)"

text \<open>\<open>str::parse\<close> for a signed type of range \<open>- lim .. lim - 1\<close>.\<close>

definition parse_signed :: "nat \<Rightarrow> string \<Rightarrow> int option" where
  "parse_signed lim s =
     (let neg = (case s of c # r \<Rightarrow> c = CHR ''-'' | [] \<Rightarrow> False);
          ds = (case s of c # r \<Rightarrow> (if c = CHR ''+'' \<or> c = CHR ''-'' then r else s) | [] \<Rightarrow> s);
          v = (if neg then - int (digits_val ds) else int (digits_val ds))
      in if ds \<noteq> [] \<and> list_all is_digit ds \<and> - int lim \<le> v \<and> v < int lim
         then Some v else None)"

definition u32_max :: nat where "u32_max = 4294967295"
definition u64_max :: nat where "u64_max = 18446744073709551615"
definition i32_lim :: nat where "i32_lim = 2147483648"

section \<open>Unix path texts\<close>

definition is_absolute :: "string \<Rightarrow> bool" where
  "is_absolute p = prefix ''/'' p"

text \<open>\<open>Path::components\<close>: the named parts; empty parts and \<open>.\<close> are skipped.\<close>

definition path_parts :: "string \<Rightarrow> string list" where
  "path_parts p = [c \<leftarrow> split_on (CHR ''/'') p. c \<noteq> [] \<and> c \<noteq> ''.'']"

definition file_name :: "string \<Rightarrow> string option" where
  "file_name p =
     (let cs = path_parts p
      in if cs = [] \<or> last cs = ''..'' then None else Some (last cs))"

text \<open>\<open>Path::extension\<close> of a file name: what follows the last dot, unless that dot is the
  name's first byte or there is none.\<close>

definition extension_of_name :: "string \<Rightarrow> string option" where
  "extension_of_name n =
     (case split_once (CHR ''.'') (rev n) of
        None \<Rightarrow> None
      | Some (ext, stem) \<Rightarrow> if stem = [] then None else Some (rev ext))"

definition extension :: "string \<Rightarrow> string option" where
  "extension p = (case file_name p of None \<Rightarrow> None | Some n \<Rightarrow> extension_of_name n)"

text \<open>\<open>Path::parent\<close>: the path without its last component; separators and \<open>.\<close> at the new end
  go with it, a root and a leading \<open>.\<close> stay. An empty path and a root have no parent.\<close>

definition drop_empty_end :: "string list \<Rightarrow> string list" where
  "drop_empty_end segs = (case segs of
     [] \<Rightarrow> []
   | s # rest \<Rightarrow> s # rev (dropWhile (\<lambda>c. c = [] \<or> c = ''.'') (rev rest)))"

definition path_parent :: "string \<Rightarrow> string option" where
  "path_parent p =
     (let segs = drop_empty_end (split_on (CHR ''/'') p)
      in if segs = [[]] then None
         else (let up = drop_empty_end (butlast segs)
               in Some (if up = [[]] then ''/'' else join ''/'' up)))"

definition path_join :: "string \<Rightarrow> string \<Rightarrow> string" where
  "path_join a b =
     (if is_absolute b then b
      else if a = [] then b
      else if last a = CHR ''/'' then a @ b
      else a @ ''/'' @ b)"

section \<open>Laws of the text operations\<close>

lemma split_once_append [text_laws]: "c \<notin> set a \<Longrightarrow> split_once c (a @ c # b) = Some (a, b)"
  by (induction a) auto

lemma split_once_SomeD: "split_once c s = Some (a, b) \<Longrightarrow> s = a @ c # b \<and> c \<notin> set a"
  by (induction s arbitrary: a) (auto split: if_splits option.splits)

lemma split_once_Some_iff: "split_once c s = Some (a, b) \<longleftrightarrow> s = a @ c # b \<and> c \<notin> set a"
  using split_once_SomeD split_once_append by blast

lemma split_once_None_iff: "split_once c s = None \<longleftrightarrow> c \<notin> set s"
  by (induction s) (auto split: option.splits)

lemma trim_end_matches_suffix: "\<exists>n. s = trim_end_matches c s @ replicate n c"
proof -
  let ?t = "takeWhile (\<lambda>d. d = c) (rev s)"
  have t: "?t = replicate (length ?t) c"
    by (induction "rev s") (auto simp: replicate_append_same intro: replicate_eqI dest: set_takeWhileD)
  have "s = rev (dropWhile (\<lambda>d. d = c) (rev s)) @ rev ?t"
    by (metis rev_append rev_rev_ident takeWhile_dropWhile_id)
  then show ?thesis
    using t unfolding trim_end_matches_def by (metis rev_replicate)
qed

lemma trim_end_matches_last: "trim_end_matches c s \<noteq> [] \<Longrightarrow> last (trim_end_matches c s) \<noteq> c"
  using hd_dropWhile[of "\<lambda>d. d = c" "rev s"] by (auto simp: trim_end_matches_def last_rev)

lemma trim_end_matches_unchanged [text_laws]: "s = [] \<or> last s \<noteq> c \<Longrightarrow> trim_end_matches c s = s"
  by (cases s rule: rev_cases) (auto simp: trim_end_matches_def)

lemma trim_end_matches_prefix: "prefix (trim_end_matches c s) s"
  using trim_end_matches_suffix[of s c] by (metis prefixI)

lemma strip_prefix_append [text_laws]: "strip_prefix p (p @ s) = Some s"
  by (simp add: strip_prefix_def)

lemma strip_prefix_Some_iff: "strip_prefix p s = Some r \<longleftrightarrow> s = p @ r"
  by (auto simp: strip_prefix_def prefix_def)

lemma strip_suffix_append [text_laws]: "strip_suffix p (s @ p) = Some s"
  by (simp add: strip_suffix_def suffix_def)

lemma strip_suffix_Some_iff: "strip_suffix p s = Some r \<longleftrightarrow> s = r @ p"
  by (auto simp: strip_suffix_def suffix_def)

lemma eq_ignore_case_refl [simp]: "eq_ignore_case s s"
  by (simp add: eq_ignore_case_def)

lemma eq_ignore_case_sym: "eq_ignore_case a b \<longleftrightarrow> eq_ignore_case b a"
  by (auto simp: eq_ignore_case_def)

lemma eq_ignore_case_length: "eq_ignore_case a b \<Longrightarrow> length a = length b"
  by (auto simp: eq_ignore_case_def to_lower_def dest: map_eq_imp_length_eq)

lemma join_append: "xs \<noteq> [] \<Longrightarrow> ys \<noteq> [] \<Longrightarrow> join sep (xs @ ys) = join sep xs @ sep @ join sep ys"
proof (induction xs)
  case (Cons x xs)
  then show ?case
    by (cases xs; cases ys) auto
qed simp

lemma split_on_not_Nil [simp]: "split_on c s \<noteq> []"
  by (induction s) (auto split: list.splits)

lemma split_on_no_sep: "c \<notin> set s \<Longrightarrow> split_on c s = [s]"
  by (induction s) auto

lemma split_on_append_sep: "c \<notin> set a \<Longrightarrow> split_on c (a @ c # b) = a # split_on c b"
  by (induction a) auto

lemma split_on_join:
  "xs \<noteq> [] \<Longrightarrow> (\<And>x. x \<in> set xs \<Longrightarrow> c \<notin> set x) \<Longrightarrow> split_on c (join [c] xs) = xs"
proof (induction "[c]" xs rule: join.induct)
  case (3 x y ys)
  then show ?case
    by (simp add: split_on_append_sep)
qed (auto simp: split_on_no_sep)

section \<open>Laws of numbers\<close>

lemma digit_of_char:
  assumes "d < 10"
  shows "is_digit (digit_char d)" and "digit_val (digit_char d) = d"
  using assms by (auto simp: is_digit_def digit_val_def digit_char_def)

lemma show_nat_digits: "list_all is_digit (show_nat n)"
  by (induction n rule: show_nat.induct) (subst show_nat.simps, auto simp: digit_of_char)

lemma show_nat_not_Nil [simp]: "show_nat n \<noteq> []"
  by (subst show_nat.simps) auto

lemma digits_val_append [simp]: "digits_val (s @ [c]) = 10 * digits_val s + digit_val c"
  by (simp add: digits_val_def)

lemma digits_val_show_nat: "digits_val (show_nat n) = n"
proof (induction n rule: show_nat.induct)
  case (1 n)
  then show ?case
    by (subst show_nat.simps) (auto simp: digit_of_char digits_val_def[of "[_]"])
qed

text \<open>Printing a number and parsing it back.\<close>

lemma parse_show_unsigned [text_laws]: "n \<le> mx \<Longrightarrow> parse_unsigned mx (show_nat n) = Some n"
proof -
  have "hd (show_nat n) \<noteq> CHR ''+''"
    using show_nat_digits[of n] show_nat_not_Nil[of n]
    by (cases "show_nat n") (auto simp: is_digit_def)
  then show "n \<le> mx \<Longrightarrow> parse_unsigned mx (show_nat n) = Some n"
    using show_nat_digits[of n] digits_val_show_nat[of n]
    by (cases "show_nat n") (auto simp: parse_unsigned_def)
qed

lemma parse_unsigned_bound: "parse_unsigned mx s = Some n \<Longrightarrow> n \<le> mx"
  by (auto simp: parse_unsigned_def Let_def split: if_splits)

lemma parse_signed_bound: "parse_signed lim s = Some v \<Longrightarrow> - int lim \<le> v \<and> v < int lim"
  by (auto simp: parse_signed_def Let_def split: if_splits)

lemma parse_empty [simp]: "parse_unsigned mx [] = None" "parse_signed lim [] = None"
  by (simp_all add: parse_unsigned_def parse_signed_def)

section \<open>Laws of paths\<close>

lemma path_join_absolute [text_laws]: "is_absolute b \<Longrightarrow> path_join a b = b"
  by (simp add: path_join_def)

lemma is_absolute_join: "is_absolute a \<Longrightarrow> is_absolute (path_join a b)"
  by (cases a) (auto simp: path_join_def is_absolute_def)

lemma split_on_append: "split_on c (x @ c # n) = split_on c x @ split_on c n"
proof (induction x)
  case (Cons y x)
  then show ?case by (cases "split_on c x") (auto split: list.splits)
qed simp

lemma file_name_append:
  assumes "n \<noteq> []" "n \<noteq> ''.''" "n \<noteq> ''..''" "CHR ''/'' \<notin> set n"
  shows "file_name (d @ ''/'' @ n) = Some n"
  using assms by (simp add: file_name_def path_parts_def split_on_no_sep split_on_append)

text \<open>The parent of a plain name in a directory depends on the directory alone.\<close>

definition plain_name :: "string \<Rightarrow> bool" where
  "plain_name n \<longleftrightarrow> n \<noteq> [] \<and> n \<noteq> ''.'' \<and> CHR ''/'' \<notin> set n"

lemma drop_empty_end_snoc: "plain_name n \<Longrightarrow> drop_empty_end (segs @ [n]) = segs @ [n]"
  by (cases segs) (auto simp: drop_empty_end_def plain_name_def)

lemma path_parent_segs:
  assumes "plain_name n" and "split_on (CHR ''/'') p = segs @ [n]"
  shows "path_parent p = Some (if drop_empty_end segs = [[]] then ''/'' else join ''/'' (drop_empty_end segs))"
  using assms by (simp add: path_parent_def drop_empty_end_snoc Let_def) (auto simp: plain_name_def)

lemma path_parent_join:
  assumes "plain_name m" and "plain_name n"
  shows "path_parent (path_join d m) = path_parent (path_join d n)"
proof -
  obtain segs where segs: "\<And>k. plain_name k \<Longrightarrow> split_on (CHR ''/'') (path_join d k) = segs @ [k]"
  proof -
    have rel: "\<not> is_absolute k" if "plain_name k" for k
      using that by (cases k) (auto simp: plain_name_def is_absolute_def)
    consider "d = []" | e where "d = e @ ''/''" | "d \<noteq> []" "last d \<noteq> CHR ''/''"
      by (metis append_butlast_last_id)
    then show ?thesis
    proof cases
      case 1
      then show ?thesis
        using that[of "[]"] rel by (simp add: path_join_def split_on_no_sep plain_name_def)
    next
      case 2
      then show ?thesis
        using that[of "split_on (CHR ''/'') e"] rel
        by (simp add: path_join_def split_on_no_sep split_on_append plain_name_def)
    next
      case 3
      then show ?thesis
        using that[of "split_on (CHR ''/'') d"] rel
        by (simp add: path_join_def split_on_no_sep split_on_append plain_name_def)
    qed
  qed
  show ?thesis
    by (simp add: path_parent_segs[OF assms(1) segs[OF assms(1)]] path_parent_segs[OF assms(2) segs[OF assms(2)]])
qed

text \<open>A printed number is a signed number too when it is small enough, with white space around it
  or not.\<close>

lemma parse_signed_show_nat: "parse_signed lim (show_nat n) = (if n < lim then Some (int n) else None)"
proof -
  have "hd (show_nat n) \<notin> {CHR ''+'', CHR ''-''}"
    using show_nat_digits[of n] show_nat_not_Nil[of n]
    by (cases "show_nat n") (auto simp: is_digit_def)
  then show ?thesis
    using show_nat_digits[of n] digits_val_show_nat[of n]
    by (cases "show_nat n") (auto simp: parse_signed_def Let_def)
qed

end
