(* ===== verification/Effects.thy ===== *)
theory Effects
  imports Rust_Std
begin

text \<open>
  How the program's effects are modelled. A run has a \<open>world\<close>: the environment variables,
  the file system, the terminal flags, the unread standard input, the process facts, the trace
  of what the program has done to the outside, and the state \<open>'x\<close> of everything that is not
  the program's own code (agent, keystore, sensor, terminal, SSH peer). A function of the
  program that returns \<open>Result\<close> is a function \<open>world \<Rightarrow> (anvil_error + 'a) \<times> world\<close>; a function of
  a third-party crate is a parameter that maps the file system and \<open>'x\<close> to a result and new
  ones, and \<open>call\<close> runs it and records the call in the trace. \<open>try_let\<close> is Rust's
  \<open>let x = m?;\<close>, \<open>let_do\<close> is sequencing without error propagation, and \<open>for_try\<close> is
  a \<open>for\<close> loop whose body may return early with an error.
\<close>

section \<open>Output values\<close>

text \<open>\<open>serde_json::Value\<close> as the \<open>json!\<close> literals build it; object keys in source order.\<close>

datatype json = JNull | JBool bool | JNum int | JStr string | JArr "json list"
  | JObj "(string \<times> json) list"

datatype payload = Text string | Json json

fun jfield :: "string \<Rightarrow> json \<Rightarrow> json option" where
  "jfield k (JObj kvs) = map_of kvs k"
| "jfield k _ = None"

fun jkeys :: "json \<Rightarrow> string list" where
  "jkeys (JObj kvs) = map fst kvs"
| "jkeys _ = []"

definition jopt :: "('a \<Rightarrow> json) \<Rightarrow> 'a option \<Rightarrow> json" where
  "jopt f v = (case v of None \<Rightarrow> JNull | Some a \<Rightarrow> f a)"

section \<open>Errors\<close>

text \<open>
  \<open>std::io::Error\<close> by its kind, its raw OS code and its display text, and \<open>AnvilError\<close> by the
  constructor call that the source makes (\<open>AnvilError::invalid_config\<close>, \<open>no_key_found\<close>,
  \<open>authentication_failed\<close>, \<open>signing\<close>, \<open>from(io::Error)\<close>, \<open>with_hint\<close>);
  \<open>Upstream\<close> is an error that \<open>anvil_ssh\<close> itself returned, known by its text.
\<close>

datatype io_kind = IoNotFound | IoInvalidData | IoOther | IoKind string

record io_error =
  io_kind_of :: io_kind
  raw_os_error :: "int option"
  io_text :: string

datatype anvil_error =
    InvalidConfig string
  | NoKeyFound
  | AuthenticationFailed
  | Signing string
  | Io io_error
  | WithHint anvil_error string
  | Upstream string

section \<open>The trace\<close>

text \<open>\<open>NextSignal\<close> is the wait for the status signals of a scan, \<open>Status s\<close> the receipt of one of
  them: its result and whether it is terminal, or the error of decoding it.\<close>

datatype sensor_call = BusConnect | GetDevice | DeviceProxy | ListFingers | Claim | Subscribe
  | VerifyStart | NextSignal | Status "string + string \<times> bool" | VerifyStop | ReleaseDevice
  | CheckConsent | Consent | ConsentResult

datatype keystore_call = KsOpen | KsProbe | KsWrite string | KsSearch string | KsRead string
  | KsDelete string | KsList | KsUnlock

text \<open>\<open>AgAdd fp encrypted\<close>: the fingerprint of the key handed to the agent and whether it was
  still encrypted.\<close>

datatype agent_call = AgConnect | AgList | AgAdd string bool | AgRemove string | AgRemoveAll | AgLock | AgUnlock
  | AgSign

datatype ssh_call = FindIdentity | ConnectDirect string | ConnectProxyCommand string
  | ConnectJump nat | Auth | AuthPassphrase string | Exec string | CloseSession | Banner

datatype lib_call = KnownHosts string | Keygen string | Sshsig string | SshConfig string
  | Daemon string | Askpass string string | Signal int | Respawn string "string list"
  | WorkerThread

datatype event =
    Out payload
  | Err payload
  | Prompt string
  | StdinRead
  | FsRead string
  | FsWrite string
  | Sensor sensor_call
  | Keystore keystore_call
  | Agent agent_call
  | Ssh ssh_call
  | Lib lib_call

section \<open>The world\<close>

text \<open>A file system node: a file with its bytes and permission bits, or an entry whose
  reading fails with an error (a directory, a file without permission).\<close>

datatype node = File string nat | Unreadable io_error nat

type_synonym filesys = "string \<Rightarrow> node option"

record 'x world =
  w_env :: "string \<Rightarrow> string option"
  w_fs :: filesys
  w_write_error :: "string \<Rightarrow> io_error option"
  w_stdin_tty :: bool
  w_stdout_tty :: bool
  w_stderr_tty :: bool
  w_stdin :: string
  w_home :: "string option"
  w_timestamp :: string
  w_trace :: "event list"
  w_ext :: 'x

type_synonym ('s, 'a) act = "'s \<Rightarrow> 'a \<times> 's"
type_synonym ('s, 'a) eff = "'s \<Rightarrow> (anvil_error + 'a) \<times> 's"
type_synonym ('x, 'a) xop = "filesys \<times> 'x \<Rightarrow> 'a \<times> (filesys \<times> 'x)"

section \<open>Combinators\<close>

definition ret :: "'a \<Rightarrow> 's \<Rightarrow> 'a \<times> 's" where
  "ret a = (\<lambda>s. (a, s))"

definition ok :: "'a \<Rightarrow> 's \<Rightarrow> ('e + 'a) \<times> 's" where
  "ok a = (\<lambda>s. (Inr a, s))"

definition fail :: "'e \<Rightarrow> 's \<Rightarrow> ('e + 'a) \<times> 's" where
  "fail e = (\<lambda>s. (Inl e, s))"

definition let_do :: "('s \<Rightarrow> 'a \<times> 's) \<Rightarrow> ('a \<Rightarrow> 's \<Rightarrow> 'b \<times> 's) \<Rightarrow> 's \<Rightarrow> 'b \<times> 's" where
  "let_do m f = (\<lambda>s. case m s of (a, s') \<Rightarrow> f a s')"

definition try_let :: "('s \<Rightarrow> ('e + 'a) \<times> 's) \<Rightarrow> ('a \<Rightarrow> 's \<Rightarrow> ('e + 'b) \<times> 's) \<Rightarrow> 's \<Rightarrow> ('e + 'b) \<times> 's" where
  "try_let m f = (\<lambda>s. case m s of (Inl e, s') \<Rightarrow> (Inl e, s') | (Inr a, s') \<Rightarrow> f a s')"

definition map_err :: "('e \<Rightarrow> 'f) \<Rightarrow> ('s \<Rightarrow> ('e + 'a) \<times> 's) \<Rightarrow> 's \<Rightarrow> ('f + 'a) \<times> 's" where
  "map_err g m = (\<lambda>s. case m s of (Inl e, s') \<Rightarrow> (Inl (g e), s') | (Inr a, s') \<Rightarrow> (Inr a, s'))"

definition lift_res :: "('e + 'a) \<Rightarrow> 's \<Rightarrow> ('e + 'a) \<times> 's" where
  "lift_res r = (\<lambda>s. (r, s))"

definition get_s :: "('s \<Rightarrow> 'a) \<Rightarrow> 's \<Rightarrow> 'a \<times> 's" where
  "get_s g = (\<lambda>s. (g s, s))"

text \<open>A \<open>for\<close> loop with an accumulator; the body may fail.\<close>

fun for_try :: "('i \<Rightarrow> 'a \<Rightarrow> 's \<Rightarrow> ('e + 'a) \<times> 's) \<Rightarrow> 'i list \<Rightarrow> 'a \<Rightarrow> 's \<Rightarrow> ('e + 'a) \<times> 's" where
  "for_try body [] acc = ok acc"
| "for_try body (i # is) acc = try_let (body i acc) (\<lambda>acc'. for_try body is acc')"

text \<open>A \<open>for\<close> loop with an accumulator whose body cannot fail.\<close>

fun for_do :: "('i \<Rightarrow> 'a \<Rightarrow> 's \<Rightarrow> 'a \<times> 's) \<Rightarrow> 'i list \<Rightarrow> 'a \<Rightarrow> 's \<Rightarrow> 'a \<times> 's" where
  "for_do body [] acc = ret acc"
| "for_do body (i # is) acc = let_do (body i acc) (\<lambda>acc'. for_do body is acc')"

section \<open>Primitive effects\<close>

definition emit :: "event \<Rightarrow> 'x world \<Rightarrow> unit \<times> 'x world" where
  "emit e = (\<lambda>w. ((), w\<lparr>w_trace := w_trace w @ [e]\<rparr>))"

definition call :: "event \<Rightarrow> ('x, 'a) xop \<Rightarrow> 'x world \<Rightarrow> 'a \<times> 'x world" where
  "call ev f = (\<lambda>w. case f (w_fs w, w_ext w) of
     (r, fs', x') \<Rightarrow> (r, w\<lparr>w_fs := fs', w_ext := x', w_trace := w_trace w @ [ev]\<rparr>))"

definition println :: "string \<Rightarrow> 'x world \<Rightarrow> unit \<times> 'x world" where
  "println s = emit (Out (Text s))"

definition eprintln :: "string \<Rightarrow> 'x world \<Rightarrow> unit \<times> 'x world" where
  "eprintln s = emit (Err (Text s))"

definition print_lines :: "string list \<Rightarrow> 'x world \<Rightarrow> unit \<times> 'x world" where
  "print_lines ls = for_do (\<lambda>l u. println l) ls ()"

definition eprint_lines :: "string list \<Rightarrow> 'x world \<Rightarrow> unit \<times> 'x world" where
  "eprint_lines ls = for_do (\<lambda>l u. eprintln l) ls ()"

text \<open>\<open>std::fs::read_to_string\<close>: missing file, unreadable node, bytes that are not UTF-8.\<close>

definition not_found_error :: io_error where
  "not_found_error = \<lparr>io_kind_of = IoNotFound, raw_os_error = Some 2,
     io_text = ''No such file or directory (os error 2)''\<rparr>"

definition invalid_data_error :: io_error where
  "invalid_data_error = \<lparr>io_kind_of = IoInvalidData, raw_os_error = None,
     io_text = ''stream did not contain valid UTF-8''\<rparr>"

definition read_bytes_at :: "filesys \<Rightarrow> string \<Rightarrow> io_error + string" where
  "read_bytes_at fs p = (case fs p of
     None \<Rightarrow> Inl not_found_error
   | Some (Unreadable e m) \<Rightarrow> Inl e
   | Some (File b m) \<Rightarrow> Inr b)"

definition read_text_at :: "filesys \<Rightarrow> string \<Rightarrow> io_error + string" where
  "read_text_at fs p = (case read_bytes_at fs p of
     Inl e \<Rightarrow> Inl e
   | Inr b \<Rightarrow> if valid_utf8 b then Inr b else Inl invalid_data_error)"

definition read_bytes :: "string \<Rightarrow> 'x world \<Rightarrow> (io_error + string) \<times> 'x world" where
  "read_bytes p = let_do (emit (FsRead p)) (\<lambda>_. get_s (\<lambda>w. read_bytes_at (w_fs w) p))"

definition read_to_string :: "string \<Rightarrow> 'x world \<Rightarrow> (io_error + string) \<times> 'x world" where
  "read_to_string p = let_do (emit (FsRead p)) (\<lambda>_. get_s (\<lambda>w. read_text_at (w_fs w) p))"

text \<open>\<open>fs::read_to_string(p)?\<close>: the I/O error becomes an \<open>AnvilError\<close> by \<open>From\<close>.\<close>

definition read_to_string_q :: "string \<Rightarrow> ('x world, string) eff" where
  "read_to_string_q p = map_err Io (read_to_string p)"

text \<open>\<open>std::fs::write\<close> creates or truncates the file. Whether opening a path for writing
  fails (missing directory, permission, a directory in its place) is the world's to say.\<close>

definition write_file :: "string \<Rightarrow> string \<Rightarrow> 'x world \<Rightarrow> (io_error + unit) \<times> 'x world" where
  "write_file p b = let_do (emit (FsWrite p)) (\<lambda>_ w.
     (case w_write_error w p of
        Some e \<Rightarrow> (Inl e, w)
      | None \<Rightarrow>
          (Inr (), w\<lparr>w_fs := (w_fs w)(p \<mapsto> File b (case w_fs w p of Some (File _ m) \<Rightarrow> m | _ \<Rightarrow> 420))\<rparr>)))"

definition path_exists :: "string \<Rightarrow> 'x world \<Rightarrow> bool \<times> 'x world" where
  "path_exists p = get_s (\<lambda>w. w_fs w p \<noteq> None)"

text \<open>\<open>std::env::var_os\<close> and \<open>std::env::var\<close>, the latter failing on text that is not UTF-8.\<close>

definition var_os :: "'x world \<Rightarrow> string \<Rightarrow> string option" where
  "var_os w k = w_env w k"

definition env_var :: "'x world \<Rightarrow> string \<Rightarrow> string option" where
  "env_var w k = (case w_env w k of None \<Rightarrow> None | Some v \<Rightarrow> if valid_utf8 v then Some v else None)"

text \<open>Reading standard input to its end.\<close>

definition read_stdin :: "'x world \<Rightarrow> string \<times> 'x world" where
  "read_stdin = (\<lambda>w. (w_stdin w, w\<lparr>w_stdin := [], w_trace := w_trace w @ [StdinRead]\<rparr>))"

text \<open>Reading one line from standard input, line end included; bytes that are not UTF-8 are an
  error.\<close>

fun first_line :: "string \<Rightarrow> string" where
  "first_line [] = []"
| "first_line (c # r) = (if c = newline then [c] else c # first_line r)"

definition read_line :: "'x world \<Rightarrow> (io_error + string) \<times> 'x world" where
  "read_line = (\<lambda>w. let l = first_line (w_stdin w)
     in (if valid_utf8 l then Inr l else Inl invalid_data_error,
         w\<lparr>w_stdin := drop (length l) (w_stdin w), w_trace := w_trace w @ [StdinRead]\<rparr>))"

section \<open>Reasoning about effects\<close>

text \<open>
  \<open>effect_simps\<close> evaluates combinators on a given state. \<open>adds_only P m\<close> says that every
  run of \<open>m\<close> keeps the trace it found and that each event it adds satisfies \<open>P\<close>;
  \<open>adds_intros\<close> derives it along the combinators, so that a statement about a whole handler
  follows from its primitive steps.
\<close>

named_theorems effect_simps \<open>evaluation of combinators on a state\<close>
named_theorems adds_intros \<open>which events a computation can add to the trace\<close>
named_theorems traced_intros \<open>backward rules for what a run adds to the trace\<close>
named_theorems runs_intros \<open>backward rules for a run from a given world\<close>
named_theorems run_elims \<open>inversion of a run of a combinator\<close>
named_theorems run_iffs \<open>inversion of a run of a combinator, as equivalences\<close>

lemma ret_run [effect_simps]: "ret a s = (a, s)" by (simp add: ret_def)
lemma ok_run [effect_simps]: "ok a s = (Inr a, s)" by (simp add: ok_def)
lemma fail_run [effect_simps]: "fail e s = (Inl e, s)" by (simp add: fail_def)
lemma lift_res_run [effect_simps]: "lift_res r s = (r, s)" by (simp add: lift_res_def)
lemma get_s_run [effect_simps]: "get_s g s = (g s, s)" by (simp add: get_s_def)

lemma let_do_run [effect_simps]: "let_do m f s = (case m s of (a, s') \<Rightarrow> f a s')"
  by (simp add: let_do_def)

lemma try_let_run [effect_simps]:
  "try_let m f s = (case m s of (Inl e, s') \<Rightarrow> (Inl e, s') | (Inr a, s') \<Rightarrow> f a s')"
  by (simp add: try_let_def)

lemma map_err_run [effect_simps]:
  "map_err g m s = (case m s of (Inl e, s') \<Rightarrow> (Inl (g e), s') | (Inr a, s') \<Rightarrow> (Inr a, s'))"
  by (simp add: map_err_def)

lemma emit_run [effect_simps]: "emit e w = ((), w\<lparr>w_trace := w_trace w @ [e]\<rparr>)"
  by (simp add: emit_def)

lemma if_run [effect_simps]: "(if c then f else g) s = (if c then f s else g s)"
  by simp

lemma Let_run [effect_simps]: "(let x = v in f x) s = f v s"
  by simp

lemma case_option_run [effect_simps]:
  "(case r of None \<Rightarrow> f | Some a \<Rightarrow> g a) s = (case r of None \<Rightarrow> f s | Some a \<Rightarrow> g a s)"
  by (cases r) auto

lemma case_sum_run [effect_simps]:
  "(case r of Inl e \<Rightarrow> f e | Inr a \<Rightarrow> g a) s = (case r of Inl e \<Rightarrow> f e s | Inr a \<Rightarrow> g a s)"
  by (cases r) auto

lemma let_do_assoc: "let_do (let_do m f) g = let_do m (\<lambda>a. let_do (f a) g)"
  by (simp add: let_do_def fun_eq_iff split: prod.splits)

lemma try_let_assoc: "try_let (try_let m f) g = try_let m (\<lambda>a. try_let (f a) g)"
  by (auto simp: try_let_def fun_eq_iff split: prod.splits sum.splits)

subsection \<open>Which events a computation adds\<close>

definition adds_only :: "(event \<Rightarrow> bool) \<Rightarrow> ('x world \<Rightarrow> 'a \<times> 'x world) \<Rightarrow> bool" where
  "adds_only P m \<longleftrightarrow> (\<forall>w. \<exists>es. w_trace (snd (m w)) = w_trace w @ es \<and> list_all P es)"

lemma adds_onlyE:
  assumes "adds_only P m" and "m w = (r, w')"
  obtains es where "w_trace w' = w_trace w @ es" and "list_all P es"
  using assms unfolding adds_only_def by (metis snd_conv)

lemma adds_only_mono: "adds_only P m \<Longrightarrow> (\<And>e. P e \<Longrightarrow> Q e) \<Longrightarrow> adds_only Q m"
  unfolding adds_only_def by (metis (mono_tags, lifting) list.pred_mono_strong)

lemma adds_ret [adds_intros]: "adds_only P (ret a)"
  and adds_ok [adds_intros]: "adds_only P (ok b)"
  and adds_fail [adds_intros]: "adds_only P (fail e)"
  and adds_lift_res [adds_intros]: "adds_only P (lift_res r)"
  and adds_get_s [adds_intros]: "adds_only P (get_s g)"
  by (simp_all add: adds_only_def effect_simps)

lemma adds_let_do [adds_intros]:
  assumes "adds_only P m" and "\<And>a. adds_only P (f a)"
  shows "adds_only P (let_do m f)"
  unfolding adds_only_def
proof
  fix w
  obtain a u where m: "m w = (a, u)" by fastforce
  obtain es where es: "w_trace u = w_trace w @ es" "list_all P es"
    using adds_onlyE[OF assms(1) m] .
  obtain b t where f: "f a u = (b, t)" by fastforce
  obtain es' where "w_trace t = w_trace u @ es'" "list_all P es'"
    using adds_onlyE[OF assms(2) f] .
  then show "\<exists>es. w_trace (snd (let_do m f w)) = w_trace w @ es \<and> list_all P es"
    using es m f by (intro exI[of _ "es @ es'"]) (simp add: let_do_def)
qed

lemma try_let_as_let_do: "try_let m f = let_do m (\<lambda>r. case r of Inl e \<Rightarrow> fail e | Inr a \<Rightarrow> f a)"
  by (auto simp: try_let_def let_do_def fail_def fun_eq_iff split: prod.splits sum.splits)

lemma adds_try_let [adds_intros]:
  assumes "adds_only P m" and "\<And>a. adds_only P (f a)"
  shows "adds_only P (try_let m f)"
  unfolding try_let_as_let_do
  using assms by (intro adds_let_do) (auto split: sum.splits intro: adds_fail)

lemma map_err_as_let_do: "map_err g m = let_do m (\<lambda>r. lift_res (map_sum g id r))"
  by (auto simp: map_err_def let_do_def lift_res_def fun_eq_iff split: prod.splits sum.splits)

lemma adds_map_err [adds_intros]: "adds_only P m \<Longrightarrow> adds_only P (map_err g m)"
  unfolding map_err_as_let_do by (intro adds_let_do adds_lift_res)

lemma adds_for_try [adds_intros]:
  "(\<And>i a. adds_only P (body i a)) \<Longrightarrow> adds_only P (for_try body is acc)"
  by (induction "is" arbitrary: acc) (auto intro: adds_intros)

lemma adds_for_do [adds_intros]:
  "(\<And>i a. adds_only P (body i a)) \<Longrightarrow> adds_only P (for_do body is acc)"
  by (induction "is" arbitrary: acc) (auto intro: adds_intros)

lemma adds_emit [adds_intros]: "P e \<Longrightarrow> adds_only P (emit e)"
  by (simp add: adds_only_def emit_def)

lemma adds_call [adds_intros]: "P ev \<Longrightarrow> adds_only P (call ev f)"
  by (auto simp: adds_only_def call_def split: prod.splits)

lemma adds_read_stdin [adds_intros]: "P StdinRead \<Longrightarrow> adds_only P read_stdin"
  by (simp add: adds_only_def read_stdin_def)

lemma adds_read_line [adds_intros]: "P StdinRead \<Longrightarrow> adds_only P read_line"
  by (simp add: adds_only_def read_line_def Let_def)

lemma adds_case_sum [adds_intros]:
  "(\<And>a. adds_only P (f a)) \<Longrightarrow> (\<And>b. adds_only P (g b)) \<Longrightarrow>
   adds_only P (case r of Inl a \<Rightarrow> f a | Inr b \<Rightarrow> g b)"
  by (cases r) auto

lemma adds_case_option [adds_intros]:
  "adds_only P f \<Longrightarrow> (\<And>b. adds_only P (g b)) \<Longrightarrow>
   adds_only P (case r of None \<Rightarrow> f | Some b \<Rightarrow> g b)"
  by (cases r) auto

lemma adds_case_list [adds_intros]:
  "adds_only P f \<Longrightarrow> (\<And>b bs. adds_only P (g b bs)) \<Longrightarrow>
   adds_only P (case r of [] \<Rightarrow> f | b # bs \<Rightarrow> g b bs)"
  by (cases r) auto

lemma adds_case_prod [adds_intros]:
  "(\<And>a b. adds_only P (f a b)) \<Longrightarrow> adds_only P (case r of (a, b) \<Rightarrow> f a b)"
  by (cases r) auto

lemma adds_if [adds_intros]:
  "(c \<Longrightarrow> adds_only P f) \<Longrightarrow> (\<not> c \<Longrightarrow> adds_only P g) \<Longrightarrow> adds_only P (if c then f else g)"
  by simp

lemma adds_Let [adds_intros]: "(\<And>x. adds_only P (f x)) \<Longrightarrow> adds_only P (let x = v in f x)"
  by simp

lemma adds_write_file [adds_intros]: "P (FsWrite p) \<Longrightarrow> adds_only P (write_file p b)"
  unfolding write_file_def
  by (intro adds_let_do adds_emit) (auto simp: adds_only_def split: option.splits)

lemma adds_print [adds_intros]:
  "P (Out (Text s)) \<Longrightarrow> adds_only P (println s)"
  "P (Err (Text s)) \<Longrightarrow> adds_only P (eprintln s)"
  by (simp_all add: println_def eprintln_def adds_emit)

lemma adds_print_lines [adds_intros]:
  "(\<And>s. P (Out (Text s))) \<Longrightarrow> adds_only P (print_lines ls)"
  "(\<And>s. P (Err (Text s))) \<Longrightarrow> adds_only P (eprint_lines ls)"
  by (auto simp: print_lines_def eprint_lines_def intro!: adds_intros)

lemma adds_read [adds_intros]:
  "P (FsRead p) \<Longrightarrow> adds_only P (read_bytes p)"
  "P (FsRead p) \<Longrightarrow> adds_only P (read_to_string p)"
  "P (FsRead p) \<Longrightarrow> adds_only P (read_to_string_q p)"
  by (auto simp: read_bytes_def read_to_string_def read_to_string_q_def intro!: adds_intros)

lemma adds_path_exists [adds_intros]: "adds_only P (path_exists p)"
  by (simp add: path_exists_def adds_get_s)

subsection \<open>Results and added events together\<close>

text \<open>\<open>traced m Q\<close>: every run of \<open>m\<close> keeps the trace it found and adds events that satisfy \<open>Q\<close>
  together with the result. The rules are backward, like those of a weakest precondition.\<close>

definition traced :: "('x world \<Rightarrow> 'a \<times> 'x world) \<Rightarrow> ('a \<Rightarrow> event list \<Rightarrow> bool) \<Rightarrow> bool" where
  "traced m Q \<longleftrightarrow> (\<forall>w. \<exists>es. w_trace (snd (m w)) = w_trace w @ es \<and> Q (fst (m w)) es)"

lemma tracedE:
  assumes "traced m Q" and "m w = (r, w')"
  obtains es where "w_trace w' = w_trace w @ es" and "Q r es"
  using assms unfolding traced_def by (metis fst_conv snd_conv)

lemma tracedD: "traced m Q \<Longrightarrow> m w = (r, w') \<Longrightarrow> w_trace w' = w_trace w @ es \<Longrightarrow> Q r es"
  by (metis append_same_eq same_append_eq tracedE)

lemma traced_mono: "traced m Q \<Longrightarrow> (\<And>r es. Q r es \<Longrightarrow> R r es) \<Longrightarrow> traced m R"
  unfolding traced_def by blast

lemma adds_only_traced: "adds_only P m \<longleftrightarrow> traced m (\<lambda>r es. list_all P es)"
  by (simp add: adds_only_def traced_def)

lemma traced_adds_only: "adds_only P m \<Longrightarrow> (\<And>r es. list_all P es \<Longrightarrow> Q r es) \<Longrightarrow> traced m Q"
  unfolding adds_only_traced by (rule traced_mono)

lemma traced_ret [traced_intros]: "Q a [] \<Longrightarrow> traced (ret a) Q"
  and traced_ok [traced_intros]: "R (Inr b) [] \<Longrightarrow> traced (ok b) R"
  and traced_fail [traced_intros]: "R (Inl e) [] \<Longrightarrow> traced (fail e) R"
  and traced_lift_res [traced_intros]: "T r [] \<Longrightarrow> traced (lift_res r) T"
  by (simp_all add: traced_def effect_simps)

lemma traced_get_s [traced_intros]: "(\<And>a. Q a []) \<Longrightarrow> traced (get_s g) Q"
  by (simp add: traced_def effect_simps)

lemma traced_let_do [traced_intros]:
  assumes "traced m (\<lambda>a es. traced (f a) (\<lambda>b es'. Q b (es @ es')))"
  shows "traced (let_do m f) Q"
  unfolding traced_def
proof
  fix w
  obtain a u where m: "m w = (a, u)" by fastforce
  obtain es where es: "w_trace u = w_trace w @ es" "traced (f a) (\<lambda>b es'. Q b (es @ es'))"
    using tracedE[OF assms m] .
  obtain b t where f: "f a u = (b, t)" by fastforce
  obtain es' where "w_trace t = w_trace u @ es'" "Q b (es @ es')"
    using tracedE[OF es(2) f] .
  then show "\<exists>es. w_trace (snd (let_do m f w)) = w_trace w @ es \<and> Q (fst (let_do m f w)) es"
    using es m f by (intro exI[of _ "es @ es'"]) (simp add: let_do_def)
qed

lemma traced_try_let [traced_intros]:
  assumes "traced m (\<lambda>r es. case r of Inl e \<Rightarrow> Q (Inl e) es
    | Inr a \<Rightarrow> traced (f a) (\<lambda>b es'. Q b (es @ es')))"
  shows "traced (try_let m f) Q"
  unfolding try_let_as_let_do
  by (intro traced_let_do traced_mono[OF assms]) (auto split: sum.splits intro: traced_fail)

lemma traced_map_err [traced_intros]:
  assumes "traced m (\<lambda>r es. case r of Inl e \<Rightarrow> Q (Inl (g e)) es | Inr a \<Rightarrow> Q (Inr a) es)"
  shows "traced (map_err g m) Q"
  unfolding map_err_as_let_do
  by (intro traced_let_do traced_mono[OF assms]) (auto split: sum.splits intro: traced_lift_res)

lemma traced_emit [traced_intros]: "Q () [e] \<Longrightarrow> traced (emit e) Q"
  by (simp add: traced_def emit_def)

lemma traced_call [traced_intros]: "(\<And>s. Q (fst (f s)) [ev]) \<Longrightarrow> traced (call ev f) Q"
  by (auto simp: traced_def call_def split: prod.splits) (metis fst_conv)

lemma traced_case_option [traced_intros]:
  "(v = None \<Longrightarrow> traced f Q) \<Longrightarrow> (\<And>b. v = Some b \<Longrightarrow> traced (g b) Q) \<Longrightarrow>
   traced (case v of None \<Rightarrow> f | Some b \<Rightarrow> g b) Q"
  by (cases v) auto

lemma traced_case_sum [traced_intros]:
  "(\<And>a. v = Inl a \<Longrightarrow> traced (f a) Q) \<Longrightarrow> (\<And>b. v = Inr b \<Longrightarrow> traced (g b) Q) \<Longrightarrow>
   traced (case v of Inl a \<Rightarrow> f a | Inr b \<Rightarrow> g b) Q"
  by (cases v) auto

lemma traced_case_prod [traced_intros]:
  "(\<And>a b. v = (a, b) \<Longrightarrow> traced (f a b) Q) \<Longrightarrow> traced (case v of (a, b) \<Rightarrow> f a b) Q"
  by (cases v) auto

lemma traced_case_list [traced_intros]:
  "(v = [] \<Longrightarrow> traced f Q) \<Longrightarrow> (\<And>b bs. v = b # bs \<Longrightarrow> traced (g b bs) Q) \<Longrightarrow>
   traced (case v of [] \<Rightarrow> f | b # bs \<Rightarrow> g b bs) Q"
  by (cases v) auto

lemma traced_if [traced_intros]:
  "(c \<Longrightarrow> traced f Q) \<Longrightarrow> (\<not> c \<Longrightarrow> traced g Q) \<Longrightarrow> traced (if c then f else g) Q"
  by simp

lemma traced_Let [traced_intros]: "traced (f v) Q \<Longrightarrow> traced (let x = v in f x) Q"
  by simp

lemma traced_print [traced_intros]:
  "Q () [Out (Text s)] \<Longrightarrow> traced (println s) Q"
  "Q () [Err (Text s)] \<Longrightarrow> traced (eprintln s) Q"
  by (simp_all add: println_def eprintln_def traced_emit)

lemma traced_read_line [traced_intros]: "(\<And>r. Q r [StdinRead]) \<Longrightarrow> traced read_line Q"
  by (simp add: traced_def read_line_def Let_def)

lemma traced_read_stdin [traced_intros]: "(\<And>r. Q r [StdinRead]) \<Longrightarrow> traced read_stdin Q"
  by (simp add: traced_def read_stdin_def)

lemma traced_path_exists [traced_intros]: "(\<And>r. Q r []) \<Longrightarrow> traced (path_exists p) Q"
  by (simp add: path_exists_def traced_get_s)

lemma traced_reads [traced_intros]:
  "(\<And>r. Q r [FsRead p]) \<Longrightarrow> traced (read_bytes p) Q"
  "(\<And>r. R r [FsRead p]) \<Longrightarrow> traced (read_to_string p) R"
  by (auto simp: read_bytes_def read_to_string_def intro!: traced_intros)

lemma traced_read_to_string_q [traced_intros]:
  "(\<And>r. R r [FsRead p]) \<Longrightarrow> traced (read_to_string_q p) R"
  by (auto simp: read_to_string_q_def intro!: traced_intros split: sum.splits)

lemma traced_write_file [traced_intros]: "(\<And>r. Q r [FsWrite p]) \<Longrightarrow> traced (write_file p b) Q"
  by (auto simp: traced_def write_file_def effect_simps split: option.splits)

subsection \<open>Results, added events and final worlds from a given world\<close>

text \<open>\<open>runs w m Q\<close>: the run of \<open>m\<close> from \<open>w\<close> keeps the trace and its result, added events and
  final world satisfy \<open>Q\<close>. This is the weakest precondition, for facts that depend on the
  world the run starts from.\<close>

definition runs :: "'x world \<Rightarrow> ('x world \<Rightarrow> 'a \<times> 'x world) \<Rightarrow> ('a \<Rightarrow> event list \<Rightarrow> 'x world \<Rightarrow> bool) \<Rightarrow> bool" where
  "runs w m Q \<longleftrightarrow> (\<exists>es. w_trace (snd (m w)) = w_trace w @ es \<and> Q (fst (m w)) es (snd (m w)))"

lemma runsD: "runs w m Q \<Longrightarrow> m w = (r, w') \<Longrightarrow> w_trace w' = w_trace w @ es \<Longrightarrow> Q r es w'"
  by (auto simp: runs_def)

lemma runsE:
  assumes "runs w m Q" and "m w = (r, w')"
  obtains es where "w_trace w' = w_trace w @ es" and "Q r es w'"
  using assms by (auto simp: runs_def)

lemma runs_mono: "runs w m Q \<Longrightarrow> (\<And>r es u. Q r es u \<Longrightarrow> R r es u) \<Longrightarrow> runs w m R"
  by (auto simp: runs_def)

lemma traced_runs: "traced m Q \<longleftrightarrow> (\<forall>w. runs w m (\<lambda>r es u. Q r es))"
  by (simp add: traced_def runs_def)

lemma runs_of_traced: "traced m Q \<Longrightarrow> (\<And>r es u. Q r es \<Longrightarrow> m w = (r, u) \<Longrightarrow> R r es u) \<Longrightarrow> runs w m R"
  unfolding traced_def runs_def by (metis prod.collapse)

lemma runs_ret [runs_intros]: "Q a [] w \<Longrightarrow> runs w (ret a) Q"
  and runs_ok [runs_intros]: "R (Inr b) [] w \<Longrightarrow> runs w (ok b) R"
  and runs_fail [runs_intros]: "R (Inl e) [] w \<Longrightarrow> runs w (fail e) R"
  and runs_lift_res [runs_intros]: "T r [] w \<Longrightarrow> runs w (lift_res r) T"
  and runs_get_s [runs_intros]: "S (g w) [] w \<Longrightarrow> runs w (get_s g) S"
  by (simp_all add: runs_def effect_simps)

lemma runs_let_do [runs_intros]:
  assumes "runs w m (\<lambda>a es u. runs u (f a) (\<lambda>b es' t. Q b (es @ es') t))"
  shows "runs w (let_do m f) Q"
proof -
  obtain a u where m: "m w = (a, u)" by fastforce
  obtain es where es: "w_trace u = w_trace w @ es" "runs u (f a) (\<lambda>b es' t. Q b (es @ es') t)"
    using runsE[OF assms m] .
  obtain b t where f: "f a u = (b, t)" by fastforce
  obtain es' where "w_trace t = w_trace u @ es'" "Q b (es @ es') t"
    using runsE[OF es(2) f] .
  then show ?thesis
    using es m f unfolding runs_def by (intro exI[of _ "es @ es'"]) (simp add: let_do_def)
qed

lemma runs_try_let [runs_intros]:
  assumes "runs w m (\<lambda>r es u. case r of Inl e \<Rightarrow> Q (Inl e) es u
    | Inr a \<Rightarrow> runs u (f a) (\<lambda>b es' t. Q b (es @ es') t))"
  shows "runs w (try_let m f) Q"
  unfolding try_let_as_let_do
  by (intro runs_let_do runs_mono[OF assms]) (auto split: sum.splits intro: runs_fail)

text \<open>A step whose events (all \<open>P\<close>) do not matter to the postcondition can be skipped; the rest
  may use that it starts where the step ended.\<close>

lemma runs_skip_let:
  assumes m: "traced m (\<lambda>r es. list_all P es)" and f: "\<And>a u. m w = (a, u) \<Longrightarrow> runs u (f a) Q"
    and Q: "\<And>r es es' t. list_all P es \<Longrightarrow> Q r es' t \<Longrightarrow> Q r (es @ es') t"
  shows "runs w (let_do m f) Q"
  by (rule runs_let_do, rule runs_of_traced[OF m]) (auto intro: runs_mono[OF f] Q)

lemma runs_skip_try:
  assumes m: "traced m (\<lambda>r es. list_all P es)" and f: "\<And>a u. m w = (Inr a, u) \<Longrightarrow> runs u (f a) Q"
    and Q: "\<And>r es es' t. list_all P es \<Longrightarrow> Q r es' t \<Longrightarrow> Q r (es @ es') t"
    and E: "\<And>e es t. list_all P es \<Longrightarrow> Q (Inl e) es t"
  shows "runs w (try_let m f) Q"
proof (rule runs_try_let, rule runs_of_traced[OF m])
  fix r es u
  assume es: "list_all P es" and run: "m w = (r, u)"
  show "case r of Inl e \<Rightarrow> Q (Inl e) es u | Inr a \<Rightarrow> runs u (f a) (\<lambda>b es' t. Q b (es @ es') t)"
  proof (cases r)
    case (Inr a)
    then show ?thesis
      using runs_mono[OF f Q[OF es]] run by simp
  qed (simp add: E[OF es])
qed

lemma runs_map_err [runs_intros]:
  assumes "runs w m (\<lambda>r es u. case r of Inl e \<Rightarrow> Q (Inl (g e)) es u | Inr a \<Rightarrow> Q (Inr a) es u)"
  shows "runs w (map_err g m) Q"
  unfolding map_err_as_let_do
  by (intro runs_let_do runs_mono[OF assms]) (auto split: sum.splits intro: runs_lift_res)

lemma runs_emit [runs_intros]: "Q () [e] (w\<lparr>w_trace := w_trace w @ [e]\<rparr>) \<Longrightarrow> runs w (emit e) Q"
  by (simp add: runs_def emit_def)

lemma runs_call [runs_intros]:
  "(\<And>r fs x. f (w_fs w, w_ext w) = (r, fs, x) \<Longrightarrow>
     Q r [ev] (w\<lparr>w_fs := fs, w_ext := x, w_trace := w_trace w @ [ev]\<rparr>)) \<Longrightarrow> runs w (call ev f) Q"
  by (auto simp: runs_def call_def split: prod.splits)

lemma runs_case_option [runs_intros]:
  "(v = None \<Longrightarrow> runs w f Q) \<Longrightarrow> (\<And>b. v = Some b \<Longrightarrow> runs w (g b) Q) \<Longrightarrow>
   runs w (case v of None \<Rightarrow> f | Some b \<Rightarrow> g b) Q"
  by (cases v) auto

lemma runs_case_sum [runs_intros]:
  "(\<And>a. v = Inl a \<Longrightarrow> runs w (f a) Q) \<Longrightarrow> (\<And>b. v = Inr b \<Longrightarrow> runs w (g b) Q) \<Longrightarrow>
   runs w (case v of Inl a \<Rightarrow> f a | Inr b \<Rightarrow> g b) Q"
  by (cases v) auto

lemma runs_case_prod [runs_intros]:
  "(\<And>a b. v = (a, b) \<Longrightarrow> runs w (f a b) Q) \<Longrightarrow> runs w (case v of (a, b) \<Rightarrow> f a b) Q"
  by (cases v) auto

lemma runs_case_list [runs_intros]:
  "(v = [] \<Longrightarrow> runs w f Q) \<Longrightarrow> (\<And>b bs. v = b # bs \<Longrightarrow> runs w (g b bs) Q) \<Longrightarrow>
   runs w (case v of [] \<Rightarrow> f | b # bs \<Rightarrow> g b bs) Q"
  by (cases v) auto

lemma runs_if [runs_intros]:
  "(c \<Longrightarrow> runs w f Q) \<Longrightarrow> (\<not> c \<Longrightarrow> runs w g Q) \<Longrightarrow> runs w (if c then f else g) Q"
  by simp

lemma runs_Let [runs_intros]: "runs w (f v) Q \<Longrightarrow> runs w (let x = v in f x) Q"
  by simp

lemma runs_print [runs_intros]:
  "Q () [Out (Text s)] (w\<lparr>w_trace := w_trace w @ [Out (Text s)]\<rparr>) \<Longrightarrow> runs w (println s) Q"
  "Q () [Err (Text s)] (w\<lparr>w_trace := w_trace w @ [Err (Text s)]\<rparr>) \<Longrightarrow> runs w (eprintln s) Q"
  by (simp_all add: println_def eprintln_def runs_emit)

lemma runs_read_line [runs_intros]:
  "(let l = first_line (w_stdin w) in
     Q (if valid_utf8 l then Inr l else Inl invalid_data_error) [StdinRead]
       (w\<lparr>w_stdin := drop (length l) (w_stdin w), w_trace := w_trace w @ [StdinRead]\<rparr>)) \<Longrightarrow>
   runs w read_line Q"
  by (simp add: runs_def read_line_def Let_def)

lemma runs_read_stdin [runs_intros]:
  "Q (w_stdin w) [StdinRead] (w\<lparr>w_stdin := [], w_trace := w_trace w @ [StdinRead]\<rparr>) \<Longrightarrow>
   runs w read_stdin Q"
  by (simp add: runs_def read_stdin_def)

lemma runs_reads [runs_intros]:
  "Q (read_bytes_at (w_fs w) p) [FsRead p] (w\<lparr>w_trace := w_trace w @ [FsRead p]\<rparr>) \<Longrightarrow>
   runs w (read_bytes p) Q"
  "R (read_text_at (w_fs w) p) [FsRead p] (w\<lparr>w_trace := w_trace w @ [FsRead p]\<rparr>) \<Longrightarrow>
   runs w (read_to_string p) R"
  by (simp_all add: runs_def read_bytes_def read_to_string_def effect_simps)

lemma runs_read_to_string_q [runs_intros]:
  "Q (map_sum Io id (read_text_at (w_fs w) p)) [FsRead p] (w\<lparr>w_trace := w_trace w @ [FsRead p]\<rparr>) \<Longrightarrow>
   runs w (read_to_string_q p) Q"
  by (simp add: runs_def read_to_string_q_def map_err_as_let_do read_to_string_def effect_simps)

lemma runs_path_exists [runs_intros]: "Q (w_fs w p \<noteq> None) [] w \<Longrightarrow> runs w (path_exists p) Q"
  by (simp add: path_exists_def runs_get_s)

subsection \<open>Inversion of runs\<close>

lemma let_doE [run_elims]:
  assumes "let_do m f w = (r, w')"
  obtains a u where "m w = (a, u)" and "f a u = (r, w')"
  using assms by (auto simp: let_do_def split: prod.splits)

lemma try_letE [run_elims]:
  assumes "try_let m f w = (Inr r, w')"
  obtains a u where "m w = (Inr a, u)" and "f a u = (Inr r, w')"
  using assms by (auto simp: try_let_def split: prod.splits sum.splits)

lemma map_err_Inr_iff [run_iffs]: "map_err g m w = (Inr a, u) \<longleftrightarrow> m w = (Inr a, u)"
  and map_err_Inl_iff [run_iffs]: "map_err g m w = (Inl e, u) \<longleftrightarrow> (\<exists>d. m w = (Inl d, u) \<and> e = g d)"
  by (auto simp: map_err_def split: prod.splits sum.splits)

lemma ret_iff [run_iffs]: "ret a w = (b, u) \<longleftrightarrow> b = a \<and> u = w"
  and ok_iff [run_iffs]: "ok c w = (r, u) \<longleftrightarrow> r = Inr c \<and> u = w"
  and fail_iff [run_iffs]: "fail e w = (q, u) \<longleftrightarrow> q = Inl e \<and> u = w"
  and lift_res_iff [run_iffs]: "lift_res t w = (t', u) \<longleftrightarrow> t' = t \<and> u = w"
  and get_s_iff [run_iffs]: "get_s g w = (d, u) \<longleftrightarrow> d = g w \<and> u = w"
  by (auto simp: effect_simps)

lemma emit_iff [run_iffs]: "emit e w = (x, u) \<longleftrightarrow> u = w\<lparr>w_trace := w_trace w @ [e]\<rparr>"
  by (auto simp: emit_def)

lemma call_iff [run_iffs]:
  "call ev f w = (a, u) \<longleftrightarrow>
    (\<exists>fs x. f (w_fs w, w_ext w) = (a, fs, x) \<and>
       u = w\<lparr>w_fs := fs, w_ext := x, w_trace := w_trace w @ [ev]\<rparr>)"
  by (auto simp: call_def split: prod.splits)

subsection \<open>The state of the platform\<close>

text \<open>What the operations of the libraries work on: the file system and their own state.\<close>

type_synonym 'x store = "filesys \<times> 'x"

definition store_of :: "'x world \<Rightarrow> 'x store" where
  "store_of w = (w_fs w, w_ext w)"

text \<open>The weakest precondition of a run from a world, as equations for the simplifier; \<open>after_call\<close> is
  the world behind a call.\<close>

definition wp :: "'x world \<Rightarrow> ('x world \<Rightarrow> 'a \<times> 'x world) \<Rightarrow> ('a \<Rightarrow> 'x world \<Rightarrow> bool) \<Rightarrow> bool" where
  "wp w m Q \<longleftrightarrow> (case m w of (r, u) \<Rightarrow> Q r u)"

definition after_call :: "event \<Rightarrow> 'x store \<Rightarrow> 'x world \<Rightarrow> 'x world" where
  "after_call ev s w = w\<lparr>w_fs := fst s, w_ext := snd s, w_trace := w_trace w @ [ev]\<rparr>"

named_theorems wp_simps \<open>weakest preconditions of the combinators\<close>

lemma store_of_after_call [simp]: "store_of (after_call ev s w) = s"
  by (simp add: store_of_def after_call_def)

lemma wp_basic [wp_simps]:
  "wp w (ret a) Q1 \<longleftrightarrow> Q1 a w" "wp w (ok b) Q2 \<longleftrightarrow> Q2 (Inr b) w" "wp w (fail e) Q3 \<longleftrightarrow> Q3 (Inl e) w"
  "wp w (lift_res r) Q4 \<longleftrightarrow> Q4 r w" "wp w (get_s k) Q5 \<longleftrightarrow> Q5 (k w) w"
  by (simp_all add: wp_def effect_simps)

lemma wp_let_do [wp_simps]: "wp w (let_do m f) Q \<longleftrightarrow> wp w m (\<lambda>a u. wp u (f a) Q)"
  by (simp add: wp_def effect_simps split: prod.splits)

lemma wp_try_let [wp_simps]:
  "wp w (try_let m f) Q \<longleftrightarrow> wp w m (\<lambda>r u. case r of Inl e \<Rightarrow> Q (Inl e) u | Inr a \<Rightarrow> wp u (f a) Q)"
  by (simp add: wp_def effect_simps split: prod.splits sum.splits)

lemma wp_map_err [wp_simps]:
  "wp w (map_err k m) Q \<longleftrightarrow> wp w m (\<lambda>r u. Q (map_sum k id r) u)"
  by (auto simp: wp_def effect_simps split: prod.splits sum.splits)

lemma wp_call [wp_simps]:
  "wp w (call ev f) Q \<longleftrightarrow> (case f (store_of w) of (r, s) \<Rightarrow> Q r (after_call ev s w))"
  by (simp add: wp_def call_def store_of_def after_call_def split: prod.splits)

lemma wp_cases [wp_simps]:
  "wp w (if c then f else g) Q \<longleftrightarrow> (if c then wp w f Q else wp w g Q)"
  "wp w (case r of Inl a \<Rightarrow> f1 a | Inr b \<Rightarrow> f2 b) Q \<longleftrightarrow> (case r of Inl a \<Rightarrow> wp w (f1 a) Q | Inr b \<Rightarrow> wp w (f2 b) Q)"
  "wp w (case l of [] \<Rightarrow> f3 | b # bs \<Rightarrow> f4 b bs) Q \<longleftrightarrow> (case l of [] \<Rightarrow> wp w f3 Q | b # bs \<Rightarrow> wp w (f4 b bs) Q)"
  by (auto split: sum.splits list.splits)

lemma wp_mono: "wp w m Q \<Longrightarrow> (\<And>r u. Q r u \<Longrightarrow> R r u) \<Longrightarrow> wp w m R"
  by (auto simp: wp_def)

text \<open>\<open>op_spec g f Q\<close>: the operation \<open>f\<close> of a library meets \<open>Q\<close> on an observation \<open>g\<close> of the
  store; \<open>frame_op g f\<close> and \<open>frames g m\<close>: an operation, a run leaves the observation as it was.\<close>

definition op_spec :: "('x store \<Rightarrow> 'b) \<Rightarrow> ('x, 'a) xop \<Rightarrow> ('b \<Rightarrow> 'a \<Rightarrow> 'b \<Rightarrow> bool) \<Rightarrow> bool" where
  "op_spec g f Q \<longleftrightarrow> (\<forall>s. Q (g s) (fst (f s)) (g (snd (f s))))"

definition frame_op :: "('x store \<Rightarrow> 'b) \<Rightarrow> ('x, 'a) xop \<Rightarrow> bool" where
  "frame_op g f \<longleftrightarrow> op_spec g f (\<lambda>m r m'. m' = m)"

lemma op_specD: "op_spec g f Q \<Longrightarrow> f s = (r, s') \<Longrightarrow> Q (g s) r (g s')"
  unfolding op_spec_def by (metis fst_conv snd_conv)

definition frames :: "('x store \<Rightarrow> 'b) \<Rightarrow> ('x world \<Rightarrow> 'a \<times> 'x world) \<Rightarrow> bool" where
  "frames g m \<longleftrightarrow> (\<forall>w. g (store_of (snd (m w))) = g (store_of w))"

named_theorems frames_intros \<open>which computations leave the store as it was\<close>

lemma store_of_trace [simp]: "store_of (w\<lparr>w_trace := t\<rparr>) = store_of w"
  by (simp add: store_of_def)

lemma frames_basic [frames_intros]:
  "frames g (ret a)" "frames g (ok b)" "frames g (fail e)" "frames g (lift_res r)" "frames g (get_s k)"
  "frames g (emit ev)" "frames g (println s)" "frames g (eprintln s)"
  by (simp_all add: frames_def effect_simps println_def eprintln_def)

lemma frames_wp: "frames g m \<longleftrightarrow> (\<forall>w. wp w m (\<lambda>r u. g (store_of u) = g (store_of w)))"
  by (simp add: frames_def wp_def split_beta)

lemma frames_call [frames_intros]: "frame_op g f \<Longrightarrow> frames g (call ev f)"
  unfolding frames_wp frame_op_def op_spec_def wp_simps by (simp add: split_beta del: split_paired_All)

lemma frames_let_do [frames_intros]: "frames g m \<Longrightarrow> (\<And>a. frames g (f a)) \<Longrightarrow> frames g (let_do m f)"
  unfolding frames_wp wp_simps by (metis (mono_tags, lifting) wp_mono)

lemma frames_try_let [frames_intros]: "frames g m \<Longrightarrow> (\<And>a. frames g (f a)) \<Longrightarrow> frames g (try_let m f)"
  unfolding try_let_as_let_do by (auto intro!: frames_intros split: sum.splits)

lemma frames_map_err [frames_intros]: "frames g m \<Longrightarrow> frames g (map_err k m)"
  unfolding map_err_as_let_do by (auto intro!: frames_intros)

lemma frames_cases [frames_intros]:
  "(\<And>a. frames g (f1 a)) \<Longrightarrow> (\<And>b. frames g (f2 b)) \<Longrightarrow> frames g (case r of Inl a \<Rightarrow> f1 a | Inr b \<Rightarrow> f2 b)"
  "frames g f3 \<Longrightarrow> (\<And>b. frames g (f4 b)) \<Longrightarrow> frames g (case q of None \<Rightarrow> f3 | Some b \<Rightarrow> f4 b)"
  "(\<And>a b. frames g (f5 a b)) \<Longrightarrow> frames g (case t of (a, b) \<Rightarrow> f5 a b)"
  "frames g f6 \<Longrightarrow> frames g f7 \<Longrightarrow> frames g (if c then f6 else f7)"
  by (auto split: sum.splits option.splits prod.splits)

lemma wp_op_spec:
  assumes "op_spec g f R" and "\<And>r s. R (g (store_of w)) r (g s) \<Longrightarrow> Q r (after_call ev s w)"
  shows "wp w (call ev f) Q"
  using op_specD[OF assms(1)] assms(2) by (simp add: wp_simps split_beta)

end
