(* ===== verification/Cli_Args.thy ===== *)
theory Cli_Args
  imports Rust_Std "HOL-Library.Word"
begin

text \<open>
  The command line as \<open>gitway-cli/src/cli.rs\<close> declares it: one record per \<open>Args\<close> struct, one
  datatype per \<open>Subcommand\<close> enum, the field and variant order of the source. Integers keep their
  width. \<open>clap\<close> itself (the third-party parser) is not modelled: what it enforces after
  parsing, the declared \<open>conflicts_with\<close> pairs, is the predicate \<open>*_accepted\<close> next to each
  struct that declares one.
\<close>

type_synonym u8 = "8 word"
type_synonym u16 = "16 word"
type_synonym u32 = "32 word"
type_synonym u64 = "64 word"

section \<open>Output formats\<close>

datatype output_format = FormatJson

datatype debug_format = DebugHuman | DebugJson

section \<open>keygen and sign\<close>

datatype key_alg = Ed25519 | Ecdsa | Rsa

datatype hash_kind = Sha256 | Sha512

record generate_args =
  gen_kind :: key_alg
  gen_bits :: "u32 option"
  gen_file :: string
  gen_passphrase :: "string option"
  gen_no_passphrase :: bool
  gen_comment :: "string option"

definition generate_accepted :: "generate_args \<Rightarrow> bool" where
  "generate_accepted a \<longleftrightarrow> \<not> (gen_no_passphrase a \<and> gen_passphrase a \<noteq> None)"

record fingerprint_args =
  fp_file :: string
  fp_hash :: hash_kind

record extract_public_args =
  ep_file :: string
  ep_output :: "string option"

record change_passphrase_args =
  cp_file :: string
  cp_old_passphrase :: "string option"
  cp_new_passphrase :: "string option"
  cp_no_passphrase :: bool

definition change_passphrase_accepted :: "change_passphrase_args \<Rightarrow> bool" where
  "change_passphrase_accepted a \<longleftrightarrow> \<not> (cp_no_passphrase a \<and> cp_new_passphrase a \<noteq> None)"

record sign_args =
  sg_key :: "string option"
  sg_namespace :: string
  sg_input :: "string option"
  sg_output :: "string option"
  sg_hash :: hash_kind

record verify_args =
  vf_signer :: string
  vf_namespace :: string
  vf_allowed_signers :: string
  vf_signature :: string
  vf_input :: "string option"

datatype keygen_subcommand =
    KgGenerate generate_args
  | KgFingerprint fingerprint_args
  | KgExtractPublic extract_public_args
  | KgChangePassphrase change_passphrase_args
  | KgSign sign_args
  | KgVerify verify_args

section \<open>agent\<close>

record agent_add_args =
  aa_files :: "string list"
  aa_lifetime :: "u64 option"
  aa_confirm :: bool
  aa_biometric :: bool
  aa_no_biometric :: bool

definition agent_add_accepted :: "agent_add_args \<Rightarrow> bool" where
  "agent_add_accepted a \<longleftrightarrow> \<not> (aa_biometric a \<and> aa_no_biometric a)"

record agent_list_args =
  al_full :: bool
  al_hash :: hash_kind

record agent_remove_args =
  ar_file :: "string option"
  ar_all :: bool

definition agent_remove_accepted :: "agent_remove_args \<Rightarrow> bool" where
  "agent_remove_accepted a \<longleftrightarrow> \<not> (ar_all a \<and> ar_file a \<noteq> None)"

record agent_lock_args =
  ak_passphrase :: "string option"

record agent_start_args =
  as_sock :: "string option"
  as_default_ttl :: "u64 option"
  as_pid_file :: "string option"
  as_foreground :: bool
  as_sh :: bool
  as_csh :: bool

definition agent_start_accepted :: "agent_start_args \<Rightarrow> bool" where
  "agent_start_accepted a \<longleftrightarrow> \<not> (as_sh a \<and> as_csh a)"

record agent_stop_args =
  ao_pid_file :: "string option"

datatype agent_subcommand =
    AgentAdd agent_add_args
  | AgentListKeys agent_list_args
  | AgentRemove agent_remove_args
  | AgentLock agent_lock_args
  | AgentUnlock agent_lock_args
  | AgentStart agent_start_args
  | AgentStop agent_stop_args

section \<open>biometric\<close>

record biometric_enroll_args =
  be_files :: "string list"

record biometric_forget_args =
  bf_files :: "string list"
  bf_all :: bool

definition biometric_forget_accepted :: "biometric_forget_args \<Rightarrow> bool" where
  "biometric_forget_accepted a \<longleftrightarrow> \<not> (bf_all a \<and> bf_files a \<noteq> [])"

datatype biometric_subcommand =
    BioEnroll biometric_enroll_args
  | BioForget biometric_forget_args
  | BioList
  | BioStatus

section \<open>config and hosts\<close>

record config_show_args =
  cs_host :: string
  cs_user_config :: "string option"
  cs_system_config :: "string option"
  cs_show_secrets :: bool

datatype config_subcommand = ConfigShow config_show_args

record hosts_add_args =
  ha_host :: string
  ha_known_hosts :: "string option"
  ha_hash :: bool
  ha_no_hash :: bool
  ha_yes :: bool

definition hosts_add_accepted :: "hosts_add_args \<Rightarrow> bool" where
  "hosts_add_accepted a \<longleftrightarrow> \<not> (ha_hash a \<and> ha_no_hash a)"

record hosts_revoke_args =
  hr_input :: string
  hr_known_hosts :: "string option"

record hosts_list_args =
  hl_known_hosts :: "string option"

datatype hosts_subcommand =
    HostsAdd hosts_add_args
  | HostsRevoke hosts_revoke_args
  | HostsList hosts_list_args

section \<open>The top level\<close>

datatype gitway_subcommand =
    Schema
  | Describe
  | KeygenCmd keygen_subcommand
  | SignCmd sign_args
  | AgentCmd agent_subcommand
  | ConfigCmd config_subcommand
  | ListAlgorithms
  | HostsCmd hosts_subcommand
  | BiometricCmd biometric_subcommand

record cli =
  cli_subcommand :: "gitway_subcommand option"
  cli_host :: "string option"
  cli_command :: "string list"
  cli_identity :: "string option"
  cli_cert :: "string option"
  cli_user :: "string option"
  cli_port :: "u16 option"
  cli_insecure_skip_host_check :: bool
  cli_no_config :: bool
  cli_proxy_command :: "string option"
  cli_jump_host :: "string list"
  cli_kex :: "string option"
  cli_ciphers :: "string option"
  cli_macs :: "string option"
  cli_host_key_algorithms :: "string option"
  cli_connect_timeout :: "u64 option"
  cli_attempts :: "u32 option"
  cli_max_retry_window :: "u64 option"
  cli_json :: bool
  cli_format :: "output_format option"
  cli_no_color :: bool
  cli_verbose :: u8
  cli_debug_format :: debug_format
  cli_debug_categories :: "string list"
  cli_test :: bool
  cli_install :: bool
  cli_compat_opts :: "string list"

definition cli_accepted :: "cli \<Rightarrow> bool" where
  "cli_accepted c \<longleftrightarrow> \<not> (cli_test c \<and> cli_install c)"

end
