(* ===== verification/Ssh_Key.thy ===== *)
theory Ssh_Key
  imports Effects Cli_Args
begin

text \<open>
  The third-party crates that several components call, as records of functions that the
  model takes as arguments: \<open>ssh_key\<close> (parsing, decryption and fingerprints of keys; \<open>'k\<close> is
  \<open>PrivateKey\<close>, \<open>'p\<close> is \<open>PublicKey\<close>; with \<open>anvil_ssh::keygen::fingerprint\<close>), and the readers of typed secrets
  (\<open>rpassword::prompt_password\<close>). Errors are their display texts. The public half of a key
  does not depend on whether the private half is encrypted: that documented fact is the
  predicate \<open>ssh_key_laws\<close>, a hypothesis where a property needs it.
\<close>

record ('k, 'p) ssh_key_ops =
  sk_from_openssh :: "string \<Rightarrow> string + 'k"
  pk_from_openssh :: "string \<Rightarrow> string + 'p"
  sk_is_encrypted :: "'k \<Rightarrow> bool"
  sk_decrypt :: "'k \<Rightarrow> string \<Rightarrow> string + 'k"
  sk_public :: "'k \<Rightarrow> 'p"
  pk_fingerprint :: "'p \<Rightarrow> hash_kind \<Rightarrow> string"
  pk_to_openssh :: "'p \<Rightarrow> string + string"
  pk_comment :: "'p \<Rightarrow> string"
  pk_algorithm :: "'p \<Rightarrow> string"
  pk_anvil_fingerprint :: "'p \<Rightarrow> hash_kind \<Rightarrow> string"

definition ssh_key_laws :: "('k, 'p, 'more) ssh_key_ops_scheme \<Rightarrow> bool" where
  "ssh_key_laws K \<longleftrightarrow>
     (\<forall>k p k'. sk_decrypt K k p = Inr k' \<longrightarrow> sk_public K k' = sk_public K k \<and> \<not> sk_is_encrypted K k')"

text \<open>\<open>rpassword::prompt_password(prompt)\<close>: shows the prompt on the terminal and reads one
  line without echo.\<close>

type_synonym 'x prompt_op = "string \<Rightarrow> ('x, io_error + string) xop"

definition prompt_password ::
  "'x prompt_op \<Rightarrow> string \<Rightarrow> 'x world \<Rightarrow> (io_error + string) \<times> 'x world" where
  "prompt_password ask prompt = call (Prompt prompt) (ask prompt)"

definition secret_prompt :: "event \<Rightarrow> bool" where
  "secret_prompt e \<longleftrightarrow> (case e of Prompt _ \<Rightarrow> True | _ \<Rightarrow> False)"

lemma secret_prompt_simps [simp]:
  "secret_prompt (Prompt s)" "\<not> secret_prompt (Out j)" "\<not> secret_prompt (Err j)"
  "\<not> secret_prompt StdinRead" "\<not> secret_prompt (FsRead f)" "\<not> secret_prompt (FsWrite f)"
  "\<not> secret_prompt (Sensor c)" "\<not> secret_prompt (Keystore k)" "\<not> secret_prompt (Agent a)"
  "\<not> secret_prompt (Ssh h)" "\<not> secret_prompt (Lib l)"
  by (simp_all add: secret_prompt_def)

lemma adds_prompt_password [adds_intros]:
  "P (Prompt s) \<Longrightarrow> adds_only P (prompt_password ask s)"
  by (simp add: prompt_password_def adds_call)

end
