(* ===== verification/Output_Mode.thy ===== *)
theory Output_Mode
  imports Effects Cli_Args
begin

text \<open>
  The output side of \<open>gitway-cli/src/main.rs\<close>: which of the two output modes a run uses, the
  environment variables that mark an agent or CI run, the tracing filter that the verbosity
  flags select, and the JSON envelope every machine-readable answer is wrapped in.
\<close>

section \<open>Output mode\<close>

datatype output_mode = Human | JsonMode

definition env_is :: "'x world \<Rightarrow> string \<Rightarrow> string \<Rightarrow> bool" where
  "env_is w k v \<longleftrightarrow> var_os w k = Some v"

definition is_agent_or_ci_env :: "'x world \<Rightarrow> bool" where
  "is_agent_or_ci_env w \<longleftrightarrow>
     env_is w ''AI_AGENT'' ''1''
     \<or> env_is w ''AGENT'' ''1''
     \<or> (case env_var w ''CI'' of None \<Rightarrow> False | Some v \<Rightarrow> eq_ignore_case v ''true'')
     \<or> env_is w ''CLAUDECODE'' ''1''
     \<or> env_is w ''CURSOR_AGENT'' ''1''
     \<or> env_is w ''GEMINI_CLI'' ''1''"

definition detect_output_mode :: "cli \<Rightarrow> bool \<Rightarrow> 'x world \<Rightarrow> output_mode" where
  "detect_output_mode c check_tty w =
     (if cli_json c \<or> cli_format c = Some FormatJson then JsonMode
      else if is_agent_or_ci_env w then JsonMode
      else if check_tty \<and> \<not> w_stdout_tty w then JsonMode
      else Human)"

section \<open>Tracing filter\<close>

definition expand_category :: "string \<Rightarrow> string" where
  "expand_category short =
     (if short = ''kex'' then ''anvil_ssh::kex''
      else if short = ''auth'' then ''anvil_ssh::auth''
      else if short = ''channel'' then ''anvil_ssh::channel''
      else if short = ''config'' then ''anvil_ssh::config''
      else short)"

definition level_name :: "u8 \<Rightarrow> string" where
  "level_name v =
     (if v = 0 then ''warn'' else if v = 1 then ''info'' else if v = 2 then ''debug'' else ''trace'')"

definition build_filter_directive :: "u8 \<Rightarrow> string list \<Rightarrow> string" where
  "build_filter_directive v cats =
     (if cats = [] then
        (if v = 0 then ''warn''
         else if v = 1 then ''gitway=info,anvil_ssh=info,russh=warn''
         else if v = 2 then ''gitway=debug,anvil_ssh=debug,russh=info''
         else ''gitway=trace,anvil_ssh=trace,russh=info'')
      else join '','' (''warn'' # map (\<lambda>c. expand_category c @ ''='' @ level_name v) cats))"

text \<open>\<open>init_tracing_subscriber\<close>: \<open>RUST_LOG\<close>, when it holds a filter the subscriber's own
  parser accepts (\<open>try_env\<close>), wins over the directive of the flags; the record format is the
  one of \<open>--debug-format\<close>, and the sink is always stderr.\<close>

datatype tracing_sink = TracingStderr

record tracing_setup =
  ts_filter :: string
  ts_format :: debug_format
  ts_sink :: tracing_sink

definition init_tracing_subscriber ::
  "(string \<Rightarrow> bool) \<Rightarrow> u8 \<Rightarrow> debug_format \<Rightarrow> string list \<Rightarrow> 'x world \<Rightarrow> tracing_setup" where
  "init_tracing_subscriber try_env v fmt cats w =
     (let default_directive = build_filter_directive v cats;
          filter = (case env_var w ''RUST_LOG'' of
                      Some f \<Rightarrow> (if try_env f then f else default_directive)
                    | None \<Rightarrow> default_directive)
      in \<lparr>ts_filter = filter, ts_format = fmt, ts_sink = TracingStderr\<rparr>)"

section \<open>The JSON envelope\<close>

definition json_schema_version :: string where
  "json_schema_version = ''1.0.0''"

definition cargo_pkg_version :: string where
  "cargo_pkg_version = ''1.0.4''"

definition metadata_block :: "string \<Rightarrow> string \<Rightarrow> json" where
  "metadata_block timestamp command = JObj
     [(''tool'', JStr ''gitway''),
      (''schema_version'', JStr json_schema_version),
      (''version'', JStr cargo_pkg_version),
      (''command'', JStr command),
      (''timestamp'', JStr timestamp)]"

definition emit_json :: "json \<Rightarrow> 'x world \<Rightarrow> unit \<times> 'x world" where
  "emit_json v = emit (Out (Json v))"

definition emit_json_line :: "string \<Rightarrow> 'x world \<Rightarrow> unit \<times> 'x world" where
  "emit_json_line l = println l"

text \<open>The shape \<open>{ metadata, data }\<close> that the handlers build around their answer.\<close>

definition data_envelope :: "string \<Rightarrow> json \<Rightarrow> 'x world \<Rightarrow> json" where
  "data_envelope command data w =
     JObj [(''metadata'', metadata_block (w_timestamp w) command), (''data'', data)]"

definition emit_data :: "string \<Rightarrow> json \<Rightarrow> 'x world \<Rightarrow> unit \<times> 'x world" where
  "emit_data command data = let_do (get_s (data_envelope command data)) emit_json"

section \<open>Laws\<close>

lemma data_envelope_fields:
  "jfield ''data'' (data_envelope command data w) = Some data"
  "jfield ''metadata'' (data_envelope command data w) = Some (metadata_block (w_timestamp w) command)"
  by (simp_all add: data_envelope_def)

lemma traced_emit_data [traced_intros]:
  "(\<And>j ts. jfield ''data'' j = Some d \<Longrightarrow> jfield ''metadata'' j = Some (metadata_block ts c) \<Longrightarrow>
     Q () [Out (Json j)]) \<Longrightarrow> traced (emit_data c d) Q"
  by (auto simp: emit_data_def emit_json_def traced_def effect_simps data_envelope_fields)

lemma adds_emit_data [adds_intros]: "(\<And>j. P (Out (Json j))) \<Longrightarrow> adds_only P (emit_data c d)"
  unfolding emit_data_def emit_json_def by (auto intro!: adds_intros)

lemma runs_emit_data [runs_intros]:
  "(\<And>j. jfield ''data'' j = Some d \<Longrightarrow> jfield ''metadata'' j = Some (metadata_block (w_timestamp w) c) \<Longrightarrow>
     Q () [Out (Json j)] (w\<lparr>w_trace := w_trace w @ [Out (Json j)]\<rparr>)) \<Longrightarrow> runs w (emit_data c d) Q"
  by (auto simp: emit_data_def emit_json_def runs_def effect_simps data_envelope_fields)

section \<open>What a run prints on standard output\<close>

definition stdout_of :: "event list \<Rightarrow> payload list" where
  "stdout_of es = concat (map (\<lambda>e. case e of Out j \<Rightarrow> [j] | _ \<Rightarrow> []) es)"

lemma stdout_of_simps [simp]:
  "stdout_of [] = []" "stdout_of (es @ es') = stdout_of es @ stdout_of es'"
  "stdout_of (Out j # es) = j # stdout_of es" "stdout_of (Err j # es) = stdout_of es"
  "stdout_of (FsRead f # es) = stdout_of es" "stdout_of (FsWrite f # es) = stdout_of es"
  "stdout_of (Ssh c # es) = stdout_of es" "stdout_of (Lib l # es) = stdout_of es"
  "stdout_of (StdinRead # es) = stdout_of es" "stdout_of (Prompt q # es) = stdout_of es"
  by (simp_all add: stdout_of_def)

lemma stdout_of_none: "list_all (\<lambda>e. \<forall>j. e \<noteq> Out j) es \<Longrightarrow> stdout_of es = []"
  by (auto simp: stdout_of_def list_all_iff split: event.splits)

text \<open>A run that prints nothing when it fails, and otherwise exits with 0 after an answer.\<close>

definition answers :: "(payload list \<Rightarrow> bool) \<Rightarrow> anvil_error + u32 \<Rightarrow> event list \<Rightarrow> bool" where
  "answers P r es \<longleftrightarrow> (case r of Inl _ \<Rightarrow> stdout_of es = [] | Inr c \<Rightarrow> c = 0 \<and> P (stdout_of es))"

lemma answers_append: "stdout_of es = [] \<Longrightarrow> answers P r (es @ es') = answers P r es'"
  by (cases r) (auto simp: answers_def)

lemma answers_step:
  assumes m: "adds_only (\<lambda>e. \<forall>j. e \<noteq> Out j) m" and f: "\<And>a. traced (f a) (answers P)"
  shows "traced (try_let m f) (answers P)"
proof (rule traced_try_let, rule traced_adds_only[OF m])
  fix r :: "anvil_error + 'b" and es
  assume "list_all (\<lambda>e. \<forall>j. e \<noteq> Out j) es"
  then have es: "stdout_of es = []"
    by (rule stdout_of_none)
  show "case r of Inl e \<Rightarrow> answers P (Inl e) es
    | Inr a \<Rightarrow> traced (f a) (\<lambda>b es'. answers P b (es @ es'))"
    using f es by (cases r) (auto simp: answers_append, simp add: answers_def es)
qed

lemma answers_lift_res:
  "(\<And>a. v = Inr a \<Longrightarrow> traced (f a) (answers P)) \<Longrightarrow> traced (try_let (lift_res v) f) (answers P)"
  by (cases v) (auto simp: traced_def effect_simps answers_def)

end
