(* ===== verification/Biometric.thy ===== *)
theory Biometric
  imports Ssh_Key Output_Mode
begin

text \<open>
  \<open>gitway-cli/src/biometric/mod.rs\<close>: the vault interface that the three platform backends
  implement, the security tier, the errors, the identifiers under which passphrases are
  stored, and the automatic unlock that the key-loading paths share. The trait
  \<open>BiometricVault\<close> is the record \<open>vault\<close> of its methods; the promises its documentation
  makes are the locales \<open>quiet_vault\<close> and \<open>gated_vault\<close>, in which the automatic unlock is verified once and
  which every backend's theory interprets on its own methods.
\<close>

section \<open>Tiers, modes, errors\<close>

datatype tier = HardwareBound | DpapiConsent | Advisory | UnsupportedTier

fun tier_as_str :: "tier \<Rightarrow> string" where
  "tier_as_str HardwareBound = ''hardware-bound''"
| "tier_as_str DpapiConsent = ''dpapi-consent''"
| "tier_as_str Advisory = ''advisory''"
| "tier_as_str UnsupportedTier = ''unsupported''"

fun tier_description :: "tier \<Rightarrow> string" where
  "tier_description HardwareBound =
     ''hardware-bound (Secure Enclave); the secret is released only on a biometric or passcode match''"
| "tier_description DpapiConsent =
     ''DPAPI-encrypted at rest; Windows Hello consent gates the read but is not cryptographically bound to it''"
| "tier_description Advisory =
     ''advisory gate '' @ em_dash @ '' fprintd verifies your fingerprint, but the passphrase is protected by your login keyring, not by the fingerprint; a local attacker with an unlocked session can bypass the fingerprint check; treat this as convenience, not a security boundary''"
| "tier_description UnsupportedTier = ''no biometric backend is available on this build''"

datatype unlock_mode = UnlockAuto | UnlockEnroll | UnlockDisabled

definition unlock_mode_from_flags :: "bool \<Rightarrow> bool \<Rightarrow> unlock_mode" where
  "unlock_mode_from_flags enroll disabled =
     (if disabled then UnlockDisabled else if enroll then UnlockEnroll else UnlockAuto)"

record enrolled_key =
  ek_fingerprint :: string
  ek_comment :: "string option"

datatype biometric_error = NotEnrolled | Cancelled | Unavailable string | Backend string

fun biometric_error_text :: "biometric_error \<Rightarrow> string" where
  "biometric_error_text NotEnrolled = ''key is not enrolled for biometric unlock''"
| "biometric_error_text Cancelled = ''biometric verification was cancelled or did not match''"
| "biometric_error_text (Unavailable why) = ''biometric unlock is unavailable: '' @ why"
| "biometric_error_text (Backend why) = ''biometric backend error: '' @ why"

section \<open>The vault interface\<close>

type_synonym ('x, 'a) bio = "'x world \<Rightarrow> (biometric_error + 'a) \<times> 'x world"

record 'x vault =
  v_is_available :: "'x world \<Rightarrow> bool \<times> 'x world"
  v_binding_tier :: tier
  v_store :: "string \<Rightarrow> string \<Rightarrow> ('x, unit) bio"
  v_retrieve :: "string \<Rightarrow> ('x, string) bio"
  v_delete :: "string \<Rightarrow> ('x, unit) bio"
  v_list :: "('x, enrolled_key list) bio"

section \<open>Keystore identifiers\<close>

definition key_id_prefix :: string where
  "key_id_prefix = ''gitway:ssh:''"

definition key_id_from_fingerprint :: "string \<Rightarrow> string" where
  "key_id_from_fingerprint fingerprint = key_id_prefix @ fingerprint"

definition key_id :: "('k, 'p, 'more) ssh_key_ops_scheme \<Rightarrow> 'k \<Rightarrow> string" where
  "key_id K key = key_id_prefix @ pk_fingerprint K (sk_public K key) Sha256"

definition fingerprint_of :: "string \<Rightarrow> string" where
  "fingerprint_of kid = (case strip_prefix key_id_prefix kid of None \<Rightarrow> kid | Some r \<Rightarrow> r)"

lemma fingerprint_of_key_id_from [text_laws]: "fingerprint_of (key_id_from_fingerprint fp) = fp"
  by (simp add: fingerprint_of_def key_id_from_fingerprint_def strip_prefix_append)

lemma key_id_via_fingerprint:
  "key_id K key = key_id_from_fingerprint (pk_fingerprint K (sk_public K key) Sha256)"
  by (simp add: key_id_def key_id_from_fingerprint_def)

lemma fingerprint_of_unprefixed [text_laws]: "\<not> prefix key_id_prefix s \<Longrightarrow> fingerprint_of s = s"
  by (simp add: fingerprint_of_def strip_prefix_def)

lemma key_id_from_fingerprint_inj: "key_id_from_fingerprint a = key_id_from_fingerprint b \<longleftrightarrow> a = b"
  by (simp add: key_id_from_fingerprint_def)

section \<open>Automatic unlock\<close>

definition auto_unlock :: "'x vault \<Rightarrow> string \<Rightarrow> 'x world \<Rightarrow> string option \<times> 'x world" where
  "auto_unlock V kid = let_do (v_retrieve V kid) (\<lambda>r. case r of
       Inr passphrase \<Rightarrow> ret (Some passphrase)
     | Inl NotEnrolled \<Rightarrow> ret None
     | Inl Cancelled \<Rightarrow> ret None
     | Inl (Unavailable why) \<Rightarrow> ret None
     | Inl (Backend why) \<Rightarrow> ret None)"

datatype auto_unlock_result = Passphrase string | Stale | Fallback

fun debug_auto_unlock :: "auto_unlock_result \<Rightarrow> string" where
  "debug_auto_unlock (Passphrase p) = ''Passphrase(<redacted>)''"
| "debug_auto_unlock Stale = ''Stale''"
| "debug_auto_unlock Fallback = ''Fallback''"

definition auto_unlock_passphrase ::
  "('k, 'p, 'more) ssh_key_ops_scheme \<Rightarrow> 'x vault \<Rightarrow> 'k \<Rightarrow> 'x world \<Rightarrow> auto_unlock_result \<times> 'x world" where
  "auto_unlock_passphrase K V key =
     (let kid = key_id K key
      in let_do (auto_unlock V kid) (\<lambda>r. case r of
           None \<Rightarrow> ret Fallback
         | Some passphrase \<Rightarrow>
             (if \<not> isl (sk_decrypt K key passphrase) then ret (Passphrase passphrase)
              else let_do (v_delete V kid) (\<lambda>_. ret Stale))))"

text \<open>The cases of the automatic unlock, for any vault.\<close>

lemma auto_unlock_passphrase_cases:
  assumes "v_retrieve V (key_id K key) w = (r, u)"
  shows "auto_unlock_passphrase K V key w =
    (case r of
       Inl _ \<Rightarrow> (Fallback, u)
     | Inr p \<Rightarrow> (if isl (sk_decrypt K key p) then (Stale, snd (v_delete V (key_id K key) u))
                else (Passphrase p, u)))"
proof -
  have "auto_unlock V (key_id K key) w = (case r of Inl _ \<Rightarrow> None | Inr p \<Rightarrow> Some p, u)"
    using assms by (auto simp: auto_unlock_def effect_simps split: sum.splits biometric_error.splits)
  then show ?thesis
    by (auto simp: auto_unlock_passphrase_def effect_simps split: sum.splits prod.splits)
qed


section \<open>The promises of the trait\<close>

text \<open>
  Events that ask something of the user: a typed secret, the sensor being claimed or armed,
  a consent dialog. \<open>silent\<close> events are none of these; \<open>quiet\<close> events do not read a stored secret
  either, which is what makes the macOS Keychain ask. The laws are those of the trait's
  documentation: the availability probe, \<open>store\<close>, \<open>delete\<close> and \<open>list\<close> do not prompt, and
  \<open>retrieve\<close> reports \<open>NotEnrolled\<close> without prompting (by a look-up that finds nothing to read);
  the event \<open>gate\<close> precedes every released secret.
\<close>

definition silent :: "event \<Rightarrow> bool" where
  "silent e \<longleftrightarrow> \<not> secret_prompt e \<and> e \<notin> {Sensor Claim, Sensor VerifyStart, Sensor Consent}"

definition quiet :: "event \<Rightarrow> bool" where
  "quiet e \<longleftrightarrow> silent e \<and> (\<forall>a. e \<noteq> Keystore (KsRead a))"

definition vault_event :: "event \<Rightarrow> bool" where
  "vault_event e \<longleftrightarrow> (case e of Sensor _ \<Rightarrow> True | Keystore _ \<Rightarrow> True | Err (Text _) \<Rightarrow> True
     | Lib WorkerThread \<Rightarrow> True | _ \<Rightarrow> False)"

lemma quiet_simps [simp]:
  "quiet (Out j)" "quiet (Err j)" "quiet StdinRead" "quiet (FsRead f)" "quiet (FsWrite f)"
  "quiet (Agent a)" "quiet (Ssh h)" "quiet (Lib l)" "\<not> quiet (Prompt s)"
  by (simp_all add: quiet_def silent_def)

lemma quiet_Sensor [simp]: "quiet (Sensor c) \<longleftrightarrow> c \<notin> {Claim, VerifyStart, Consent}"
  by (simp add: quiet_def silent_def)

lemma quiet_Keystore [simp]: "quiet (Keystore k) \<longleftrightarrow> (\<forall>a. k \<noteq> KsRead a)"
  by (simp add: quiet_def silent_def)

lemma silent_Keystore [simp]: "silent (Keystore k)"
  by (simp add: silent_def)

lemma quiet_silent: "list_all quiet es \<Longrightarrow> list_all silent es"
  by (simp add: list_all_iff quiet_def)

lemma vault_event_simps [simp]:
  "vault_event (Sensor c)" "vault_event (Keystore k)" "vault_event (Err (Text s))"
  "vault_event (Lib WorkerThread)" "\<not> vault_event (Out j)" "\<not> vault_event (Prompt s)"
  "\<not> vault_event (FsWrite f)" "\<not> vault_event (Agent a)" "\<not> vault_event (Ssh h)"
  "\<not> vault_event StdinRead" "\<not> vault_event (FsRead f)"
  by (simp_all add: vault_event_def)

locale quiet_vault =
  fixes V :: "'x vault"
  assumes probe_quiet: "adds_only (\<lambda>e. vault_event e \<and> quiet e) (v_is_available V)"
    and store_quiet: "adds_only (\<lambda>e. vault_event e \<and> quiet e) (v_store V kid secret)"
    and delete_quiet: "adds_only (\<lambda>e. vault_event e \<and> quiet e) (v_delete V kid)"
    and list_quiet: "adds_only (\<lambda>e. vault_event e \<and> quiet e) (v_list V)"
    and retrieve_events: "adds_only vault_event (v_retrieve V kid)"
    and not_enrolled_silent:
      "v_retrieve V kid w = (Inl NotEnrolled, w') \<Longrightarrow>
       \<exists>es. w_trace w' = w_trace w @ es \<and> list_all silent es"
begin

lemma auto_unlock_events: "adds_only vault_event (auto_unlock V kid)"
  unfolding auto_unlock_def
  by (intro adds_let_do retrieve_events) (auto split: sum.splits biometric_error.splits intro: adds_intros)

lemma delete_events: "adds_only vault_event (v_delete V kid)"
  by (rule adds_only_mono[OF delete_quiet]) simp

text \<open>Unlocking by fingerprint never falls back to a typed secret by itself, never writes to
  standard output and never touches the agent or the transport.\<close>

lemma auto_unlock_passphrase_events: "adds_only vault_event (auto_unlock_passphrase K V key)"
  unfolding auto_unlock_passphrase_def Let_def
  by (intro adds_let_do auto_unlock_events) (auto split: option.splits intro!: adds_intros delete_events)

text \<open>A key that is not enrolled costs no prompt: the load falls back at once.\<close>

lemma not_enrolled_falls_back:
  assumes "v_retrieve V (key_id K key) w = (Inl NotEnrolled, w')"
  shows "auto_unlock_passphrase K V key w = (Fallback, w') \<and>
    (\<exists>es. w_trace w' = w_trace w @ es \<and> list_all silent es)"
  using not_enrolled_silent[OF assms] assms
  by (simp add: auto_unlock_passphrase_cases)

end

locale gated_vault = quiet_vault +
  fixes gate :: "event \<Rightarrow> bool"
  assumes release_gated:
    "v_retrieve V kid w = (Inr p, w') \<Longrightarrow>
     \<exists>es. w_trace w' = w_trace w @ es \<and> list_ex gate es"
begin

lemma unlock_gated:
  assumes "auto_unlock_passphrase K V key w = (Passphrase p, w')"
  shows "\<exists>es. w_trace w' = w_trace w @ es \<and> list_ex gate es"
proof -
  obtain r u where r: "v_retrieve V (key_id K key) w = (r, u)" by fastforce
  with assms have "r = Inr p" "u = w'"
    by (auto simp: auto_unlock_passphrase_cases split: sum.splits if_splits)
  with r release_gated show ?thesis by blast
qed

end

end
