(* ===== verification/Biometric_Linux.thy ===== *)
theory Biometric_Linux
  imports Biometric
begin

text \<open>
  \<open>gitway-cli/src/biometric/linux.rs\<close>: the fingerprint check over \<open>fprintd\<close> (system bus) and
  the Secret Service keyring (session bus). The D-Bus proxies and \<open>oo7\<close> are the record
  \<open>linux_ops\<close>, one type \<open>'h\<close> for all their handles; errors are their display texts. The
  status signals are the list of those delivered until the stream ends or the deadline of
  30 s elapses, in order of delivery, so that the loop over them is a recursion on the list.
  The worker thread and its runtime are the single operation \<open>lx_runtime\<close>, which may fail; a
  panic of that thread, which the code turns into a backend error, has no counterpart here.
\<close>

section \<open>The D-Bus services\<close>

text \<open>What \<open>tokio::time::timeout\<close> returns: the inner result or \<open>Elapsed\<close>.\<close>

datatype 'a timed = Elapsed | Done 'a

text \<open>One \<open>VerifyStatus\<close> signal: its arguments, or the error of decoding them.\<close>

type_synonym verify_signal = "string + string \<times> bool"

record ('x, 'h) linux_ops =
  lx_runtime :: "('x, string + unit) xop"
  lx_system_bus :: "('x, string + 'h) xop"
  lx_manager :: "'h \<Rightarrow> ('x, string + 'h) xop"
  lx_default_device :: "'h \<Rightarrow> ('x, string + string) xop"
  lx_default_device_timed :: "'h \<Rightarrow> ('x, (string + string) timed) xop"
  lx_device_path :: "'h \<Rightarrow> string \<Rightarrow> string + 'h"
  lx_device_build :: "'h \<Rightarrow> ('x, string + 'h) xop"
  lx_list_fingers :: "'h \<Rightarrow> string \<Rightarrow> ('x, string + string list) xop"
  lx_claim :: "'h \<Rightarrow> string \<Rightarrow> ('x, string + unit) xop"
  lx_release :: "'h \<Rightarrow> ('x, string + unit) xop"
  lx_subscribe :: "'h \<Rightarrow> ('x, string + 'h) xop"
  lx_verify_start :: "'h \<Rightarrow> string \<Rightarrow> ('x, string + unit) xop"
  lx_signals :: "'h \<Rightarrow> ('x, verify_signal list \<times> bool) xop"
  lx_verify_stop :: "'h \<Rightarrow> ('x, string + unit) xop"
  lx_keyring :: "('x, string + 'h) xop"
  lx_keyring_timed :: "('x, (string + 'h) timed) xop"
  lx_unlock :: "'h \<Rightarrow> ('x, string + unit) xop"
  lx_create_item :: "'h \<Rightarrow> string \<Rightarrow> (string \<times> string) list \<Rightarrow> string \<Rightarrow> bool \<Rightarrow> ('x, string + unit) xop"
  lx_search :: "'h \<Rightarrow> (string \<times> string) list \<Rightarrow> ('x, string + 'h list) xop"
  lx_item_secret :: "'h \<Rightarrow> ('x, string + string) xop"
  lx_item_attributes :: "'h \<Rightarrow> ('x, string + (string \<times> string) list) xop"
  lx_delete_items :: "'h \<Rightarrow> (string \<times> string) list \<Rightarrow> ('x, string + unit) xop"

section \<open>Helpers\<close>

definition app_attr :: "string \<times> string" where
  "app_attr = (''application'', ''gitway'')"

definition type_attr :: "string \<times> string" where
  "type_attr = (''type'', ''ssh-passphrase'')"

definition attributes :: "string \<Rightarrow> (string \<times> string) list" where
  "attributes kid =
     [app_attr, type_attr, (''key-id'', kid), (''fingerprint'', fingerprint_of kid)]"

definition backend_err :: "string \<Rightarrow> string \<Rightarrow> biometric_error" where
  "backend_err what e = Backend (what @ '': '' @ e)"

definition unavailable_err :: "string \<Rightarrow> string \<Rightarrow> biometric_error" where
  "unavailable_err what e = Unavailable (what @ '': '' @ e)"

definition timeout_result :: "'a timed \<Rightarrow> biometric_error + 'a" where
  "timeout_result t = (case t of
     Elapsed \<Rightarrow> Inl (Unavailable ''D-Bus call timed out'')
   | Done a \<Rightarrow> Inr a)"

definition run_blocking :: "('x, 'h) linux_ops \<Rightarrow> ('x, 'a) bio \<Rightarrow> ('x, 'a) bio" where
  "run_blocking L f =
     try_let (map_err (backend_err ''tokio runtime init'') (call (Lib WorkerThread) (lx_runtime L)))
       (\<lambda>_. f)"

definition hint :: "string \<Rightarrow> 'x world \<Rightarrow> unit \<times> 'x world" where
  "hint msg = let_do (get_s w_stderr_tty) (\<lambda>tty. if tty then eprintln msg else ret ())"

definition retry_message :: "string \<Rightarrow> string option" where
  "retry_message r =
     (if r = ''verify-retry-scan'' then
        Some (''Fingerprint not read cleanly '' @ em_dash @ '' touch the sensor again.'')
      else if r = ''verify-swipe-too-short'' then
        Some (''Swipe was too short '' @ em_dash @ '' touch the sensor again.'')
      else if r = ''verify-finger-not-centered'' then
        Some ''Center your finger on the sensor and try again.''
      else if r = ''verify-remove-and-retry'' then
        Some ''Remove your finger, then touch the sensor again.''
      else None)"

definition open_keyring :: "('x, 'h) linux_ops \<Rightarrow> ('x, 'h) bio" where
  "open_keyring L =
     try_let (map_err (unavailable_err ''keyring'') (call (Keystore KsOpen) (lx_keyring L))) (\<lambda>keyring.
     let_do (call (Keystore KsUnlock) (lx_unlock L keyring)) (\<lambda>_.
     ok keyring))"

section \<open>The fingerprint check\<close>

text \<open>The loop over the status signals. \<open>Done\<close> is the value of the inner future; running
  out of signals because the deadline elapsed is \<open>Elapsed\<close>.\<close>

fun scan_loop :: "verify_signal list \<Rightarrow> bool \<Rightarrow> 'x world \<Rightarrow> (biometric_error + bool) timed \<times> 'x world" where
  "scan_loop [] elapsed = ret (if elapsed then Elapsed else Done (Inr False))"
| "scan_loop (sig # sigs) elapsed =
     let_do (emit (Sensor (Status sig))) (\<lambda>_.
       case sig of
         Inl e \<Rightarrow> ret (Done (Inl (backend_err ''verify args'' e)))
       | Inr (result, done) \<Rightarrow>
           if done then ret (Done (Inr (result = ''verify-match'')))
           else let_do (case retry_message result of Some retry \<Rightarrow> hint retry | None \<Rightarrow> ret ())
             (\<lambda>_. scan_loop sigs elapsed))"

definition scan :: "('x, 'h) linux_ops \<Rightarrow> 'h \<Rightarrow> ('x, bool) bio" where
  "scan L device =
     try_let (map_err (backend_err ''verify signal'') (call (Sensor Subscribe) (lx_subscribe L device))) (\<lambda>status.
     try_let (map_err (backend_err ''verify start'')
        (call (Sensor VerifyStart) (lx_verify_start L device ''any''))) (\<lambda>_.
     let_do (hint (''Touch the fingerprint sensor to unlock the SSH key'' @ ellipsis)) (\<lambda>_.
     let_do (call (Sensor NextSignal) (lx_signals L status)) (\<lambda>(sigs, elapsed).
     let_do (scan_loop sigs elapsed) (\<lambda>matched.
     lift_res (case matched of Elapsed \<Rightarrow> Inr False | Done r \<Rightarrow> r))))))"

text \<open>\<open>verify_fingerprint\<close> in two parts: \<open>claim_and_scan\<close> is its end, from the claim of the
  device on.\<close>

definition claim_and_scan :: "('x, 'h) linux_ops \<Rightarrow> 'h \<Rightarrow> ('x, unit) bio" where
  "claim_and_scan L device =
     try_let (map_err (backend_err ''claim device'') (call (Sensor Claim) (lx_claim L device []))) (\<lambda>_.
     let_do (scan L device) (\<lambda>verdict.
     let_do (call (Sensor VerifyStop) (lx_verify_stop L device)) (\<lambda>_.
     let_do (call (Sensor ReleaseDevice) (lx_release L device)) (\<lambda>_.
     lift_res (case verdict of
         Inr True \<Rightarrow> Inr ()
       | Inr False \<Rightarrow> Inl Cancelled
       | Inl e \<Rightarrow> Inl e)))))"

definition verify_fingerprint :: "('x, 'h) linux_ops \<Rightarrow> ('x, unit) bio" where
  "verify_fingerprint L =
     try_let (map_err (unavailable_err ''system bus'') (call (Sensor BusConnect) (lx_system_bus L))) (\<lambda>conn.
     try_let (map_err (unavailable_err ''fprintd manager'') (call (Sensor DeviceProxy) (lx_manager L conn))) (\<lambda>manager.
     try_let (map_err (unavailable_err ''no fingerprint device'')
        (call (Sensor GetDevice) (lx_default_device L manager))) (\<lambda>device_path.
     try_let (map_err (backend_err ''device path'') (lift_res (lx_device_path L conn device_path))) (\<lambda>builder.
     try_let (map_err (backend_err ''device proxy'') (call (Sensor DeviceProxy) (lx_device_build L builder))) (\<lambda>device.
     let_do (call (Sensor ListFingers) (lx_list_fingers L device [])) (\<lambda>fingers.
     if (case fingers of Inl _ \<Rightarrow> [] | Inr fs \<Rightarrow> fs) = [] then
       fail (Unavailable ''no fingerprints are enrolled with fprintd (run `fprintd-enroll`)'')
     else claim_and_scan L device))))))"

section \<open>The vault\<close>

definition linux_is_available :: "('x, 'h) linux_ops \<Rightarrow> 'x world \<Rightarrow> bool \<times> 'x world" where
  "linux_is_available L =
     let_do (run_blocking L (
       try_let (map_err (unavailable_err ''system bus'') (call (Sensor BusConnect) (lx_system_bus L))) (\<lambda>conn.
       try_let (map_err (unavailable_err ''fprintd manager'') (call (Sensor DeviceProxy) (lx_manager L conn))) (\<lambda>mgr.
       let_do (call (Sensor GetDevice) (lx_default_device_timed L mgr)) (\<lambda>dev.
       try_let (lift_res (timeout_result dev)) (\<lambda>dev.
       try_let (map_err (unavailable_err ''no fingerprint device'') (lift_res dev)) (\<lambda>_.
       let_do (call (Keystore KsProbe) (lx_keyring_timed L)) (\<lambda>kr.
       try_let (lift_res (timeout_result kr)) (\<lambda>kr.
       try_let (map_err (unavailable_err ''no keyring'') (lift_res kr)) (\<lambda>_. ok ()))))))))))
       (\<lambda>r. ret (\<not> isl r))"

definition linux_store :: "('x, 'h) linux_ops \<Rightarrow> string \<Rightarrow> string \<Rightarrow> ('x, unit) bio" where
  "linux_store L kid secret = run_blocking L (
     try_let (open_keyring L) (\<lambda>keyring.
     let attrs = attributes kid;
         label = ''Gitway SSH passphrase ('' @ fingerprint_of kid @ '')''
     in try_let (map_err (backend_err ''keyring write'')
          (call (Keystore (KsWrite kid)) (lx_create_item L keyring label attrs secret True)))
          (\<lambda>_. ok ())))"

definition linux_retrieve :: "('x, 'h) linux_ops \<Rightarrow> string \<Rightarrow> ('x, string) bio" where
  "linux_retrieve L kid = run_blocking L (
     try_let (open_keyring L) (\<lambda>keyring.
     try_let (map_err (backend_err ''keyring search'')
        (call (Keystore (KsSearch kid)) (lx_search L keyring (attributes kid)))) (\<lambda>items.
     case items of
       [] \<Rightarrow> fail NotEnrolled
     | item # _ \<Rightarrow>
         try_let (verify_fingerprint L) (\<lambda>_.
         try_let (map_err (backend_err ''keyring read'')
            (call (Keystore (KsRead kid)) (lx_item_secret L item))) (\<lambda>bytes.
         if valid_utf8 bytes then ok bytes
         else fail (Backend ''stored passphrase is not valid UTF-8''))))))"

definition linux_delete :: "('x, 'h) linux_ops \<Rightarrow> string \<Rightarrow> ('x, unit) bio" where
  "linux_delete L kid = run_blocking L (
     try_let (open_keyring L) (\<lambda>keyring.
     try_let (map_err (backend_err ''keyring search'')
        (call (Keystore (KsSearch kid)) (lx_search L keyring (attributes kid)))) (\<lambda>items.
     if items = [] then fail NotEnrolled
     else try_let (map_err (backend_err ''keyring delete'')
        (call (Keystore (KsDelete kid)) (lx_delete_items L keyring (attributes kid)))) (\<lambda>_. ok ()))))"

definition enrolled_of_attributes :: "(string \<times> string) list \<Rightarrow> enrolled_key" where
  "enrolled_of_attributes attrs =
     \<lparr>ek_fingerprint = (case map_of attrs ''fingerprint'' of
          Some fp \<Rightarrow> fp
        | None \<Rightarrow> (case map_of attrs ''key-id'' of Some k \<Rightarrow> fingerprint_of k | None \<Rightarrow> [])),
      ek_comment = map_of attrs ''comment''\<rparr>"

definition linux_list :: "('x, 'h) linux_ops \<Rightarrow> ('x, enrolled_key list) bio" where
  "linux_list L = run_blocking L (
     try_let (open_keyring L) (\<lambda>keyring.
     try_let (map_err (backend_err ''keyring search'')
        (call (Keystore (KsSearch [])) (lx_search L keyring [app_attr, type_attr]))) (\<lambda>items.
     for_try (\<lambda>item enrolled.
         try_let (map_err (backend_err ''keyring attributes'')
            (call (Keystore KsList) (lx_item_attributes L item))) (\<lambda>attrs.
         ok (enrolled @ [enrolled_of_attributes attrs])))
       items [])))"

definition linux_vault :: "('x, 'h) linux_ops \<Rightarrow> 'x vault" where
  "linux_vault L = \<lparr>v_is_available = linux_is_available L, v_binding_tier = Advisory,
     v_store = linux_store L, v_retrieve = linux_retrieve L, v_delete = linux_delete L,
     v_list = linux_list L\<rparr>"

section \<open>The scan\<close>

text \<open>What decides a scan: the first signal that cannot be decoded or that is terminal.\<close>

definition decisive :: "verify_signal \<Rightarrow> bool" where
  "decisive s = (case s of Inl _ \<Rightarrow> True | Inr (_, done) \<Rightarrow> done)"

definition scan_verdict :: "verify_signal list \<Rightarrow> bool \<Rightarrow> biometric_error + bool" where
  "scan_verdict sigs elapsed = (case find decisive sigs of
     None \<Rightarrow> Inr False
   | Some (Inl e) \<Rightarrow> Inl (backend_err ''verify args'' e)
   | Some (Inr (r, _)) \<Rightarrow> Inr (r = ''verify-match''))"

lemma adds_hint [adds_intros]: "P (Err (Text m)) \<Longrightarrow> adds_only P (hint m)"
  unfolding hint_def by (auto intro!: adds_intros)

lemma traced_hint [traced_intros]: "(\<And>es. list_all vault_event es \<and> list_all quiet es \<Longrightarrow> Q () es) \<Longrightarrow> traced (hint m) Q"
  unfolding hint_def by (auto intro!: traced_intros)

lemma scan_loop_verdict:
  "(case fst (scan_loop sigs elapsed w) of Elapsed \<Rightarrow> Inr False | Done r \<Rightarrow> r) = scan_verdict sigs elapsed"
proof (induction sigs arbitrary: w)
  case Nil
  then show ?case by (simp add: scan_verdict_def effect_simps)
next
  case (Cons s sigs)
  then show ?case
    by (auto simp: scan_verdict_def decisive_def effect_simps split: sum.splits prod.splits)
qed

lemma adds_scan_loop [adds_intros]:
  assumes "\<And>s. P (Sensor (Status s))" and "\<And>m. P (Err (Text m))"
  shows "adds_only P (scan_loop sigs elapsed)"
proof (induction sigs)
  case (Cons s sigs)
  then show ?case
    using assms by (auto intro!: adds_intros split: sum.splits option.splits)
qed (auto intro: adds_intros)

lemma adds_scan [adds_intros]:
  assumes "P (Sensor Subscribe)" "P (Sensor VerifyStart)" "P (Sensor NextSignal)"
    "\<And>s. P (Sensor (Status s))" "\<And>m. P (Err (Text m))"
  shows "adds_only P (scan L device)"
  unfolding scan_def using assms by (intro adds_intros) auto

text \<open>The signal that accepts a scan, and what a run of the loop records of it: the loop ends
  with the first decisive signal, so a match is the last thing it has seen.\<close>

definition match_signal :: event where
  "match_signal = Sensor (Status (Inr (''verify-match'', True)))"

lemma scan_loop_match:
  "traced (scan_loop sigs elapsed) (\<lambda>r es. r = Done (Inr True) \<longrightarrow> suffix [match_signal] es)"
proof (induction sigs)
  case (Cons s sigs)
  then show ?case
    by (auto intro!: traced_intros traced_mono[OF Cons.IH]
        split: sum.splits option.splits simp: match_signal_def suffix_ConsI suffix_appendI)
qed (auto intro: traced_ret)

lemma traced_scan_loop [traced_intros]:
  assumes "\<And>r es. (case r of Elapsed \<Rightarrow> Inr False | Done v \<Rightarrow> v) = scan_verdict sigs elapsed \<Longrightarrow>
    r = Done (Inr True) \<longrightarrow> suffix [match_signal] es \<Longrightarrow> Q r es"
  shows "traced (scan_loop sigs elapsed) Q"
  using scan_loop_match[of sigs elapsed] scan_loop_verdict[of sigs elapsed] assms
  unfolding traced_def by fastforce

text \<open>A scan succeeds only on a terminal match delivered before the deadline.\<close>

lemma scan_verdict_True: "scan_verdict sigs elapsed = Inr True \<longleftrightarrow>
    find decisive sigs = Some (Inr (''verify-match'', True))"
  by (induction sigs) (auto simp: scan_verdict_def decisive_def split: option.splits sum.splits)

lemma scan_verdict_error: "scan_verdict sigs elapsed \<noteq> Inl NotEnrolled"
  by (induction sigs) (auto simp: scan_verdict_def backend_err_def split: option.splits sum.splits)

lemma scan_result:
  "traced (scan L device) (\<lambda>r es. r \<noteq> Inl NotEnrolled \<and>
     (r = Inr True \<longrightarrow> suffix [match_signal] es \<and> Sensor VerifyStart \<in> set es))"
proof -
  have "r \<noteq> Inl NotEnrolled \<and> (r = Inr True \<longrightarrow> suffix [match_signal] es)"
    if "r = scan_verdict sigs elapsed" "v = Done (Inr True) \<longrightarrow> suffix [match_signal] es"
      "r = (case v of Elapsed \<Rightarrow> Inr False | Done v \<Rightarrow> v)" for r v sigs elapsed es
    using that by (auto simp: scan_verdict_error split: timed.splits)
  note loop = this[OF _ _ refl]
  show ?thesis
    unfolding scan_def
    by (auto intro!: traced_intros split: sum.splits dest!: loop
        simp: backend_err_def suffix_ConsI suffix_appendI)
qed

section \<open>Releasing the device\<close>

text \<open>Once the device is claimed, every run stops the verification and releases the device
  at its end, whatever the scan returned.\<close>

definition released :: "event list \<Rightarrow> bool" where
  "released es \<longleftrightarrow> suffix [Sensor VerifyStop, Sensor ReleaseDevice] es"

lemma released_append [simp]: "released (es @ [Sensor VerifyStop, Sensor ReleaseDevice])"
  by (simp add: released_def suffix_def)

text \<open>The end of a session that matched: no other signal behind the match.\<close>

definition matched_session :: "event list \<Rightarrow> bool" where
  "matched_session es \<longleftrightarrow> suffix [match_signal, Sensor VerifyStop, Sensor ReleaseDevice] es"

lemma matched_session_append [intro, simp]:
  "matched_session es \<Longrightarrow> matched_session (pre @ es)" "matched_session es \<Longrightarrow> matched_session (e # es)"
  "suffix [match_signal] es \<Longrightarrow> matched_session (es @ [Sensor VerifyStop, Sensor ReleaseDevice])"
  by (auto simp: matched_session_def suffix_def)

lemma claim_and_scan_releases:
  "traced (claim_and_scan L device) (\<lambda>r es. es = [Sensor Claim] \<and> isl r \<or> released es)"
proof -
  have "traced (scan L device) (\<lambda>r es. True)"
    by (rule traced_mono[OF scan_result]) simp
  then show ?thesis
    unfolding claim_and_scan_def
    by (auto intro!: traced_intros split: sum.splits
        elim!: traced_mono simp: released_def suffix_def)
qed

lemma claim_and_scan_result:
  "traced (claim_and_scan L device) (\<lambda>r es. r \<noteq> Inl NotEnrolled \<and>
     (r = Inr () \<longrightarrow> matched_session es \<and> Sensor VerifyStart \<in> set es))"
  unfolding claim_and_scan_def
  by (auto intro!: traced_intros traced_mono[OF scan_result] split: sum.splits bool.splits
      simp: backend_err_def)

lemma adds_verify_fingerprint [adds_intros]: "adds_only vault_event (verify_fingerprint L)"
  unfolding verify_fingerprint_def claim_and_scan_def by (auto intro!: adds_intros)

lemma verify_fingerprint_releases:
  "traced (verify_fingerprint L)
     (\<lambda>r es. list_all quiet (butlast es) \<and> isl r \<or> released es)"
  unfolding verify_fingerprint_def
  by (auto intro!: traced_intros traced_mono[OF claim_and_scan_releases] split: sum.splits
      simp: released_def suffix_def)

lemma verify_fingerprint_result:
  "traced (verify_fingerprint L) (\<lambda>r es. r \<noteq> Inl NotEnrolled \<and>
     (r = Inr () \<longrightarrow> matched_session es \<and> Sensor VerifyStart \<in> set es))"
  unfolding verify_fingerprint_def
  by (auto intro!: traced_intros traced_mono[OF claim_and_scan_result] split: sum.splits
      simp: backend_err_def unavailable_err_def)

section \<open>The laws of the vault\<close>

lemma adds_open_keyring [adds_intros]:
  "P (Keystore KsOpen) \<Longrightarrow> P (Keystore KsUnlock) \<Longrightarrow> adds_only P (open_keyring L)"
  unfolding open_keyring_def by (auto intro!: adds_intros)

lemma adds_run_blocking [adds_intros]:
  "P (Lib WorkerThread) \<Longrightarrow> adds_only P f \<Longrightarrow> adds_only P (run_blocking L f)"
  unfolding run_blocking_def by (auto intro!: adds_intros)

lemma traced_open_keyring [traced_intros]:
  "(\<And>r es. list_all vault_event es \<Longrightarrow> list_all quiet es \<Longrightarrow> r \<noteq> Inl NotEnrolled \<Longrightarrow> Q r es) \<Longrightarrow>
   traced (open_keyring L) Q"
  unfolding open_keyring_def
  by (auto intro!: traced_intros split: sum.splits simp: unavailable_err_def)

lemma linux_retrieve_result:
  "traced (linux_retrieve L kid) (\<lambda>r es. (r = Inl NotEnrolled \<longrightarrow> list_all quiet es) \<and>
     (\<forall>p. r = Inr p \<longrightarrow> Sensor VerifyStart \<in> set es \<and> valid_utf8 p))"
  unfolding linux_retrieve_def run_blocking_def
  by (auto intro!: traced_intros traced_mono[OF verify_fingerprint_result] split: sum.splits
      simp: backend_err_def)

interpretation linux: gated_vault "linux_vault L" "\<lambda>e. e = Sensor VerifyStart"
  for L :: "('x, 'h) linux_ops"
proof (unfold_locales, goal_cases)
  case 1
  show ?case by (auto simp: linux_vault_def linux_is_available_def intro!: adds_intros)
next
  case (2 kid secret)
  show ?case by (auto simp: linux_vault_def linux_store_def intro!: adds_intros)
next
  case (3 kid)
  show ?case by (auto simp: linux_vault_def linux_delete_def intro!: adds_intros)
next
  case 4
  show ?case by (auto simp: linux_vault_def linux_list_def intro!: adds_intros)
next
  case (5 kid)
  show ?case by (auto simp: linux_vault_def linux_retrieve_def intro!: adds_intros)
next
  case (6 kid w w')
  then have "linux_retrieve L kid w = (Inl NotEnrolled, w')" by (simp add: linux_vault_def)
  then show ?case by (rule tracedE[OF linux_retrieve_result]) (auto dest: quiet_silent)
next
  case (7 kid w p w')
  then have "linux_retrieve L kid w = (Inr p, w')" by (simp add: linux_vault_def)
  then show ?case by (rule tracedE[OF linux_retrieve_result]) (auto simp: list_ex_iff)
qed

end
