(* ===== verification/Biometric_Native.thy ===== *)
theory Biometric_Native
  imports Biometric_Linux "HOL-Library.Word"
begin

text \<open>
  The other backends of the vault: \<open>biometric/macos.rs\<close> (Keychain items with a user-presence
  access control), \<open>biometric/windows.rs\<close> (Credential Locker behind a Hello consent dialog)
  and \<open>biometric/unsupported.rs\<close>, with the choice between them that the build configuration
  makes in \<open>biometric/mod.rs\<close>. The Keychain and WinRT calls are the records \<open>keychain_ops\<close>
  and \<open>winrt_ops\<close>. The worker thread of \<open>windows.rs\<close> only moves the call, so it has no
  effect in the model.
\<close>

definition service_name :: string where
  "service_name = ''org.SpacecraftSoftware.gitway.ssh-passphrase''"

definition account_of :: "string \<Rightarrow> string" where
  "account_of kid = fingerprint_of kid"

section \<open>macOS\<close>

text \<open>A Keychain error is its \<open>OSStatus\<close>. A search result is a dictionary, which simplifies to
  text attributes or does not, or something else.\<close>

datatype search_result = Dict "(string \<times> string) list option" | OtherResult

text \<open>\<open>PasswordOptions\<close> and \<open>ItemSearchOptions\<close> as far as the backend sets them.\<close>

datatype access_control = UserPresence

record password_options =
  pw_service :: string
  pw_account :: string
  pw_access_control :: "access_control option"
  pw_label :: "string option"

definition new_generic_password :: "string \<Rightarrow> string \<Rightarrow> password_options" where
  "new_generic_password service account = \<lparr>pw_service = service, pw_account = account,
     pw_access_control = None, pw_label = None\<rparr>"

record search_options =
  so_service :: string
  so_load_attributes :: bool
  so_load_data :: bool
  so_all :: bool

record 'x keychain_ops =
  kc_delete :: "string \<Rightarrow> string \<Rightarrow> ('x, int + unit) xop"
  kc_set :: "string \<Rightarrow> password_options \<Rightarrow> ('x, int + unit) xop"
  kc_get :: "password_options \<Rightarrow> ('x, int + string) xop"
  kc_search :: "search_options \<Rightarrow> ('x, int + search_result list) xop"

text \<open>A search that loads the data of the items reads their secrets.\<close>

definition search_event :: "search_options \<Rightarrow> event" where
  "search_event options =
     Keystore (if so_load_data options then KsRead (so_service options) else KsList)"

definition err_sec_item_not_found :: int where "err_sec_item_not_found = -25300"
definition err_sec_user_canceled :: int where "err_sec_user_canceled = -128"
definition err_sec_auth_failed :: int where "err_sec_auth_failed = -25293"

definition mac_map_error :: "int \<Rightarrow> biometric_error" where
  "mac_map_error code =
     (if code = err_sec_item_not_found then NotEnrolled
      else if code = err_sec_user_canceled \<or> code = err_sec_auth_failed then Cancelled
      else Backend (''keychain error '' @ show_int code))"

definition mac_store :: "'x keychain_ops \<Rightarrow> string \<Rightarrow> string \<Rightarrow> ('x, unit) bio" where
  "mac_store M kid secret =
     (let account = account_of kid
      in let_do (call (Keystore (KsDelete account)) (kc_delete M service_name account)) (\<lambda>_.
         let options = (new_generic_password service_name account)
               \<lparr>pw_access_control := Some UserPresence,
                pw_label := Some (''Gitway SSH passphrase ('' @ account @ '')'')\<rparr>
         in map_err mac_map_error
              (call (Keystore (KsWrite account)) (kc_set M secret options))))"

definition mac_retrieve :: "'x keychain_ops \<Rightarrow> string \<Rightarrow> ('x, string) bio" where
  "mac_retrieve M kid =
     (let options = new_generic_password service_name (account_of kid)
      in try_let (map_err mac_map_error
           (call (Keystore (KsRead (account_of kid))) (kc_get M options))) (\<lambda>bytes.
         if valid_utf8 bytes then ok bytes
         else fail (Backend ''stored passphrase is not valid UTF-8'')))"

definition mac_delete :: "'x keychain_ops \<Rightarrow> string \<Rightarrow> ('x, unit) bio" where
  "mac_delete M kid =
     map_err mac_map_error
       (call (Keystore (KsDelete (account_of kid))) (kc_delete M service_name (account_of kid)))"

fun mac_enrolled :: "search_result list \<Rightarrow> enrolled_key list" where
  "mac_enrolled [] = []"
| "mac_enrolled (Dict (Some attrs) # rs) =
     \<lparr>ek_fingerprint = (case map_of attrs ''acct'' of Some a \<Rightarrow> a | None \<Rightarrow> []),
      ek_comment = map_of attrs ''icmt''\<rparr> # mac_enrolled rs"
| "mac_enrolled (r # rs) = mac_enrolled rs"

definition mac_list :: "'x keychain_ops \<Rightarrow> ('x, enrolled_key list) bio" where
  "mac_list M =
     (let options = \<lparr>so_service = service_name, so_load_attributes = True, so_load_data = False,
                     so_all = True\<rparr>
      in let_do (call (search_event options) (kc_search M options)) (\<lambda>r. case r of
           Inr results \<Rightarrow> ok (mac_enrolled results)
         | Inl code \<Rightarrow> if code = err_sec_item_not_found then ok [] else fail (mac_map_error code)))"

definition mac_vault :: "'x keychain_ops \<Rightarrow> 'x vault" where
  "mac_vault M = \<lparr>v_is_available = ret True, v_binding_tier = HardwareBound,
     v_store = mac_store M, v_retrieve = mac_retrieve M, v_delete = mac_delete M,
     v_list = mac_list M\<rparr>"

text \<open>Reading the item is what raises the Touch ID prompt if the item is guarded, so that read is the
  gate; that the items of the program are guarded is the matter of \<open>presence_law\<close>.\<close>

interpretation mac: gated_vault "mac_vault M" "\<lambda>e. \<exists>a. e = Keystore (KsRead a)"
  for M :: "'x keychain_ops"
proof (unfold_locales, goal_cases)
  case (6 kid w w')
  then have "mac_retrieve M kid w = (Inl NotEnrolled, w')" by (simp add: mac_vault_def)
  moreover have "traced (mac_retrieve M kid) (\<lambda>r es. list_all silent es)"
    unfolding mac_retrieve_def Let_def by (auto intro!: traced_intros split: sum.splits)
  ultimately show ?case by (blast elim: tracedE)
next
  case (7 kid w p w')
  then have "mac_retrieve M kid w = (Inr p, w')" by (simp add: mac_vault_def)
  moreover have "traced (mac_retrieve M kid) (\<lambda>r es. list_ex (\<lambda>e. \<exists>a. e = Keystore (KsRead a)) es)"
    unfolding mac_retrieve_def Let_def by (auto intro!: traced_intros split: sum.splits)
  ultimately show ?case by (blast elim: tracedE)
qed (auto simp: mac_vault_def mac_store_def mac_delete_def mac_list_def mac_retrieve_def
      search_event_def Let_def intro!: adds_intros)

section \<open>Windows\<close>

record win_error =
  we_code :: int
  we_text :: string

record ('x, 'h) winrt_ops =
  wr_check_availability :: "('x, string + 'h) xop"
  wr_availability :: "'h \<Rightarrow> ('x, string + bool) xop"
  wr_request_verification :: "string \<Rightarrow> ('x, string + 'h) xop"
  wr_verified :: "'h \<Rightarrow> ('x, string + bool) xop"
  wr_locker :: "('x, string + 'h) xop"
  wr_find :: "'h \<Rightarrow> string \<Rightarrow> string \<Rightarrow> ('x, win_error + 'h) xop"
  wr_remove :: "'h \<Rightarrow> 'h \<Rightarrow> ('x, string + unit) xop"
  wr_create_credential :: "string \<Rightarrow> string \<Rightarrow> string \<Rightarrow> string + 'h"
  wr_add :: "'h \<Rightarrow> 'h \<Rightarrow> ('x, string + unit) xop"
  wr_password :: "'h \<Rightarrow> ('x, string + string) xop"
  wr_find_all :: "'h \<Rightarrow> string \<Rightarrow> ('x, win_error + 'h list) xop"
  wr_user_name :: "'h \<Rightarrow> ('x, string + string) xop"

text \<open>\<open>0x8007_0490u32 as i32\<close>.\<close>

definition error_not_found :: int where
  "error_not_found = sint (2147943568 :: 32 word)"

definition verify_consent :: "('x, 'h) winrt_ops \<Rightarrow> ('x, unit) bio" where
  "verify_consent W =
     try_let (map_err (backend_err ''hello request'')
        (call (Sensor Consent) (wr_request_verification W ''Unlock your SSH key''))) (\<lambda>operation.
     try_let (map_err (backend_err ''hello result'')
        (call (Sensor ConsentResult) (wr_verified W operation))) (\<lambda>verified.
     if verified then ok () else fail Cancelled))"

definition win_is_available :: "('x, 'h) winrt_ops \<Rightarrow> 'x world \<Rightarrow> bool \<times> 'x world" where
  "win_is_available W =
     let_do (
       try_let (map_err (unavailable_err ''hello availability'')
          (call (Sensor CheckConsent) (wr_check_availability W))) (\<lambda>operation.
       try_let (map_err (unavailable_err ''hello availability'')
          (call (Sensor CheckConsent) (wr_availability W operation))) (\<lambda>available.
       if available then ok ()
       else fail (Unavailable ''Windows Hello is not available or not configured''))))
     (\<lambda>r. ret (\<not> isl r))"

definition win_locker :: "('x, 'h) winrt_ops \<Rightarrow> ('x, 'h) bio" where
  "win_locker W =
     map_err (backend_err ''credential locker'') (call (Keystore KsOpen) (wr_locker W))"

definition locker_error :: "string \<Rightarrow> win_error \<Rightarrow> biometric_error" where
  "locker_error what e =
     (if we_code e = error_not_found then NotEnrolled else backend_err what (we_text e))"

definition win_store :: "('x, 'h) winrt_ops \<Rightarrow> string \<Rightarrow> string \<Rightarrow> ('x, unit) bio" where
  "win_store W kid secret =
     (let account = account_of kid
      in try_let (win_locker W) (\<lambda>locker.
         let_do (call (Keystore (KsSearch account)) (wr_find W locker service_name account)) (\<lambda>found.
         let_do (case found of
             Inr existing \<Rightarrow> let_do (call (Keystore (KsDelete account)) (wr_remove W locker existing)) (\<lambda>_. ret ())
           | Inl _ \<Rightarrow> ret ()) (\<lambda>_.
         try_let (map_err (backend_err ''create credential'')
            (lift_res (wr_create_credential W service_name account secret))) (\<lambda>credential.
         map_err (backend_err ''locker write'')
           (call (Keystore (KsWrite account)) (wr_add W locker credential)))))))"

definition win_retrieve :: "('x, 'h) winrt_ops \<Rightarrow> string \<Rightarrow> ('x, string) bio" where
  "win_retrieve W kid =
     (let account = account_of kid
      in try_let (win_locker W) (\<lambda>locker.
         try_let (map_err (locker_error ''locker read'')
            (call (Keystore (KsSearch account)) (wr_find W locker service_name account))) (\<lambda>credential.
         try_let (verify_consent W) (\<lambda>_.
         try_let (map_err (backend_err ''locker password'')
            (call (Keystore (KsRead account)) (wr_password W credential))) (\<lambda>text.
         if text = [] then fail (Backend ''stored passphrase was empty'') else ok text)))))"

definition win_delete :: "('x, 'h) winrt_ops \<Rightarrow> string \<Rightarrow> ('x, unit) bio" where
  "win_delete W kid =
     (let account = account_of kid
      in try_let (win_locker W) (\<lambda>locker.
         try_let (map_err (locker_error ''locker read'')
            (call (Keystore (KsSearch account)) (wr_find W locker service_name account))) (\<lambda>credential.
         map_err (backend_err ''locker delete'')
           (call (Keystore (KsDelete account)) (wr_remove W locker credential)))))"

definition win_list :: "('x, 'h) winrt_ops \<Rightarrow> ('x, enrolled_key list) bio" where
  "win_list W =
     try_let (win_locker W) (\<lambda>locker.
     let_do (call (Keystore KsList) (wr_find_all W locker service_name)) (\<lambda>found.
     case found of
       Inl e \<Rightarrow> if we_code e = error_not_found then ok []
                else fail (backend_err ''locker list'' (we_text e))
     | Inr creds \<Rightarrow>
         for_try (\<lambda>credential enrolled.
             let_do (call (Keystore KsList) (wr_user_name W credential)) (\<lambda>name.
             ok (enrolled @ [\<lparr>ek_fingerprint = (case name of Inr n \<Rightarrow> n | Inl _ \<Rightarrow> []),
                              ek_comment = None\<rparr>])))
           creds []))"

definition windows_vault :: "('x, 'h) winrt_ops \<Rightarrow> 'x vault" where
  "windows_vault W = \<lparr>v_is_available = win_is_available W, v_binding_tier = DpapiConsent,
     v_store = win_store W, v_retrieve = win_retrieve W, v_delete = win_delete W,
     v_list = win_list W\<rparr>"

lemma error_not_found_value: "error_not_found = - 2147023728"
  by (simp add: error_not_found_def)

lemma adds_win_locker [adds_intros]: "P (Keystore KsOpen) \<Longrightarrow> adds_only P (win_locker W)"
  unfolding win_locker_def by (auto intro!: adds_intros)

lemma adds_verify_consent [adds_intros]:
  "P (Sensor Consent) \<Longrightarrow> P (Sensor ConsentResult) \<Longrightarrow> adds_only P (verify_consent W)"
  unfolding verify_consent_def by (auto intro!: adds_intros)

lemma traced_verify_consent [traced_intros]:
  "(\<And>r es. r \<noteq> Inl NotEnrolled \<Longrightarrow> r = Inr () \<longrightarrow> Sensor Consent \<in> set es \<Longrightarrow> Q r es) \<Longrightarrow>
   traced (verify_consent W) Q"
  unfolding verify_consent_def
  by (auto intro!: traced_intros split: sum.splits simp: backend_err_def)

lemma win_retrieve_result:
  "traced (win_retrieve W kid) (\<lambda>r es. (r = Inl NotEnrolled \<longrightarrow> list_all quiet es) \<and>
     (\<forall>p. r = Inr p \<longrightarrow> Sensor Consent \<in> set es \<and> p \<noteq> []))"
  unfolding win_retrieve_def win_locker_def Let_def
  by (auto intro!: traced_intros split: sum.splits simp: backend_err_def)

interpretation win: gated_vault "windows_vault W" "\<lambda>e. e = Sensor Consent"
  for W :: "('x, 'h) winrt_ops"
proof (unfold_locales, goal_cases)
  case (6 kid w w')
  then have "win_retrieve W kid w = (Inl NotEnrolled, w')" by (simp add: windows_vault_def)
  then show ?case by (rule tracedE[OF win_retrieve_result]) (auto dest: quiet_silent)
next
  case (7 kid w p w')
  then have "win_retrieve W kid w = (Inr p, w')" by (simp add: windows_vault_def)
  then show ?case by (rule tracedE[OF win_retrieve_result]) (auto simp: list_ex_iff)
qed (auto simp: windows_vault_def win_is_available_def win_store_def win_delete_def win_list_def
      win_retrieve_def Let_def intro!: adds_intros)

section \<open>No backend\<close>

text \<open>The feature flag picks the reason at build time.\<close>

definition unsupported_reason :: "bool \<Rightarrow> biometric_error" where
  "unsupported_reason feature =
     Unavailable (if \<not> feature then ''this build was compiled without the `biometric` feature''
                  else ''no biometric backend is available for this platform'')"

definition unsupported_vault :: "bool \<Rightarrow> 'x vault" where
  "unsupported_vault feature = \<lparr>v_is_available = ret False, v_binding_tier = UnsupportedTier,
     v_store = (\<lambda>_ _. fail (unsupported_reason feature)),
     v_retrieve = (\<lambda>_. fail (unsupported_reason feature)),
     v_delete = (\<lambda>_. fail (unsupported_reason feature)),
     v_list = fail (unsupported_reason feature)\<rparr>"

interpretation unsupported: gated_vault "unsupported_vault feature" "\<lambda>e. False" for feature
  by unfold_locales
    (auto simp: unsupported_vault_def unsupported_reason_def effect_simps intro!: adds_intros)

section \<open>The backend of a build\<close>

datatype target_os = Linux | Macos | Windows | OtherOs

record ('x, 'h) platform =
  pf_linux :: "('x, 'h) linux_ops"
  pf_keychain :: "'x keychain_ops"
  pf_winrt :: "('x, 'h) winrt_ops"

definition backend :: "bool \<Rightarrow> target_os \<Rightarrow> ('x, 'h) platform \<Rightarrow> 'x vault" where
  "backend feature os P =
     (if \<not> feature then unsupported_vault feature
      else case os of
        Linux \<Rightarrow> linux_vault (pf_linux P)
      | Macos \<Rightarrow> mac_vault (pf_keychain P)
      | Windows \<Rightarrow> windows_vault (pf_winrt P)
      | OtherOs \<Rightarrow> unsupported_vault feature)"

text \<open>The event that stands before every secret that a backend releases: the start of a fingerprint
  verification, the Windows consent dialog, or the look-up of a Keychain item.\<close>

definition release_gate :: "target_os \<Rightarrow> event \<Rightarrow> bool" where
  "release_gate os = (\<lambda>e. case os of
     Linux \<Rightarrow> e = Sensor VerifyStart
   | Macos \<Rightarrow> (\<exists>a. e = Keystore (KsRead a))
   | Windows \<Rightarrow> e = Sensor Consent
   | OtherOs \<Rightarrow> False)"

text \<open>A build without the feature has no presence to ask for and releases nothing.\<close>

lemma unsupported_gated: "gated_vault (unsupported_vault feature) gate"
  by unfold_locales
    (auto simp: unsupported_vault_def unsupported_reason_def effect_simps intro!: adds_intros)

text \<open>Whatever the build, the vault keeps the promises of the trait.\<close>

interpretation build: gated_vault "backend feature os P" "release_gate os"
  for feature os and P :: "('x, 'h) platform"
proof -
  have "gated_vault (linux_vault (pf_linux P)) (release_gate Linux)"
    using linux.gated_vault_axioms by (simp add: release_gate_def)
  moreover have "gated_vault (mac_vault (pf_keychain P)) (release_gate Macos)"
    using mac.gated_vault_axioms by (simp add: release_gate_def)
  moreover have "gated_vault (windows_vault (pf_winrt P)) (release_gate Windows)"
    using win.gated_vault_axioms by (simp add: release_gate_def)
  ultimately show "gated_vault (backend feature os P) (release_gate os)"
    unfolding backend_def by (cases os) (auto simp: unsupported_gated)
qed

end
