(* ===== verification/Passphrase.thy ===== *)
theory Passphrase
  imports Biometric_Native
begin

text \<open>
  How a key passphrase is obtained (\<open>gitway-cli/src/main.rs\<close>): the stored one behind a
  fingerprint, then the \<open>SSH_ASKPASS\<close> program, then the terminal. The record \<open>deps\<close> holds
  what these functions take from elsewhere: \<open>ssh_key\<close>, the vault of the build,
  \<open>rpassword\<close>, the launch of a program with one argument, and whether the target is Unix.
\<close>

record process_output =
  po_success :: bool
  po_status :: string
  po_stdout :: string

record ('x, 'k, 'p) deps =
  d_keys :: "('k, 'p) ssh_key_ops"
  d_vault :: "'x vault"
  d_ask :: "'x prompt_op"
  d_launch :: "string \<Rightarrow> string \<Rightarrow> ('x, string + process_output) xop"
  d_unix :: bool

section \<open>SSH\_ASKPASS\<close>

definition env_lower :: "'x world \<Rightarrow> string \<Rightarrow> string" where
  "env_lower w k = to_lower (case env_var w k of Some v \<Rightarrow> v | None \<Rightarrow> [])"

definition use_askpass :: "'x world \<Rightarrow> bool" where
  "use_askpass w =
     (let require = env_lower w ''SSH_ASKPASS_REQUIRE''
      in if require = ''force'' \<or> require = ''prefer'' then True
         else (let has_display = (var_os w ''DISPLAY'' \<noteq> None \<or> var_os w ''WAYLAND_DISPLAY'' \<noteq> None);
                   no_tty = (\<not> w_stderr_tty w)
               in has_display \<and> no_tty))"

fun node_mode :: "node \<Rightarrow> nat" where
  "node_mode (File b m) = m"
| "node_mode (Unreadable e m) = m"

text \<open>\<open>mode() & 0o002 != 0\<close> when the metadata can be read.\<close>

definition world_writable :: "node option \<Rightarrow> bool" where
  "world_writable n = (case n of None \<Rightarrow> False | Some nd \<Rightarrow> bit (node_mode nd) 1)"

definition empty_passphrase_message :: string where
  "empty_passphrase_message = ''SSH_ASKPASS program returned an empty passphrase '' @ em_dash
     @ '' the dialog was cancelled or the program does not support SSH key passphrase prompts; run `ssh-add ~/.ssh/id_ed25519` to load the key into the SSH agent, or set SSH_ASKPASS to a dedicated passphrase helper (e.g. ksshaskpass, ssh-askpass-gnome)''"

definition try_askpass :: "('x, 'k, 'p) deps \<Rightarrow> string \<Rightarrow> ('x world, string option) eff" where
  "try_askpass D prompt = let_do (get_s (\<lambda>w. var_os w ''SSH_ASKPASS'')) (\<lambda>v.
     case v of
       None \<Rightarrow> ok None
     | Some askpass \<Rightarrow>
         if \<not> is_absolute askpass then
           fail (InvalidConfig (''SSH_ASKPASS '' @ askpass @ '' must be an absolute path''))
         else let_do (get_s use_askpass) (\<lambda>used.
           if \<not> used then ok None
           else let_do (get_s (\<lambda>w. w_fs w askpass)) (\<lambda>meta.
             if d_unix D \<and> world_writable meta then
               fail (InvalidConfig (''SSH_ASKPASS '' @ askpass @ '' is world-writable and cannot be trusted''))
             else try_let (map_err (\<lambda>e. InvalidConfig (''SSH_ASKPASS program '' @ askpass
                     @ '' could not be launched: '' @ e))
                 (call (Lib (Askpass askpass prompt)) (d_launch D askpass prompt))) (\<lambda>output.
               if \<not> po_success output then
                 fail (InvalidConfig (''SSH_ASKPASS program '' @ askpass @ '' exited with status ''
                   @ po_status output))
               else if \<not> valid_utf8 (po_stdout output) then
                 fail (InvalidConfig ''SSH_ASKPASS program returned non-UTF-8 output'')
               else (let passphrase = trim_end_matches newline (po_stdout output)
                     in if passphrase = [] then fail (InvalidConfig empty_passphrase_message)
                        else ok (Some passphrase))))))"

section \<open>The cascade\<close>

definition no_terminal_message :: string where
  "no_terminal_message = ''no terminal available for passphrase prompt '' @ em_dash
     @ '' run `ssh-add` to load the key into the SSH agent, or set SSH_ASKPASS to a GUI passphrase helper (e.g. ksshaskpass, ssh-askpass-gnome)''"

definition prompt_error :: "io_error \<Rightarrow> anvil_error" where
  "prompt_error e =
     (if raw_os_error e = Some 6 \<or> io_kind_of e = IoOther then InvalidConfig no_terminal_message
      else Io e)"

definition prompt_passphrase_interactive :: "('x, 'k, 'p) deps \<Rightarrow> string \<Rightarrow> ('x world, string) eff" where
  "prompt_passphrase_interactive D path =
     (let prompt = ''Enter passphrase for '' @ path @ '': ''
      in try_let (try_askpass D prompt) (\<lambda>r. case r of
           Some passphrase \<Rightarrow> ok passphrase
         | None \<Rightarrow> map_err prompt_error (prompt_password (d_ask D) prompt)))"

definition biometric_auto_unlock :: "('x, 'k, 'p) deps \<Rightarrow> string \<Rightarrow> 'x world \<Rightarrow> string option \<times> 'x world" where
  "biometric_auto_unlock D path = let_do (read_to_string path) (\<lambda>r. case r of
       Inl _ \<Rightarrow> ret None
     | Inr pem \<Rightarrow> (case sk_from_openssh (d_keys D) pem of
           Inl _ \<Rightarrow> ret None
         | Inr key \<Rightarrow> let_do (auto_unlock_passphrase (d_keys D) (d_vault D) key) (\<lambda>u. case u of
               Passphrase passphrase \<Rightarrow> ret (Some passphrase)
             | Stale \<Rightarrow> let_do (eprintln (''gitway: stored biometric passphrase no longer decrypts ''
                   @ path @ '' '' @ em_dash @ '' removed stale enrollment'')) (\<lambda>_. ret None)
             | Fallback \<Rightarrow> ret None)))"

definition prompt_passphrase :: "('x, 'k, 'p) deps \<Rightarrow> string \<Rightarrow> ('x world, string) eff" where
  "prompt_passphrase D path = let_do (biometric_auto_unlock D path) (\<lambda>r. case r of
       Some passphrase \<Rightarrow> ok passphrase
     | None \<Rightarrow> prompt_passphrase_interactive D path)"

section \<open>What the askpass path guarantees\<close>

text \<open>The program that a given world makes \<open>try_askpass\<close> trust.\<close>

definition trusted_askpass :: "('x, 'k, 'p) deps \<Rightarrow> 'x world \<Rightarrow> string option" where
  "trusted_askpass D w = (case var_os w ''SSH_ASKPASS'' of
     None \<Rightarrow> None
   | Some p \<Rightarrow> if is_absolute p \<and> use_askpass w \<and> \<not> (d_unix D \<and> world_writable (w_fs w p))
              then Some p else None)"

lemma try_askpass_trace:
  assumes "try_askpass D prompt w = (r, w')"
  shows "w_trace w' = w_trace w @
    (case trusted_askpass D w of None \<Rightarrow> [] | Some p \<Rightarrow> [Lib (Askpass p prompt)])"
  using assms
  by (auto simp: try_askpass_def trusted_askpass_def effect_simps call_def
      split: option.splits if_splits prod.splits sum.splits)

lemma try_askpass_passphrase:
  assumes "try_askpass D prompt w = (Inr (Some s), w')"
  shows "s \<noteq> [] \<and> last s \<noteq> newline \<and> trusted_askpass D w \<noteq> None"
  using assms trim_end_matches_last
  by (auto simp: try_askpass_def trusted_askpass_def effect_simps call_def Let_def
      split: option.splits if_splits prod.splits sum.splits)

lemma traced_try_askpass [traced_intros]:
  "(\<And>r es. es = [] \<or> (\<exists>p. es = [Lib (Askpass p prompt)]) \<Longrightarrow> Q r es) \<Longrightarrow>
   traced (try_askpass D prompt) Q"
  unfolding try_askpass_def Let_def
  by (auto intro!: traced_intros split: sum.splits)

text \<open>A passphrase released by fingerprint decrypts the key that is on disk.\<close>

lemma biometric_auto_unlock_decrypts:
  assumes "biometric_auto_unlock D path w = (Some p, w')"
  obtains pem key where "read_text_at (w_fs w) path = Inr pem"
    and "sk_from_openssh (d_keys D) pem = Inr key" and "\<not> isl (sk_decrypt (d_keys D) key p)"
proof -
  obtain pem key u where pem: "read_text_at (w_fs w) path = Inr pem"
    and key: "sk_from_openssh (d_keys D) pem = Inr key"
    and u: "auto_unlock_passphrase (d_keys D) (d_vault D) key u = (Passphrase p, w')"
    using assms
    by (auto simp: biometric_auto_unlock_def read_to_string_def effect_simps
        split: sum.splits auto_unlock_result.splits prod.splits)
  obtain r t where "v_retrieve (d_vault D) (key_id (d_keys D) key) u = (r, t)" by fastforce
  then have "\<not> isl (sk_decrypt (d_keys D) key p)"
    using u by (auto simp: auto_unlock_passphrase_cases split: sum.splits if_splits)
  then show ?thesis using that pem key by blast
qed

text \<open>Who is asked when no fingerprint helps: the terminal or the askpass program, once, or nobody
  when the environment names a program that cannot be trusted.\<close>

definition asks_once :: "('x, 'k, 'p) deps \<Rightarrow> string \<Rightarrow> 'x world \<Rightarrow> anvil_error + string \<Rightarrow> event list \<Rightarrow> bool" where
  "asks_once D path w r es \<longleftrightarrow> (let q = ''Enter passphrase for '' @ path @ '': '' in
     case var_os w ''SSH_ASKPASS'' of
       None \<Rightarrow> es = [Prompt q]
     | Some a \<Rightarrow>
         if \<not> is_absolute a then es = [] \<and> isl r
         else if \<not> use_askpass w then es = [Prompt q]
         else if trusted_askpass D w = None then es = [] \<and> isl r
         else es = [Lib (Askpass a q)] \<and> r \<noteq> Inr [])"

lemma interactive_asks_once: "runs w (prompt_passphrase_interactive D path) (\<lambda>r es u. asks_once D path w r es)"
  unfolding prompt_passphrase_interactive_def try_askpass_def prompt_password_def asks_once_def trusted_askpass_def Let_def
  by (auto intro!: runs_intros split: sum.splits option.splits)

text \<open>A passphrase that decrypts the key in the file.\<close>

definition key_opens :: "('k, 'p) ssh_key_ops \<Rightarrow> 'x world \<Rightarrow> string \<Rightarrow> string \<Rightarrow> bool" where
  "key_opens K w path p \<longleftrightarrow> (\<exists>pem key. read_text_at (w_fs w) path = Inr pem
     \<and> sk_from_openssh K pem = Inr key \<and> \<not> isl (sk_decrypt K key p))"

context quiet_vault
begin

lemma biometric_auto_unlock_events:
  assumes "d_vault D = V"
  shows "adds_only (\<lambda>e. vault_event e \<or> e = FsRead path) (biometric_auto_unlock D path)"
proof -
  have "adds_only (\<lambda>e. vault_event e \<or> e = FsRead path) (auto_unlock_passphrase (d_keys D) V key)" for key
    by (rule adds_only_mono[OF auto_unlock_passphrase_events]) simp
  then show ?thesis
    unfolding biometric_auto_unlock_def assms
    by (auto intro!: adds_intros split: auto_unlock_result.splits)
qed

end

context gated_vault
begin

lemma traced_unlock_gated:
  "traced (auto_unlock_passphrase K V key) (\<lambda>r es. \<forall>p. r = Passphrase p \<longrightarrow> list_ex gate es)"
  unfolding traced_def
proof (intro allI)
  fix w
  obtain r u where run: "auto_unlock_passphrase K V key w = (r, u)" by fastforce
  obtain es where es: "w_trace u = w_trace w @ es"
    using adds_onlyE[OF auto_unlock_passphrase_events run] by blast
  have "list_ex gate es" if "r = Passphrase p" for p
    using unlock_gated[OF run[unfolded that]] es by auto
  with run es show "\<exists>es. w_trace (snd (auto_unlock_passphrase K V key w)) = w_trace w @ es \<and>
      (\<forall>p. fst (auto_unlock_passphrase K V key w) = Passphrase p \<longrightarrow> list_ex gate es)"
    by auto
qed

lemma traced_biometric_gated:
  assumes "d_vault D = V"
  shows "traced (biometric_auto_unlock D path) (\<lambda>r es. \<forall>p. r = Some p \<longrightarrow> list_ex gate es)"
  unfolding biometric_auto_unlock_def assms
  by (auto intro!: traced_intros traced_mono[OF traced_unlock_gated] split: sum.splits auto_unlock_result.splits)

lemma cascade:
  assumes "d_vault D = V"
  shows "case biometric_auto_unlock D path w of (unlocked, u) \<Rightarrow>
    runs w (prompt_passphrase D path) (\<lambda>r es t. \<exists>vs qs. es = vs @ qs \<and> w_trace u = w_trace w @ vs
      \<and> list_all (\<lambda>e. vault_event e \<or> e = FsRead path) vs
      \<and> (case unlocked of
           Some p \<Rightarrow> r = Inr p \<and> qs = [] \<and> key_opens (d_keys D) w path p \<and> list_ex gate vs
         | None \<Rightarrow> asks_once D path u r qs))"
proof -
  obtain unlocked u where unlock: "biometric_auto_unlock D path w = (unlocked, u)" by fastforce
  obtain vs where vs: "w_trace u = w_trace w @ vs" "list_all (\<lambda>e. vault_event e \<or> e = FsRead path) vs"
    using adds_onlyE[OF biometric_auto_unlock_events[OF assms] unlock] by blast
  show ?thesis
  proof (cases unlocked)
    case None
    have "prompt_passphrase D path w = prompt_passphrase_interactive D path u"
      using unlock None by (simp add: prompt_passphrase_def effect_simps)
    then show ?thesis
      using interactive_asks_once[of u D path] unlock None vs by (auto simp: runs_def)
  next
    case (Some p)
    have "key_opens (d_keys D) w path p"
      using biometric_auto_unlock_decrypts unlock Some unfolding key_opens_def by metis
    moreover have "list_ex gate vs"
      using tracedE[OF traced_biometric_gated[OF assms] unlock] vs(1) Some by (metis same_append_eq)
    moreover have "prompt_passphrase D path w = (Inr p, u)"
      using unlock Some by (simp add: prompt_passphrase_def effect_simps)
    ultimately show ?thesis
      using unlock Some vs by (auto simp: runs_def)
  qed
qed

end

text \<open>All that collecting a passphrase can add to the trace.\<close>

definition passphrase_event :: "event \<Rightarrow> bool" where
  "passphrase_event e \<longleftrightarrow> vault_event e \<or> secret_prompt e
     \<or> (\<exists>p. e = FsRead p) \<or> (\<exists>p q. e = Lib (Askpass p q))"

lemma passphrase_event_simps:
  "vault_event e \<Longrightarrow> passphrase_event e" "passphrase_event (Prompt s)"
  "passphrase_event (FsRead f)" "passphrase_event (Lib (Askpass p q))"
  "\<not> passphrase_event (Ssh c)" "\<not> passphrase_event (Out j)" "\<not> passphrase_event (FsWrite f)"
  "\<not> passphrase_event (Agent a)" "\<not> passphrase_event (Lib (KnownHosts s))"
  by (auto simp: passphrase_event_def vault_event_def)

declare passphrase_event_simps [simp]

lemma adds_prompt_passphrase_interactive [adds_intros]:
  "(\<And>e. passphrase_event e \<Longrightarrow> P e) \<Longrightarrow> adds_only P (prompt_passphrase_interactive D path)"
  unfolding prompt_passphrase_interactive_def try_askpass_def Let_def
  by (auto intro!: adds_intros)

context quiet_vault
begin

lemma prompt_passphrase_events:
  "d_vault D = V \<Longrightarrow> adds_only passphrase_event (prompt_passphrase D path)"
  unfolding prompt_passphrase_def
  by (intro adds_let_do adds_case_option adds_ok adds_prompt_passphrase_interactive
      adds_only_mono[OF biometric_auto_unlock_events]) auto

end

end
