(* ===== verification/Agent_Client.thy ===== *)
theory Agent_Client
  imports Passphrase
begin

text \<open>
  What \<open>gitway agent\<close> and \<open>gitway-add\<close> share: the calls to an SSH agent (\<open>anvil_ssh\<close>'s client,
  the record \<open>agent_ops\<close> with handles \<open>'g\<close>), the default key paths that three source files
  look up in the same way, and the contract of the two functions that decrypt a key before it
  is handed to the agent. That contract is the locale \<open>key_loader\<close>; the loop that adds keys is
  verified in it once.
\<close>

record 'p agent_identity =
  ai_public_key :: 'p
  ai_fingerprint :: string
  ai_comment :: string

record ('x, 'g, 'k, 'p) agent_ops =
  ag_from_env :: "('x, anvil_error + 'g) xop"
  ag_list :: "'g \<Rightarrow> ('x, anvil_error + 'p agent_identity list) xop"
  ag_add :: "'g \<Rightarrow> 'k \<Rightarrow> u64 option \<Rightarrow> bool \<Rightarrow> ('x, anvil_error + unit) xop"
  ag_remove :: "'g \<Rightarrow> 'p \<Rightarrow> ('x, anvil_error + unit) xop"
  ag_remove_all :: "'g \<Rightarrow> ('x, anvil_error + unit) xop"
  ag_lock :: "'g \<Rightarrow> string \<Rightarrow> ('x, anvil_error + unit) xop"
  ag_unlock :: "'g \<Rightarrow> string \<Rightarrow> ('x, anvil_error + unit) xop"

definition key_fp :: "('k, 'p, 'more) ssh_key_ops_scheme \<Rightarrow> 'k \<Rightarrow> string" where
  "key_fp K key = pk_anvil_fingerprint K (sk_public K key) Sha256"

text \<open>One call \<open>agent.add(&decrypted, lifetime, confirm)\<close>, recorded with the fingerprint and
  the state of the key it hands over.\<close>

definition agent_add_call ::
  "('k, 'p) ssh_key_ops \<Rightarrow> ('x, 'g, 'k, 'p) agent_ops \<Rightarrow> 'g \<Rightarrow> 'k \<Rightarrow> u64 option \<Rightarrow> bool
   \<Rightarrow> ('x world, unit) eff" where
  "agent_add_call K G agent key lifetime confirm =
     call (Agent (AgAdd (key_fp K key) (sk_is_encrypted K key))) (ag_add G agent key lifetime confirm)"

section \<open>Default key paths\<close>

definition default_key_names :: "string list" where
  "default_key_names = [''id_ed25519'', ''id_ecdsa'', ''id_rsa'']"

definition default_key_paths :: "'x world \<Rightarrow> (anvil_error + string list) \<times> 'x world" where
  "default_key_paths = (\<lambda>w. (case w_home w of
     None \<Rightarrow> Inl (InvalidConfig ''cannot determine $HOME'')
   | Some home \<Rightarrow>
       (let found = [p \<leftarrow> map (\<lambda>name. path_join (path_join home ''.ssh'') name) default_key_names.
                      w_fs w p \<noteq> None]
        in if found = [] then Inl NoKeyFound else Inr found), w))"

lemma default_key_paths_world [simp]: "snd (default_key_paths w) = w"
  by (simp add: default_key_paths_def)

lemma traced_default_key_paths [traced_intros]:
  "(\<And>r. Q r []) \<Longrightarrow> traced default_key_paths Q"
  by (simp add: traced_def default_key_paths_def)

lemma adds_default_key_paths [adds_intros]: "adds_only P default_key_paths"
  by (simp add: adds_only_def default_key_paths_def)

lemma default_key_paths_exist:
  assumes "default_key_paths w = (Inr ps, w')"
  shows "ps \<noteq> [] \<and> (\<forall>p\<in>set ps. w_fs w p \<noteq> None) \<and>
    subseq ps (map (\<lambda>n. path_join (path_join (the (w_home w)) ''.ssh'') n) default_key_names)"
  using assms by (auto simp: default_key_paths_def Let_def split: option.splits if_splits)

section \<open>Keys and identities\<close>

text \<open>The same code in \<open>agent.rs\<close> and \<open>gitway-add.rs\<close>: the line of a listed identity, the test
  whether the agent holds a key, and the parsing of a private or of either half.\<close>

definition identity_line ::
  "('k, 'p) ssh_key_ops \<Rightarrow> hash_kind \<Rightarrow> 'p agent_identity \<Rightarrow> string" where
  "identity_line K hash i = pk_anvil_fingerprint K (ai_public_key i) hash @ '' '' @ ai_comment i
     @ '' ('' @ to_upper (pk_algorithm K (ai_public_key i)) @ '')''"

definition already_loaded ::
  "('k, 'p) ssh_key_ops \<Rightarrow> 'p agent_identity list \<Rightarrow> 'k \<Rightarrow> bool" where
  "already_loaded K loaded key \<longleftrightarrow>
     (let want = key_fp K key
      in list_ex (\<lambda>i. pk_anvil_fingerprint K (ai_public_key i) Sha256 = want) loaded)"

definition parse_private :: "('k, 'p) ssh_key_ops \<Rightarrow> string \<Rightarrow> string \<Rightarrow> anvil_error + 'k" where
  "parse_private K path pem = (case sk_from_openssh K pem of
     Inr key \<Rightarrow> Inr key
   | Inl e \<Rightarrow> Inl (InvalidConfig (''cannot parse '' @ path @ '': '' @ e)))"

definition parse_public_or_derive :: "('k, 'p) ssh_key_ops \<Rightarrow> string \<Rightarrow> string \<Rightarrow> anvil_error + 'p" where
  "parse_public_or_derive K path raw = (case pk_from_openssh K (trim raw) of
     Inr pk \<Rightarrow> Inr pk
   | Inl _ \<Rightarrow> (case sk_from_openssh K raw of
       Inr sk \<Rightarrow> Inr (sk_public K sk)
     | Inl e \<Rightarrow> Inl (InvalidConfig (''cannot parse '' @ path @ '': '' @ e))))"

section \<open>Loading a key\<close>

text \<open>
  The contract of a function that turns a parsed key into one the agent accepts: a key that
  is not encrypted is returned as it is; what it returns otherwise is the key decrypted by
  some passphrase; and it never adds a key to the agent itself.
\<close>

locale key_loader =
  fixes K :: "('k, 'p) ssh_key_ops"
    and load :: "string \<Rightarrow> 'k \<Rightarrow> unlock_mode \<Rightarrow> ('x world, 'k) eff"
  assumes plain_key: "\<not> sk_is_encrypted K key \<Longrightarrow> load path key unlock = ok key"
    and decrypted_key: "load path key unlock w = (Inr key', w') \<Longrightarrow> sk_is_encrypted K key \<Longrightarrow>
      \<exists>p. sk_decrypt K key p = Inr key'"
    and load_adds_nothing: "adds_only (\<lambda>e. \<forall>fp enc. e \<noteq> Agent (AgAdd fp enc)) (load path key unlock)"
begin

text \<open>What is loaded is usable by the agent and is the key that was asked for.\<close>

lemma loaded_key:
  assumes "ssh_key_laws K" and "load path key unlock w = (Inr key', w')"
  shows "\<not> sk_is_encrypted K key' \<and> sk_public K key' = sk_public K key"
proof (cases "sk_is_encrypted K key")
  case True
  then show ?thesis
    using decrypted_key[OF assms(2)] assms(1) by (auto simp: ssh_key_laws_def)
next
  case False
  then show ?thesis
    using assms(2) plain_key[of key path unlock] by (simp add: effect_simps)
qed

lemma traced_load:
  assumes "ssh_key_laws K"
    and "\<And>r es. list_all (\<lambda>e. \<forall>fp enc. e \<noteq> Agent (AgAdd fp enc)) es \<Longrightarrow>
      \<forall>key'. r = Inr key' \<longrightarrow> \<not> sk_is_encrypted K key' \<and> key_fp K key' = key_fp K key \<Longrightarrow> Q r es"
  shows "traced (load path key unlock) Q"
  unfolding traced_runs
proof (intro allI runs_of_traced[where Q = "\<lambda>r es. list_all (\<lambda>e. \<forall>fp enc. e \<noteq> Agent (AgAdd fp enc)) es"])
  show "traced (load path key unlock) (\<lambda>r es. list_all (\<lambda>e. \<forall>fp enc. e \<noteq> Agent (AgAdd fp enc)) es)"
    using load_adds_nothing by (simp add: adds_only_traced)
next
  fix w r es u
  assume "list_all (\<lambda>e. \<forall>fp enc. e \<noteq> Agent (AgAdd fp enc)) es" and "load path key unlock w = (r, u)"
  moreover from this(2) have "\<forall>key'. r = Inr key' \<longrightarrow> \<not> sk_is_encrypted K key' \<and> key_fp K key' = key_fp K key"
    using loaded_key[OF assms(1)] by (auto simp: key_fp_def)
  ultimately show "Q r es"
    using assms(2) by blast
qed


text \<open>Handing the loaded key to the agent: only that key, decrypted.\<close>

lemma load_then_add:
  assumes "ssh_key_laws K" and m: "adds_only (\<lambda>e. \<forall>fp enc. e \<noteq> Agent (AgAdd fp enc)) m"
  shows "adds_only (\<lambda>e. \<forall>fp enc. e = Agent (AgAdd fp enc) \<longrightarrow> \<not> enc \<and> fp = key_fp K key)
    (try_let (load path key unlock) (\<lambda>k. try_let (agent_add_call K G agent k lifetime confirm) (\<lambda>_. m)))"
  (is "adds_only ?P _")
  unfolding adds_only_traced
proof (rule traced_try_let, rule traced_load[OF assms(1)])
  have "adds_only (\<lambda>e. e = Agent (AgAdd (key_fp K k) (sk_is_encrypted K k)) \<or> (\<forall>fp enc. e \<noteq> Agent (AgAdd fp enc)))
      (try_let (agent_add_call K G agent k lifetime confirm) (\<lambda>_. m))" for k
    unfolding agent_add_call_def by (intro adds_try_let adds_call adds_only_mono[OF m]) auto
  then have add: "traced (try_let (agent_add_call K G agent k lifetime confirm) (\<lambda>_. m))
      (\<lambda>b. list_all (\<lambda>e. e = Agent (AgAdd (key_fp K k) (sk_is_encrypted K k)) \<or> (\<forall>fp enc. e \<noteq> Agent (AgAdd fp enc))))" for k
    by (simp add: adds_only_traced)
  fix r' :: "anvil_error + 'k" and es
  assume "list_all (\<lambda>e. \<forall>fp enc. e \<noteq> Agent (AgAdd fp enc)) es"
    and "\<forall>key'. r' = Inr key' \<longrightarrow> \<not> sk_is_encrypted K key' \<and> key_fp K key' = key_fp K key"
  then show "case r' of
      Inl e \<Rightarrow> list_all ?P es
    | Inr k \<Rightarrow> traced (try_let (agent_add_call K G agent k lifetime confirm) (\<lambda>_. m))
        (\<lambda>b es'. list_all ?P (es @ es'))"
    by (cases r') (fastforce simp: list_all_iff intro!: traced_mono[OF add])+
qed

end

text \<open>An addition to the agent that respects what it already holds: the key is decrypted, and
  outside enrolment it is none of the listed ones.\<close>

definition good_addition :: "('k, 'p) ssh_key_ops \<Rightarrow> unlock_mode \<Rightarrow> 'p agent_identity list \<Rightarrow> event \<Rightarrow> bool" where
  "good_addition K unlock loaded e \<longleftrightarrow> (\<forall>fp enc. e = Agent (AgAdd fp enc) \<longrightarrow> \<not> enc
     \<and> (unlock \<noteq> UnlockEnroll \<longrightarrow> fp \<notin> (\<lambda>i. pk_anvil_fingerprint K (ai_public_key i) Sha256) ` set loaded))"

lemma good_addition_simps [simp]:
  "good_addition K u l (Out j)" "good_addition K u l (Err j)" "good_addition K u l (FsRead f)"
  "good_addition K u l (Agent AgList)" "good_addition K u l (Agent AgConnect)"
  by (simp_all add: good_addition_def)

lemma good_addition_new:
  "\<not> (unlock \<noteq> UnlockEnroll \<and> already_loaded K loaded key) \<Longrightarrow>
   (\<And>fp enc. e = Agent (AgAdd fp enc) \<Longrightarrow> \<not> enc \<and> fp = key_fp K key) \<Longrightarrow> good_addition K unlock loaded e"
  by (auto simp: good_addition_def already_loaded_def list_ex_iff)

text \<open>What the agent lists when a command that starts in \<open>w\<close> asks it: nothing when it cannot be
  reached or the listing fails.\<close>

definition listed :: "('x, 'g, 'k, 'p) agent_ops \<Rightarrow> 'x world \<Rightarrow> 'p agent_identity list" where
  "listed G w = (case ag_from_env G (store_of w) of
     (Inl e, s) \<Rightarrow> []
   | (Inr agent, s) \<Rightarrow> (case fst (ag_list G agent s) of Inl e \<Rightarrow> [] | Inr ids \<Rightarrow> ids))"

lemma runs_listing:
  assumes "\<And>agent. adds_only P (f agent (listed G w))" and "P (Agent AgConnect)" and "P (Agent AgList)"
  shows "runs w (try_let (call (Agent AgConnect) (ag_from_env G)) (\<lambda>agent.
    let_do (call (Agent AgList) (ag_list G agent)) (\<lambda>r.
    f agent (case r of Inr ids \<Rightarrow> ids | Inl _ \<Rightarrow> [])))) (\<lambda>r es u. list_all P es)"
proof -
  have rest: "runs u (f agent ids) (\<lambda>b es' t. list_all P (es @ es'))"
    if "ids = listed G w" "list_all P es" for u agent ids es
    using assms(1)[of agent] that by (auto simp: adds_only_def runs_def)
  show ?thesis
    by (auto simp: listed_def store_of_def assms(2,3) intro!: runs_intros rest split: sum.splits)
qed

lemma runs_try_pure:
  assumes "m w = (r, w)" and "\<And>a. r = Inr a \<Longrightarrow> runs w (f a) (\<lambda>b es u. list_all P es)"
  shows "runs w (try_let m f) (\<lambda>b es u. list_all P es)"
  using assms by (auto simp: runs_def effect_simps split: sum.splits)

lemma passphrase_event_adds_nothing: "passphrase_event e \<Longrightarrow> e \<noteq> Agent (AgAdd fp enc)"
  by auto

end
