(* ===== verification/Biometric_Cmd.thy ===== *)
theory Biometric_Cmd
  imports Agent_Client
begin

text \<open>
  \<open>gitway-cli/src/biometric_cmd.rs\<close>: \<open>gitway biometric enroll | forget | list | status\<close> on the
  vault of the build. \<open>Outcome\<close> is the per-key report; the batch exit code is that of the last
  failure.
\<close>

definition exit_ok :: u32 where "exit_ok = 0"
definition exit_general :: u32 where "exit_general = 1"
definition exit_usage :: u32 where "exit_usage = 2"
definition exit_not_found :: u32 where "exit_not_found = 3"
definition exit_declined :: u32 where "exit_declined = 73"
definition exit_needs_interactive :: u32 where "exit_needs_interactive = 78"

fun exit_for :: "biometric_error \<Rightarrow> u32" where
  "exit_for NotEnrolled = exit_not_found"
| "exit_for Cancelled = exit_declined"
| "exit_for (Unavailable _) = exit_needs_interactive"
| "exit_for (Backend _) = exit_general"

record outcome =
  oc_target :: string
  oc_ok :: bool
  oc_message :: string
  oc_fingerprint :: "string option"
  oc_exit_code :: u32

definition outcome_ok :: "string \<Rightarrow> string \<Rightarrow> outcome" where
  "outcome_ok target fingerprint = \<lparr>oc_target = target, oc_ok = True, oc_message = [],
     oc_fingerprint = Some fingerprint, oc_exit_code = exit_ok\<rparr>"

definition outcome_failed :: "string \<Rightarrow> string \<Rightarrow> u32 \<Rightarrow> outcome" where
  "outcome_failed target message exit_code = \<lparr>oc_target = target, oc_ok = False, oc_message = message,
     oc_fingerprint = None, oc_exit_code = exit_code\<rparr>"

section \<open>Reports\<close>

definition outcome_json :: "string \<Rightarrow> outcome \<Rightarrow> json" where
  "outcome_json verb oc = JObj [(''target'', JStr (oc_target oc)), (''ok'', JBool (oc_ok oc)),
     (''fingerprint'', jopt JStr (oc_fingerprint oc)),
     (''message'', JStr (if oc_ok oc then verb else oc_message oc))]"

definition outcome_line :: "string \<Rightarrow> outcome \<Rightarrow> string" where
  "outcome_line verb oc =
     (if oc_ok oc then ''gitway: '' @ verb @ '' '' @ oc_target oc
      else ''gitway: '' @ oc_target oc @ '': '' @ oc_message oc)"

definition emit_results :: "output_mode \<Rightarrow> string \<Rightarrow> outcome list \<Rightarrow> string \<Rightarrow> 'x world \<Rightarrow> unit \<times> 'x world" where
  "emit_results mode command results verb = (case mode of
     JsonMode \<Rightarrow> emit_data command (JObj [(''results'', JArr (map (outcome_json verb) results))])
   | Human \<Rightarrow> eprint_lines (map (outcome_line verb) results))"

definition emit_bio_error :: "biometric_error \<Rightarrow> output_mode \<Rightarrow> string \<Rightarrow> 'x world \<Rightarrow> u32 \<times> 'x world" where
  "emit_bio_error e mode command =
     (let code = exit_for e
      in let_do (case mode of
           JsonMode \<Rightarrow> let_do (get_s w_timestamp) (\<lambda>ts. emit_json (JObj
             [(''metadata'', metadata_block ts command),
              (''error'', JObj [(''exit_code'', JNum (uint code)),
                               (''message'', JStr (biometric_error_text e))])]))
         | Human \<Rightarrow> eprintln (''gitway: error: '' @ biometric_error_text e)) (\<lambda>_.
         ret code))"

definition emit_unavailable :: "tier \<Rightarrow> output_mode \<Rightarrow> string \<Rightarrow> 'x world \<Rightarrow> u32 \<times> 'x world" where
  "emit_unavailable t mode command = emit_bio_error (Unavailable (tier_description t)) mode command"

section \<open>Keys and paths\<close>

definition read_key :: "('k, 'p) ssh_key_ops \<Rightarrow> string \<Rightarrow> 'x world \<Rightarrow> (string + 'k) \<times> 'x world" where
  "read_key K path =
     try_let (map_err (\<lambda>e. ''cannot read '' @ path @ '': '' @ io_text e) (read_to_string path)) (\<lambda>pem.
     map_err (\<lambda>e. ''cannot parse '' @ path @ '': '' @ e) (lift_res (sk_from_openssh K pem)))"

definition bio_resolve_paths :: "string list \<Rightarrow> ('x world, string list) eff" where
  "bio_resolve_paths files = (if files \<noteq> [] then ok files else default_key_paths)"

section \<open>enroll\<close>

definition not_protected_message :: string where
  "not_protected_message =
     ''key is not passphrase-protected; biometric unlock only applies to encrypted keys''"

definition enroll_one :: "('x, 'k, 'p) deps \<Rightarrow> string \<Rightarrow> ('x world, outcome) eff" where
  "enroll_one D path = let_do (read_key (d_keys D) path) (\<lambda>r. case r of
       Inl message \<Rightarrow> ok (outcome_failed path message exit_usage)
     | Inr key \<Rightarrow>
         if \<not> sk_is_encrypted (d_keys D) key then
           ok (outcome_failed path not_protected_message exit_usage)
         else (let kid = key_id (d_keys D) key;
                   fingerprint = fingerprint_of kid
           in try_let (prompt_passphrase_interactive D path) (\<lambda>passphrase.
              if isl (sk_decrypt (d_keys D) key passphrase) then
                ok (outcome_failed path ''passphrase did not decrypt the key; nothing was stored'' exit_usage)
              else let_do (v_store (d_vault D) kid passphrase) (\<lambda>stored. case stored of
                  Inr _ \<Rightarrow> ok (outcome_ok path fingerprint)
                | Inl e \<Rightarrow> ok (outcome_failed path (biometric_error_text e) (exit_for e))))))"

definition enroll_step ::
  "('x, 'k, 'p) deps \<Rightarrow> string \<Rightarrow> outcome list \<times> u32 \<Rightarrow> ('x world, outcome list \<times> u32) eff" where
  "enroll_step D path acc = (case acc of (results, exit) \<Rightarrow>
     try_let (enroll_one D path) (\<lambda>oc.
     ok (results @ [oc], if \<not> oc_ok oc then oc_exit_code oc else exit)))"

definition run_enroll :: "('x, 'k, 'p) deps \<Rightarrow> biometric_enroll_args \<Rightarrow> output_mode \<Rightarrow> ('x world, u32) eff" where
  "run_enroll D args mode =
     (let vault = d_vault D
      in let_do (v_is_available vault) (\<lambda>available.
         if \<not> available then
           let_do (emit_unavailable (v_binding_tier vault) mode ''gitway biometric enroll'') ok
         else
           let_do (if v_binding_tier vault = Advisory \<and> mode = Human
                   then eprintln (''gitway: NOTE: '' @ tier_description Advisory) else ret ()) (\<lambda>_.
           try_let (bio_resolve_paths (be_files args)) (\<lambda>paths.
           try_let (for_try (enroll_step D) paths ([], exit_ok)) (\<lambda>(results, exit).
           let_do (emit_results mode ''gitway biometric enroll'' results ''enrolled'') (\<lambda>_.
           ok exit))))))"

section \<open>forget\<close>

definition forget_enrolled ::
  "'x vault \<Rightarrow> enrolled_key \<Rightarrow> outcome list \<times> u32 \<Rightarrow> 'x world \<Rightarrow> (outcome list \<times> u32) \<times> 'x world" where
  "forget_enrolled V key acc = (case acc of (results, exit) \<Rightarrow>
     let_do (v_delete V (key_id_from_fingerprint (ek_fingerprint key))) (\<lambda>r. case r of
       Inr _ \<Rightarrow> ret (results @ [outcome_ok (ek_fingerprint key) (ek_fingerprint key)], exit)
     | Inl e \<Rightarrow> ret (results @ [outcome_failed (ek_fingerprint key) (biometric_error_text e) (exit_for e)],
                   exit_for e)))"

definition forget_path ::
  "('k, 'p) ssh_key_ops \<Rightarrow> 'x vault \<Rightarrow> string \<Rightarrow> outcome list \<times> u32 \<Rightarrow> 'x world
   \<Rightarrow> (outcome list \<times> u32) \<times> 'x world" where
  "forget_path K V path acc = (case acc of (results, exit) \<Rightarrow>
     let_do (read_key K path) (\<lambda>k. case k of
       Inl message \<Rightarrow> ret (results @ [outcome_failed path message exit_usage], exit_usage)
     | Inr key \<Rightarrow>
         (let kid = key_id K key
          in let_do (v_delete V kid) (\<lambda>r. case r of
               Inr _ \<Rightarrow> ret (results @ [outcome_ok path (fingerprint_of kid)], exit)
             | Inl e \<Rightarrow> ret (results @ [outcome_failed path (biometric_error_text e) (exit_for e)],
                           exit_for e)))))"

definition run_forget ::
  "('k, 'p) ssh_key_ops \<Rightarrow> 'x vault \<Rightarrow> biometric_forget_args \<Rightarrow> output_mode \<Rightarrow> ('x world, u32) eff" where
  "run_forget K V args mode =
     (let report = (\<lambda>(results, exit).
        let_do (emit_results mode ''gitway biometric forget'' results ''forgot'') (\<lambda>_. ok exit))
      in if bf_all args then
           let_do (v_list V) (\<lambda>r. case r of
             Inl e \<Rightarrow> let_do (emit_bio_error e mode ''gitway biometric forget'') ok
           | Inr enrolled \<Rightarrow> let_do (for_do (forget_enrolled V) enrolled ([], exit_ok)) report)
         else if bf_files args = [] then
           fail (InvalidConfig ''specify one or more key files to forget, or pass --all'')
         else let_do (for_do (forget_path K V) (bf_files args) ([], exit_ok)) report)"

section \<open>list and status\<close>

definition bio_list_line :: "enrolled_key \<Rightarrow> string" where
  "bio_list_line k = (case ek_comment k of
     Some comment \<Rightarrow> ek_fingerprint k @ '' ('' @ comment @ '')''
   | None \<Rightarrow> ek_fingerprint k)"

definition bio_run_list :: "'x vault \<Rightarrow> output_mode \<Rightarrow> 'x world \<Rightarrow> u32 \<times> 'x world" where
  "bio_run_list V mode = let_do (v_list V) (\<lambda>r. case r of
     Inl e \<Rightarrow> emit_bio_error e mode ''gitway biometric list''
   | Inr enrolled \<Rightarrow>
       let_do (case mode of
           JsonMode \<Rightarrow> emit_data ''gitway biometric list'' (JObj
             [(''count'', JNum (int (length enrolled))),
              (''enrolled'', JArr (map (\<lambda>k. JObj [(''fingerprint'', JStr (ek_fingerprint k)),
                 (''comment'', jopt JStr (ek_comment k))]) enrolled))])
         | Human \<Rightarrow>
             if enrolled = [] then eprintln ''gitway: no keys are enrolled for biometric unlock''
             else print_lines (map bio_list_line enrolled)) (\<lambda>_.
       ret exit_ok))"

definition bio_run_status :: "'x vault \<Rightarrow> output_mode \<Rightarrow> 'x world \<Rightarrow> u32 \<times> 'x world" where
  "bio_run_status V mode =
     let_do (v_is_available V) (\<lambda>available.
     let t = v_binding_tier V
     in let_do (if available then let_do (v_list V) (\<lambda>r. ret (case r of Inr l \<Rightarrow> Some (length l) | Inl _ \<Rightarrow> None))
                else ret None) (\<lambda>enrolled.
        let_do (case mode of
            JsonMode \<Rightarrow> emit_data ''gitway biometric status'' (JObj
              [(''available'', JBool available), (''tier'', JStr (tier_as_str t)),
               (''description'', JStr (tier_description t)),
               (''enrolled_count'', jopt (\<lambda>n. JNum (int n)) enrolled)])
          | Human \<Rightarrow> print_lines
              ([''available: '' @ (if available then ''yes'' else ''no''),
                ''tier:      '' @ tier_as_str t,
                ''guarantee: '' @ tier_description t]
               @ (case enrolled of Some count \<Rightarrow> [''enrolled:  '' @ show_nat count] | None \<Rightarrow> []))) (\<lambda>_.
        ret exit_ok)))"

fun biometric_run :: "('x, 'k, 'p) deps \<Rightarrow> biometric_subcommand \<Rightarrow> output_mode \<Rightarrow> ('x world, u32) eff" where
  "biometric_run D (BioEnroll args) mode = run_enroll D args mode"
| "biometric_run D (BioForget args) mode = run_forget (d_keys D) (d_vault D) args mode"
| "biometric_run D BioList mode = let_do (bio_run_list (d_vault D) mode) ok"
| "biometric_run D BioStatus mode = let_do (bio_run_status (d_vault D) mode) ok"

section \<open>Batch exit codes\<close>

text \<open>The exit code of a batch: that of its last failed outcome, 0 if there is none.\<close>

definition batch_code :: "outcome list \<Rightarrow> u32" where
  "batch_code ocs = (let fs = [oc \<leftarrow> ocs. \<not> oc_ok oc] in if fs = [] then exit_ok else oc_exit_code (last fs))"

lemma batch_code_Nil [simp]: "batch_code [] = exit_ok"
  by (simp add: batch_code_def)

lemma batch_code_snoc [simp]:
  "batch_code (ocs @ [oc]) = (if oc_ok oc then batch_code ocs else oc_exit_code oc)"
  by (simp add: batch_code_def Let_def)

text \<open>The message of a failure says its code: those of the vault are the codes of
  \<open>exit_for\<close>, everything else (a file that cannot be read or parsed, a key without a passphrase, a
  wrong passphrase) is a usage error.\<close>

definition message_code :: "string \<Rightarrow> u32" where
  "message_code m =
     (if m = ''key is not enrolled for biometric unlock'' then 3
      else if m = ''biometric verification was cancelled or did not match'' then 73
      else if prefix ''biometric unlock is unavailable: '' m then 78
      else if prefix ''biometric backend error: '' m then 1
      else 2)"

lemma message_code_vault [simp]: "message_code (biometric_error_text e) = exit_for e"
  by (cases e) (simp_all add: message_code_def exit_not_found_def exit_declined_def exit_needs_interactive_def exit_general_def)

lemma message_code_usage [simp]:
  "message_code (CHR ''c'' # s) = exit_usage" "message_code (CHR ''p'' # s) = exit_usage"
  "message_code not_protected_message = exit_usage"
  by (simp_all add: message_code_def exit_usage_def not_protected_message_def)

text \<open>What every outcome satisfies: a failed one carries the code that its message says.\<close>

definition outcome_wf :: "outcome \<Rightarrow> bool" where
  "outcome_wf oc \<longleftrightarrow> (if oc_ok oc then oc_exit_code oc = exit_ok \<and> oc_fingerprint oc \<noteq> None
     else oc_exit_code oc = message_code (oc_message oc) \<and> oc_exit_code oc \<noteq> exit_ok \<and> oc_fingerprint oc = None)"

lemma exit_for_nonzero [simp]: "exit_for e \<noteq> exit_ok"
  by (cases e) (simp_all add: exit_ok_def exit_general_def exit_not_found_def exit_declined_def
      exit_needs_interactive_def)

lemma exit_usage_nonzero [simp]: "exit_usage \<noteq> exit_ok"
  by (simp add: exit_usage_def exit_ok_def)

lemma outcome_wf_ok [simp]: "outcome_wf (outcome_ok t fp)" "oc_ok (outcome_ok t fp)"
  by (simp_all add: outcome_wf_def outcome_ok_def)

lemma outcome_wf_failed [simp]:
  "c = message_code m \<Longrightarrow> c \<noteq> exit_ok \<Longrightarrow> outcome_wf (outcome_failed t m c)" "\<not> oc_ok (outcome_failed t m c)"
  "oc_exit_code (outcome_failed t m c) = c"
  by (simp_all add: outcome_wf_def outcome_failed_def)

lemma batch_code_zero_iff:
  assumes "list_all outcome_wf ocs"
  shows "batch_code ocs = exit_ok \<longleftrightarrow> list_all oc_ok ocs"
  using assms
  by (induction ocs rule: rev_induct) (auto simp: outcome_wf_def split: if_splits)

definition batch_inv :: "outcome list \<times> u32 \<Rightarrow> bool" where
  "batch_inv acc \<longleftrightarrow> list_all outcome_wf (fst acc) \<and> snd acc = batch_code (fst acc)"

section \<open>What enrolment stores\<close>

text \<open>What a store request is for: the only call of \<open>enroll_one\<close> on the vault comes after a
  passphrase that decrypts the key.\<close>

definition same_but_store :: "('x, 'k, 'p) deps \<Rightarrow> (string \<Rightarrow> string \<Rightarrow> ('x, unit) bio) \<Rightarrow> ('x, 'k, 'p) deps" where
  "same_but_store D st = D\<lparr>d_vault := (d_vault D)\<lparr>v_store := st\<rparr>\<rparr>"

lemma same_but_store_fields:
  "d_keys (same_but_store D st) = d_keys D" "d_ask (same_but_store D st) = d_ask D"
  "d_launch (same_but_store D st) = d_launch D" "d_unix (same_but_store D st) = d_unix D"
  "v_store (d_vault (same_but_store D st)) = st"
  by (simp_all add: same_but_store_def)

lemma interactive_same_but_store:
  "prompt_passphrase_interactive (same_but_store D st) = prompt_passphrase_interactive D"
  unfolding prompt_passphrase_interactive_def try_askpass_def same_but_store_fields by (rule refl)

lemma enroll_one_same_store:
  assumes "\<And>key p. \<not> isl (sk_decrypt (d_keys D) key p) \<Longrightarrow>
    st (key_id (d_keys D) key) p = v_store (d_vault D) (key_id (d_keys D) key) p"
  shows "enroll_one (same_but_store D st) path = enroll_one D path"
  unfolding enroll_one_def same_but_store_fields interactive_same_but_store Let_def
  using assms by (intro ext) (auto simp: effect_simps split: prod.splits sum.splits)

context quiet_vault
begin

text \<open>\<open>forget\<close>, \<open>list\<close> and \<open>status\<close> never ask the user for anything.\<close>

lemma adds_quiet_vault_ops:
  "adds_only quiet (v_list V)" "adds_only quiet (v_delete V kid)" "adds_only quiet (v_is_available V)"
  by (rule adds_only_mono[OF list_quiet] adds_only_mono[OF delete_quiet] adds_only_mono[OF probe_quiet], simp)+

lemma adds_emit_bio_error: "adds_only quiet (emit_bio_error e mode command)"
  unfolding emit_bio_error_def emit_json_def Let_def
  by (auto intro!: adds_intros split: output_mode.splits)

lemma adds_emit_results: "adds_only quiet (emit_results mode command results verb)"
  unfolding emit_results_def by (auto intro!: adds_intros split: output_mode.splits)

lemma forget_quiet: "adds_only quiet (run_forget K V args mode)"
  unfolding run_forget_def forget_enrolled_def forget_path_def read_key_def Let_def
  by (auto intro!: adds_intros adds_quiet_vault_ops adds_emit_bio_error adds_emit_results
      split: prod.splits)

lemma bio_list_quiet: "adds_only quiet (bio_run_list V mode)"
  unfolding bio_run_list_def
  by (auto intro!: adds_intros adds_quiet_vault_ops adds_emit_bio_error split: output_mode.splits)

lemma bio_status_quiet: "adds_only quiet (bio_run_status V mode)"
  unfolding bio_run_status_def Let_def
  by (auto intro!: adds_intros adds_quiet_vault_ops split: output_mode.splits)

end

section \<open>Whole batches\<close>

text \<open>A finished batch: one outcome per target, in order; the report shows all of them; the exit
  code is that of the last failure, and 0 exactly when nothing failed.\<close>

definition batch_of :: "string list \<Rightarrow> outcome list \<times> u32 \<Rightarrow> bool" where
  "batch_of targets acc \<longleftrightarrow> batch_inv acc \<and> map oc_target (fst acc) = targets"

definition report_of :: "output_mode \<Rightarrow> string \<Rightarrow> outcome list \<Rightarrow> event list \<Rightarrow> bool" where
  "report_of mode verb ocs es \<longleftrightarrow> (case mode of
     JsonMode \<Rightarrow> \<exists>j. es = [Out (Json j)]
       \<and> jfield ''data'' j = Some (JObj [(''results'', JArr (map (outcome_json verb) ocs))])
   | Human \<Rightarrow> es = map (\<lambda>oc. Err (Text (outcome_line verb oc))) ocs)"

definition reported :: "output_mode \<Rightarrow> string \<Rightarrow> string list \<Rightarrow> anvil_error + u32 \<Rightarrow> event list \<Rightarrow> bool" where
  "reported mode verb targets r es \<longleftrightarrow> (\<exists>ocs es1 es2. es = es1 @ es2 \<and> map oc_target ocs = targets
     \<and> report_of mode verb ocs es2 \<and> list_all outcome_wf ocs \<and> r = Inr (batch_code ocs)
     \<and> (batch_code ocs = exit_ok \<longleftrightarrow> list_all oc_ok ocs))"

lemma outcome_target [simp]:
  "oc_target (outcome_ok t f) = t" "oc_target (outcome_failed t m c) = t"
  by (simp_all add: outcome_ok_def outcome_failed_def)

lemma batch_of_snoc:
  "batch_of targets (ocs, c) \<Longrightarrow> outcome_wf oc \<Longrightarrow>
   batch_of (targets @ [oc_target oc]) (ocs @ [oc], if oc_ok oc then c else oc_exit_code oc)"
  by (simp add: batch_of_def batch_inv_def)

lemma batch_of_failed:
  "batch_of targets (ocs, c) \<Longrightarrow> code = message_code m \<Longrightarrow> code \<noteq> exit_ok \<Longrightarrow>
   batch_of (targets @ [t]) (ocs @ [outcome_failed t m code], code)"
  using batch_of_snoc[of targets ocs c "outcome_failed t m code"] by simp

lemma batch_of_ok:
  "batch_of targets (ocs, c) \<Longrightarrow> batch_of (targets @ [t]) (ocs @ [outcome_ok t f], c)"
  using batch_of_snoc[of targets ocs c "outcome_ok t f"] by simp

lemma traced_eprint_lines:
  "Q () (map (\<lambda>l. Err (Text l)) ls) \<Longrightarrow> traced (eprint_lines ls) Q"
proof -
  have "traced (for_do (\<lambda>l u. eprintln l) ls ()) (\<lambda>r es. es = map (\<lambda>l. Err (Text l)) ls)" for ls
    by (induction ls) (auto intro!: traced_intros elim: traced_mono)
  then show "Q () (map (\<lambda>l. Err (Text l)) ls) \<Longrightarrow> traced (eprint_lines ls) Q"
    unfolding eprint_lines_def by (rule traced_mono) simp
qed

lemma traced_emit_results:
  assumes "\<And>es. report_of mode verb results es \<Longrightarrow> Q () es"
  shows "traced (emit_results mode command results verb) Q"
  unfolding emit_results_def
  by (cases mode) (auto simp: report_of_def comp_def intro!: traced_eprint_lines traced_emit_data assms)

lemma reported_batch:
  "batch_of targets (ocs, c) \<Longrightarrow> report_of mode verb ocs es2 \<Longrightarrow>
   reported mode verb targets (Inr c) (es1 @ es2)"
  unfolding reported_def batch_of_def batch_inv_def using batch_code_zero_iff by auto

lemma reported_append: "reported mode verb targets r es \<Longrightarrow> reported mode verb targets r (es0 @ es)"
  unfolding reported_def by (metis append.assoc)

lemma reported_Cons: "reported mode verb targets r es \<Longrightarrow> reported mode verb targets r (e # es)"
  using reported_append[of mode verb targets r es "[e]"] by simp

context quiet_vault
begin

lemma traced_forget_path:
  assumes "batch_of targets acc"
  shows "traced (forget_path K V path acc) (\<lambda>r es. batch_of (targets @ [path]) r)"
proof -
  have delete: "traced (v_delete V kid) Q" if "\<And>r es. Q r es" for kid Q
    by (rule traced_adds_only[OF delete_quiet]) (rule that)
  show ?thesis
    using assms unfolding forget_path_def read_key_def Let_def
    by (auto intro!: traced_intros delete batch_of_failed batch_of_ok split: sum.splits)
qed

lemma forget_paths_batch:
  "batch_of targets acc \<Longrightarrow>
   traced (for_do (forget_path K V) paths acc) (\<lambda>r es. batch_of (targets @ paths) r)"
proof (induction paths arbitrary: targets acc)
  case (Cons p ps)
  then show ?case
    using Cons.IH[of "targets @ [p]"]
    by (auto intro!: traced_let_do traced_mono[OF traced_forget_path[OF Cons.prems]])
qed (auto intro: traced_ret)

lemma forget_reported:
  "traced (run_forget K V \<lparr>bf_files = p # ps, bf_all = False\<rparr> mode) (reported mode ''forgot'' (p # ps))"
proof -
  have start: "batch_of [] ([], exit_ok)"
    by (simp add: batch_of_def batch_inv_def)
  show ?thesis
    unfolding run_forget_def Let_def
    by (auto simp del: for_do.simps append_assoc split: prod.splits intro!: traced_let_do traced_emit_results traced_ok
        traced_mono[OF forget_paths_batch[OF start]] reported_batch)
qed

lemma traced_enroll_one:
  assumes "d_vault D = V" and Q: "\<And>r es. (\<And>oc. r = Inr oc \<Longrightarrow> outcome_wf oc \<and> oc_target oc = path) \<Longrightarrow> Q r es"
  shows "traced (enroll_one D path) Q"
proof -
  have store: "traced (v_store V kid secret) R" if "\<And>r es. R r es" for kid secret R
    by (rule traced_adds_only[OF store_quiet]) (rule that)
  have ask: "traced (prompt_passphrase_interactive D path) R" if "\<And>r es. R r es" for R
    by (rule traced_adds_only[OF adds_prompt_passphrase_interactive[of "\<lambda>e. True"]]) (auto intro: that)
  show ?thesis
    unfolding enroll_one_def read_key_def Let_def assms(1)
    by (auto intro!: traced_intros store ask Q split: sum.splits)
qed

lemma enroll_paths_batch:
  assumes "d_vault D = V"
  shows "batch_of targets acc \<Longrightarrow> traced (for_try (enroll_step D) paths acc)
    (\<lambda>r es. case r of Inl _ \<Rightarrow> True | Inr a \<Rightarrow> batch_of (targets @ paths) a)"
proof (induction paths arbitrary: targets acc)
  case (Cons p ps)
  have "traced (enroll_step D p acc) (\<lambda>r es. case r of Inl _ \<Rightarrow> True | Inr a \<Rightarrow> batch_of (targets @ [p]) a)"
    using Cons.prems batch_of_snoc[of targets "fst acc" "snd acc"] unfolding enroll_step_def
    by (cases acc) (fastforce intro!: traced_try_let traced_ok traced_enroll_one[OF assms] split: sum.splits)
  moreover have "traced (for_try (enroll_step D) ps a)
      (\<lambda>r es. case r of Inl _ \<Rightarrow> True | Inr a \<Rightarrow> batch_of (targets @ p # ps) a)"
    if "batch_of (targets @ [p]) a" for a
    by (rule traced_mono[OF Cons.IH[OF that]]) (auto split: sum.splits)
  ultimately show ?case
    by (auto intro!: traced_try_let elim!: traced_mono split: sum.splits)
qed (auto intro: traced_ok)

lemma enroll_reported:
  assumes "d_vault D = V"
  shows "traced (run_enroll D \<lparr>be_files = p # ps\<rparr> mode)
    (\<lambda>r es. isl r \<or> reported mode ''enrolled'' (p # ps) r es
       \<or> r = Inr exit_needs_interactive \<and> list_all quiet es)"
proof -
  have start: "batch_of [] ([], exit_ok)"
    by (simp add: batch_of_def batch_inv_def)
  have probe: "traced (v_is_available V) R" if "\<And>r es. list_all quiet es \<Longrightarrow> R r es" for R
    by (rule traced_adds_only[OF adds_quiet_vault_ops(3)]) (rule that)
  have unavailable: "traced (emit_unavailable tier mode command)
      (\<lambda>r es. r = exit_needs_interactive \<and> list_all quiet es)" for tier command
    unfolding emit_unavailable_def emit_bio_error_def Let_def emit_json_def
    by (cases mode) (auto intro!: traced_intros)
  have batch: "traced (try_let (for_try (enroll_step D) (p # ps) ([], exit_ok)) (\<lambda>(results, exit).
      let_do (emit_results mode ''gitway biometric enroll'' results ''enrolled'') (\<lambda>_. ok exit)))
      (\<lambda>r es. isl r \<or> reported mode ''enrolled'' (p # ps) r es)"
    by (rule traced_try_let, rule traced_mono[OF enroll_paths_batch[OF assms start]])
      (auto split: sum.splits intro!: traced_let_do traced_emit_results traced_ok reported_batch)
  have tail: "traced (let_do (if c then eprintln msg else ret ()) (\<lambda>_.
      try_let (bio_resolve_paths (p # ps)) (\<lambda>paths.
      try_let (for_try (enroll_step D) paths ([], exit_ok)) (\<lambda>(results, exit).
      let_do (emit_results mode ''gitway biometric enroll'' results ''enrolled'') (\<lambda>_. ok exit)))))
      (\<lambda>r es. isl r \<or> reported mode ''enrolled'' (p # ps) r es)" for c msg
    unfolding bio_resolve_paths_def
    by (auto simp del: for_try.simps intro!: traced_let_do traced_try_let traced_if traced_ok
        traced_ret traced_print traced_mono[OF batch] intro: reported_Cons)
  show ?thesis
    unfolding run_enroll_def Let_def assms(1) biometric_enroll_args.select_convs
    by (rule traced_let_do, rule probe, rule traced_if, rule traced_let_do, rule traced_mono[OF unavailable],
        rule traced_ok, simp, rule traced_mono[OF tail]) (auto intro: reported_append)
qed

end

text \<open>\<open>enroll\<close> stores a secret for a key only after that secret has decrypted the key: what the
  store does with any other secret makes no difference to any run.\<close>

lemma run_enroll_same_store:
  assumes "\<And>key p. \<not> isl (sk_decrypt (d_keys D) key p) \<Longrightarrow>
    st (key_id (d_keys D) key) p = v_store (d_vault D) (key_id (d_keys D) key) p"
  shows "run_enroll (same_but_store D st) args mode = run_enroll D args mode"
proof -
  have vault: "v_is_available (d_vault (same_but_store D st)) = v_is_available (d_vault D)"
    "v_binding_tier (d_vault (same_but_store D st)) = v_binding_tier (d_vault D)"
    by (simp_all add: same_but_store_def)
  have step: "enroll_step (same_but_store D st) = enroll_step D"
    by (simp add: fun_eq_iff enroll_step_def enroll_one_same_store[OF assms])
  show ?thesis
    unfolding run_enroll_def Let_def vault step by (rule refl)
qed

end
