(* ===== verification/Fprintd_Protocol.thy ===== *)
theory Fprintd_Protocol
  imports Biometric_Linux
begin

text \<open>
  The protocol of an fprintd device as a labelled step relation, and the proof that
  \<open>linux.rs\<close> follows it: a secret is read only behind a complete session (claim, subscribe,
  start, signals, stop, release), in that order.
\<close>

datatype dev_state = Unclaimed | Claimed | Subscribed | Verifying | Stopped

inductive dev_step :: "dev_state \<Rightarrow> sensor_call \<Rightarrow> dev_state \<Rightarrow> bool" where
  probe: "c \<in> {BusConnect, DeviceProxy, GetDevice, ListFingers} \<Longrightarrow> dev_step Unclaimed c Unclaimed"
| claim: "dev_step Unclaimed Claim Claimed"
| subscribe: "dev_step Claimed Subscribe Subscribed"
| start: "dev_step Subscribed VerifyStart Verifying"
| signal: "dev_step Verifying NextSignal Verifying"
| status: "dev_step Verifying (Status s) Verifying"
| stop: "dev_step Verifying VerifyStop Stopped"
| release: "dev_step Stopped ReleaseDevice Unclaimed"

inductive_cases from_UnclaimedE: "dev_step Unclaimed c s"
inductive_simps dev_step_label [simp]:
  "dev_step s Claim t" "dev_step s Subscribe t" "dev_step s VerifyStart t" "dev_step s NextSignal t"
  "dev_step s (Status sig) t" "dev_step s VerifyStop t" "dev_step s ReleaseDevice t"
  "dev_step s BusConnect t" "dev_step s DeviceProxy t" "dev_step s GetDevice t" "dev_step s ListFingers t"

inductive dev_path :: "dev_state \<Rightarrow> sensor_call list \<Rightarrow> dev_state \<Rightarrow> bool" where
  path_Nil: "dev_path s [] s"
| path_Cons: "dev_step s c t \<Longrightarrow> dev_path t cs u \<Longrightarrow> dev_path s (c # cs) u"

inductive_simps dev_path_simps [simp]: "dev_path s [] u" "dev_path s (c # cs) u"

lemma dev_path_append: "dev_path s (cs @ ds) u \<longleftrightarrow> (\<exists>t. dev_path s cs t \<and> dev_path t ds u)"
  by (induction cs arbitrary: s) auto

text \<open>The states in the order of a session. Only a release goes back, so a path from a claimed
  device to \<open>Unclaimed\<close> has released it.\<close>

primrec dev_rank :: "dev_state \<Rightarrow> nat" where
  "dev_rank Unclaimed = 0" | "dev_rank Claimed = 1" | "dev_rank Subscribed = 2"
| "dev_rank Verifying = 3" | "dev_rank Stopped = 4"

lemma dev_rank_inj: "dev_rank s = dev_rank t \<Longrightarrow> s = t"
  by (cases s; cases t) auto

instantiation dev_state :: linorder
begin

definition less_eq_dev_state :: "dev_state \<Rightarrow> dev_state \<Rightarrow> bool" where
  "less_eq_dev_state s t \<longleftrightarrow> dev_rank s \<le> dev_rank t"

definition less_dev_state :: "dev_state \<Rightarrow> dev_state \<Rightarrow> bool" where
  "less_dev_state s t \<longleftrightarrow> dev_rank s < dev_rank t"

instance
  by standard (auto simp: less_eq_dev_state_def less_dev_state_def dest: dev_rank_inj)

end

lemma dev_step_progress: "dev_step s c t \<Longrightarrow> c \<noteq> ReleaseDevice \<Longrightarrow> s \<le> t"
  by (cases rule: dev_step.cases) (auto simp: less_eq_dev_state_def)

lemma dev_path_progress: "dev_path s cs u \<Longrightarrow> ReleaseDevice \<notin> set cs \<Longrightarrow> s \<le> u"
  by (induction rule: dev_path.induct) (auto dest: dev_step_progress)

lemma path_releases:
  "dev_path s cs Unclaimed \<Longrightarrow> s \<noteq> Unclaimed \<Longrightarrow> ReleaseDevice \<in> set cs"
  using dev_path_progress[of s cs Unclaimed] by (cases s) (auto simp: less_eq_dev_state_def)

definition sensor_calls :: "event list \<Rightarrow> sensor_call list" where
  "sensor_calls es = concat (map (\<lambda>e. case e of Sensor c \<Rightarrow> [c] | _ \<Rightarrow> []) es)"

lemma sensor_calls_simps [simp]:
  "sensor_calls [] = []" "sensor_calls (es @ es') = sensor_calls es @ sensor_calls es'"
  "sensor_calls (Sensor c # es) = c # sensor_calls es" "sensor_calls (Err p # es) = sensor_calls es"
  "sensor_calls (Keystore k # es) = sensor_calls es" "sensor_calls (Lib l # es) = sensor_calls es"
  by (simp_all add: sensor_calls_def)

section \<open>The code follows the protocol\<close>

lemma traced_hint_silent:
  "(\<And>es. sensor_calls es = [] \<Longrightarrow> Keystore (KsRead k) \<notin> set es \<Longrightarrow> Q () es) \<Longrightarrow> traced (hint m) Q"
  unfolding hint_def by (auto intro!: traced_intros)

lemma scan_loop_path:
  "traced (scan_loop sigs elapsed) (\<lambda>r es. dev_path Verifying (sensor_calls es) Verifying)"
proof (induction sigs)
  case (Cons sig sigs)
  then show ?case
    by (auto intro!: traced_intros traced_hint_silent traced_mono[OF Cons.IH]
        split: sum.splits simp: dev_path_append)
qed (auto intro: traced_ret)

lemma scan_path:
  "traced (scan L device) (\<lambda>r es. \<not> isl r \<longrightarrow> dev_path Claimed (sensor_calls es) Verifying)"
  unfolding scan_def
  by (auto intro!: traced_intros traced_hint_silent traced_mono[OF scan_loop_path]
      split: sum.splits simp: dev_path_append)

lemma claim_and_scan_path:
  "traced (claim_and_scan L device) (\<lambda>r es. \<not> isl r \<longrightarrow> dev_path Unclaimed (sensor_calls es) Unclaimed)"
  unfolding claim_and_scan_def
  by (auto intro!: traced_intros traced_mono[OF scan_path] split: sum.splits bool.splits
      simp: dev_path_append)

lemma verify_fingerprint_path:
  "traced (verify_fingerprint L) (\<lambda>r es. \<not> isl r \<longrightarrow> dev_path Unclaimed (sensor_calls es) Unclaimed)"
  unfolding verify_fingerprint_def
  by (auto intro!: traced_intros traced_mono[OF claim_and_scan_path] split: sum.splits)

text \<open>What precedes the read of a secret, and the read itself at the end.\<close>

definition gated_read :: "string \<Rightarrow> event list \<Rightarrow> bool" where
  "gated_read kid es \<longleftrightarrow> (\<exists>pre. es = pre @ [Keystore (KsRead kid)] \<and> Keystore (KsRead kid) \<notin> set pre
     \<and> matched_session pre \<and> Sensor VerifyStart \<in> set pre \<and> dev_path Unclaimed (sensor_calls pre) Unclaimed)"

lemma verify_fingerprint_reads_nothing:
  "adds_only (\<lambda>e. e \<noteq> Keystore (KsRead kid)) (verify_fingerprint L)"
  unfolding verify_fingerprint_def claim_and_scan_def scan_def by (auto intro!: adds_intros)

lemma verify_fingerprint_session:
  assumes "\<And>r es. Keystore (KsRead kid) \<notin> set es \<Longrightarrow> r \<noteq> Inl NotEnrolled \<Longrightarrow>
    \<not> isl r \<longrightarrow> dev_path Unclaimed (sensor_calls es) Unclaimed \<and> Sensor VerifyStart \<in> set es
      \<and> matched_session es \<Longrightarrow> Q r es"
  shows "traced (verify_fingerprint L) Q"
proof -
  have "\<exists>es. w_trace (snd (verify_fingerprint L w)) = w_trace w @ es \<and> Q (fst (verify_fingerprint L w)) es"
    for w
  proof -
    obtain r u where run: "verify_fingerprint L w = (r, u)" by fastforce
    obtain es where es: "w_trace u = w_trace w @ es" "\<not> isl r \<longrightarrow> dev_path Unclaimed (sensor_calls es) Unclaimed"
      by (rule tracedE[OF verify_fingerprint_path run])
    moreover have "Keystore (KsRead kid) \<notin> set es"
      using adds_onlyE[OF verify_fingerprint_reads_nothing run] es(1) by (auto simp: list_all_iff)
    moreover have "r \<noteq> Inl NotEnrolled" "r = Inr () \<longrightarrow> matched_session es \<and> Sensor VerifyStart \<in> set es"
      using tracedD[OF verify_fingerprint_result run es(1)] by auto
    ultimately have "Q r es"
      by (intro assms) (cases r; auto)+
    then show ?thesis using run es(1) by simp
  qed
  then show ?thesis unfolding traced_def by blast
qed

lemma linux_retrieve_protocol:
  "traced (linux_retrieve L kid) (\<lambda>r es. case r of
     Inr secret \<Rightarrow> gated_read kid es \<and> valid_utf8 secret
   | Inl NotEnrolled \<Rightarrow> list_all quiet es
   | Inl e \<Rightarrow> True)"
  unfolding linux_retrieve_def run_blocking_def open_keyring_def
  by (auto intro!: traced_intros verify_fingerprint_session[where kid = kid]
      split: sum.splits biometric_error.splits simp: backend_err_def unavailable_err_def gated_read_def isl_def)

end
