(* ===== verification/Vault_Map.thy ===== *)
theory Vault_Map
  imports Biometric_Native
begin

text \<open>
  What a vault promises about its contents. The abstract vault is a map from key fingerprints
  to passphrases: \<open>store\<close> updates it, \<open>retrieve\<close> reads it, \<open>delete\<close> removes from it, \<open>list\<close> gives
  its domain. \<open>keymap_vault V I h\<close> says that the methods of \<open>V\<close> implement that map, read off
  the state of the platform by \<open>h\<close>, as long as \<open>I\<close> holds of it. The three backends implement
  it on three different stores: the Secret Service (items with attributes, found by a subset of
  them), the Keychain (items by service and account) and the Credential Locker (credential
  objects by resource and user name). What those services document is stated by
  \<open>keyring_law\<close>, \<open>keychain_law\<close> and \<open>locker_law\<close>; that nothing else changes the store while a
  method runs is part of them.
\<close>

section \<open>The abstract vault\<close>

type_synonym keymap = "string \<Rightarrow> string option"

definition store_post :: "keymap \<Rightarrow> string \<Rightarrow> string \<Rightarrow> biometric_error + unit \<Rightarrow> keymap \<Rightarrow> bool" where
  "store_post m fp p r m' = (case r of
     Inr _ \<Rightarrow> m' = m(fp \<mapsto> p)
   | Inl e \<Rightarrow> m' \<in> {m, m(fp := None), m(fp \<mapsto> p)})"

definition retrieve_post :: "keymap \<Rightarrow> string \<Rightarrow> biometric_error + string \<Rightarrow> keymap \<Rightarrow> bool" where
  "retrieve_post m fp r m' \<longleftrightarrow> m' = m \<and> (case r of
     Inr p \<Rightarrow> m fp = Some p
   | Inl NotEnrolled \<Rightarrow> m fp = None
   | Inl e \<Rightarrow> True)"

definition delete_post :: "keymap \<Rightarrow> string \<Rightarrow> biometric_error + unit \<Rightarrow> keymap \<Rightarrow> bool" where
  "delete_post m fp r m' \<longleftrightarrow> (case r of
     Inr _ \<Rightarrow> m fp \<noteq> None \<and> m' = m(fp := None)
   | Inl NotEnrolled \<Rightarrow> m fp = None \<and> m' = m
   | Inl e \<Rightarrow> m' = m \<or> m' = m(fp := None))"

definition list_post :: "keymap \<Rightarrow> biometric_error + enrolled_key list \<Rightarrow> keymap \<Rightarrow> bool" where
  "list_post m r m' \<longleftrightarrow> m' = m \<and> (case r of
     Inr ks \<Rightarrow> ek_fingerprint ` set ks = dom m
   | Inl e \<Rightarrow> True)"

text \<open>A method meets a postcondition on the map, and keeps the invariant.\<close>

definition on_map ::
  "('x store \<Rightarrow> bool) \<Rightarrow> ('x store \<Rightarrow> keymap) \<Rightarrow> ('x world \<Rightarrow> 'a \<times> 'x world)
   \<Rightarrow> (keymap \<Rightarrow> 'a \<Rightarrow> keymap \<Rightarrow> bool) \<Rightarrow> bool" where
  "on_map I h m Q \<longleftrightarrow> (\<forall>w r w'. I (store_of w) \<longrightarrow> m w = (r, w') \<longrightarrow>
     I (store_of w') \<and> Q (h (store_of w)) r (h (store_of w')))"

definition keymap_vault :: "'x vault \<Rightarrow> ('x store \<Rightarrow> bool) \<Rightarrow> ('x store \<Rightarrow> keymap) \<Rightarrow> bool" where
  "keymap_vault V I h \<longleftrightarrow>
     (\<forall>fp p. on_map I h (v_store V (key_id_from_fingerprint fp) p) (\<lambda>m. store_post m fp p)) \<and>
     (\<forall>fp. on_map I h (v_retrieve V (key_id_from_fingerprint fp)) (\<lambda>m. retrieve_post m fp)) \<and>
     (\<forall>fp. on_map I h (v_delete V (key_id_from_fingerprint fp)) (\<lambda>m. delete_post m fp)) \<and>
     on_map I h (v_list V) list_post \<and>
     on_map I h (v_is_available V) (\<lambda>m r m'. m' = m)"

lemma on_mapD:
  assumes "on_map I h m Q" and "I (store_of w)" and "m w = (r, w')"
  shows "I (store_of w')" and "Q (h (store_of w)) r (h (store_of w'))"
  using assms by (auto simp: on_map_def)

lemma keymap_vaultD:
  assumes "keymap_vault V I h"
  shows "on_map I h (v_store V (key_id_from_fingerprint fp) p) (\<lambda>m. store_post m fp p)"
    and "on_map I h (v_retrieve V (key_id_from_fingerprint fp)) (\<lambda>m. retrieve_post m fp)"
    and "on_map I h (v_delete V (key_id_from_fingerprint fp)) (\<lambda>m. delete_post m fp)"
    and "on_map I h (v_list V) list_post"
    and "on_map I h (v_is_available V) (\<lambda>m r m'. m' = m)"
  using assms by (auto simp: keymap_vault_def)

lemma map_sum_iff [simp]:
  "map_sum k id r = Inr a \<longleftrightarrow> r = Inr a" "map_sum k id r = Inl e \<longleftrightarrow> (\<exists>d. r = Inl d \<and> e = k d)"
  by (cases r; auto)+

lemma on_map_wp: "on_map I h m Q \<longleftrightarrow> (\<forall>w. I (store_of w) \<longrightarrow> wp w m (\<lambda>r u. I (store_of u) \<and> Q (h (store_of w)) r (h (store_of u))))"
  by (auto simp: on_map_def wp_def split: prod.splits)

text \<open>The same vault beside something else that \<open>g\<close> observes and that its methods leave alone.\<close>

definition keymap_vault_beside ::
  "'x vault \<Rightarrow> ('x store \<Rightarrow> bool) \<Rightarrow> ('x store \<Rightarrow> keymap) \<Rightarrow> ('x store \<Rightarrow> 'b) \<Rightarrow> bool" where
  "keymap_vault_beside V I h g \<longleftrightarrow> (\<forall>c. keymap_vault V (\<lambda>s. I s \<and> g s = c) h)"

lemma on_map_beside:
  assumes "\<And>c. on_map (\<lambda>s. I s \<and> g s = c) h m Q"
  shows "on_map I h m Q"
  using assms unfolding on_map_def by blast

lemma on_map_framed: "on_map I h m Q \<Longrightarrow> frames g m \<Longrightarrow> on_map (\<lambda>s. I s \<and> g s = c) h m Q"
  unfolding on_map_def frames_def by (metis snd_conv)

lemma keymap_vault_of_beside: "keymap_vault_beside V I h g \<Longrightarrow> keymap_vault V I h"
  unfolding keymap_vault_beside_def keymap_vault_def
  by (intro conjI allI on_map_beside[of I g]) blast+

lemma keymap_vault_besideI:
  assumes "keymap_vault V I h"
    and "\<And>k p. frames g (v_store V k p)" "\<And>k. frames g (v_retrieve V k)" "\<And>k. frames g (v_delete V k)"
      "frames g (v_list V)" "frames g (v_is_available V)"
  shows "keymap_vault_beside V I h g"
  using assms(1) unfolding keymap_vault_beside_def keymap_vault_def
  by (intro allI conjI on_map_framed assms(2-6)) blast+

section \<open>macOS\<close>

text \<open>The Keychain keeps one generic password per service and account. Setting one that succeeds
  leaves it there; deleting one says whether there was one; a search for all attributes
  returns a dictionary per item, or the code for nothing found.\<close>

definition keychain_law :: "'x keychain_ops \<Rightarrow> ('x store \<Rightarrow> keymap) \<Rightarrow> bool" where
  "keychain_law M h \<longleftrightarrow>
     (\<forall>account. op_spec h (kc_delete M service_name account) (\<lambda>m r m'. case r of
        Inr _ \<Rightarrow> m account \<noteq> None \<and> m' = m(account := None)
      | Inl code \<Rightarrow> m' = m \<and> (code = err_sec_item_not_found \<longrightarrow> m account = None))) \<and>
     (\<forall>secret account access label.
      op_spec h (kc_set M secret \<lparr>pw_service = service_name, pw_account = account,
          pw_access_control = access, pw_label = label\<rparr>) (\<lambda>m r m'. case r of
        Inr _ \<Rightarrow> m' = m(account \<mapsto> secret)
      | Inl code \<Rightarrow> m' = m)) \<and>
     (\<forall>account. op_spec h (kc_get M (new_generic_password service_name account)) (\<lambda>m r m'. m' = m \<and> (case r of
        Inr secret \<Rightarrow> m account = Some secret
      | Inl code \<Rightarrow> code = err_sec_item_not_found \<longrightarrow> m account = None))) \<and>
     op_spec h (kc_search M \<lparr>so_service = service_name, so_load_attributes = True, so_load_data = False,
          so_all = True\<rparr>) (\<lambda>m r m'. m' = m \<and> (case r of
        Inr results \<Rightarrow> \<exists>attrs. results = map (Dict \<circ> Some) attrs \<and>
          (\<lambda>a. map_of a ''acct'') ` set attrs = Some ` dom m
      | Inl code \<Rightarrow> code = err_sec_item_not_found \<longrightarrow> m = Map.empty))"

lemma account_of_key_id [simp]: "account_of (key_id_from_fingerprint fp) = fp"
  by (simp add: account_of_def fingerprint_of_key_id_from)

lemma mac_map_error_not_enrolled [simp]:
  "mac_map_error code = NotEnrolled \<longleftrightarrow> code = err_sec_item_not_found"
  "NotEnrolled = mac_map_error code \<longleftrightarrow> code = err_sec_item_not_found"
  by (auto simp: mac_map_error_def)

lemma mac_enrolled_dicts:
  "map ek_fingerprint (mac_enrolled (map (Dict \<circ> Some) attrs))
   = map (\<lambda>a. case map_of a ''acct'' of Some k \<Rightarrow> k | None \<Rightarrow> []) attrs"
  by (induction attrs) auto

lemma mac_enrolled_dom:
  assumes "(\<lambda>a. map_of a ''acct'') ` set attrs = Some ` D"
  shows "ek_fingerprint ` set (mac_enrolled (map (Dict \<circ> Some) attrs)) = D"
proof -
  have "ek_fingerprint ` set (mac_enrolled (map (Dict \<circ> Some) attrs))
      = (\<lambda>v. case v of Some k \<Rightarrow> k | None \<Rightarrow> []) ` (\<lambda>a. map_of a ''acct'') ` set attrs"
    using arg_cong[OF mac_enrolled_dicts, of set] by (simp add: image_image)
  also have "\<dots> = D"
    by (simp add: assms image_image)
  finally show ?thesis .
qed

lemma mac_keymap:
  assumes "keychain_law M h"
  shows "keymap_vault (mac_vault M) (\<lambda>s. True) h"
proof -
  note laws = assms[unfolded keychain_law_def]
  note law = laws[THEN conjunct1, rule_format, THEN op_specD]
    laws[THEN conjunct2, THEN conjunct1, rule_format, THEN op_specD]
    laws[THEN conjunct2, THEN conjunct2, THEN conjunct1, rule_format, THEN op_specD]
    laws[THEN conjunct2, THEN conjunct2, THEN conjunct2, THEN op_specD]
  have "on_map (\<lambda>s. True) h (mac_store M (key_id_from_fingerprint fp) p) (\<lambda>m. store_post m fp p)" for fp p
    unfolding mac_store_def Let_def account_of_key_id new_generic_password_def password_options.simps on_map_wp wp_simps
    by (auto dest!: law split: sum.splits simp: store_post_def)
  moreover have "on_map (\<lambda>s. True) h (mac_retrieve M (key_id_from_fingerprint fp)) (\<lambda>m. retrieve_post m fp)" for fp
    unfolding mac_retrieve_def Let_def account_of_key_id on_map_wp wp_simps
    by (auto dest!: law split: sum.splits biometric_error.splits simp: retrieve_post_def)
  moreover have "on_map (\<lambda>s. True) h (mac_delete M (key_id_from_fingerprint fp)) (\<lambda>m. delete_post m fp)" for fp
    unfolding mac_delete_def account_of_key_id on_map_wp wp_simps
    by (auto dest!: law split: sum.splits biometric_error.splits simp: delete_post_def)
  moreover have "on_map (\<lambda>s. True) h (mac_list M) list_post"
    unfolding mac_list_def Let_def search_event_def on_map_wp wp_simps
    by (auto dest!: law mac_enrolled_dom split: sum.splits simp: list_post_def del: equalityI)
  ultimately show ?thesis
    by (simp add: keymap_vault_def mac_vault_def on_map_def effect_simps)
qed

text \<open>What the Keychain documents about access controls. \<open>guarded\<close> is the set of accounts whose item
  carries a user-presence control, \<open>asked\<close> how often the system has asked for the user's presence:
  an item is guarded when it is set with that control; reading a guarded item asks; looking for an
  item that is not there, setting, deleting and searching without the data do not.\<close>

definition presence_law :: "'x keychain_ops \<Rightarrow> ('x store \<Rightarrow> string set) \<Rightarrow> ('x store \<Rightarrow> nat) \<Rightarrow> bool" where
  "presence_law M guarded asked \<longleftrightarrow>
     (\<forall>account. op_spec (\<lambda>s. (guarded s, asked s)) (kc_delete M service_name account) (\<lambda>(g, n) r (g', n').
        n' = n \<and> g' = (if isl r then g else g - {account}))) \<and>
     (\<forall>secret account access label. op_spec (\<lambda>s. (guarded s, asked s))
        (kc_set M secret \<lparr>pw_service = service_name, pw_account = account,
          pw_access_control = access, pw_label = label\<rparr>) (\<lambda>(g, n) r (g', n').
        n' = n \<and> g' = (if isl r then g
          else if access = Some UserPresence then insert account g else g - {account}))) \<and>
     (\<forall>account. op_spec (\<lambda>s. (guarded s, asked s)) (kc_get M (new_generic_password service_name account)) (\<lambda>(g, n) r (g', n').
        g' = g \<and> n \<le> n' \<and> (case r of
          Inr secret \<Rightarrow> account \<in> g \<longrightarrow> n < n'
        | Inl code \<Rightarrow> code = err_sec_item_not_found \<longrightarrow> n' = n))) \<and>
     (\<forall>all. op_spec (\<lambda>s. (guarded s, asked s))
        (kc_search M \<lparr>so_service = service_name, so_load_attributes = True, so_load_data = False,
          so_all = all\<rparr>) (\<lambda>(g, n) r (g', n'). g' = g \<and> n' = n))"

lemma op_spec_both:
  "op_spec f m Q \<Longrightarrow> op_spec g m R \<Longrightarrow> m s = (r, s') \<Longrightarrow> Q (f s) r (f s') \<and> R (g s) r (g s')"
  by (auto dest: op_specD)

text \<open>Every item of the program is guarded: the methods keep that, and none but \<open>retrieve\<close> asks for
  the user's presence, which it does before every passphrase that it gives.\<close>

lemma mac_presence:
  assumes "keychain_law M h" and "presence_law M guarded asked" and "dom (h (store_of w)) \<subseteq> guarded (store_of w)"
  defines "kept \<equiv> (\<lambda>u. dom (h (store_of u)) \<subseteq> guarded (store_of u))" and "n \<equiv> asked (store_of w)"
  shows "wp w (mac_store M (key_id_from_fingerprint fp) p) (\<lambda>r u. kept u \<and> asked (store_of u) = n)"
    and "wp w (mac_delete M (key_id_from_fingerprint fp)) (\<lambda>r u. kept u \<and> asked (store_of u) = n)"
    and "wp w (mac_list M) (\<lambda>r u. kept u \<and> asked (store_of u) = n)"
    and "wp w (mac_retrieve M (key_id_from_fingerprint fp)) (\<lambda>r u. kept u \<and>
      (case r of Inr p \<Rightarrow> n < asked (store_of u) | Inl NotEnrolled \<Rightarrow> asked (store_of u) = n | Inl e \<Rightarrow> True))"
proof -
  note laws = assms(1)[unfolded keychain_law_def] and plaws = assms(2)[unfolded presence_law_def]
  note delete = op_spec_both[OF laws[THEN conjunct1, rule_format] plaws[THEN conjunct1, rule_format]]
    and set = op_spec_both[OF laws[THEN conjunct2, THEN conjunct1, rule_format]
        plaws[THEN conjunct2, THEN conjunct1, rule_format]]
    and get = op_spec_both[OF laws[THEN conjunct2, THEN conjunct2, THEN conjunct1, rule_format]
        plaws[THEN conjunct2, THEN conjunct2, THEN conjunct1, rule_format]]
    and search = op_spec_both[OF laws[THEN conjunct2, THEN conjunct2, THEN conjunct2]
        plaws[THEN conjunct2, THEN conjunct2, THEN conjunct2, rule_format]]
  note defs = Let_def account_of_key_id new_generic_password_def password_options.simps wp_simps kept_def n_def
  show "wp w (mac_store M (key_id_from_fingerprint fp) p) (\<lambda>r u. kept u \<and> asked (store_of u) = n)"
    unfolding mac_store_def defs using assms(3)
    by (auto dest!: delete set simp: subset_iff domIff split: sum.splits if_splits)
  show "wp w (mac_delete M (key_id_from_fingerprint fp)) (\<lambda>r u. kept u \<and> asked (store_of u) = n)"
    unfolding mac_delete_def defs using assms(3)
    by (auto dest!: delete simp: subset_iff domIff split: sum.splits if_splits)
  show "wp w (mac_list M) (\<lambda>r u. kept u \<and> asked (store_of u) = n)"
    unfolding mac_list_def search_event_def defs using assms(3)
    by (auto dest!: search simp: subset_iff domIff split: sum.splits if_splits)
  show "wp w (mac_retrieve M (key_id_from_fingerprint fp)) (\<lambda>r u. kept u \<and>
      (case r of Inr p \<Rightarrow> n < asked (store_of u) | Inl NotEnrolled \<Rightarrow> asked (store_of u) = n | Inl e \<Rightarrow> True))"
    unfolding mac_retrieve_def Let_def account_of_key_id wp_simps kept_def n_def using assms(3)
    by (auto dest!: get simp: subset_iff domIff split: sum.splits biometric_error.splits)
qed

lemma on_map_keeps:
  assumes "on_map (\<lambda>s. True) h m Q" and "\<And>w. I (store_of w) \<Longrightarrow> wp w m (\<lambda>r u. I (store_of u))"
  shows "on_map I h m Q"
  using assms unfolding on_map_def wp_def by fastforce

lemma mac_guarded:
  assumes "keychain_law M h" and "presence_law M guarded asked"
  shows "keymap_vault (mac_vault M) (\<lambda>s. dom (h s) \<subseteq> guarded s) h"
proof -
  note V = keymap_vaultD[OF mac_keymap[OF assms(1)]] and keeps = mac_presence[OF assms]
  have "on_map (\<lambda>s. dom (h s) \<subseteq> guarded s) h (mac_store M (key_id_from_fingerprint fp) p) (\<lambda>m. store_post m fp p)" for fp p
    by (rule on_map_keeps[OF V(1)[unfolded mac_vault_def vault.simps]]) (rule wp_mono[OF keeps(1)], simp_all)
  moreover have "on_map (\<lambda>s. dom (h s) \<subseteq> guarded s) h (mac_retrieve M (key_id_from_fingerprint fp)) (\<lambda>m. retrieve_post m fp)" for fp
    by (rule on_map_keeps[OF V(2)[unfolded mac_vault_def vault.simps]]) (rule wp_mono[OF keeps(4)], simp_all)
  moreover have "on_map (\<lambda>s. dom (h s) \<subseteq> guarded s) h (mac_delete M (key_id_from_fingerprint fp)) (\<lambda>m. delete_post m fp)" for fp
    by (rule on_map_keeps[OF V(3)[unfolded mac_vault_def vault.simps]]) (rule wp_mono[OF keeps(2)], simp_all)
  moreover have "on_map (\<lambda>s. dom (h s) \<subseteq> guarded s) h (mac_list M) list_post"
    by (rule on_map_keeps[OF V(4)[unfolded mac_vault_def vault.simps]]) (rule wp_mono[OF keeps(3)], simp_all)
  moreover have "on_map (\<lambda>s. dom (h s) \<subseteq> guarded s) h (ret True) (\<lambda>m r m'. m' = m)"
    by (simp add: on_map_wp wp_simps)
  ultimately show ?thesis
    unfolding keymap_vault_def mac_vault_def vault.simps by blast
qed

section \<open>Windows\<close>

text \<open>A credential object is the value \<open>cred c\<close>: a user name and a password. The locker keeps
  one per user name for the program's resource.\<close>

definition locker_law :: "('x, 'h) winrt_ops \<Rightarrow> ('h \<Rightarrow> string \<times> string) \<Rightarrow> ('x store \<Rightarrow> keymap) \<Rightarrow> bool" where
  "locker_law W cred h \<longleftrightarrow>
     (frame_op h (wr_check_availability W) \<and> (\<forall>x. frame_op h (wr_availability W x)) \<and>
      (\<forall>t. frame_op h (wr_request_verification W t)) \<and> (\<forall>x. frame_op h (wr_verified W x)) \<and>
      frame_op h (wr_locker W)) \<and>
     (\<forall>l account. op_spec h (wr_find W l service_name account) (\<lambda>m r m'. m' = m \<and> (case r of
        Inr c \<Rightarrow> fst (cred c) = account \<and> m account = Some (snd (cred c))
      | Inl e \<Rightarrow> we_code e = error_not_found \<longrightarrow> m account = None))) \<and>
     (\<forall>l c. op_spec h (wr_remove W l c) (\<lambda>m r m'. case r of
        Inr _ \<Rightarrow> m' = m(fst (cred c) := None) | Inl _ \<Rightarrow> m' = m \<or> m' = m(fst (cred c) := None))) \<and>
     (\<forall>account p c. wr_create_credential W service_name account p = Inr c \<longrightarrow> cred c = (account, p)) \<and>
     (\<forall>l c. op_spec h (wr_add W l c) (\<lambda>m r m'. case r of
        Inr _ \<Rightarrow> m' = m(fst (cred c) \<mapsto> snd (cred c)) | Inl _ \<Rightarrow> m' = m \<or> m' = m(fst (cred c) \<mapsto> snd (cred c)))) \<and>
     (\<forall>c. op_spec h (wr_password W c) (\<lambda>m r m'. m' = m \<and> (case r of
        Inr p \<Rightarrow> p = snd (cred c) | Inl _ \<Rightarrow> True))) \<and>
     (\<forall>l. op_spec h (wr_find_all W l service_name) (\<lambda>m r m'. m' = m \<and> (case r of
        Inr cs \<Rightarrow> fst ` cred ` set cs = dom m
      | Inl e \<Rightarrow> we_code e = error_not_found \<longrightarrow> m = Map.empty))) \<and>
     (\<forall>c. op_spec h (wr_user_name W c) (\<lambda>m r m'. m' = m \<and> r = Inr (fst (cred c))))"

lemma locker_lawD:
  assumes "locker_law W cred h"
  shows "frame_op h (wr_check_availability W)" "frame_op h (wr_availability W x)"
    "frame_op h (wr_request_verification W t)" "frame_op h (wr_verified W x)" "frame_op h (wr_locker W)"
    and "op_spec h (wr_find W l service_name account) (\<lambda>m r m'. m' = m \<and> (case r of
        Inr c \<Rightarrow> fst (cred c) = account \<and> m account = Some (snd (cred c))
      | Inl e \<Rightarrow> we_code e = error_not_found \<longrightarrow> m account = None))"
    and "op_spec h (wr_remove W l c) (\<lambda>m r m'. case r of
        Inr _ \<Rightarrow> m' = m(fst (cred c) := None) | Inl _ \<Rightarrow> m' = m \<or> m' = m(fst (cred c) := None))"
    and "wr_create_credential W service_name account p = Inr c \<Longrightarrow> cred c = (account, p)"
    and "op_spec h (wr_add W l c) (\<lambda>m r m'. case r of
        Inr _ \<Rightarrow> m' = m(fst (cred c) \<mapsto> snd (cred c)) | Inl _ \<Rightarrow> m' = m \<or> m' = m(fst (cred c) \<mapsto> snd (cred c)))"
    and "op_spec h (wr_password W c) (\<lambda>m r m'. m' = m \<and> (case r of Inr p \<Rightarrow> p = snd (cred c) | Inl _ \<Rightarrow> True))"
    and "op_spec h (wr_find_all W l service_name) (\<lambda>m r m'. m' = m \<and> (case r of
        Inr cs \<Rightarrow> fst ` cred ` set cs = dom m
      | Inl e \<Rightarrow> we_code e = error_not_found \<longrightarrow> m = Map.empty))"
    and "op_spec h (wr_user_name W c) (\<lambda>m r m'. m' = m \<and> r = Inr (fst (cred c)))"
  using assms unfolding locker_law_def by blast+

lemma win_names:
  assumes "locker_law W cred h"
  shows "wp w (for_try (\<lambda>credential enrolled.
       let_do (call (Keystore KsList) (wr_user_name W credential)) (\<lambda>name.
       ok (enrolled @ [\<lparr>ek_fingerprint = (case name of Inr n \<Rightarrow> n | Inl _ \<Rightarrow> []), ek_comment = None\<rparr>])))
       cs acc)
     (\<lambda>r u. h (store_of u) = h (store_of w) \<and> r = Inr (acc @ map (\<lambda>c. \<lparr>ek_fingerprint = fst (cred c), ek_comment = None\<rparr>) cs))"
proof (induction cs arbitrary: acc w)
  case (Cons c cs)
  show ?case
    unfolding for_try.simps wp_try_let wp_let_do
    by (rule wp_op_spec[OF locker_lawD(12)[OF assms]])
      (auto simp: wp_simps intro: wp_mono[OF Cons.IH])
qed (simp add: wp_simps)

lemma win_keymap:
  assumes "locker_law W cred h"
  shows "keymap_vault (windows_vault W) (\<lambda>s. True) h"
proof -
  note law = locker_lawD[OF assms]
  note laws = law(6,7,9,10,11,12)[THEN op_specD] law(1-5)[unfolded frame_op_def, THEN op_specD] law(8)
  note defs = win_locker_def on_map_wp wp_simps
  have "on_map (\<lambda>s. True) h (win_store W (key_id_from_fingerprint fp) p) (\<lambda>m. store_post m fp p)" for fp p
    unfolding win_store_def Let_def account_of_key_id defs
    by (auto dest!: laws split: sum.splits simp: store_post_def)
  moreover have "on_map (\<lambda>s. True) h (win_retrieve W (key_id_from_fingerprint fp)) (\<lambda>m. retrieve_post m fp)" for fp
    unfolding win_retrieve_def verify_consent_def Let_def account_of_key_id defs
    by (auto dest!: laws split: sum.splits biometric_error.splits
        simp: retrieve_post_def locker_error_def backend_err_def)
  moreover have "on_map (\<lambda>s. True) h (win_delete W (key_id_from_fingerprint fp)) (\<lambda>m. delete_post m fp)" for fp
    unfolding win_delete_def Let_def account_of_key_id defs
    by (auto dest!: laws split: sum.splits biometric_error.splits
        simp: delete_post_def locker_error_def backend_err_def)
  moreover have "on_map (\<lambda>s. True) h (win_list W) list_post"
    unfolding win_list_def defs
    by (auto dest!: laws split: sum.splits simp: list_post_def image_image del: equalityI
        intro!: wp_mono[OF win_names[OF assms]])
  moreover have "frames h (win_is_available W)"
    unfolding win_is_available_def by (auto intro!: frames_intros law split: sum.splits)
  ultimately show ?thesis
    by (simp add: keymap_vault_def windows_vault_def on_map_def frames_def) (metis snd_conv)
qed

section \<open>Linux\<close>

text \<open>The keyring is a map from attribute sets to secrets; an item handle \<open>i\<close> stands for the
  attributes \<open>at i\<close>. A search finds the items that have all the attributes asked for,
  \<open>delete\<close> removes them, and creating an item with \<open>replace\<close> overwrites the one with the same
  attributes. The program finds its own entries only if nobody else has filed items under its
  application and type: \<open>own_items\<close>, which every method keeps.\<close>

type_synonym items = "(string \<times> string) set \<Rightarrow> string option"

definition own_attributes :: "string \<Rightarrow> (string \<times> string) set" where
  "own_attributes fp = set (attributes (key_id_from_fingerprint fp))"

definition own_items :: "items \<Rightarrow> bool" where
  "own_items m \<longleftrightarrow> (\<forall>a \<in> dom m. {app_attr, type_attr} \<subseteq> a \<longrightarrow> a \<in> range own_attributes)"

definition entries :: "items \<Rightarrow> keymap" where
  "entries m fp = m (own_attributes fp)"

definition keyring_law :: "('x, 'h) linux_ops \<Rightarrow> ('h \<Rightarrow> (string \<times> string) set) \<Rightarrow> ('x store \<Rightarrow> items) \<Rightarrow> bool" where
  "keyring_law L at items \<longleftrightarrow>
     (frame_op items (lx_runtime L) \<and> frame_op items (lx_system_bus L) \<and>
      (\<forall>x. frame_op items (lx_manager L x)) \<and> (\<forall>x. frame_op items (lx_default_device L x)) \<and>
      (\<forall>x. frame_op items (lx_default_device_timed L x)) \<and> (\<forall>x. frame_op items (lx_device_build L x)) \<and>
      (\<forall>x u. frame_op items (lx_list_fingers L x u)) \<and> (\<forall>x u. frame_op items (lx_claim L x u)) \<and>
      (\<forall>x. frame_op items (lx_release L x)) \<and> (\<forall>x. frame_op items (lx_subscribe L x)) \<and>
      (\<forall>x f. frame_op items (lx_verify_start L x f)) \<and> (\<forall>x. frame_op items (lx_signals L x)) \<and>
      (\<forall>x. frame_op items (lx_verify_stop L x)) \<and> frame_op items (lx_keyring L) \<and>
      frame_op items (lx_keyring_timed L) \<and> (\<forall>k. frame_op items (lx_unlock L k))) \<and>
     (\<forall>k label as p. op_spec items (lx_create_item L k label as p True) (\<lambda>m r m'. case r of
        Inr _ \<Rightarrow> m' = m(set as \<mapsto> p) | Inl _ \<Rightarrow> m' = m \<or> m' = m(set as \<mapsto> p))) \<and>
     (\<forall>k q. op_spec items (lx_search L k q) (\<lambda>m r m'. m' = m \<and> (case r of
        Inr is \<Rightarrow> at ` set is = {a \<in> dom m. set q \<subseteq> a} | Inl _ \<Rightarrow> True))) \<and>
     (\<forall>i. op_spec items (lx_item_secret L i) (\<lambda>m r m'. m' = m \<and> (case r of
        Inr p \<Rightarrow> m (at i) = Some p | Inl _ \<Rightarrow> True))) \<and>
     (\<forall>i. op_spec items (lx_item_attributes L i) (\<lambda>m r m'. m' = m \<and> (case r of
        Inr as \<Rightarrow> set as = at i \<and> distinct (map fst as) | Inl _ \<Rightarrow> True))) \<and>
     (\<forall>k q. op_spec items (lx_delete_items L k q) (\<lambda>m r m'. case r of
        Inr _ \<Rightarrow> m' = (\<lambda>a. if set q \<subseteq> a then None else m a)
      | Inl _ \<Rightarrow> \<forall>a. m' a = m a \<or> m' a = None \<and> set q \<subseteq> a))"

lemma keyring_lawD:
  assumes "keyring_law L at items"
  shows "frame_op items (lx_runtime L)" "frame_op items (lx_system_bus L)" "frame_op items (lx_manager L x)"
    "frame_op items (lx_default_device L x)" "frame_op items (lx_default_device_timed L x)"
    "frame_op items (lx_device_build L x)" "frame_op items (lx_list_fingers L x u)"
    "frame_op items (lx_claim L x u)" "frame_op items (lx_release L x)" "frame_op items (lx_subscribe L x)"
    "frame_op items (lx_verify_start L x f)" "frame_op items (lx_signals L x)"
    "frame_op items (lx_verify_stop L x)" "frame_op items (lx_keyring L)"
    "frame_op items (lx_keyring_timed L)" "frame_op items (lx_unlock L k)"
    and "op_spec items (lx_create_item L k label as p True) (\<lambda>m r m'. case r of
        Inr _ \<Rightarrow> m' = m(set as \<mapsto> p) | Inl _ \<Rightarrow> m' = m \<or> m' = m(set as \<mapsto> p))"
    and "op_spec items (lx_search L k q) (\<lambda>m r m'. m' = m \<and> (case r of
        Inr is \<Rightarrow> at ` set is = {a \<in> dom m. set q \<subseteq> a} | Inl _ \<Rightarrow> True))"
    and "op_spec items (lx_item_secret L i) (\<lambda>m r m'. m' = m \<and> (case r of
        Inr p \<Rightarrow> m (at i) = Some p | Inl _ \<Rightarrow> True))"
    and "op_spec items (lx_item_attributes L i) (\<lambda>m r m'. m' = m \<and> (case r of
        Inr as \<Rightarrow> set as = at i \<and> distinct (map fst as) | Inl _ \<Rightarrow> True))"
    and "op_spec items (lx_delete_items L k q) (\<lambda>m r m'. case r of
        Inr _ \<Rightarrow> m' = (\<lambda>a. if set q \<subseteq> a then None else m a)
      | Inl _ \<Rightarrow> \<forall>a. m' a = m a \<or> m' a = None \<and> set q \<subseteq> a)"
  using assms by (simp_all only: keyring_law_def simp_thms)

lemma own_attributes_subset_iff [simp]: "own_attributes fp \<subseteq> own_attributes fp' \<longleftrightarrow> fp = fp'"
proof
  assume "own_attributes fp \<subseteq> own_attributes fp'"
  then have "(''fingerprint'', fp) \<in> own_attributes fp'"
    by (auto simp: own_attributes_def attributes_def fingerprint_of_key_id_from)
  then show "fp = fp'"
    by (simp add: own_attributes_def attributes_def fingerprint_of_key_id_from app_attr_def type_attr_def)
qed simp

lemma own_attributes_eq_iff [simp]: "own_attributes fp = own_attributes fp' \<longleftrightarrow> fp = fp'"
  by (metis own_attributes_subset_iff order_refl)

lemma inj_own_attributes: "inj own_attributes"
  by (simp add: inj_def)

lemma own_attributes_tags [simp]: "app_attr \<in> own_attributes fp" "type_attr \<in> own_attributes fp"
  by (simp_all add: own_attributes_def attributes_def)

text \<open>Under \<open>own_items\<close> a search for the attributes of a key finds its entry and nothing else.\<close>

lemma own_match:
  assumes "own_items m" and "a \<in> dom m" and "own_attributes fp \<subseteq> a"
  shows "a = own_attributes fp"
proof -
  have "{app_attr, type_attr} \<subseteq> a"
    using assms(3) own_attributes_tags[of fp] by blast
  with assms show ?thesis
    by (auto simp: own_items_def)
qed

lemma own_search:
  "own_items m \<Longrightarrow> {a \<in> dom m. own_attributes fp \<subseteq> a}
     = (if entries m fp = None then {} else {own_attributes fp})"
  by (auto simp: entries_def dest: own_match)

lemma own_items_update [simp]: "own_items m \<Longrightarrow> own_items (m(own_attributes fp \<mapsto> p))"
  by (auto simp: own_items_def)

lemma own_items_less: "own_items m \<Longrightarrow> \<forall>a. m' a = m a \<or> m' a = None \<and> P a \<Longrightarrow> own_items m'"
  unfolding own_items_def dom_def by (metis (mono_tags, lifting) mem_Collect_eq)

lemma entries_update [simp]: "entries (m(own_attributes fp \<mapsto> p)) = (entries m)(fp \<mapsto> p)"
  by (auto simp: entries_def)

lemma entries_delete:
  "own_items m \<Longrightarrow> entries (\<lambda>a. if own_attributes fp \<subseteq> a then None else m a) = (entries m)(fp := None)"
  by (auto simp: entries_def)

lemma entries_partly:
  "\<forall>a. m' a = m a \<or> m' a = None \<and> own_attributes fp \<subseteq> a \<Longrightarrow>
     entries m' = entries m \<or> entries m' = (entries m)(fp := None)"
  unfolding entries_def fun_eq_iff by (metis fun_upd_apply own_attributes_subset_iff)

lemma enrolled_of_own:
  assumes "set as = own_attributes fp" and "distinct (map fst as)"
  shows "ek_fingerprint (enrolled_of_attributes as) = fp"
proof -
  have "(''fingerprint'', fp) \<in> set as"
    by (simp add: assms(1) own_attributes_def attributes_def fingerprint_of_key_id_from)
  then have "map_of as ''fingerprint'' = Some fp"
    using assms(2) by simp
  then show ?thesis
    by (simp add: enrolled_of_attributes_def)
qed


lemma frames_scan_loop [frames_intros]: "frames g (scan_loop sigs elapsed)"
proof (induction sigs)
  case (Cons s sigs)
  then show ?case
    unfolding scan_loop.simps hint_def by (intro frames_intros) auto
qed (simp add: frames_basic)

lemma frames_open_keyring:
  assumes "keyring_law L at items"
  shows "frames items (open_keyring L)"
  unfolding open_keyring_def by (intro frames_intros keyring_lawD[OF assms])

lemma frames_verify_fingerprint:
  assumes "keyring_law L at items"
  shows "frames items (verify_fingerprint L)"
  unfolding verify_fingerprint_def claim_and_scan_def scan_def hint_def
  by (intro frames_intros keyring_lawD[OF assms])

lemma own_found:
  assumes "keyring_law L at items" and "lx_search L k (attributes (key_id_from_fingerprint fp)) s = (r, s')"
    and "own_items (items s)"
  shows "items s' = items s \<and> (case r of
      Inr is \<Rightarrow> (is = [] \<longleftrightarrow> entries (items s) fp = None) \<and> list_all (\<lambda>i. at i = own_attributes fp) is
    | Inl e \<Rightarrow> True)"
  using op_specD[OF keyring_lawD(18)[OF assms(1)] assms(2)] assms(3)
  by (auto simp: own_attributes_def[symmetric] own_search list_all_iff split: sum.splits if_splits)

lemma own_all_found:
  assumes "keyring_law L at items" and "lx_search L k [app_attr, type_attr] s = (r, s')"
    and "own_items (items s)"
  shows "items s' = items s \<and> (case r of
      Inr is \<Rightarrow> at ` set is = own_attributes ` dom (entries (items s))
        \<and> list_all (\<lambda>i. at i \<in> range own_attributes) is
    | Inl e \<Rightarrow> True)"
proof -
  have "{a \<in> dom (items s). app_attr \<in> a \<and> type_attr \<in> a} = own_attributes ` dom (entries (items s))"
    using assms(3) by (force simp: own_items_def entries_def)
  then have found: "items s' = items s \<and> (case r of
      Inr is \<Rightarrow> at ` set is = own_attributes ` dom (entries (items s)) | Inl e \<Rightarrow> True)"
    using op_specD[OF keyring_lawD(18)[OF assms(1)] assms(2)] by (auto split: sum.splits del: equalityI)
  have "at i \<in> range own_attributes" if "at ` set is = own_attributes ` D" and "i \<in> set is" for "is" D i
    using imageI[OF that(2), of at] that(1) by auto
  then have "list_all (\<lambda>i. at i \<in> range own_attributes) is" if "at ` set is = own_attributes ` D" for "is" D
    using that by (simp add: list_all_iff)
  with found show ?thesis
    by (cases r) simp_all
qed

lemma own_deleted:
  assumes "keyring_law L at items"
    and "lx_delete_items L k (attributes (key_id_from_fingerprint fp)) s = (r, s')"
    and "own_items (items s)"
  shows "own_items (items s') \<and> (case r of
      Inr _ \<Rightarrow> entries (items s') = (entries (items s))(fp := None)
    | Inl e \<Rightarrow> entries (items s') = entries (items s) \<or> entries (items s') = (entries (items s))(fp := None))"
proof (cases r)
  case (Inl e)
  then have less: "\<forall>a. items s' a = items s a \<or> items s' a = None \<and> own_attributes fp \<subseteq> a"
    using op_specD[OF keyring_lawD(21)[OF assms(1)] assms(2)] by (simp add: own_attributes_def)
  then show ?thesis
    using own_items_less[OF assms(3) less] entries_partly[OF less] Inl by simp
next
  case (Inr x)
  then have less: "items s' = (\<lambda>a. if own_attributes fp \<subseteq> a then None else items s a)"
    using op_specD[OF keyring_lawD(21)[OF assms(1)] assms(2)] by (simp add: own_attributes_def)
  have "own_items (items s')"
    by (rule own_items_less[OF assms(3), where P = "\<lambda>a. own_attributes fp \<subseteq> a"]) (simp add: less)
  then show ?thesis
    using Inr entries_delete[OF assms(3)] by (simp add: less)
qed

text \<open>Neither opening the keyring nor the fingerprint check touches the items, and neither says
  that a key is not enrolled.\<close>

lemma wp_keyring_steps:
  assumes "keyring_law L at items"
    and "\<And>r u. items (store_of u) = items (store_of w) \<Longrightarrow> r \<noteq> Inl NotEnrolled \<Longrightarrow> Q r u"
    and "\<And>r u. items (store_of u) = items (store_of w) \<Longrightarrow> r \<noteq> Inl NotEnrolled \<Longrightarrow> R r u"
  shows "wp w (open_keyring L) Q" and "wp w (verify_fingerprint L) R"
proof -
  have "traced (open_keyring L) (\<lambda>r es. r \<noteq> Inl NotEnrolled)"
    by (auto intro: traced_open_keyring)
  then show "wp w (open_keyring L) Q"
    using frames_open_keyring[OF assms(1)] assms(2)
    by (auto simp: wp_def traced_def frames_def split: prod.splits) (metis fst_conv snd_conv)
  have "traced (verify_fingerprint L) (\<lambda>r es. r \<noteq> Inl NotEnrolled)"
    by (rule traced_mono[OF verify_fingerprint_result]) simp
  then show "wp w (verify_fingerprint L) R"
    using frames_verify_fingerprint[OF assms(1)] assms(3)
    by (auto simp: wp_def traced_def frames_def split: prod.splits) (metis fst_conv snd_conv)
qed

lemma linux_names:
  assumes "keyring_law L at items" and "list_all (\<lambda>i. at i \<in> range own_attributes) is"
  shows "wp w (for_try (\<lambda>item enrolled.
       try_let (map_err (backend_err ''keyring attributes'')
         (call (Keystore KsList) (lx_item_attributes L item))) (\<lambda>attrs.
       ok (enrolled @ [enrolled_of_attributes attrs]))) is acc)
     (\<lambda>r u. items (store_of u) = items (store_of w) \<and> (case r of
        Inr l \<Rightarrow> own_attributes ` ek_fingerprint ` set l = own_attributes ` ek_fingerprint ` set acc \<union> at ` set is
      | Inl e \<Rightarrow> True))"
  using assms(2)
proof (induction "is" arbitrary: acc w)
  case (Cons i "is")
  have item: "at i = own_attributes (ek_fingerprint (enrolled_of_attributes as))"
    if "set as = at i \<and> distinct (map fst as)" for as
    using that Cons.prems enrolled_of_own[of as] by auto
  have rest: "list_all (\<lambda>i. at i \<in> range own_attributes) is"
    using Cons.prems by simp
  show ?case
    unfolding for_try.simps wp_try_let wp_map_err
    by (rule wp_op_spec[OF keyring_lawD(20)[OF assms(1)]])
      (auto simp: wp_simps item split: sum.splits del: equalityI intro!: wp_mono[OF Cons.IH[OF rest]])
qed (simp add: wp_simps)

lemma frames_linux_available:
  assumes "keyring_law L at items"
  shows "frames items (linux_is_available L)"
  unfolding linux_is_available_def run_blocking_def by (intro frames_intros keyring_lawD[OF assms])

lemma linux_keymap:
  assumes "keyring_law L at items"
  shows "keymap_vault (linux_vault L) (own_items \<circ> items) (entries \<circ> items)"
proof -
  note law = keyring_lawD[OF assms]
  note laws = law(17,18,19)[THEN op_specD] law(1)[unfolded frame_op_def, THEN op_specD]
  note own = own_found[OF assms] own_deleted[OF assms]
  note frame = wp_keyring_steps[OF assms]
  note defs = run_blocking_def Let_def on_map_wp wp_simps o_def
  have "on_map (own_items \<circ> items) (entries \<circ> items) (linux_store L (key_id_from_fingerprint fp) p)
      (\<lambda>m. store_post m fp p)" for fp p
    unfolding linux_store_def defs
    by (auto dest!: laws intro!: frame split: sum.splits simp: store_post_def own_attributes_def[symmetric])
  moreover have "on_map (own_items \<circ> items) (entries \<circ> items) (linux_retrieve L (key_id_from_fingerprint fp))
      (\<lambda>m. retrieve_post m fp)" for fp
    unfolding linux_retrieve_def defs
    by (auto dest!: own laws(3,4) intro!: frame split: sum.splits list.splits biometric_error.splits
        simp: retrieve_post_def entries_def backend_err_def)
  moreover have "on_map (own_items \<circ> items) (entries \<circ> items) (linux_delete L (key_id_from_fingerprint fp))
      (\<lambda>m. delete_post m fp)" for fp
    unfolding linux_delete_def defs
    by (auto dest!: own laws(4) intro!: frame split: sum.splits list.splits biometric_error.splits
        simp: delete_post_def backend_err_def)
  moreover have "on_map (own_items \<circ> items) (entries \<circ> items) (linux_list L) list_post"
    unfolding linux_list_def defs
    by (auto dest!: own_all_found[OF assms] laws(4) intro!: frame wp_mono[OF linux_names[OF assms]]
        split: sum.splits simp: list_post_def inj_image_eq_iff[OF inj_own_attributes] del: equalityI)
  moreover have "on_map (own_items \<circ> items) (entries \<circ> items) (linux_is_available L) (\<lambda>m r m'. m' = m)"
    using frames_linux_available[OF assms] by (auto simp: on_map_def frames_def) (metis snd_conv)+
  ultimately show ?thesis
    by (simp add: keymap_vault_def linux_vault_def)
qed

section \<open>What each build asks\<close>

lemma mac_unlock_asks:
  assumes "keychain_law M h" and "presence_law M guarded asked" and "dom (h (store_of w)) \<subseteq> guarded (store_of w)"
    and run: "auto_unlock_passphrase K (mac_vault M) key w = (Passphrase p, w')"
  shows "asked (store_of w) < asked (store_of w')"
proof -
  obtain r u where r: "mac_retrieve M (key_id K key) w = (r, u)" by fastforce
  then have "r = Inr p" "u = w'"
    using run auto_unlock_passphrase_cases[of "mac_vault M" K key w r u]
    by (auto simp: mac_vault_def split: sum.splits if_splits)
  then show ?thesis
    using mac_presence(4)[OF assms(1-3), of "pk_fingerprint K (sk_public K key) Sha256"] r
    by (simp add: wp_def key_id_via_fingerprint)
qed

lemma mac_not_enrolled_asks_nothing:
  assumes "presence_law M guarded asked" and "mac_retrieve M kid w = (Inl NotEnrolled, w')"
  shows "asked (store_of w') = asked (store_of w)"
proof -
  note get = assms(1)[unfolded presence_law_def, THEN conjunct2, THEN conjunct2, THEN conjunct1, rule_format, THEN op_specD]
  have "wp w (mac_retrieve M kid) (\<lambda>r u. r = Inl NotEnrolled \<longrightarrow> asked (store_of u) = asked (store_of w))"
    unfolding mac_retrieve_def Let_def wp_simps by (auto dest!: get split: sum.splits)
  then show ?thesis
    using assms(2) by (simp add: wp_def)
qed

text \<open>Nothing but \<open>retrieve\<close> makes the Keychain ask.\<close>

lemma mac_asks_nothing:
  assumes "presence_law M guarded asked"
  shows "frames asked (v_delete (mac_vault M) kid)" "frames asked (v_list (mac_vault M))"
    "frames asked (v_is_available (mac_vault M))"
proof -
  note laws = assms[unfolded presence_law_def]
  note delete = laws[THEN conjunct1, rule_format, THEN op_specD]
    and search = laws[THEN conjunct2, THEN conjunct2, THEN conjunct2, rule_format, THEN op_specD]
  show "frames asked (v_delete (mac_vault M) kid)"
    unfolding frames_wp mac_vault_def vault.simps mac_delete_def wp_simps
    by (auto dest!: delete split: sum.splits)
  show "frames asked (v_list (mac_vault M))"
    unfolding frames_wp mac_vault_def vault.simps mac_list_def Let_def search_event_def wp_simps
    by (auto dest!: search split: sum.splits)
  show "frames asked (v_is_available (mac_vault M))"
    by (simp add: mac_vault_def frames_basic)
qed

lemma not_enrolled_quiet:
  assumes "v_retrieve (backend feature os P) kid v = (Inl NotEnrolled, v')" and "os \<noteq> Macos"
  shows "\<exists>es. w_trace v' = w_trace v @ es \<and> list_all quiet es"
proof (cases "feature \<and> os \<in> {Linux, Windows}")
  case True
  then consider "linux_retrieve (pf_linux P) kid v = (Inl NotEnrolled, v')"
    | "win_retrieve (pf_winrt P) kid v = (Inl NotEnrolled, v')"
    using assms(1) by (auto simp: backend_def linux_vault_def windows_vault_def)
  then show ?thesis
    by cases (auto elim: tracedE[OF linux_retrieve_result] tracedE[OF win_retrieve_result])
next
  case False
  then have "backend feature os P = unsupported_vault feature"
    using assms(2) by (cases os) (auto simp: backend_def)
  then show ?thesis
    using assms(1) by (simp add: unsupported_vault_def unsupported_reason_def effect_simps)
qed

lemma unsupported_releases_nothing:
  "\<not> feature \<or> os = OtherOs \<Longrightarrow> fst (auto_unlock_passphrase K (backend feature os P) key w) = Fallback"
  by (cases feature)
    (simp_all add: backend_def unsupported_vault_def auto_unlock_passphrase_cases unsupported_reason_def effect_simps)

end
