(* ===== verification/Anvil.thy ===== *)
theory Anvil
  imports Output_Mode
begin

text \<open>
  What the program uses of its transport library \<open>anvil_ssh\<close>, which is not in the repository:
  the fields it reads of the library's data (as records), the calls it makes to the
  configuration builder (as the list of those calls, which the library's \<open>build\<close>
  interprets), and the library's operations (as the fields of \<open>anvil_ops\<close>, an argument of
  the model). \<open>'c\<close> is the built configuration, \<open>'s\<close> a session.
\<close>

section \<open>Data\<close>

datatype strict_checking = StrictYes | StrictNo | StrictAcceptNew

record jump_host =
  jh_host :: string
  jh_port :: u16
  jh_user :: "string option"

record provenance =
  pv_directive :: string
  pv_file :: string
  pv_line :: nat

record resolved_config =
  rc_hostname :: "string option"
  rc_user :: "string option"
  rc_port :: "u16 option"
  rc_identity_files :: "string list"
  rc_identities_only :: "bool option"
  rc_identity_agent :: "string option"
  rc_certificate_files :: "string list"
  rc_proxy_command :: "string option"
  rc_proxy_jump :: "string option"
  rc_user_known_hosts_files :: "string list"
  rc_strict_host_key_checking :: "strict_checking option"
  rc_host_key_algorithms :: "string option"
  rc_kex_algorithms :: "string option"
  rc_ciphers :: "string option"
  rc_macs :: "string option"
  rc_connect_timeout :: "u64 option"
  rc_connection_attempts :: "u32 option"
  rc_provenance :: "provenance list"

record config_paths =
  pt_user :: "string option"
  pt_system :: "string option"

record cert_authority =
  ca_host_pattern :: string
  ca_algorithm :: string
  ca_fingerprint :: string

record pinned_entry =
  pe_host_pattern :: string
  pe_fingerprint :: string

record host_trust =
  ht_fingerprints :: "string list"
  ht_cert_authorities :: "cert_authority list"
  ht_revoked :: "pinned_entry list"

record known_hosts_file =
  kh_direct :: "pinned_entry list"
  kh_cert_authorities :: "cert_authority list"
  kh_revoked :: "pinned_entry list"
  kh_hashed :: "string list"

datatype hash_mode = Hashed | Plaintext | EmptyFile

datatype alg_category = CatKex | CatCipher | CatMac | CatHostKey

record alg_entry =
  ae_name :: string
  ae_is_default :: bool
  ae_denylisted :: bool

record catalogue =
  ct_kex :: "alg_entry list"
  ct_cipher :: "alg_entry list"
  ct_mac :: "alg_entry list"
  ct_host_key :: "alg_entry list"

record retry_attempt =
  rt_attempt :: u32
  rt_reason :: string
  rt_elapsed_millis :: nat

datatype identity_resolution = IdentityFound string | IdentityEncrypted string | IdentityNotFound

section \<open>The configuration builder\<close>

datatype builder_call =
    BVerbose bool
  | BApplySshConfig resolved_config
  | BPort u16
  | BStrict strict_checking
  | BUsername string
  | BAddIdentity string
  | BCertFile string
  | BCustomKnownHosts string
  | BAlgorithms alg_category "string list"
  | BConnectTimeout u64
  | BAttempts u32
  | BMaxRetryWindow u64

record builder =
  bd_host :: string
  bd_calls :: "builder_call list"

definition builder_for :: "string \<Rightarrow> builder" where
  "builder_for host = \<lparr>bd_host = host, bd_calls = []\<rparr>"

definition bcall :: "builder_call \<Rightarrow> builder \<Rightarrow> builder" where
  "bcall c b = b\<lparr>bd_calls := bd_calls b @ [c]\<rparr>"

section \<open>Operations\<close>

record ('x, 'c, 's) anvil_ops =
  an_default_paths :: config_paths
  an_resolve :: "string \<Rightarrow> config_paths \<Rightarrow> ('x, anvil_error + resolved_config) xop"
  an_parse_jump_chain :: "string \<Rightarrow> anvil_error + jump_host list"
  an_apply_overrides :: "alg_category \<Rightarrow> string list \<Rightarrow> string \<Rightarrow> anvil_error + string list"
  an_default_algs :: "alg_category \<Rightarrow> string list"
  an_catalogue :: catalogue
  an_build :: "builder \<Rightarrow> 'c"
  an_github :: "'c"
  an_host :: "'c \<Rightarrow> string"
  an_port :: "'c \<Rightarrow> u16"
  an_username :: "'c \<Rightarrow> string"
  an_custom_known_hosts :: "'c \<Rightarrow> string option"
  an_find_identity :: "'c \<Rightarrow> ('x, anvil_error + identity_resolution) xop"
  an_agent_has_keys :: "('x, anvil_error + bool) xop"
  an_connect :: "'c \<Rightarrow> ('x, anvil_error + 's) xop"
  an_connect_proxy_command :: "'c \<Rightarrow> string \<Rightarrow> string \<Rightarrow> ('x, anvil_error + 's) xop"
  an_connect_jump_hosts :: "'c \<Rightarrow> jump_host list \<Rightarrow> ('x, anvil_error + 's) xop"
  an_fingerprint :: "'s \<Rightarrow> string option"
  an_retry_history :: "'s \<Rightarrow> retry_attempt list"
  an_auth_best :: "'s \<Rightarrow> 'c \<Rightarrow> ('x, anvil_error + unit) xop"
  an_auth_passphrase :: "'s \<Rightarrow> 'c \<Rightarrow> string \<Rightarrow> string \<Rightarrow> ('x, anvil_error + unit) xop"
  an_auth_banner :: "'s \<Rightarrow> ('x, string option) xop"
  an_exec :: "'s \<Rightarrow> string \<Rightarrow> ('x, anvil_error + u32) xop"
  an_close :: "'s \<Rightarrow> ('x, anvil_error + unit) xop"
  an_tempdir :: "('x, string + string) xop"
  an_default_known_hosts :: "string option"
  an_host_key_trust :: "string \<Rightarrow> string option \<Rightarrow> ('x, anvil_error + host_trust) xop"
  an_parse_known_hosts :: "string \<Rightarrow> anvil_error + known_hosts_file"
  an_all_embedded :: "(string \<times> string \<times> string) list"
  an_detect_hash_mode :: "string \<Rightarrow> ('x, anvil_error + hash_mode) xop"
  an_append :: "string \<Rightarrow> string \<Rightarrow> string \<Rightarrow> ('x, anvil_error + unit) xop"
  an_append_hashed :: "string \<Rightarrow> string \<Rightarrow> string \<Rightarrow> ('x, anvil_error + unit) xop"
  an_prepend_revoked :: "string \<Rightarrow> string \<Rightarrow> string \<Rightarrow> ('x, anvil_error + unit) xop"
  an_emit_diagnostic :: "anvil_error \<Rightarrow> string list \<Rightarrow> string"
  er_exit_code :: "anvil_error \<Rightarrow> u32"
  er_error_code :: "anvil_error \<Rightarrow> string"
  er_text :: "anvil_error \<Rightarrow> string"
  er_hint :: "anvil_error \<Rightarrow> string"
  er_is_no_key_found :: "anvil_error \<Rightarrow> bool"
  er_is_key_encrypted :: "anvil_error \<Rightarrow> bool"

end
