(* ===== verification/Key_Files.thy ===== *)
theory Key_Files
  imports Agent_Client Anvil
begin

text \<open>
  What \<open>gitway keygen\<close>, \<open>gitway sign\<close> and \<open>gitway-keygen\<close> share: the operations of
  \<open>anvil_ssh::keygen\<close>, \<open>sshsig\<close> and \<open>allowed_signers\<close> (the record \<open>sig_ops\<close>; \<open>'a\<close> is a
  loaded allowed-signers file, \<open>'t\<close> a signature before it is armored), the default comment,
  input and output of signatures, and the loading of a public key from either half. The three
  functions that do the latter keep the contract \<open>public_loader\<close>.
\<close>

datatype key_type = KtEd25519 | KtEcdsaP256 | KtEcdsaP384 | KtEcdsaP521 | KtRsa

datatype public_alg = PubEd25519 | PubEcdsaP256 | PubEcdsaP384 | PubEcdsaP521 | PubRsa | PubOther

record verified_signature =
  vs_principal :: string
  vs_fingerprint :: string

record ('x, 'g, 'k, 'p, 'a, 't) sig_ops =
  kg_generate :: "key_type \<Rightarrow> u32 option \<Rightarrow> string \<Rightarrow> ('x, anvil_error + 'k) xop"
  kg_write_keypair :: "'k \<Rightarrow> string \<Rightarrow> string option \<Rightarrow> ('x, anvil_error + unit) xop"
  kg_extract_public :: "string \<Rightarrow> string option \<Rightarrow> ('x, anvil_error + unit) xop"
  kg_change_passphrase :: "string \<Rightarrow> string option \<Rightarrow> string option \<Rightarrow> ('x, anvil_error + unit) xop"
  kg_cli_name :: "key_type \<Rightarrow> string"
  ks_public_alg :: "'p \<Rightarrow> public_alg"
  ks_rsa_modulus_bytes :: "'p \<Rightarrow> nat option"
  ks_load_allowed :: "string \<Rightarrow> ('x, anvil_error + 'a) xop"
  ks_verify :: "string \<Rightarrow> string \<Rightarrow> string \<Rightarrow> string \<Rightarrow> 'a \<Rightarrow> anvil_error + verified_signature"
  ks_check_novalidate :: "string \<Rightarrow> string \<Rightarrow> string \<Rightarrow> anvil_error + unit"
  ks_find_principals :: "string \<Rightarrow> 'a \<Rightarrow> string \<Rightarrow> anvil_error + string list"
  ks_find_principals_any_ns :: "string \<Rightarrow> 'a \<Rightarrow> anvil_error + string list"
  ks_sign :: "string \<Rightarrow> 'k \<Rightarrow> string \<Rightarrow> hash_kind \<Rightarrow> anvil_error + string"
  ks_sign_with_agent :: "string \<Rightarrow> 'g \<Rightarrow> 'p \<Rightarrow> string \<Rightarrow> hash_kind \<Rightarrow> ('x, anvil_error + string) xop"
  ks_raw_sign :: "'k \<Rightarrow> string \<Rightarrow> hash_kind \<Rightarrow> string \<Rightarrow> string + 't"
  ks_to_pem :: "'t \<Rightarrow> string + string"

section \<open>Small helpers\<close>

definition env_first :: "'x world \<Rightarrow> string \<Rightarrow> string \<Rightarrow> string \<Rightarrow> string" where
  "env_first w a b dflt = (case env_var w a of Some v \<Rightarrow> v
     | None \<Rightarrow> (case env_var w b of Some v \<Rightarrow> v | None \<Rightarrow> dflt))"

definition hostname :: "'x world \<Rightarrow> string" where
  "hostname w = env_first w ''HOSTNAME'' ''COMPUTERNAME'' ''localhost''"

definition default_comment :: "'x world \<Rightarrow> string" where
  "default_comment w = env_first w ''USER'' ''USERNAME'' ''user'' @ ''@'' @ hostname w"

definition pub_path_for :: "string \<Rightarrow> string" where
  "pub_path_for path = path @ ''.pub''"

text \<open>\<open>open_input\<close> with the reading that its callers do: standard input for \<open>-\<close> or no path.\<close>

definition open_input :: "string option \<Rightarrow> ('x world, string) eff" where
  "open_input path = (case path of
     Some p \<Rightarrow> if p = ''-'' then let_do read_stdin ok else map_err Io (read_bytes p)
   | None \<Rightarrow> let_do read_stdin ok)"

definition write_output :: "string option \<Rightarrow> string \<Rightarrow> ('x world, unit) eff" where
  "write_output path bytes = (case path of
     Some p \<Rightarrow> if p = ''-'' then let_do (emit (Out (Text bytes))) ok else map_err Io (write_file p bytes)
   | None \<Rightarrow> let_do (emit (Out (Text bytes))) ok)"

lemma default_comment_parts:
  "default_comment w = env_first w ''USER'' ''USERNAME'' ''user'' @ CHR ''@'' # hostname w"
  by (simp add: default_comment_def)

section \<open>Public keys from files\<close>

text \<open>
  A loader of public keys reads its file once, prefers the public form, falls back to the
  public half of a private key, and asks nobody for anything.
\<close>

locale public_loader =
  fixes K :: "('k, 'p) ssh_key_ops"
    and load :: "string \<Rightarrow> ('x world, 'p) eff"
  assumes loads_quietly: "adds_only (\<lambda>e. e = FsRead path) (load path)"
    and loads_public: "read_text_at (w_fs w) path = Inr raw \<Longrightarrow> pk_from_openssh K (trim raw) = Inr pk \<Longrightarrow>
      fst (load path w) = Inr pk"
    and loads_private: "read_text_at (w_fs w) path = Inr raw \<Longrightarrow> isl (pk_from_openssh K (trim raw)) \<Longrightarrow>
      sk_from_openssh K raw = Inr sk \<Longrightarrow> fst (load path w) = Inr (sk_public K sk)"
    and loads_io_error: "read_text_at (w_fs w) path = Inl e \<Longrightarrow> fst (load path w) = Inl (Io e)"
begin

text \<open>A private key and the public file next to it give the same public key, whether the
  private key is encrypted or not.\<close>

lemma either_half:
  assumes "read_text_at (w_fs w) path = Inr pem" and "isl (pk_from_openssh K (trim pem))"
    and "sk_from_openssh K pem = Inr sk"
    and "read_text_at (w_fs w') (path @ ''.pub'') = Inr pub"
    and "pk_from_openssh K (trim pub) = Inr (sk_public K sk)"
  shows "fst (load path w) = fst (load (path @ ''.pub'') w')"
  using loads_private[OF assms(1-3)] loads_public[OF assms(4,5)] by simp

end

text \<open>The common body: the label is the part of the error text in which the loaders differ.\<close>

definition parse_public_or_private ::
  "('k, 'p) ssh_key_ops \<Rightarrow> string \<Rightarrow> string \<Rightarrow> anvil_error + 'p" where
  "parse_public_or_private K what raw = (case pk_from_openssh K (trim raw) of
     Inr pk \<Rightarrow> Inr pk
   | Inl _ \<Rightarrow> (case sk_from_openssh K raw of
       Inr sk \<Rightarrow> Inr (sk_public K sk)
     | Inl e \<Rightarrow> Inl (InvalidConfig (what @ e))))"

lemma public_loader_of_parse:
  assumes "\<And>path. load path = try_let (read_to_string_q path)
    (\<lambda>raw. lift_res (parse_public_or_private K (what path) raw))"
  shows "public_loader K load"
  by unfold_locales
    (auto simp: assms parse_public_or_private_def read_to_string_q_def read_to_string_def
      effect_simps isl_def intro!: adds_intros split: sum.splits)

end
