(* ===== verification/Agent_Daemon.thy ===== *)
theory Agent_Daemon
  imports Agent_Client Anvil
begin

text \<open>
  \<open>gitway agent start | stop\<close> of \<open>gitway-cli/src/agent.rs\<close>: the default socket and pid paths,
  the detached child, the wait for its socket, the shell lines, and the pid that is signalled.
  The operating system calls are the record \<open>os_ops\<close>; the agent's accept loop itself is in
  \<open>anvil_ssh\<close> (\<open>os_daemon\<close>). The wait loop runs on fuel, \<open>poll_fuel\<close> rounds, and its theorem
  shows that this is enough for a clock that every sleep moves forward.
\<close>

record daemon_config =
  dc_socket_path :: string
  dc_pid_file :: "string option"
  dc_default_ttl :: "u64 option"

record 'x os_ops =
  os_pid :: u32
  os_current_exe :: "('x, string + string) xop"
  os_current_dir :: "('x, string + string) xop"
  os_create_dir_all :: "string \<Rightarrow> ('x, unit) xop"
  os_set_mode :: "string \<Rightarrow> nat \<Rightarrow> ('x, unit) xop"
  os_spawn :: "string \<Rightarrow> string list \<Rightarrow> (string \<times> string) list \<Rightarrow> ('x, string + u32) xop"
  os_now_millis :: "('x, nat) xop"
  os_sleep_millis :: "nat \<Rightarrow> ('x, unit) xop"
  os_kill_term :: "int \<Rightarrow> ('x, string + unit) xop"
  os_setsid :: "('x, unit) xop"
  os_chdir :: "string \<Rightarrow> ('x, unit) xop"
  os_umask :: "nat \<Rightarrow> ('x, unit) xop"
  os_daemon :: "daemon_config \<Rightarrow> ('x, anvil_error + unit) xop"

definition show_u32 :: "u32 \<Rightarrow> string" where
  "show_u32 n = show_nat (unat n)"

definition daemonized_marker :: string where
  "daemonized_marker = ''GITWAY_AGENT_DAEMONIZED''"

section \<open>Paths\<close>

definition env_or :: "'x world \<Rightarrow> string \<Rightarrow> string \<Rightarrow> string" where
  "env_or w k dflt = (case env_var w k of Some v \<Rightarrow> v | None \<Rightarrow> dflt)"

definition default_socket_path :: "bool \<Rightarrow> 'x os_ops \<Rightarrow> 'x world \<Rightarrow> string \<times> 'x world" where
  "default_socket_path unix S =
     (let pid = os_pid S
      in if \<not> unix then
           ret ([CHR 0x5C, CHR 0x5C, CHR ''.'', CHR 0x5C] @ ''pipe'' @ [CHR 0x5C]
             @ ''gitway-agent.'' @ show_u32 pid)
         else let_do (get_s (\<lambda>w. env_var w ''XDG_RUNTIME_DIR'')) (\<lambda>xdg. case xdg of
             Some runtime \<Rightarrow> ret (path_join runtime (''gitway-agent.'' @ show_u32 pid @ ''.sock''))
           | None \<Rightarrow>
               let_do (get_s (\<lambda>w. path_join (env_or w ''TMPDIR'' ''/tmp'')
                 (''gitway-agent-'' @ env_or w ''USER'' ''default''))) (\<lambda>parent.
               let_do (call (Lib (Daemon ''mkdir'')) (os_create_dir_all S parent)) (\<lambda>_.
               let_do (call (Lib (Daemon ''chmod'')) (os_set_mode S parent 448)) (\<lambda>_.
               ret (path_join parent (''agent.'' @ show_u32 pid)))))))"

definition default_pid_path :: "bool \<Rightarrow> string \<Rightarrow> string option" where
  "default_pid_path unix socket_path =
     (if unix then map_option (\<lambda>p. path_join p ''gitway-agent.pid'') (path_parent socket_path) else None)"

definition absolute_path :: "'x os_ops \<Rightarrow> string \<Rightarrow> ('x world, string) eff" where
  "absolute_path S path =
     (if is_absolute path then ok path
      else try_let (map_err (\<lambda>e. InvalidConfig (''cannot resolve '' @ path @ '' to an absolute path: '' @ e))
         (call (Lib (Daemon ''getcwd'')) (os_current_dir S))) (\<lambda>cwd. ok (path_join cwd path)))"

section \<open>Shell lines\<close>

definition is_csh_shell :: "'x world \<Rightarrow> bool" where
  "is_csh_shell w = (case env_var w ''SHELL'' of
     None \<Rightarrow> False
   | Some sh \<Rightarrow> suffix ''csh'' sh \<or> suffix ''tcsh'' sh)"

definition eval_lines :: "string \<Rightarrow> u32 \<Rightarrow> bool \<Rightarrow> string list" where
  "eval_lines socket_path pid csh =
     (if csh then
        [''setenv SSH_AUTH_SOCK '' @ socket_path @ '';'',
         ''setenv SSH_AGENT_PID '' @ show_u32 pid @ '';'',
         ''echo Agent pid '' @ show_u32 pid @ '';'']
      else
        [''SSH_AUTH_SOCK='' @ socket_path @ ''; export SSH_AUTH_SOCK;'',
         ''SSH_AGENT_PID='' @ show_u32 pid @ ''; export SSH_AGENT_PID;'',
         ''echo Agent pid '' @ show_u32 pid @ '';''])"

definition emit_eval :: "string \<Rightarrow> u32 \<Rightarrow> bool \<Rightarrow> bool \<Rightarrow> 'x world \<Rightarrow> unit \<times> 'x world" where
  "emit_eval socket_path pid bourne csh_forced =
     let_do (get_s is_csh_shell) (\<lambda>csh_shell.
     let csh = (csh_forced \<or> (\<not> bourne \<and> csh_shell))
     in print_lines (eval_lines socket_path pid csh))"

section \<open>start\<close>

definition finalize_detach :: "'x os_ops \<Rightarrow> 'x world \<Rightarrow> unit \<times> 'x world" where
  "finalize_detach S =
     let_do (call (Lib (Daemon ''setsid'')) (os_setsid S)) (\<lambda>_.
     let_do (call (Lib (Daemon ''chdir'')) (os_chdir S ''/'')) (\<lambda>_.
     call (Lib (Daemon ''umask'')) (os_umask S 63)))"

definition socket_or_default ::
  "bool \<Rightarrow> 'x os_ops \<Rightarrow> agent_start_args \<Rightarrow> 'x world \<Rightarrow> string \<times> 'x world" where
  "socket_or_default unix S args = (case as_sock args of
     Some p \<Rightarrow> ret p
   | None \<Rightarrow> default_socket_path unix S)"

definition run_daemon_loop :: "bool \<Rightarrow> 'x os_ops \<Rightarrow> agent_start_args \<Rightarrow> ('x world, u32) eff" where
  "run_daemon_loop unix S args =
     let_do (socket_or_default unix S args) (\<lambda>socket_path.
     let pid_file = (case as_pid_file args of Some p \<Rightarrow> Some p | None \<Rightarrow> default_pid_path unix socket_path);
         cfg = \<lparr>dc_socket_path = socket_path, dc_pid_file = pid_file, dc_default_ttl = as_default_ttl args\<rparr>
     in let_do (get_s (\<lambda>w. var_os w daemonized_marker = None)) (\<lambda>unmarked.
        let_do (if unmarked then emit_eval socket_path (os_pid S) (as_sh args) (as_csh args) else ret ()) (\<lambda>_.
        try_let (call (Lib (Daemon ''run'')) (os_daemon S cfg)) (\<lambda>_. ok 0))))"

text \<open>The wait for the child's socket: until it exists or the deadline has passed, with a sleep of
  50 ms between looks. \<open>None\<close> means the fuel ran out.\<close>

fun wait_for_socket :: "nat \<Rightarrow> 'x os_ops \<Rightarrow> string \<Rightarrow> nat \<Rightarrow> 'x world \<Rightarrow> unit option \<times> 'x world" where
  "wait_for_socket 0 S socket_path deadline = ret None"
| "wait_for_socket (Suc n) S socket_path deadline =
     let_do (call (Lib (Daemon ''clock'')) (os_now_millis S)) (\<lambda>now.
     if now < deadline then
       let_do (path_exists socket_path) (\<lambda>present.
       if present then ret (Some ())
       else let_do (call (Lib (Daemon ''sleep'')) (os_sleep_millis S 50))
              (\<lambda>_. wait_for_socket n S socket_path deadline))
     else ret (Some ()))"

definition poll_fuel :: nat where
  "poll_fuel = 101"

definition background_argv :: "string \<Rightarrow> agent_start_args \<Rightarrow> string option \<Rightarrow> string list" where
  "background_argv socket_path args pid_file =
     [''agent'', ''start'', ''-D'', ''-a'', socket_path]
     @ (case as_default_ttl args of Some ttl \<Rightarrow> [''-t'', show_nat (unat ttl)] | None \<Rightarrow> [])
     @ (case pid_file of Some p \<Rightarrow> [''--pid-file'', p] | None \<Rightarrow> [])"

definition run_background_start :: "'x os_ops \<Rightarrow> agent_start_args \<Rightarrow> ('x world, u32) eff" where
  "run_background_start S args =
     let_do (socket_or_default True S args) (\<lambda>raw_socket_path.
     try_let (absolute_path S raw_socket_path) (\<lambda>socket_path.
     try_let (case as_pid_file args of
         Some p \<Rightarrow> try_let (absolute_path S p) (\<lambda>a. ok (Some a))
       | None \<Rightarrow> ok None) (\<lambda>pid_file.
     let_do (path_exists socket_path) (\<lambda>present.
     if present then
       fail (InvalidConfig (''socket '' @ socket_path @ '' already exists; another agent may be running. Run `gitway agent stop` first, or pass a different `-a <PATH>`.''))
     else
       try_let (map_err (\<lambda>e. InvalidConfig (''cannot locate the gitway binary for re-exec: '' @ e))
          (call (Lib (Daemon ''exe'')) (os_current_exe S))) (\<lambda>exe.
       let argv = background_argv socket_path args pid_file
       in try_let (map_err (\<lambda>e. InvalidConfig (''failed to spawn background agent: '' @ e))
            (call (Lib (Respawn exe argv)) (os_spawn S exe argv [(daemonized_marker, ''1'')]))) (\<lambda>pid.
          let_do (call (Lib (Daemon ''clock'')) (os_now_millis S)) (\<lambda>now.
          let_do (wait_for_socket poll_fuel S socket_path (now + 5000)) (\<lambda>waited. case waited of
            None \<Rightarrow> fail (Upstream ''wait_for_socket: out of fuel'')
          | Some _ \<Rightarrow>
              let_do (path_exists socket_path) (\<lambda>bound.
              if \<not> bound then
                fail (InvalidConfig (''background agent did not bind '' @ socket_path
                  @ '' within 5s '' @ em_dash @ '' try `gitway agent start -D` to see the underlying error''))
              else let_do (emit_eval socket_path pid (as_sh args) (as_csh args)) (\<lambda>_. ok 0))))))))))"

definition run_start :: "bool \<Rightarrow> 'x os_ops \<Rightarrow> agent_start_args \<Rightarrow> ('x world, u32) eff" where
  "run_start unix S args =
     let_do (get_s (\<lambda>w. var_os w daemonized_marker \<noteq> None)) (\<lambda>is_daemonized_child.
     if as_foreground args \<or> is_daemonized_child then
       let_do (if unix \<and> is_daemonized_child then finalize_detach S else ret ()) (\<lambda>_.
       run_daemon_loop unix S args)
     else if unix then run_background_start S args
     else fail (InvalidConfig (''background mode is Unix-only on this build '' @ em_dash
       @ '' run `gitway agent start -D` and background it with `start /B`, a Scheduled Task, or a Windows service'')))"

section \<open>stop\<close>

definition resolve_daemon_pid :: "'x os_ops \<Rightarrow> string option \<Rightarrow> ('x world, int) eff" where
  "resolve_daemon_pid S cli_pid_file =
     let_do (get_s (\<lambda>w. env_var w ''SSH_AGENT_PID'')) (\<lambda>v. case v of
       Some s \<Rightarrow> lift_res (case parse_signed i32_lim (trim s) of
           Some n \<Rightarrow> Inr n
         | None \<Rightarrow> Inl (InvalidConfig (''SSH_AGENT_PID is not an integer: '' @ debug_text s)))
     | None \<Rightarrow>
         let_do (case cli_pid_file of
             Some p \<Rightarrow> ret (Some p)
           | None \<Rightarrow> let_do (default_socket_path True S) (\<lambda>p. ret (default_pid_path True p))) (\<lambda>file.
         try_let (lift_res (case file of
             Some p \<Rightarrow> Inr p
           | None \<Rightarrow> Inl (InvalidConfig ''no running agent to stop: neither SSH_AGENT_PID nor a pid file are available''))) (\<lambda>path.
         try_let (read_to_string_q path) (\<lambda>contents.
         lift_res (case parse_signed i32_lim (trim contents) of
             Some n \<Rightarrow> Inr n
           | None \<Rightarrow> Inl (InvalidConfig (''pid file '' @ path @ '' does not contain a valid integer'')))))))"

definition run_stop :: "bool \<Rightarrow> 'x os_ops \<Rightarrow> agent_stop_args \<Rightarrow> output_mode \<Rightarrow> ('x world, u32) eff" where
  "run_stop unix S args mode =
     (if \<not> unix then
        fail (InvalidConfig (''`gitway agent stop` is Unix-only '' @ em_dash
          @ '' on Windows stop the agent via Ctrl+C, `Stop-Process -Id <pid>` in PowerShell, or your service harness''))
      else
        try_let (resolve_daemon_pid S (ao_pid_file args)) (\<lambda>pid.
        try_let (map_err (\<lambda>e. InvalidConfig (''failed to signal pid '' @ show_int pid @ '': '' @ e))
           (call (Lib (Signal pid)) (os_kill_term S pid))) (\<lambda>_.
        let_do (case mode of
            JsonMode \<Rightarrow> emit_data ''gitway agent stop'' (JObj [(''signalled_pid'', JNum pid)])
          | Human \<Rightarrow> eprintln (''gitway: SIGTERM sent to pid '' @ show_int pid)) (\<lambda>_.
        ok 0))))"

section \<open>The wait loop\<close>

text \<open>The documented clock: \<open>clk\<close> is what \<open>Instant::now\<close> reads, it never goes back, and a
  sleep of \<open>n\<close> ms moves it by at least \<open>n\<close>.\<close>

definition clock_law :: "'x os_ops \<Rightarrow> ('x \<Rightarrow> nat) \<Rightarrow> bool" where
  "clock_law S clk \<longleftrightarrow>
     (\<forall>fs x. fst (os_now_millis S (fs, x)) = clk x \<and> clk x \<le> clk (snd (snd (os_now_millis S (fs, x)))))
     \<and> (\<forall>n fs x. clk x + n \<le> clk (snd (snd (os_sleep_millis S n (fs, x)))))"

lemma wait_for_socket_fuel:
  assumes "clock_law S clk" and "deadline \<le> clk (w_ext w) + 50 * n"
  shows "fst (wait_for_socket (Suc n) S path deadline w) = Some ()"
  using assms(2)
proof (induction n arbitrary: w)
  case 0
  then show ?case
    using assms(1) by (auto simp: clock_law_def effect_simps call_def split: prod.splits) (metis fst_conv not_le)+
next
  case (Suc n)
  obtain t fs x where now: "os_now_millis S (w_fs w, w_ext w) = (t, fs, x)" by (metis prod_cases3)
  obtain fs' x' where sl: "os_sleep_millis S 50 (fs, x) = ((), fs', x')" by (metis prod_cases3 old.unit.exhaust)
  have "clk (w_ext w) \<le> clk x" using assms(1) now unfolding clock_law_def by (metis snd_conv)
  moreover have "clk x + 50 \<le> clk x'" using assms(1) sl unfolding clock_law_def by (metis snd_conv)
  ultimately have "deadline \<le> clk x' + 50 * n" using Suc.prems by simp
  then show ?case
    using Suc.IH now sl
    by (subst wait_for_socket.simps) (auto simp: effect_simps call_def path_exists_def
        simp del: wait_for_socket.simps)
qed

text \<open>101 rounds cover the 5 s of the deadline.\<close>

lemma wait_for_socket_returns:
  assumes "clock_law S clk"
  shows "fst (wait_for_socket poll_fuel S path (clk (w_ext w) + 5000) w) = Some ()"
  using wait_for_socket_fuel[OF assms, of "clk (w_ext w) + 5000" w 100 path]
  by (simp add: poll_fuel_def del: wait_for_socket.simps)

section \<open>The signalled process\<close>

text \<open>With \<open>SSH_AGENT_PID\<close> set, \<open>stop\<close> signals that number and nothing else, whatever its
  sign; text that is not a 32-bit integer signals nobody.\<close>

lemma run_stop_env:
  assumes "env_var w ''SSH_AGENT_PID'' = Some s"
  shows "runs w (run_stop True S args mode) (\<lambda>r es u.
    case parse_signed i32_lim (trim s) of
      None \<Rightarrow> isl r \<and> es = []
    | Some pid \<Rightarrow> es \<noteq> [] \<and> hd es = Lib (Signal pid) \<and> (\<forall>q. Lib (Signal q) \<notin> set (tl es)))"
  using assms unfolding run_stop_def resolve_daemon_pid_def
  by (auto intro!: runs_intros split: option.splits sum.splits output_mode.splits)

lemma parse_i32_bound:
  "parse_signed i32_lim s = Some v \<Longrightarrow> - 2147483648 \<le> v \<and> v < 2147483648"
  using parse_signed_bound[of i32_lim s v] by (simp add: i32_lim_def)

section \<open>Start, then stop\<close>

text \<open>The pid file of an agent lies in the directory of its default socket, so every process of
  the same environment looks for it at the same place, whatever its own pid.\<close>

lemma socket_names:
  "plain_name (''gitway-agent.'' @ show_u32 n @ ''.sock'')" "plain_name (''agent.'' @ show_u32 n)"
proof -
  have "list_all is_digit (show_u32 n)"
    by (simp add: show_u32_def show_nat_digits)
  then have "CHR ''/'' \<notin> set (show_u32 n)"
    by (auto simp: list_all_iff is_digit_def)
  then show "plain_name (''gitway-agent.'' @ show_u32 n @ ''.sock'')" "plain_name (''agent.'' @ show_u32 n)"
    by (simp_all add: plain_name_def)
qed

lemma default_pid_path_same:
  assumes "w_env v = w_env w"
  shows "default_pid_path True (fst (default_socket_path True S v))
       = default_pid_path True (fst (default_socket_path True S' w))"
proof -
  have "path_parent (fst (default_socket_path True S v)) = path_parent (fst (default_socket_path True S' w))"
    using assms path_parent_join[OF socket_names(1) socket_names(1)] path_parent_join[OF socket_names(2) socket_names(2)]
    by (auto simp: default_socket_path_def env_var_def env_or_def effect_simps Let_def split: option.splits prod.splits)
  then show ?thesis
    by (simp add: default_pid_path_def)
qed

text \<open>The signals of a run.\<close>

definition signals_of :: "event list \<Rightarrow> int list" where
  "signals_of es = List.map_filter (\<lambda>e. case e of Lib (Signal n) \<Rightarrow> Some n | _ \<Rightarrow> None) es"

definition signals_pid :: "u32 \<Rightarrow> anvil_error + u32 \<Rightarrow> event list \<Rightarrow> bool" where
  "signals_pid pid r es \<longleftrightarrow>
     (if uint pid < 2147483648 then signals_of es = [uint pid] else isl r \<and> signals_of es = [])"

lemma signals_of_simps [simp]: "signals_of [] = []" "signals_of (Lib (Signal n) # es) = n # signals_of es"
  "signals_of (FsRead f # es) = signals_of es" "signals_of (Out x # es) = signals_of es"
  "signals_of (Err x # es) = signals_of es"
  by (simp_all add: signals_of_def List.map_filter_simps)

lemma signals_of_append [simp]: "signals_of (es @ fs) = signals_of es @ signals_of fs"
  by (simp add: signals_of_def List.map_filter_def)

lemma parse_pid: "parse_signed i32_lim (show_u32 pid) = (if uint pid < 2147483648 then Some (uint pid) else None)"
proof -
  have pid: "int (unat pid) = uint pid" by simp
  then have "unat pid < i32_lim \<longleftrightarrow> uint pid < 2147483648"
    unfolding i32_lim_def by linarith
  with pid show ?thesis
    by (simp only: show_u32_def parse_signed_show_nat)
qed

lemma run_stop_of_pid:
  assumes "runs w (resolve_daemon_pid S (ao_pid_file args)) (\<lambda>r es u. signals_of es = [] \<and>
      (case parse_signed i32_lim (show_u32 pid) of Some n \<Rightarrow> r = Inr n | None \<Rightarrow> isl r))"
  shows "runs w (run_stop True S args mode) (\<lambda>r es u. signals_pid pid r es)"
proof -
  have report: "runs v (let_do (case mode of
        JsonMode \<Rightarrow> emit_data ''gitway agent stop'' (JObj [(''signalled_pid'', JNum n)])
      | Human \<Rightarrow> eprintln (''gitway: SIGTERM sent to pid '' @ show_int n)) (\<lambda>_. ok 0))
      (\<lambda>r es u. signals_of es = [])" for v :: "'a world" and n
    by (cases mode) (auto intro!: runs_intros)
  show ?thesis
    unfolding run_stop_def
    by (auto intro!: runs_try_let runs_mono[OF assms] runs_map_err runs_call runs_mono[OF report]
        simp: signals_pid_def parse_pid split: sum.splits if_splits)
qed

text \<open>The pid that \<open>start\<close> prints and exports, and the one that it has left in the pid file, is the
  one that \<open>stop\<close> signals.\<close>

lemma stop_by_env:
  assumes "env_var w ''SSH_AGENT_PID'' = Some (show_u32 pid)"
  shows "runs w (run_stop True S args mode) (\<lambda>r es u. signals_pid pid r es)"
proof -
  have "list_all is_digit (show_u32 pid)"
    by (simp add: show_u32_def show_nat_digits)
  then have "list_all (\<lambda>c. \<not> is_ws c) (show_u32 pid)"
    by (fastforce simp: is_ws_def is_digit_def list_all_iff Let_def)
  moreover have "dropWhile is_ws cs = cs" if "list_all (\<lambda>c. \<not> is_ws c) cs" for cs
    using that by (cases cs) simp_all
  ultimately have trim: "trim (show_u32 pid) = show_u32 pid"
    by (simp add: trim_def)
  show ?thesis
    using assms trim unfolding resolve_daemon_pid_def
    by (intro run_stop_of_pid) (auto intro!: runs_intros simp: resolve_daemon_pid_def split: option.splits)
qed

lemma digits_utf8: "list_all is_digit s \<Longrightarrow> valid_utf8 s"
proof (induction s)
  case (Cons c s)
  then have "(of_char c :: nat) \<le> 57" by (simp add: is_digit_def Let_def)
  with Cons show ?case by (simp add: valid_utf8_def)
qed (simp add: valid_utf8_def)

lemma stop_by_exported_env:
  "runs (w\<lparr>w_env := e(''SSH_AGENT_PID'' \<mapsto> show_u32 pid)\<rparr>) (run_stop True S args mode) (\<lambda>r es u. signals_pid pid r es)"
  by (rule stop_by_env) (simp add: env_var_def digits_utf8 show_u32_def show_nat_digits)

lemma stop_by_file:
  assumes "env_var w ''SSH_AGENT_PID'' = None" and "env_var w ''XDG_RUNTIME_DIR'' = Some dir"
    and "ao_pid_file args = None"
    and "default_pid_path True (fst (default_socket_path True S w)) = Some p"
    and "read_text_at (w_fs w) p = Inr s" and "trim s = show_u32 pid"
  shows "runs w (run_stop True S args mode) (\<lambda>r es u. signals_pid pid r es)"
  using assms
  by (intro run_stop_of_pid) (auto intro!: runs_intros simp: resolve_daemon_pid_def default_socket_path_def Let_def effect_simps split: option.splits)

section \<open>A start that succeeds\<close>

lemma print_lines_run:
  "print_lines ls w = ((), w\<lparr>w_trace := w_trace w @ map (\<lambda>l. Out (Text l)) ls\<rparr>)"
proof -
  have "for_do (\<lambda>l u. println l) ls () v = ((), v\<lparr>w_trace := w_trace v @ map (\<lambda>l. Out (Text l)) ls\<rparr>)"
    for v :: "'a world"
    by (induction ls arbitrary: v) (simp_all add: effect_simps println_def)
  then show ?thesis by (simp add: print_lines_def)
qed

lemma runs_emit_eval:
  assumes "\<And>u csh. w_fs u = w_fs w \<Longrightarrow> Q () (map (\<lambda>l. Out (Text l)) (eval_lines socket pid csh)) u"
  shows "runs w (emit_eval socket pid bourne csh_forced) Q"
  unfolding runs_def emit_eval_def using assms
  by (simp add: effect_simps print_lines_run del: if_split)

text \<open>\<open>announced\<close>: the run failed, or it returned 0 with a socket in place and ended by
  printing the shell lines for that socket. A step before the end can be skipped in a proof
  that a run is announced, whatever it adds to the trace.\<close>

definition announced :: "anvil_error + u32 \<Rightarrow> event list \<Rightarrow> 'x world \<Rightarrow> bool" where
  "announced r es u \<longleftrightarrow> isl r \<or> r = Inr 0 \<and>
     (\<exists>sock pid csh pre. w_fs u sock \<noteq> None
        \<and> es = pre @ map (\<lambda>l. Out (Text l)) (eval_lines sock pid csh))"

lemma announced_after: "announced r es u \<Longrightarrow> announced r (pre @ es) u"
  unfolding announced_def by (metis append_assoc)

lemma announced_fail: "runs w (fail e) announced"
  by (simp add: runs_def announced_def effect_simps)

lemma announced_skip:
  assumes "adds_only (\<lambda>e. True) m" and "\<And>a u. runs u (f a) announced"
  shows "runs w (let_do m f) announced"
  by (rule runs_skip_let[where P = "\<lambda>e. True"]) (use assms in \<open>auto simp: adds_only_traced announced_after\<close>)

lemma announced_try:
  assumes "adds_only (\<lambda>e. True) m" and "\<And>a u. runs u (f a) announced"
  shows "runs w (try_let m f) announced"
  by (rule runs_skip_try[where P = "\<lambda>e. True"])
    (use assms in \<open>auto simp: adds_only_traced announced_after announced_def[of "Inl e" for e]\<close>)

lemma announced_end:
  fixes w :: "'x world"
  shows "runs w (let_do (path_exists p) (\<lambda>bound. if \<not> bound then fail e
     else let_do (emit_eval p pid sh csh) (\<lambda>_. ok 0))) announced"
proof -
  have "announced (Inr 0) (map (\<lambda>l. Out (Text l)) (eval_lines p pid c)) u" if "w_fs u p \<noteq> None"
    for c and u :: "'x world"
    unfolding announced_def using that by (intro disjI2 conjI refl exI[of _ p]) force+
  then show ?thesis
    by (auto intro!: runs_let_do runs_path_exists runs_if announced_fail runs_emit_eval runs_ok)
qed

lemma wait_for_socket_adds: "adds_only (\<lambda>e. True) (wait_for_socket n S path deadline)"
  by (induction n) (auto intro!: adds_intros)

lemma background_start_bound: "runs w (run_background_start S args) announced"
proof -
  have paths: "adds_only (\<lambda>e. True) (socket_or_default True S args)" "adds_only (\<lambda>e. True) (absolute_path S p)"
    for p
    unfolding socket_or_default_def default_socket_path_def absolute_path_def Let_def
    by (auto intro!: adds_intros)
  have waiting: "runs u (case q of None \<Rightarrow> fail e' | Some x \<Rightarrow> let_do (path_exists p) (\<lambda>bound. if \<not> bound then fail e
     else let_do (emit_eval p pid sh csh) (\<lambda>_. ok 0))) announced" for q :: "unit option" and u e e' p pid sh csh
    by (cases q) (auto intro: announced_fail announced_end)
  show ?thesis
    unfolding run_background_start_def Let_def
    by (intro announced_skip announced_try runs_if announced_fail waiting
        wait_for_socket_adds paths adds_intros TrueI)
qed

end
