(* ===== verification/Agent_Cmd.thy ===== *)
theory Agent_Cmd
  imports Key_Files Agent_Daemon
begin

text \<open>
  The client commands of \<open>gitway-cli/src/agent.rs\<close> (\<open>add\<close>, \<open>list\<close>, \<open>remove\<close>, \<open>lock\<close>,
  \<open>unlock\<close>) and the dispatch of \<open>gitway agent\<close>.
\<close>

section \<open>add\<close>

definition load_private_key ::
  "('x, 'k, 'p) deps \<Rightarrow> string \<Rightarrow> 'k \<Rightarrow> unlock_mode \<Rightarrow> ('x world, 'k) eff" where
  "load_private_key D path key unlock =
     (let K = d_keys D;
          decrypt = (\<lambda>pp. lift_res (case sk_decrypt K key pp of
              Inr k \<Rightarrow> Inr k
            | Inl e \<Rightarrow> Inl (Signing (''failed to decrypt '' @ path @ '': '' @ e))))
      in if \<not> sk_is_encrypted K key then ok key
         else (let kid = key_id K key
           in case unlock of
             UnlockDisabled \<Rightarrow> try_let (prompt_passphrase_interactive D path) decrypt
           | UnlockEnroll \<Rightarrow>
               try_let (prompt_passphrase_interactive D path) (\<lambda>pp.
               try_let (decrypt pp) (\<lambda>decrypted.
               let_do (v_store (d_vault D) kid pp) (\<lambda>stored.
               let_do (case stored of
                   Inr _ \<Rightarrow> eprintln (''gitway: enrolled '' @ path @ '' for biometric unlock'')
                 | Inl e \<Rightarrow> eprintln (''gitway: warning: biometric enrollment failed: ''
                     @ biometric_error_text e)) (\<lambda>_.
               ok decrypted))))
           | UnlockAuto \<Rightarrow>
               let_do (auto_unlock_passphrase K (d_vault D) key) (\<lambda>u. case u of
                 Passphrase pp \<Rightarrow> decrypt pp
               | Stale \<Rightarrow>
                   let_do (eprintln (''gitway: stored biometric passphrase no longer decrypts ''
                     @ path @ '' '' @ em_dash @ '' removed stale enrollment'')) (\<lambda>_.
                   try_let (prompt_passphrase_interactive D path) decrypt)
               | Fallback \<Rightarrow> try_let (prompt_passphrase_interactive D path) decrypt)))"

text \<open>One round of the loop of \<open>run_add\<close>; the accumulator holds the lists \<open>added\<close> and
  \<open>already_loaded\<close>.\<close>

definition agent_add_path ::
  "('x, 'k, 'p) deps \<Rightarrow> ('x, 'g, 'k, 'p) agent_ops \<Rightarrow> 'g \<Rightarrow> u64 option \<Rightarrow> bool \<Rightarrow> unlock_mode
   \<Rightarrow> 'p agent_identity list \<Rightarrow> string \<Rightarrow> string list \<times> string list
   \<Rightarrow> ('x world, string list \<times> string list) eff" where
  "agent_add_path D G agent lifetime confirm unlock loaded path acc =
     (case acc of (added, skipped) \<Rightarrow>
       try_let (read_to_string_q path) (\<lambda>pem.
       try_let (lift_res (parse_private (d_keys D) path pem)) (\<lambda>key.
       if unlock \<noteq> UnlockEnroll \<and> already_loaded (d_keys D) loaded key then
         ok (added, skipped @ [path])
       else
         try_let (load_private_key D path key unlock) (\<lambda>decrypted.
         try_let (agent_add_call (d_keys D) G agent decrypted lifetime confirm) (\<lambda>_.
         ok (added @ [path], skipped))))))"

text \<open>The part of \<open>run_add\<close> after the agent's identities were listed: the loop and the report.\<close>

definition agent_add_files ::
  "('x, 'k, 'p) deps \<Rightarrow> ('x, 'g, 'k, 'p) agent_ops \<Rightarrow> agent_add_args \<Rightarrow> output_mode \<Rightarrow> 'g
   \<Rightarrow> 'p agent_identity list \<Rightarrow> string list \<Rightarrow> ('x world, u32) eff" where
  "agent_add_files D G args mode agent loaded paths =
     (let lifetime = aa_lifetime args;
          unlock = unlock_mode_from_flags (aa_biometric args) (aa_no_biometric args)
      in try_let (for_try (agent_add_path D G agent lifetime (aa_confirm args) unlock loaded) paths ([], []))
          (\<lambda>(added, skipped).
          let_do (case mode of
              JsonMode \<Rightarrow> emit_data ''gitway agent add'' (JObj
                [(''added'', JArr (map JStr added)),
                 (''lifetime_seconds'', jopt (\<lambda>n. JNum (uint n)) (aa_lifetime args)),
                 (''confirm'', JBool (aa_confirm args))])
            | Human \<Rightarrow> eprint_lines
                (map (\<lambda>p. ''gitway: identity added: '' @ p) added
                 @ map (\<lambda>p. ''gitway: identity already loaded: '' @ p) skipped)) (\<lambda>_.
          ok 0)))"

definition agent_run_add ::
  "('x, 'k, 'p) deps \<Rightarrow> ('x, 'g, 'k, 'p) agent_ops \<Rightarrow> agent_add_args \<Rightarrow> output_mode \<Rightarrow> ('x world, u32) eff" where
  "agent_run_add D G args mode =
     try_let (if aa_files args = [] then default_key_paths else ok (aa_files args)) (\<lambda>paths.
     try_let (call (Agent AgConnect) (ag_from_env G)) (\<lambda>agent.
     let_do (call (Agent AgList) (ag_list G agent)) (\<lambda>r.
     agent_add_files D G args mode agent (case r of Inr ids \<Rightarrow> ids | Inl _ \<Rightarrow> []) paths)))"

section \<open>list\<close>

fun hashkind_to_sshkey :: "hash_kind \<Rightarrow> hash_kind" where
  "hashkind_to_sshkey Sha256 = Sha256"
| "hashkind_to_sshkey Sha512 = Sha512"

definition agent_run_list ::
  "('k, 'p) ssh_key_ops \<Rightarrow> ('x, 'g, 'k, 'p) agent_ops \<Rightarrow> agent_list_args \<Rightarrow> output_mode \<Rightarrow> ('x world, u32) eff" where
  "agent_run_list K G args mode =
     try_let (call (Agent AgConnect) (ag_from_env G)) (\<lambda>agent.
     try_let (call (Agent AgList) (ag_list G agent)) (\<lambda>ids.
     let hash = hashkind_to_sshkey (al_hash args)
     in try_let (case mode of
          JsonMode \<Rightarrow> let_do (emit_data ''gitway agent list'' (JObj
            [(''identity_count'', JNum (int (length ids))),
             (''identities'', JArr (map (\<lambda>i. JObj
               [(''fingerprint'', JStr (pk_anvil_fingerprint K (ai_public_key i) hash)),
                (''algorithm'', JStr (pk_algorithm K (ai_public_key i))),
                (''comment'', JStr (ai_comment i))]) ids))])) (\<lambda>_. ok ())
        | Human \<Rightarrow>
            if ids = [] then let_do (eprintln ''gitway: the agent has no identities'') (\<lambda>_. ok ())
            else if al_full args then
              for_try (\<lambda>i u.
                try_let (map_err (\<lambda>e. Signing (''failed to serialize public key: '' @ e))
                  (lift_res (pk_to_openssh K (ai_public_key i)))) (\<lambda>line.
                let_do (emit_json_line line) (\<lambda>_. ok ()))) ids ()
            else for_try (\<lambda>i u. let_do (emit_json_line (identity_line K hash i)) (\<lambda>_. ok ())) ids ()) (\<lambda>_.
        ok 0)))"

section \<open>remove\<close>

definition load_public_or_derive ::
  "('k, 'p) ssh_key_ops \<Rightarrow> string \<Rightarrow> ('x world, 'p) eff" where
  "load_public_or_derive K path =
     try_let (read_to_string_q path) (\<lambda>raw. lift_res (parse_public_or_derive K path raw))"

definition agent_run_remove ::
  "('k, 'p) ssh_key_ops \<Rightarrow> ('x, 'g, 'k, 'p) agent_ops \<Rightarrow> agent_remove_args \<Rightarrow> output_mode \<Rightarrow> ('x world, u32) eff" where
  "agent_run_remove K G args mode =
     try_let (call (Agent AgConnect) (ag_from_env G)) (\<lambda>agent.
     try_let (if ar_all args then
         try_let (call (Agent AgList) (ag_list G agent)) (\<lambda>ids.
         try_let (call (Agent AgRemoveAll) (ag_remove_all G agent)) (\<lambda>_.
         ok (map (\<lambda>i. pk_anvil_fingerprint K (ai_public_key i) Sha256) ids)))
       else (case ar_file args of
           Some path \<Rightarrow>
             try_let (load_public_or_derive K path) (\<lambda>pk.
             try_let (call (Agent (AgRemove (pk_anvil_fingerprint K pk Sha256))) (ag_remove G agent pk)) (\<lambda>_.
             ok [pk_anvil_fingerprint K pk Sha256]))
         | None \<Rightarrow> fail (InvalidConfig ''`gitway agent remove` requires a <FILE> argument or `--all`''))) (\<lambda>removed.
     let_do (case mode of
         JsonMode \<Rightarrow> emit_data ''gitway agent remove'' (JObj
           [(''removed'', JArr (map JStr removed)), (''all'', JBool (ar_all args))])
       | Human \<Rightarrow> eprint_lines (map (\<lambda>fp. ''gitway: identity removed: '' @ fp) removed)) (\<lambda>_.
     ok 0)))"

section \<open>lock and unlock\<close>

definition prompt_lock_passphrase :: "'x prompt_op \<Rightarrow> bool \<Rightarrow> ('x world, string) eff" where
  "prompt_lock_passphrase ask lock =
     (if lock then
        try_let (map_err Io (prompt_password ask ''Agent lock passphrase: '')) (\<lambda>first.
        try_let (map_err Io (prompt_password ask ''Confirm lock passphrase: '')) (\<lambda>confirm.
        if first \<noteq> confirm then
          fail (InvalidConfig (''passphrases did not match '' @ em_dash @ '' aborting''))
        else ok first))
      else map_err Io (prompt_password ask ''Agent unlock passphrase: ''))"

definition agent_run_lock ::
  "'x prompt_op \<Rightarrow> ('x, 'g, 'k, 'p) agent_ops \<Rightarrow> agent_lock_args \<Rightarrow> output_mode \<Rightarrow> bool \<Rightarrow> ('x world, u32) eff" where
  "agent_run_lock ask G args mode lock =
     try_let (call (Agent AgConnect) (ag_from_env G)) (\<lambda>agent.
     try_let (case ak_passphrase args of
         Some s \<Rightarrow> ok s
       | None \<Rightarrow> prompt_lock_passphrase ask lock) (\<lambda>pp.
     try_let (if lock then call (Agent AgLock) (ag_lock G agent pp)
              else call (Agent AgUnlock) (ag_unlock G agent pp)) (\<lambda>_.
     let verb = (if lock then ''locked'' else ''unlocked'')
     in let_do (case mode of
            JsonMode \<Rightarrow> emit_data (''gitway agent '' @ verb) (JObj [(''state'', JStr verb)])
          | Human \<Rightarrow> eprintln (''gitway: agent '' @ verb)) (\<lambda>_.
        ok 0))))"

fun agent_run ::
  "('x, 'k, 'p) deps \<Rightarrow> ('x, 'g, 'k, 'p) agent_ops \<Rightarrow> 'x os_ops \<Rightarrow> agent_subcommand \<Rightarrow> output_mode
   \<Rightarrow> ('x world, u32) eff" where
  "agent_run D G S (AgentAdd args) mode = agent_run_add D G args mode"
| "agent_run D G S (AgentListKeys args) mode = agent_run_list (d_keys D) G args mode"
| "agent_run D G S (AgentRemove args) mode = agent_run_remove (d_keys D) G args mode"
| "agent_run D G S (AgentLock args) mode = agent_run_lock (d_ask D) G args mode True"
| "agent_run D G S (AgentUnlock args) mode = agent_run_lock (d_ask D) G args mode False"
| "agent_run D G S (AgentStart args) mode = run_start (d_unix D) S args"
| "agent_run D G S (AgentStop args) mode = run_stop (d_unix D) S args mode"

section \<open>The key loader\<close>

lemma load_private_key_result:
  assumes "load_private_key D path key unlock w = (Inr key', w')" and "sk_is_encrypted (d_keys D) key"
  shows "\<exists>p. sk_decrypt (d_keys D) key p = Inr key'"
  using assms
  by (auto simp: load_private_key_def Let_def effect_simps
      split: unlock_mode.splits auto_unlock_result.splits sum.splits prod.splits)

interpretation agent_load: key_loader "d_keys D" "load_private_key (D\<lparr>d_vault := backend feature os P\<rparr>)"
  for D :: "('x, 'k, 'p) deps" and feature os and P :: "('x, 'h) platform"
proof (unfold_locales, goal_cases)
  case (1 key path unlock)
  then show ?case by (simp add: load_private_key_def Let_def)
next
  case (2 path key unlock w key' w')
  then show ?case using load_private_key_result by fastforce
next
  case (3 path key unlock)
  have "adds_only (\<lambda>e. \<forall>fp enc. e \<noteq> Agent (AgAdd fp enc)) (auto_unlock_passphrase K (backend feature os P) k)" for K :: "('k, 'p) ssh_key_ops" and k
    by (rule adds_only_mono[OF build.auto_unlock_passphrase_events]) auto
  moreover have "adds_only (\<lambda>e. \<forall>fp enc. e \<noteq> Agent (AgAdd fp enc)) (v_store (backend feature os P) kid s)" for kid s
    by (rule adds_only_mono[OF build.store_quiet]) auto
  ultimately show ?case
    unfolding load_private_key_def Let_def
    by (auto intro!: adds_intros split: unlock_mode.splits auto_unlock_result.splits
        simp: passphrase_event_adds_nothing)
qed

text \<open>The loop hands over decrypted keys only, and outside enrolment none that the agent holds.\<close>

lemma agent_add_path_good:
  fixes D :: "('x, 'k, 'p) deps" and P :: "('x, 'h) platform"
  assumes "ssh_key_laws (d_keys D)"
  shows "adds_only (good_addition (d_keys D) unlock loaded)
    (agent_add_path (D\<lparr>d_vault := backend feature os P\<rparr>) G agent lifetime confirm unlock loaded path acc)"
proof -
  have load: "adds_only (good_addition (d_keys D) unlock loaded)
      (try_let (load_private_key (D\<lparr>d_vault := backend feature os P\<rparr>) path key unlock)
        (\<lambda>k. try_let (agent_add_call (d_keys D) G agent k lifetime confirm) (\<lambda>_. ok r)))"
    if "\<not> (unlock \<noteq> UnlockEnroll \<and> already_loaded (d_keys D) loaded key)"
    for key :: 'k and r :: "string list \<times> string list"
    using good_addition_new[OF that]
    by (intro adds_only_mono[OF agent_load.load_then_add[OF assms adds_ok]]) blast
  show ?thesis
    unfolding agent_add_path_def
    by (intro adds_case_prod adds_try_let[OF adds_read(3)] adds_try_let[OF adds_lift_res] adds_if adds_ok)
      (use load in simp_all)
qed

lemma agent_add_files_good:
  fixes D :: "('x, 'k, 'p) deps" and P :: "('x, 'h) platform"
  assumes "ssh_key_laws (d_keys D)"
  shows "adds_only (good_addition (d_keys D) (unlock_mode_from_flags (aa_biometric args) (aa_no_biometric args)) loaded)
    (agent_add_files (D\<lparr>d_vault := backend feature os P\<rparr>) G args mode agent loaded paths)"
  unfolding agent_add_files_def Let_def
  by (intro adds_try_let adds_for_try agent_add_path_good[OF assms] adds_case_prod adds_let_do adds_ok)
    (auto intro!: adds_intros split: output_mode.splits)

lemma agent_run_add_good:
  fixes D :: "('x, 'k, 'p) deps" and P :: "('x, 'h) platform"
  assumes "ssh_key_laws (d_keys D)"
  shows "runs w (agent_run_add (D\<lparr>d_vault := backend feature os P\<rparr>) G args mode) (\<lambda>r es u. list_all
    (good_addition (d_keys D) (unlock_mode_from_flags (aa_biometric args) (aa_no_biometric args)) (listed G w)) es)"
proof -
  have "\<exists>r. (if aa_files args = [] then default_key_paths else ok (aa_files args)) w = (r, w)"
    by (simp add: effect_simps default_key_paths_def)
  then obtain r where "(if aa_files args = [] then default_key_paths else ok (aa_files args)) w = (r, w)" ..
  then show ?thesis
    unfolding agent_run_add_def
    by (rule runs_try_pure) (intro runs_listing agent_add_files_good[OF assms] good_addition_simps)
qed

section \<open>Public keys\<close>

lemma parse_public_or_derive_private:
  "parse_public_or_derive K path raw = parse_public_or_private K (''cannot parse '' @ path @ '': '') raw"
  by (simp add: parse_public_or_derive_def parse_public_or_private_def split: sum.splits)

interpretation agent_pub: public_loader K "load_public_or_derive K" for K :: "('k, 'p) ssh_key_ops"
  by (rule public_loader_of_parse) (simp only: load_public_or_derive_def parse_public_or_derive_private)

end
