(* ===== verification/Gitway_Add.thy ===== *)
theory Gitway_Add
  imports Agent_Client Anvil
begin

text \<open>
  \<open>gitway-cli/src/bin/gitway-add.rs\<close>: the \<open>ssh-add\<close> shim, from its own argument parser to
  the agent calls. \<open>Parsed::from_args\<close> walks the arguments with an index; the model recurses
  on the arguments not yet consumed.
\<close>

section \<open>Arguments\<close>

datatype add_mode = ModeList bool | ModeRemoveOne string | ModeRemoveAll | ModeLock | ModeUnlock
  | ModeAdd "string list"

text \<open>The local variables of the loop.\<close>

record add_scan =
  as_hash :: hash_kind
  as_lifetime :: "u64 option"
  as_confirm :: bool
  as_biometric :: bool
  as_no_biometric :: bool
  as_mode :: "add_mode option"
  as_paths :: "string list"

record add_parsed =
  ap_mode :: add_mode
  ap_hash :: hash_kind
  ap_lifetime :: "u64 option"
  ap_confirm :: bool
  ap_biometric :: bool
  ap_no_biometric :: bool

definition add_scan_start :: add_scan where
  "add_scan_start = \<lparr>as_hash = Sha256, as_lifetime = None, as_confirm = False,
     as_biometric = False, as_no_biometric = False, as_mode = None, as_paths = []\<rparr>"

definition parse_lifetime :: "string \<Rightarrow> anvil_error + u64" where
  "parse_lifetime secs = (case parse_unsigned u64_max secs of
     Some n \<Rightarrow> Inr (of_nat n)
   | None \<Rightarrow> Inl (InvalidConfig (''-t requires an integer number of seconds, got '' @ debug_text secs)))"

definition parse_hash :: "string \<Rightarrow> anvil_error + hash_kind" where
  "parse_hash value =
     (let v = to_lower value
      in if v = ''sha256'' then Inr Sha256
         else if v = ''sha512'' then Inr Sha512
         else Inl (InvalidConfig (''-E requires sha256 or sha512, got '' @ debug_text v)))"

definition set_mode :: "add_mode \<Rightarrow> string \<Rightarrow> add_scan \<Rightarrow> anvil_error + add_scan" where
  "set_mode new flag st =
     (if as_mode st \<noteq> None then Inl (InvalidConfig (flag @ '' conflicts with a previous mode flag''))
      else Inr (st\<lparr>as_mode := Some new\<rparr>))"

definition take_arg :: "string \<Rightarrow> string list \<Rightarrow> anvil_error + (string \<times> string list)" where
  "take_arg flag rest = (case rest of
     [] \<Rightarrow> Inl (InvalidConfig (flag @ '' requires a value''))
   | v # rest' \<Rightarrow> Inr (v, rest'))"

definition ignored_add_flags :: "string list" where
  "ignored_add_flags = [''-q'', ''-v'', ''-vv'', ''-vvv'', ''-H'', ''-T'', ''-s'', ''-S'', ''-e'', ''-k'']"

text \<open>One round of the loop: the new variables and the arguments still to be consumed.\<close>

definition add_step :: "string \<Rightarrow> string list \<Rightarrow> add_scan \<Rightarrow> anvil_error + (add_scan \<times> string list)" where
  "add_step a rest st =
     (if a = ''-l'' then map_sum id (\<lambda>st'. (st', rest)) (set_mode (ModeList False) ''-l'' st)
      else if a = ''-L'' then map_sum id (\<lambda>st'. (st', rest)) (set_mode (ModeList True) ''-L'' st)
      else if a = ''-D'' then map_sum id (\<lambda>st'. (st', rest)) (set_mode ModeRemoveAll ''-D'' st)
      else if a = ''-x'' then map_sum id (\<lambda>st'. (st', rest)) (set_mode ModeLock ''-x'' st)
      else if a = ''-X'' then map_sum id (\<lambda>st'. (st', rest)) (set_mode ModeUnlock ''-X'' st)
      else if a = ''-c'' then Inr (st\<lparr>as_confirm := True\<rparr>, rest)
      else if a = ''--biometric'' then Inr (st\<lparr>as_biometric := True\<rparr>, rest)
      else if a = ''--no-biometric'' then Inr (st\<lparr>as_no_biometric := True\<rparr>, rest)
      else if a = ''-d'' then
        (case take_arg ''-d'' rest of
           Inl e \<Rightarrow> Inl e
         | Inr (path, rest') \<Rightarrow> map_sum id (\<lambda>st'. (st', rest')) (set_mode (ModeRemoveOne path) ''-d'' st))
      else if a = ''-t'' then
        (case take_arg ''-t'' rest of
           Inl e \<Rightarrow> Inl e
         | Inr (secs, rest') \<Rightarrow> map_sum id (\<lambda>n. (st\<lparr>as_lifetime := Some n\<rparr>, rest')) (parse_lifetime secs))
      else if a = ''-E'' then
        (case take_arg ''-E'' rest of
           Inl e \<Rightarrow> Inl e
         | Inr (value, rest') \<Rightarrow> map_sum id (\<lambda>h. (st\<lparr>as_hash := h\<rparr>, rest')) (parse_hash value))
      else if a \<in> set ignored_add_flags then Inr (st, rest)
      else if a = ''--'' then Inr (st\<lparr>as_paths := as_paths st @ rest\<rparr>, [])
      else if prefix ''-'' a then Inl (InvalidConfig (''unsupported flag: '' @ a))
      else Inr (st\<lparr>as_paths := as_paths st @ [a]\<rparr>, rest))"

lemma take_arg_shorter: "take_arg flag rest = Inr (v, rest') \<Longrightarrow> length rest' < length rest"
  by (auto simp: take_arg_def split: list.splits)

lemma map_sum_Inr_iff: "map_sum f g s = Inr b \<longleftrightarrow> (\<exists>a. s = Inr a \<and> b = g a)"
  and map_sum_Inl_iff: "map_sum f g s = Inl c \<longleftrightarrow> (\<exists>a. s = Inl a \<and> c = f a)"
  by (cases s; auto)+

lemma add_step_shorter [termination_simp]:
  "add_step a rest st = Inr (st', rest') \<Longrightarrow> length rest' < Suc (length rest)"
  unfolding add_step_def
  by (auto simp: map_sum_Inr_iff dest!: take_arg_shorter split: if_split_asm sum.splits)

fun add_scan_args :: "string list \<Rightarrow> add_scan \<Rightarrow> anvil_error + add_scan" where
  "add_scan_args [] st = Inr st"
| "add_scan_args (a # rest) st = (case add_step a rest st of
     Inl e \<Rightarrow> Inl e
   | Inr (st', rest') \<Rightarrow> add_scan_args rest' st')"

definition add_from_args :: "string list \<Rightarrow> ('x world, add_parsed) eff" where
  "add_from_args args =
     try_let (lift_res (add_scan_args args add_scan_start)) (\<lambda>st.
     try_let (case as_mode st of
         Some m \<Rightarrow> ok m
       | None \<Rightarrow> if as_paths st = [] then try_let default_key_paths (\<lambda>ps. ok (ModeAdd ps))
                else ok (ModeAdd (as_paths st))) (\<lambda>mode.
     if as_biometric st \<and> as_no_biometric st then
       fail (InvalidConfig ''--biometric conflicts with --no-biometric'')
     else ok \<lparr>ap_mode = mode, ap_hash = as_hash st, ap_lifetime = as_lifetime st,
       ap_confirm = as_confirm st, ap_biometric = as_biometric st, ap_no_biometric = as_no_biometric st\<rparr>))"

section \<open>Passphrases\<close>

definition passphrase_from_stdin_if_not_tty :: "'x world \<Rightarrow> string option \<times> 'x world" where
  "passphrase_from_stdin_if_not_tty = let_do (get_s w_stdin_tty) (\<lambda>tty.
     if tty then ret None
     else let_do read_stdin (\<lambda>s.
       if \<not> valid_utf8 s then ret None
       else ret (Some (trim_end_matches newline s))))"

definition add_prompt_passphrase :: "('x, 'k, 'p) deps \<Rightarrow> string \<Rightarrow> ('x world, string) eff" where
  "add_prompt_passphrase D path = let_do passphrase_from_stdin_if_not_tty (\<lambda>r. case r of
       Some from_stdin \<Rightarrow> ok from_stdin
     | None \<Rightarrow> map_err Io (prompt_password (d_ask D) (''Enter passphrase for '' @ path @ '': '')))"

section \<open>Operations\<close>

definition add_list ::
  "('k, 'p) ssh_key_ops \<Rightarrow> ('x, 'g, 'k, 'p) agent_ops \<Rightarrow> 'g \<Rightarrow> bool \<Rightarrow> hash_kind \<Rightarrow> ('x world, u32) eff" where
  "add_list K G agent full hash =
     try_let (call (Agent AgList) (ag_list G agent)) (\<lambda>ids.
     if ids = [] then let_do (println ''The agent has no identities.'') (\<lambda>_. ok 1)
     else try_let (for_try (\<lambda>i u.
         if full then
           try_let (map_err (\<lambda>e. Signing (''serialize failed: '' @ e))
              (lift_res (pk_to_openssh K (ai_public_key i)))) (\<lambda>line.
           let_do (println line) (\<lambda>_. ok ()))
         else let_do (println (identity_line K hash i)) (\<lambda>_. ok ())) ids ()) (\<lambda>_. ok 0))"

definition add_remove_one ::
  "('k, 'p) ssh_key_ops \<Rightarrow> ('x, 'g, 'k, 'p) agent_ops \<Rightarrow> 'g \<Rightarrow> string \<Rightarrow> ('x world, u32) eff" where
  "add_remove_one K G agent path =
     try_let (read_to_string_q path) (\<lambda>raw.
     try_let (lift_res (parse_public_or_derive K path raw)) (\<lambda>public_key.
     try_let (call (Agent (AgRemove (pk_anvil_fingerprint K public_key Sha256)))
        (ag_remove G agent public_key)) (\<lambda>_.
     let_do (println (''Identity removed: '' @ pk_anvil_fingerprint K public_key Sha256)) (\<lambda>_.
     ok 0))))"

definition add_remove_all :: "('x, 'g, 'k, 'p) agent_ops \<Rightarrow> 'g \<Rightarrow> ('x world, u32) eff" where
  "add_remove_all G agent =
     try_let (call (Agent AgRemoveAll) (ag_remove_all G agent)) (\<lambda>_.
     let_do (println ''All identities removed.'') (\<lambda>_. ok 0))"

definition add_lock_unlock ::
  "('x, 'k, 'p) deps \<Rightarrow> ('x, 'g, 'k, 'p) agent_ops \<Rightarrow> 'g \<Rightarrow> bool \<Rightarrow> ('x world, u32) eff" where
  "add_lock_unlock D G agent lock =
     try_let (if lock then
         try_let (map_err Io (prompt_password (d_ask D) ''Enter lock passphrase: '')) (\<lambda>first.
         try_let (map_err Io (prompt_password (d_ask D) ''Confirm lock passphrase: '')) (\<lambda>confirm.
         if first \<noteq> confirm then fail (InvalidConfig ''passphrases did not match'') else ok first))
       else map_err Io (prompt_password (d_ask D) ''Enter unlock passphrase: '')) (\<lambda>pp.
     if lock then
       try_let (call (Agent AgLock) (ag_lock G agent pp)) (\<lambda>_.
       let_do (println ''Agent locked.'') (\<lambda>_. ok 0))
     else
       try_let (call (Agent AgUnlock) (ag_unlock G agent pp)) (\<lambda>_.
       let_do (println ''Agent unlocked.'') (\<lambda>_. ok 0)))"

definition add_decrypt :: "('k, 'p) ssh_key_ops \<Rightarrow> 'k \<Rightarrow> string \<Rightarrow> anvil_error + 'k" where
  "add_decrypt K key pp = (case sk_decrypt K key pp of
     Inr k \<Rightarrow> Inr k
   | Inl e \<Rightarrow> Inl (Signing (''decrypt failed: '' @ e)))"

definition load_and_decrypt ::
  "('x, 'k, 'p) deps \<Rightarrow> string \<Rightarrow> 'k \<Rightarrow> unlock_mode \<Rightarrow> ('x world, 'k) eff" where
  "load_and_decrypt D path key unlock =
     (let K = d_keys D; decrypt = (\<lambda>pp. lift_res (add_decrypt K key pp))
      in if \<not> sk_is_encrypted K key then ok key
         else (let kid = key_id K key
           in case unlock of
             UnlockDisabled \<Rightarrow> try_let (add_prompt_passphrase D path) decrypt
           | UnlockEnroll \<Rightarrow>
               try_let (add_prompt_passphrase D path) (\<lambda>pp.
               try_let (decrypt pp) (\<lambda>decrypted.
               let_do (v_store (d_vault D) kid pp) (\<lambda>stored.
               let_do (case stored of
                   Inr _ \<Rightarrow> eprintln (''gitway-add: enrolled '' @ path @ '' for biometric unlock'')
                 | Inl e \<Rightarrow> eprintln (''gitway-add: warning: biometric enrollment failed: ''
                     @ biometric_error_text e)) (\<lambda>_.
               ok decrypted))))
           | UnlockAuto \<Rightarrow>
               let_do (auto_unlock_passphrase K (d_vault D) key) (\<lambda>u. case u of
                 Passphrase pp \<Rightarrow> decrypt pp
               | Stale \<Rightarrow>
                   let_do (eprintln (''gitway-add: stored biometric passphrase no longer decrypts ''
                     @ path @ '' '' @ em_dash @ '' removed stale enrollment'')) (\<lambda>_.
                   try_let (add_prompt_passphrase D path) decrypt)
               | Fallback \<Rightarrow> try_let (add_prompt_passphrase D path) decrypt)))"

definition add_one_path ::
  "('x, 'k, 'p) deps \<Rightarrow> ('x, 'g, 'k, 'p) agent_ops \<Rightarrow> 'g \<Rightarrow> u64 option \<Rightarrow> bool \<Rightarrow> unlock_mode
   \<Rightarrow> 'p agent_identity list \<Rightarrow> string \<Rightarrow> ('x world, unit) eff" where
  "add_one_path D G agent lifetime confirm unlock loaded path =
     try_let (read_to_string_q path) (\<lambda>pem.
     try_let (lift_res (parse_private (d_keys D) path pem)) (\<lambda>key.
     if unlock \<noteq> UnlockEnroll \<and> already_loaded (d_keys D) loaded key then
       let_do (println (''Identity already loaded: '' @ path)) (\<lambda>_. ok ())
     else
       try_let (load_and_decrypt D path key unlock) (\<lambda>decrypted.
       try_let (agent_add_call (d_keys D) G agent decrypted lifetime confirm) (\<lambda>_.
       let_do (println (''Identity added: '' @ path)) (\<lambda>_. ok ())))))"

definition add_keys ::
  "('x, 'k, 'p) deps \<Rightarrow> ('x, 'g, 'k, 'p) agent_ops \<Rightarrow> 'g \<Rightarrow> string list \<Rightarrow> u64 option \<Rightarrow> bool
   \<Rightarrow> unlock_mode \<Rightarrow> ('x world, u32) eff" where
  "add_keys D G agent paths lifetime confirm unlock =
     let_do (call (Agent AgList) (ag_list G agent)) (\<lambda>r.
     let loaded = (case r of Inr ids \<Rightarrow> ids | Inl _ \<Rightarrow> [])
     in try_let (for_try (\<lambda>path _. add_one_path D G agent lifetime confirm unlock loaded path) paths ())
          (\<lambda>_. ok 0))"

section \<open>The program\<close>

definition add_help_text :: string where
  "add_help_text = join [newline]
     [''gitway-add '' @ em_dash @ '' load SSH keys into the gitway agent (an ssh-add-compatible shim)'',
      [],
      ''Usage: gitway-add [OPTIONS] [FILE...]'',
      [],
      ''With no FILE, adds the default keys (~/.ssh/id_ed25519, then id_ecdsa, id_rsa).'',
      ''A key that is already loaded in the agent is skipped (no passphrase re-prompt).'',
      [],
      ''Options:'',
      ''  -l                  List loaded key fingerprints (default when no FILE given)'',
      ''  -L                  List loaded public keys in full'',
      ''  -d <file>           Remove the identity for <file>'',
      ''  -D                  Remove all identities from the agent'',
      ''  -x                  Lock the agent with a passphrase'',
      ''  -X                  Unlock the agent'',
      ''  -t <seconds>        Lifetime for keys added in this invocation (ssh-add -t)'',
      ''  -E <sha256|sha512>  Fingerprint hash to display for -l'',
      ''  -c                  Require confirmation on each signing request (ssh-add -c)'',
      ''  --biometric         Enroll the key for biometric unlock while adding it'',
      ''  --no-biometric      Force a typed passphrase even if the key is enrolled'',
      ''  -h, --help          Show this help and exit'',
      [],
      ''Keys load into the agent on $SSH_AUTH_SOCK.  Unsupported ssh-add flags are'',
      ''accepted and ignored for compatibility.'']"

definition gitway_add_run ::
  "('x, 'k, 'p) deps \<Rightarrow> ('x, 'g, 'k, 'p) agent_ops \<Rightarrow> string list \<Rightarrow> ('x world, u32) eff" where
  "gitway_add_run D G args =
     (if list_ex (\<lambda>a. a \<in> {''-h'', ''--help'', ''-?''}) args then
        let_do (println add_help_text) (\<lambda>_. ok 0)
      else
        try_let (add_from_args args) (\<lambda>parsed.
        try_let (call (Agent AgConnect) (ag_from_env G)) (\<lambda>agent.
        case ap_mode parsed of
          ModeList full \<Rightarrow> add_list (d_keys D) G agent full (ap_hash parsed)
        | ModeRemoveOne path \<Rightarrow> add_remove_one (d_keys D) G agent path
        | ModeRemoveAll \<Rightarrow> add_remove_all G agent
        | ModeLock \<Rightarrow> add_lock_unlock D G agent True
        | ModeUnlock \<Rightarrow> add_lock_unlock D G agent False
        | ModeAdd paths \<Rightarrow>
            (let unlock = unlock_mode_from_flags (ap_biometric parsed) (ap_no_biometric parsed)
             in add_keys D G agent paths (ap_lifetime parsed) (ap_confirm parsed) unlock))))"

text \<open>\<open>u8::try_from(code).unwrap_or(1)\<close>.\<close>

definition exit_u8 :: "u32 \<Rightarrow> u8" where
  "exit_u8 code = (if unat code \<le> 255 then ucast code else 1)"

definition gitway_add_main ::
  "('x, 'k, 'p) deps \<Rightarrow> ('x, 'g, 'k, 'p) agent_ops \<Rightarrow> ('x, 'c, 's) anvil_ops \<Rightarrow> string list
   \<Rightarrow> 'x world \<Rightarrow> u8 \<times> 'x world" where
  "gitway_add_main D G A args =
     let_do (gitway_add_run D G args) (\<lambda>r. case r of
       Inr code \<Rightarrow> ret (exit_u8 code)
     | Inl e \<Rightarrow>
         let_do (eprintln (''gitway-add: error: '' @ er_text A e)) (\<lambda>_.
         let_do (eprintln (''gitway-add: what to do: '' @ er_hint A e)) (\<lambda>_.
         let_do (eprintln (an_emit_diagnostic A e [])) (\<lambda>_.
         ret (exit_u8 (er_exit_code A e))))))"

section \<open>The key loader\<close>

lemma load_and_decrypt_result:
  assumes "load_and_decrypt D path key unlock w = (Inr key', w')" and "sk_is_encrypted (d_keys D) key"
  shows "\<exists>p. sk_decrypt (d_keys D) key p = Inr key'"
  using assms
  by (auto simp: load_and_decrypt_def add_decrypt_def Let_def effect_simps
      split: unlock_mode.splits auto_unlock_result.splits sum.splits prod.splits)

lemma adds_add_prompt [adds_intros]:
  "P StdinRead \<Longrightarrow> (\<And>s. P (Prompt s)) \<Longrightarrow> adds_only P (add_prompt_passphrase D path)"
  unfolding add_prompt_passphrase_def passphrase_from_stdin_if_not_tty_def
  by (auto intro!: adds_intros)

interpretation add_load: key_loader "d_keys D" "load_and_decrypt (D\<lparr>d_vault := backend feature os P\<rparr>)"
  for D :: "('x, 'k, 'p) deps" and feature os and P :: "('x, 'h) platform"
proof (unfold_locales, goal_cases)
  case (1 key path unlock)
  then show ?case by (simp add: load_and_decrypt_def Let_def)
next
  case (2 path key unlock w key' w')
  then show ?case using load_and_decrypt_result by fastforce
next
  case (3 path key unlock)
  have "adds_only (\<lambda>e. \<forall>fp enc. e \<noteq> Agent (AgAdd fp enc)) (auto_unlock_passphrase K (backend feature os P) k)" for K :: "('k, 'p) ssh_key_ops" and k
    by (rule adds_only_mono[OF build.auto_unlock_passphrase_events]) auto
  moreover have "adds_only (\<lambda>e. \<forall>fp enc. e \<noteq> Agent (AgAdd fp enc)) (v_store (backend feature os P) kid s)" for kid s
    by (rule adds_only_mono[OF build.store_quiet]) auto
  ultimately show ?case
    unfolding load_and_decrypt_def Let_def
    by (auto intro!: adds_intros split: unlock_mode.splits auto_unlock_result.splits)
qed

section \<open>What is added\<close>

lemma add_one_path_good:
  fixes D :: "('x, 'k, 'p) deps" and P :: "('x, 'h) platform"
  assumes "ssh_key_laws (d_keys D)"
  shows "adds_only (good_addition (d_keys D) unlock loaded)
    (add_one_path (D\<lparr>d_vault := backend feature os P\<rparr>) G agent lifetime confirm unlock loaded path)"
proof -
  have m: "adds_only (\<lambda>e. \<forall>fp enc. e \<noteq> Agent (AgAdd fp enc)) (let_do (println s) (\<lambda>_. ok ()))"
    for s by (auto intro!: adds_intros)
  have load: "adds_only (good_addition (d_keys D) unlock loaded)
      (try_let (load_and_decrypt (D\<lparr>d_vault := backend feature os P\<rparr>) path key unlock)
        (\<lambda>k. try_let (agent_add_call (d_keys D) G agent k lifetime confirm)
          (\<lambda>_. let_do (println s) (\<lambda>_. ok ()))))"
    if "\<not> (unlock \<noteq> UnlockEnroll \<and> already_loaded (d_keys D) loaded key)"
    for key :: 'k and s
    using good_addition_new[OF that]
    by (intro adds_only_mono[OF add_load.load_then_add[OF assms m]]) blast
  have skip: "adds_only (good_addition (d_keys D) unlock loaded) (let_do (println s) (\<lambda>_. ok ()))" for s
    by (auto intro!: adds_intros)
  show ?thesis
    unfolding add_one_path_def
    by (intro adds_try_let[OF adds_read(3)] adds_try_let[OF adds_lift_res] adds_if skip)
      (use load in simp_all)
qed

lemma add_loop_good:
  assumes "ssh_key_laws (d_keys D)"
  shows "adds_only (good_addition (d_keys D) unlock loaded)
    (for_try (\<lambda>path _. add_one_path (D\<lparr>d_vault := backend feature os P\<rparr>) G agent lifetime confirm unlock loaded path) paths ())"
  by (intro adds_for_try add_one_path_good[OF assms])

text \<open>The command line alone decides on the unlock mode.\<close>

definition shim_unlock :: "string list \<Rightarrow> 'x world \<Rightarrow> unlock_mode" where
  "shim_unlock args w = (case fst (add_from_args args w) of
     Inl e \<Rightarrow> UnlockAuto
   | Inr p \<Rightarrow> unlock_mode_from_flags (ap_biometric p) (ap_no_biometric p))"

lemma add_from_args_world: "add_from_args args w = (fst (add_from_args args w), w)"
  by (auto simp: add_from_args_def effect_simps default_key_paths_def Let_def split: sum.splits option.splits)

lemma gitway_add_run_good:
  fixes D :: "('x, 'k, 'p) deps" and P :: "('x, 'h) platform"
  assumes "ssh_key_laws (d_keys D)"
  shows "runs w (gitway_add_run (D\<lparr>d_vault := backend feature os P\<rparr>) G argv)
    (\<lambda>r es u. list_all (good_addition (d_keys D) (shim_unlock argv w) (listed G w)) es)"
  (is "runs w _ (\<lambda>r es u. list_all ?good es)")
proof -
  have others: "adds_only ?good (add_list (d_keys D) G agent full hash)"
    "adds_only ?good (add_remove_one (d_keys D) G agent path)" "adds_only ?good (add_remove_all G agent)"
    "adds_only ?good (add_lock_unlock (D\<lparr>d_vault := backend feature os P\<rparr>) G agent lock)"
    for agent full hash path lock
    unfolding add_list_def add_remove_one_def add_remove_all_def add_lock_unlock_def
    by (auto intro!: adds_intros simp: good_addition_def)
  have other: "runs w (try_let (call (Agent AgConnect) (ag_from_env G)) f) (\<lambda>r es u. list_all ?good es)"
    if "\<And>agent. adds_only ?good (f agent)" for f
  proof -
    have "adds_only ?good (try_let (call (Agent AgConnect) (ag_from_env G)) f)"
      by (intro adds_intros that) simp
    then show ?thesis by (auto simp: adds_only_def runs_def)
  qed
  have keys: "runs w (try_let (call (Agent AgConnect) (ag_from_env G)) (\<lambda>agent.
      add_keys (D\<lparr>d_vault := backend feature os P\<rparr>) G agent paths (ap_lifetime p) (ap_confirm p)
        (unlock_mode_from_flags (ap_biometric p) (ap_no_biometric p)))) (\<lambda>r es u. list_all ?good es)"
    if "fst (add_from_args argv w) = Inr p" for p paths
    unfolding add_keys_def Let_def shim_unlock_def that sum.case
    by (intro runs_listing adds_try_let add_loop_good[OF assms] adds_ok good_addition_simps)
  have run: "runs w (try_let (call (Agent AgConnect) (ag_from_env G)) (\<lambda>agent. case ap_mode p of
        ModeList full \<Rightarrow> add_list (d_keys (D\<lparr>d_vault := backend feature os P\<rparr>)) G agent full (ap_hash p)
      | ModeRemoveOne path \<Rightarrow> add_remove_one (d_keys (D\<lparr>d_vault := backend feature os P\<rparr>)) G agent path
      | ModeRemoveAll \<Rightarrow> add_remove_all G agent
      | ModeLock \<Rightarrow> add_lock_unlock (D\<lparr>d_vault := backend feature os P\<rparr>) G agent True
      | ModeUnlock \<Rightarrow> add_lock_unlock (D\<lparr>d_vault := backend feature os P\<rparr>) G agent False
      | ModeAdd paths \<Rightarrow> add_keys (D\<lparr>d_vault := backend feature os P\<rparr>) G agent paths (ap_lifetime p)
          (ap_confirm p) (unlock_mode_from_flags (ap_biometric p) (ap_no_biometric p))))
      (\<lambda>r es u. list_all ?good es)"
    if "fst (add_from_args argv w) = Inr p" for p
    using other[OF others(1)] other[OF others(2)] other[OF others(3)] other[OF others(4)] keys[OF that]
    by (cases "ap_mode p") simp_all
  show ?thesis
    unfolding gitway_add_run_def Let_def
  proof (rule runs_if)
    show "runs w (let_do (println add_help_text) (\<lambda>_. ok 0)) (\<lambda>r es u. list_all ?good es)"
      by (auto intro!: runs_intros)
  qed (rule runs_try_pure[OF add_from_args_world], rule run)
qed

section \<open>Piped passphrases\<close>

text \<open>The first prompt takes the whole of a piped standard input, without its line ends; a
  second one gets the empty passphrase.\<close>

lemma add_prompt_piped:
  assumes "\<not> w_stdin_tty w" and "valid_utf8 (w_stdin w)"
  shows "add_prompt_passphrase D path w = (Inr (trim_end_matches newline (w_stdin w)), snd (read_stdin w))"
  using assms
  by (simp add: add_prompt_passphrase_def passphrase_from_stdin_if_not_tty_def effect_simps
      read_stdin_def)

lemma add_prompt_piped_twice:
  assumes "\<not> w_stdin_tty w" and "add_prompt_passphrase D path w = (Inr p, w')"
    and "valid_utf8 (w_stdin w)"
  shows "fst (add_prompt_passphrase D path' w') = Inr []"
proof -
  have "w' = snd (read_stdin w)" using assms add_prompt_piped[of w D path] by simp
  then have "\<not> w_stdin_tty w'" "w_stdin w' = []" using assms by (simp_all add: read_stdin_def)
  then show ?thesis
    using add_prompt_piped[of w' D path'] by (simp add: valid_utf8_def trim_end_matches_def)
qed

end
