(* ===== verification/Enrolment.thy ===== *)
theory Enrolment
  imports Vault_Map Biometric_Cmd Agent_Cmd Gitway_Add
begin

text \<open>
  What the clients of a vault get out of its contract \<open>keymap_vault\<close>: a key that \<open>enroll\<close> has
  reported as enrolled unlocks with the passphrase that was checked, and what \<open>forget\<close> has
  reported as forgotten does not unlock any more. The last section is about the two commands that
  enroll a key while adding it to the agent.
\<close>

section \<open>The key of a file\<close>

definition key_at :: "('k, 'p) ssh_key_ops \<Rightarrow> 'x world \<Rightarrow> string \<Rightarrow> 'k option" where
  "key_at K w path = (case read_text_at (w_fs w) path of
     Inl _ \<Rightarrow> None
   | Inr pem \<Rightarrow> (case sk_from_openssh K pem of Inl _ \<Rightarrow> None | Inr key \<Rightarrow> Some key))"

text \<open>The keys on the disk, as far as the file system holds files that parse as one.\<close>

definition disk :: "('k, 'p) ssh_key_ops \<Rightarrow> 'x store \<Rightarrow> string \<Rightarrow> 'k option" where
  "disk K s path = (case read_text_at (fst s) path of
     Inl _ \<Rightarrow> None
   | Inr pem \<Rightarrow> (case sk_from_openssh K pem of Inl _ \<Rightarrow> None | Inr key \<Rightarrow> Some key))"

lemma key_at_disk: "key_at K w = disk K (store_of w)"
  by (simp add: fun_eq_iff key_at_def disk_def store_of_def)

definition key_fingerprint :: "('k, 'p, 'more) ssh_key_ops_scheme \<Rightarrow> 'k \<Rightarrow> string" where
  "key_fingerprint K key = pk_fingerprint K (sk_public K key) Sha256"

lemma key_id_of_fingerprint: "key_id K key = key_id_from_fingerprint (key_fingerprint K key)"
  by (simp add: key_fingerprint_def key_id_via_fingerprint)

section \<open>Unlocking\<close>

lemma unlock_reads_map:
  assumes V: "keymap_vault V I h" and "I (store_of w)"
    and run: "auto_unlock_passphrase K V key w = (r, w')"
  shows "case r of
      Passphrase p \<Rightarrow> h (store_of w) (key_fingerprint K key) = Some p \<and> \<not> isl (sk_decrypt K key p)
    | Stale \<Rightarrow> \<exists>p. h (store_of w) (key_fingerprint K key) = Some p \<and> isl (sk_decrypt K key p)
    | Fallback \<Rightarrow> True"
proof -
  obtain q u where q: "v_retrieve V (key_id K key) w = (q, u)" by fastforce
  then have "retrieve_post (h (store_of w)) (key_fingerprint K key) q (h (store_of u))"
    using on_mapD[OF keymap_vaultD(2)[OF V] assms(2)] by (simp add: key_id_of_fingerprint)
  with run q show ?thesis
    by (auto simp: auto_unlock_passphrase_cases retrieve_post_def split: sum.splits if_splits)
qed

section \<open>Enrolling\<close>

text \<open>The ways of asking for a passphrase leave the keystore alone.\<close>

definition prompts_frame :: "('x, 'k, 'p) deps \<Rightarrow> ('x store \<Rightarrow> 'b) \<Rightarrow> bool" where
  "prompts_frame D g \<longleftrightarrow> (\<forall>prompt. frame_op g (d_ask D prompt)) \<and> (\<forall>p prompt. frame_op g (d_launch D p prompt))"

lemma frames_prompt_passphrase_interactive:
  "prompts_frame D g \<Longrightarrow> frames g (prompt_passphrase_interactive D path)"
  unfolding prompt_passphrase_interactive_def try_askpass_def prompt_password_def Let_def prompts_frame_def
  by (auto intro!: frames_intros)

lemma read_key_at:
  assumes "read_key K path w = (r, u)"
  shows "u = w\<lparr>w_trace := w_trace w @ [FsRead path]\<rparr>"
    and "key_at K w path = (case r of Inl _ \<Rightarrow> None | Inr key \<Rightarrow> Some key)"
  using assms by (auto simp: read_key_def read_to_string_def effect_simps key_at_def split: sum.splits)

text \<open>A key reported as enrolled is in the map with a passphrase that decrypts it; the entries of
  the other keys are as they were.\<close>

lemma enroll_one_map:
  assumes V: "keymap_vault (d_vault D) I h" and P: "prompts_frame D (\<lambda>s. (I s, h s))"
    and start: "I (store_of w)" and run: "enroll_one D path w = (Inr oc, w')" and ok: "oc_ok oc"
  obtains key p where "key_at (d_keys D) w path = Some key" and "\<not> isl (sk_decrypt (d_keys D) key p)"
    and "h (store_of w') = (h (store_of w))(key_fingerprint (d_keys D) key \<mapsto> p)" and "I (store_of w')"
proof -
  obtain k u where k: "read_key (d_keys D) path w = (k, u)" by fastforce
  obtain key where key: "k = Inr key"
    using run ok k by (cases k) (auto simp: enroll_one_def effect_simps)
  have u: "store_of u = store_of w"
    using read_key_at(1)[OF k] by simp
  obtain p t where p: "prompt_passphrase_interactive D path u = (Inr p, t)"
    and "\<not> isl (sk_decrypt (d_keys D) key p)"
    and stored: "v_store (d_vault D) (key_id (d_keys D) key) p t = (Inr (), w')"
    using run ok k key
    by (auto simp: enroll_one_def effect_simps Let_def split: prod.splits sum.splits if_splits)
  moreover have "I (store_of t) = I (store_of w) \<and> h (store_of t) = h (store_of w)"
    using frames_prompt_passphrase_interactive[OF P, unfolded frames_def, rule_format, of path u] p u by simp
  moreover have "key_at (d_keys D) w path = Some key"
    using read_key_at(2)[OF k] key by simp
  ultimately show ?thesis
    using on_mapD[OF keymap_vaultD(1)[OF V] _ stored[unfolded key_id_of_fingerprint]] start that
    by (simp add: store_post_def)
qed

section \<open>Forgetting\<close>

lemma frames_emit_results [frames_intros]: "frames g (emit_results mode command results verb)"
proof -
  have lines: "frames g (for_do (\<lambda>l u. eprintln l) ls ())" for ls
    by (induction ls) (auto intro!: frames_intros)
  show ?thesis
    unfolding emit_results_def emit_data_def emit_json_def eprint_lines_def
    by (cases mode) (auto intro!: frames_intros lines)
qed

lemma forget_report_run:
  assumes "let_do (emit_results mode command results verb) (\<lambda>_. ok e) w = (Inr c, w')"
  shows "c = e" and "store_of w' = store_of w"
  using assms frames_emit_results[of id mode command results verb, unfolded frames_def, rule_format, of w]
  by (auto simp: effect_simps split: prod.splits)

text \<open>A round of the loop over the files that keeps the exit code 0 has removed the entry of the
  file's key, which was there.\<close>

lemma forget_path_map:
  assumes V: "keymap_vault_beside V I h (disk K)" and start: "I (store_of w)"
    and run: "forget_path K V path acc w = (acc', u)"
  shows "I (store_of u) \<and> disk K (store_of u) = disk K (store_of w) \<and> (snd acc' = exit_ok \<longrightarrow> snd acc = exit_ok
    \<and> (\<exists>key. disk K (store_of w) path = Some key \<and> h (store_of w) (key_fingerprint K key) \<noteq> None
        \<and> h (store_of u) = (h (store_of w))(key_fingerprint K key := None)))"
proof -
  obtain k v where k: "read_key K path w = (k, v)" by fastforce
  have v: "store_of v = store_of w"
    using read_key_at(1)[OF k] by simp
  show ?thesis
  proof (cases k)
    case (Inl message)
    then show ?thesis
      using run k v start by (cases acc) (auto simp: forget_path_def effect_simps)
  next
    case (Inr key)
    obtain d t where d: "v_delete V (key_id K key) v = (d, t)" by fastforce
    have "on_map (\<lambda>s. I s \<and> disk K s = disk K (store_of w)) h (v_delete V (key_id_from_fingerprint fp))
        (\<lambda>m. delete_post m fp)" for fp
      using V unfolding keymap_vault_beside_def by (blast dest: keymap_vaultD(3))
    note post = on_mapD[OF this _ d[unfolded key_id_of_fingerprint]]
    have key: "disk K (store_of w) path = Some key"
      using read_key_at(2)[OF k] Inr by (simp add: key_at_disk)
    show ?thesis
      using run k Inr d post start v key
      by (cases acc; cases d) (auto simp: forget_path_def effect_simps Let_def delete_post_def)
  qed
qed

definition fingerprints_at :: "('k, 'p) ssh_key_ops \<Rightarrow> 'x store \<Rightarrow> string list \<Rightarrow> string list" where
  "fingerprints_at K s paths = map (\<lambda>p. key_fingerprint K (the (disk K s p))) paths"

lemma forget_paths_map:
  assumes V: "keymap_vault_beside V I h (disk K)"
  shows "for_do (forget_path K V) paths acc w = (acc', w') \<Longrightarrow> I (store_of w) \<Longrightarrow> snd acc' = exit_ok \<Longrightarrow>
    snd acc = exit_ok \<and> list_all (\<lambda>p. disk K (store_of w) p \<noteq> None) paths
    \<and> distinct (fingerprints_at K (store_of w) paths)
    \<and> set (fingerprints_at K (store_of w) paths) \<subseteq> dom (h (store_of w))
    \<and> h (store_of w') = h (store_of w) |` (- set (fingerprints_at K (store_of w) paths))"
proof (induction paths arbitrary: acc w)
  case Nil
  then show ?case by (simp add: effect_simps fingerprints_at_def)
next
  case (Cons p ps)
  obtain acc1 u where step: "forget_path K V p acc w = (acc1, u)" by fastforce
  note first = forget_path_map[OF V Cons.prems(2) step]
  have rest: "for_do (forget_path K V) ps acc1 u = (acc', w')"
    using Cons.prems(1) step by (simp add: effect_simps)
  have fps: "fingerprints_at K (store_of u) ps = fingerprints_at K (store_of w) ps"
    using first by (simp add: fingerprints_at_def)
  note IH = Cons.IH[OF rest conjunct1[OF first] Cons.prems(3), unfolded fps]
  obtain key where key: "disk K (store_of w) p = Some key" "h (store_of w) (key_fingerprint K key) \<noteq> None"
    "h (store_of u) = (h (store_of w))(key_fingerprint K key := None)" "snd acc = exit_ok"
    using first IH by blast
  have "fingerprints_at K (store_of w) (p # ps) = key_fingerprint K key # fingerprints_at K (store_of w) ps"
    using key(1) by (simp add: fingerprints_at_def)
  moreover have "key_fingerprint K key \<notin> set (fingerprints_at K (store_of w) ps)"
    using IH key(3) by (auto simp: dom_def)
  ultimately show ?case
    using IH key first by (auto simp: restrict_map_def fun_eq_iff dom_def split: if_splits)
qed

lemma forget_files_map:
  assumes V: "keymap_vault_beside V I h (disk K)" and start: "I (store_of w)"
    and run: "run_forget K V args mode w = (Inr exit_ok, w')" and files: "\<not> bf_all args"
  shows "list_all (\<lambda>p. disk K (store_of w) p \<noteq> None) (bf_files args)
    \<and> distinct (fingerprints_at K (store_of w) (bf_files args))
    \<and> set (fingerprints_at K (store_of w) (bf_files args)) \<subseteq> dom (h (store_of w))
    \<and> h (store_of w') = h (store_of w) |` (- set (fingerprints_at K (store_of w) (bf_files args)))"
proof -
  obtain results e t where loop: "for_do (forget_path K V) (bf_files args) ([], exit_ok) w = ((results, e), t)"
    by (metis surj_pair)
  then have "let_do (emit_results mode ''gitway biometric forget'' results ''forgot'') (\<lambda>_. ok e) t = (Inr exit_ok, w')"
    using run files by (auto simp: run_forget_def effect_simps Let_def split: prod.splits if_splits)
  then have "e = exit_ok" "store_of w' = store_of t"
    using forget_report_run by metis+
  then show ?thesis
    using forget_paths_map[OF V loop start] by simp
qed

lemma forget_enrolled_map:
  assumes V: "keymap_vault V I h"
  shows "for_do (forget_enrolled V) ks acc w = (acc', w') \<Longrightarrow> I (store_of w) \<Longrightarrow> snd acc' = exit_ok \<Longrightarrow>
    snd acc = exit_ok \<and> h (store_of w') = h (store_of w) |` (- ek_fingerprint ` set ks)"
proof (induction ks arbitrary: acc w)
  case Nil
  then show ?case by (simp add: effect_simps)
next
  case (Cons k ks)
  obtain d u where d: "v_delete V (key_id_from_fingerprint (ek_fingerprint k)) w = (d, u)" by fastforce
  obtain acc1 where acc1: "forget_enrolled V k acc w = (acc1, u)"
    and code: "snd acc1 = exit_ok \<longleftrightarrow> \<not> isl d \<and> snd acc = exit_ok"
    using d by (cases d; cases acc) (auto simp: forget_enrolled_def effect_simps)
  have rest: "for_do (forget_enrolled V) ks acc1 u = (acc', w')"
    using Cons.prems(1) acc1 by (simp add: effect_simps)
  note del = on_mapD[OF keymap_vaultD(3)[OF V] Cons.prems(2) d]
  have "snd acc1 = exit_ok \<and> h (store_of w') = h (store_of u) |` (- ek_fingerprint ` set ks)"
    by (rule Cons.IH[OF rest del(1) Cons.prems(3)])
  with code del(2) show ?case
    by (cases d) (auto simp: delete_post_def restrict_map_def fun_eq_iff)
qed

lemma forget_all_map:
  assumes V: "keymap_vault V I h" and start: "I (store_of w)"
    and run: "run_forget K V args mode w = (Inr exit_ok, w')" and all: "bf_all args"
  shows "h (store_of w') = Map.empty"
proof -
  obtain l u where l: "v_list V w = (l, u)" by fastforce
  note listed = on_mapD[OF keymap_vaultD(4)[OF V] start l]
  show ?thesis
  proof (cases l)
    case (Inl e)
    then show ?thesis
      using run all l by (auto simp: run_forget_def effect_simps Let_def emit_bio_error_def split: prod.splits)
  next
    case (Inr ks)
    obtain results e t where loop: "for_do (forget_enrolled V) ks ([], exit_ok) u = ((results, e), t)"
      by (metis surj_pair)
    then have "let_do (emit_results mode ''gitway biometric forget'' results ''forgot'') (\<lambda>_. ok e) t = (Inr exit_ok, w')"
      using run all l Inr by (simp add: run_forget_def effect_simps Let_def split: prod.splits)
    then have e: "e = exit_ok" and t: "store_of w' = store_of t"
      using forget_report_run by metis+
    have "h (store_of t) = h (store_of u) |` (- ek_fingerprint ` set ks)"
      using forget_enrolled_map[OF V loop listed(1)] e by simp
    with listed(2) Inr t show ?thesis
      by (auto simp: list_post_def restrict_map_def fun_eq_iff)
  qed
qed

text \<open>What the vault's probe, \<open>delete\<close> and \<open>list\<close> leave alone, the management commands leave alone.\<close>

lemma frames_for_do: "(\<And>i a. frames g (body i a)) \<Longrightarrow> frames g (for_do body is acc)"
  by (induction "is" arbitrary: acc) (auto intro!: frames_intros)

lemma frames_reports [frames_intros]:
  "frames g (emit_data command data)" "frames g (print_lines ls)" "frames g (emit_bio_error e mode command)"
  "frames g (read_key K path)"
proof -
  show data: "frames g (emit_data command data)"
    unfolding emit_data_def emit_json_def by (intro frames_intros)
  show "frames g (print_lines ls)"
    unfolding print_lines_def by (intro frames_for_do frames_intros)
  show "frames g (emit_bio_error e mode command)"
    unfolding emit_bio_error_def emit_json_def Let_def by (cases mode) (auto intro!: frames_intros)
  show "frames g (read_key K path)"
    unfolding frames_def using read_key_at(1)[of K path] by (metis prod.collapse store_of_trace)
qed

lemma management_frames:
  assumes "\<And>k. frames g (v_delete (d_vault D) k)" and "frames g (v_list (d_vault D))"
    and "frames g (v_is_available (d_vault D))"
  shows "frames g (biometric_run D (BioForget args) mode)" "frames g (biometric_run D BioList mode)"
    "frames g (biometric_run D BioStatus mode)"
proof -
  show "frames g (biometric_run D (BioForget args) mode)"
    unfolding biometric_run.simps run_forget_def forget_enrolled_def forget_path_def Let_def
    by (intro frames_intros frames_for_do assms)
  show "frames g (biometric_run D BioList mode)"
    unfolding biometric_run.simps bio_run_list_def
    by (cases mode) (auto intro!: frames_intros assms)
  show "frames g (biometric_run D BioStatus mode)"
    unfolding biometric_run.simps bio_run_status_def Let_def
    by (cases mode) (auto intro!: frames_intros assms)
qed

section \<open>Enrolling while adding a key to the agent\<close>

text \<open>\<open>gitway agent add --biometric\<close> and \<open>gitway-add --biometric\<close> store a passphrase too, and only
  one that decrypts the key: another \<open>store\<close> that agrees on those makes no difference.\<close>

lemma unlock_same_but_store:
  "auto_unlock_passphrase K (d_vault (same_but_store D st)) key = auto_unlock_passphrase K (d_vault D) key"
proof -
  have "v_retrieve (d_vault (same_but_store D st)) = v_retrieve (d_vault D)"
    "v_delete (d_vault (same_but_store D st)) = v_delete (d_vault D)"
    by (simp_all add: same_but_store_def)
  then show ?thesis
    by (simp only: auto_unlock_passphrase_def auto_unlock_def)
qed

lemma add_prompt_same_but_store: "add_prompt_passphrase (same_but_store D st) = add_prompt_passphrase D"
  unfolding add_prompt_passphrase_def same_but_store_fields by (rule refl)

lemma try_let_decrypt_cong:
  assumes "\<And>k. r = Inr k \<Longrightarrow> f k = g k"
  shows "try_let (lift_res r) f = try_let (lift_res r) g"
  using assms by (auto simp: try_let_def lift_res_def fun_eq_iff split: sum.splits)

lemma load_private_key_same_store:
  assumes "\<And>secret. \<not> isl (sk_decrypt (d_keys D) key secret) \<Longrightarrow>
    st (key_id (d_keys D) key) secret = v_store (d_vault D) (key_id (d_keys D) key) secret"
  shows "load_private_key (same_but_store D st) path key unlock = load_private_key D path key unlock"
  unfolding load_private_key_def same_but_store_fields interactive_same_but_store unlock_same_but_store Let_def
  by (intro if_cong refl unlock_mode.case_cong arg_cong[of _ _ "try_let m" for m] ext try_let_decrypt_cong)
    (simp add: assms split: sum.splits)

lemma load_and_decrypt_same_store:
  assumes "\<And>secret. \<not> isl (sk_decrypt (d_keys D) key secret) \<Longrightarrow>
    st (key_id (d_keys D) key) secret = v_store (d_vault D) (key_id (d_keys D) key) secret"
  shows "load_and_decrypt (same_but_store D st) path key unlock = load_and_decrypt D path key unlock"
  unfolding load_and_decrypt_def same_but_store_fields add_prompt_same_but_store unlock_same_but_store Let_def
  by (intro if_cong refl unlock_mode.case_cong arg_cong[of _ _ "try_let m" for m] ext try_let_decrypt_cong)
    (simp add: assms add_decrypt_def split: sum.splits)

lemma agent_add_same_store:
  assumes "\<And>key secret. \<not> isl (sk_decrypt (d_keys D) key secret) \<Longrightarrow>
    st (key_id (d_keys D) key) secret = v_store (d_vault D) (key_id (d_keys D) key) secret"
  shows "agent_run_add (same_but_store D st) G args mode = agent_run_add D G args mode"
proof -
  have load: "load_private_key (same_but_store D st) path key unlock = load_private_key D path key unlock" for path key unlock
    by (rule load_private_key_same_store) (rule assms)
  have "agent_add_path (same_but_store D st) G = agent_add_path D G"
    unfolding agent_add_path_def[abs_def] same_but_store_fields load by (rule refl)
  then show ?thesis
    unfolding agent_run_add_def agent_add_files_def by simp
qed

lemma gitway_add_same_store:
  assumes "\<And>key secret. \<not> isl (sk_decrypt (d_keys D) key secret) \<Longrightarrow>
    st (key_id (d_keys D) key) secret = v_store (d_vault D) (key_id (d_keys D) key) secret"
  shows "gitway_add_run (same_but_store D st) G args = gitway_add_run D G args"
proof -
  have load: "load_and_decrypt (same_but_store D st) path key unlock = load_and_decrypt D path key unlock" for path key unlock
    by (rule load_and_decrypt_same_store) (rule assms)
  have path: "add_one_path (same_but_store D st) G = add_one_path D G"
    unfolding add_one_path_def[abs_def] same_but_store_fields load by (rule refl)
  have lock: "add_lock_unlock (same_but_store D st) G = add_lock_unlock D G"
    unfolding add_lock_unlock_def[abs_def] same_but_store_fields by (rule refl)
  show ?thesis
    unfolding gitway_add_run_def add_keys_def same_but_store_fields path lock by (rule refl)
qed

end
