(* ===== verification/Arg_Grammar.thy ===== *)
theory Arg_Grammar
  imports Rust_Std
begin

text \<open>
  The command lines of the two OpenSSH shims, whose parsers are hand-written loops. A command
  line is a sequence of tokens (an option with its value, an option alone, a plain argument),
  perhaps followed by \<open>--\<close> and more arguments. The locale \<open>arg_scanner\<close> is the contract of one
  round of such a loop; the language of the whole loop and its effect follow from it. Each
  shim's theory interprets the locale on its own loop.
\<close>

datatype token = Valued string string | Flag string | Plain string

fun spell :: "token \<Rightarrow> string list" where
  "spell (Valued flag value) = [flag, value]"
| "spell (Flag flag) = [flag]"
| "spell (Plain arg) = [arg]"

definition arg_line :: "token list \<Rightarrow> string list option \<Rightarrow> string list" where
  "arg_line toks tail = concat (map spell toks) @ (case tail of None \<Rightarrow> [] | Some args \<Rightarrow> ''--'' # args)"

section \<open>What a line says\<close>

definition all_of :: "('a \<Rightarrow> 'b option) \<Rightarrow> 'a list \<Rightarrow> 'b list" where
  "all_of f toks = List.map_filter f toks"

fun value_of :: "string \<Rightarrow> token \<Rightarrow> string option" where
  "value_of flag (Valued f v) = (if f = flag then Some v else None)"
| "value_of flag t = None"

fun plain_of :: "token \<Rightarrow> string option" where
  "plain_of (Plain arg) = Some arg"
| "plain_of t = None"

text \<open>Of several values of an option the last counts.\<close>

definition last_value :: "string \<Rightarrow> token list \<Rightarrow> string option" where
  "last_value flag toks = last (None # map Some (all_of (value_of flag) toks))"

lemma all_of_simps [simp]: "all_of f [] = []"
  "all_of f (t # ts) = (case f t of None \<Rightarrow> all_of f ts | Some a \<Rightarrow> a # all_of f ts)"
  by (simp_all add: all_of_def List.map_filter_simps split: option.splits)

lemma all_of_append [simp]: "all_of f (ts @ us) = all_of f ts @ all_of f us"
  by (induction ts) (auto split: option.splits)

lemma last_value_Nil [simp]: "last_value flag [] = None"
  by (simp add: last_value_def)

lemma last_value_snoc [simp]:
  "last_value flag (ts @ [t]) = (case value_of flag t of None \<Rightarrow> last_value flag ts | Some v \<Rightarrow> Some v)"
  by (simp add: last_value_def split: option.splits)

section \<open>Loops over arguments\<close>

text \<open>Tokens that may be read one after the other from a state.\<close>

primrec fits :: "('t \<Rightarrow> 's \<Rightarrow> bool) \<Rightarrow> ('t \<Rightarrow> 's \<Rightarrow> 's) \<Rightarrow> 't list \<Rightarrow> 's \<Rightarrow> bool" where
  "fits ok eff [] s \<longleftrightarrow> True"
| "fits ok eff (t # ts) s \<longleftrightarrow> ok t s \<and> fits ok eff ts (eff t s)"

lemma fits_snoc: "fits ok eff (ts @ [t]) s \<longleftrightarrow> fits ok eff ts s \<and> ok t (fold eff ts s)"
  by (induction ts arbitrary: s) auto

lemma fits_list_all: "fits (\<lambda>t p. ok t) eff toks s \<longleftrightarrow> list_all ok toks"
  by (induction toks arbitrary: s) auto

lemma last_value_ok: "list_all ok toks \<Longrightarrow> last_value flag toks = Some v \<Longrightarrow> ok (Valued flag v)"
proof (induction toks rule: rev_induct)
  case (snoc t ts)
  then show ?case
    by (cases t) (auto split: if_splits)
qed simp

lemma arg_line_Cons: "arg_line (t # ts) tail = spell t @ arg_line ts tail"
  by (simp add: arg_line_def)

locale arg_scanner =
  fixes scan :: "string list \<Rightarrow> 's \<Rightarrow> 'e + 's"
    and step :: "string \<Rightarrow> string list \<Rightarrow> 's \<Rightarrow> 'e + 's \<times> string list"
    and ok :: "token \<Rightarrow> 's \<Rightarrow> bool" and eff :: "token \<Rightarrow> 's \<Rightarrow> 's"
    and behind :: "string list \<Rightarrow> 's \<Rightarrow> 's"
  assumes scan_Nil: "scan [] s = Inr s"
    and scan_Cons: "scan (a # rest) s = (case step a rest s of Inl e \<Rightarrow> Inl e | Inr (s', rest') \<Rightarrow> scan rest' s')"
    and step_shorter: "step a rest s = Inr (s', rest') \<Longrightarrow> length rest' < Suc (length rest)"
    and step_dashes: "step ''--'' rest s = Inr (behind rest s, [])"
    and step_flag: "ok (Flag f) s \<Longrightarrow> step f rest s = Inr (eff (Flag f) s, rest)"
    and step_valued: "ok (Valued f v) s \<Longrightarrow> step f (v # rest) s = Inr (eff (Valued f v) s, rest)"
    and step_plain: "ok (Plain a) s \<Longrightarrow> step a rest s = Inr (eff (Plain a) s, rest)"
    and step_reads: "step a rest s = Inr (s', rest') \<Longrightarrow> a \<noteq> ''--'' \<Longrightarrow>
      \<exists>t. ok t s \<and> a # rest = spell t @ rest' \<and> s' = eff t s"
begin

lemma scan_spell: "ok t s \<Longrightarrow> scan (spell t @ rest) s = scan rest (eff t s)"
  by (cases t) (simp_all add: scan_Cons step_flag step_valued step_plain)

lemma scan_of_line:
  "fits ok eff toks s \<Longrightarrow> scan (arg_line toks tail) s
     = Inr (case tail of None \<Rightarrow> fold eff toks s | Some args \<Rightarrow> behind args (fold eff toks s))"
proof (induction toks arbitrary: s)
  case Nil
  then show ?case
    by (simp add: arg_line_def scan_Nil scan_Cons step_dashes split: option.splits)
next
  case (Cons t ts)
  then show ?case
    by (simp add: arg_line_Cons scan_spell split: option.splits)
qed

lemma line_of_scan:
  "scan args s = Inr s' \<Longrightarrow> \<exists>toks tail. args = arg_line toks tail \<and> fits ok eff toks s
     \<and> s' = (case tail of None \<Rightarrow> fold eff toks s | Some args \<Rightarrow> behind args (fold eff toks s))"
proof (induction args arbitrary: s rule: length_induct)
  case (1 args)
  show ?case
  proof (cases args)
    case Nil
    then show ?thesis
      using "1.prems" scan_Nil by (intro exI[of _ "[]"] exI[of _ None]) (simp add: arg_line_def)
  next
    case (Cons a rest)
    then obtain s1 rest1 where step: "step a rest s = Inr (s1, rest1)" and scan: "scan rest1 s1 = Inr s'"
      using "1.prems" by (auto simp: scan_Cons split: sum.splits)
    show ?thesis
    proof (cases "a = ''--''")
      case True
      then show ?thesis
        using step scan Cons step_dashes scan_Nil
        by (intro exI[of _ "[]"] exI[of _ "Some rest"]) (simp add: arg_line_def)
    next
      case False
      obtain t where t: "ok t s" "a # rest = spell t @ rest1" "s1 = eff t s"
        using step_reads[OF step False] by blast
      obtain toks tail where line: "rest1 = arg_line toks tail" "fits ok eff toks s1"
        "s' = (case tail of None \<Rightarrow> fold eff toks s1 | Some args \<Rightarrow> behind args (fold eff toks s1))"
        using "1.IH"[rule_format, OF _ scan] step_shorter[OF step] Cons by auto
      with t Cons show ?thesis
        by (intro exI[of _ "t # toks"] exI[of _ tail]) (simp add: arg_line_Cons split: option.splits)
    qed
  qed
qed

text \<open>The loop accepts exactly the lines of tokens that fit, and its result is their effect.\<close>

lemma scan_iff:
  "scan args s = Inr s' \<longleftrightarrow> (\<exists>toks tail. args = arg_line toks tail \<and> fits ok eff toks s
     \<and> s' = (case tail of None \<Rightarrow> fold eff toks s | Some args \<Rightarrow> behind args (fold eff toks s)))"
  using scan_of_line line_of_scan by blast

end

end
