(* ===== verification/Add_Grammar.thy ===== *)
theory Add_Grammar
  imports Gitway_Add Arg_Grammar
begin

text \<open>
  The language of \<open>gitway-add\<close>'s command lines, and what a command line means, stated without
  the loop of \<open>Parsed::from_args\<close>: at most one option selects a mode, of two lifetimes or two
  hashes the last counts, the flags are set wherever they stand, and the plain arguments are
  paths. The parser accepts exactly these lines and reads exactly this meaning.
\<close>

section \<open>Tokens\<close>

definition mode_flags :: "(string \<times> add_mode) list" where
  "mode_flags = [(''-l'', ModeList False), (''-L'', ModeList True), (''-D'', ModeRemoveAll),
     (''-x'', ModeLock), (''-X'', ModeUnlock)]"

fun mode_of :: "token \<Rightarrow> add_mode option" where
  "mode_of (Flag f) = map_of mode_flags f"
| "mode_of (Valued f v) = (if f = ''-d'' then Some (ModeRemoveOne v) else None)"
| "mode_of (Plain a) = None"

fun add_token_ok :: "token \<Rightarrow> bool" where
  "add_token_ok (Flag f) \<longleftrightarrow> f \<in> set (map fst mode_flags) \<or> f \<in> {''-c'', ''--biometric'', ''--no-biometric''}
     \<or> f \<in> set ignored_add_flags"
| "add_token_ok (Valued f v) \<longleftrightarrow> f = ''-d'' \<or> f = ''-t'' \<and> parse_unsigned u64_max v \<noteq> None
     \<or> f = ''-E'' \<and> to_lower v \<in> {''sha256'', ''sha512''}"
| "add_token_ok (Plain a) \<longleftrightarrow> \<not> prefix ''-'' a"

definition hash_named :: "string \<Rightarrow> hash_kind" where
  "hash_named v = (if to_lower v = ''sha256'' then Sha256 else Sha512)"

definition lifetime_seconds :: "string \<Rightarrow> u64 option" where
  "lifetime_seconds v = map_option of_nat (parse_unsigned u64_max v)"

section \<open>Meaning\<close>

definition tokens_ok :: "token list \<Rightarrow> bool" where
  "tokens_ok toks \<longleftrightarrow> list_all add_token_ok toks \<and> length (all_of mode_of toks) \<le> 1"

text \<open>The parsed command line that some tokens and a tail stand for: without a mode option the
  paths are added, and without paths either the default keys.\<close>

definition reads_as :: "token list \<Rightarrow> string list option \<Rightarrow> 'x world \<Rightarrow> add_parsed \<Rightarrow> bool" where
  "reads_as toks tail w p \<longleftrightarrow>
     (let paths = all_of plain_of toks @ (case tail of None \<Rightarrow> [] | Some ps \<Rightarrow> ps)
      in (case all_of mode_of toks of
            m # _ \<Rightarrow> ap_mode p = m
          | [] \<Rightarrow> if paths \<noteq> [] then ap_mode p = ModeAdd paths
                  else (case fst (default_key_paths w) of Inl e \<Rightarrow> False | Inr ds \<Rightarrow> ap_mode p = ModeAdd ds)) \<and>
         ap_hash p = (case last_value ''-E'' toks of None \<Rightarrow> Sha256 | Some v \<Rightarrow> hash_named v) \<and>
         ap_lifetime p = Option.bind (last_value ''-t'' toks) lifetime_seconds \<and>
         (ap_confirm p \<longleftrightarrow> Flag ''-c'' \<in> set toks) \<and> (ap_biometric p \<longleftrightarrow> Flag ''--biometric'' \<in> set toks) \<and>
         (ap_no_biometric p \<longleftrightarrow> Flag ''--no-biometric'' \<in> set toks) \<and>
         \<not> (ap_biometric p \<and> ap_no_biometric p))"

section \<open>The loop\<close>

text \<open>The effect of a token on the variables of the loop.\<close>

fun add_eff :: "token \<Rightarrow> add_scan \<Rightarrow> add_scan" where
  "add_eff (Flag f) st = (case mode_of (Flag f) of
     Some m \<Rightarrow> st\<lparr>as_mode := Some m\<rparr>
   | None \<Rightarrow> if f = ''-c'' then st\<lparr>as_confirm := True\<rparr>
            else if f = ''--biometric'' then st\<lparr>as_biometric := True\<rparr>
            else if f = ''--no-biometric'' then st\<lparr>as_no_biometric := True\<rparr> else st)"
| "add_eff (Valued f v) st =
     (if f = ''-d'' then st\<lparr>as_mode := Some (ModeRemoveOne v)\<rparr>
      else if f = ''-t'' then st\<lparr>as_lifetime := lifetime_seconds v\<rparr>
      else if f = ''-E'' then st\<lparr>as_hash := hash_named v\<rparr> else st)"
| "add_eff (Plain a) st = st\<lparr>as_paths := as_paths st @ [a]\<rparr>"

definition add_fits :: "token \<Rightarrow> add_scan \<Rightarrow> bool" where
  "add_fits t st \<longleftrightarrow> add_token_ok t \<and> (mode_of t \<noteq> None \<longrightarrow> as_mode st = None)"

lemma set_mode_Inr: "set_mode m flag st = Inr st' \<longleftrightarrow> as_mode st = None \<and> st' = st\<lparr>as_mode := Some m\<rparr>"
  by (auto simp: set_mode_def)

lemma parse_lifetime_Inr: "parse_lifetime v = Inr n \<longleftrightarrow> lifetime_seconds v = Some n"
  by (auto simp: parse_lifetime_def lifetime_seconds_def split: option.splits)

lemma parse_hash_Inr: "parse_hash v = Inr h \<longleftrightarrow> to_lower v \<in> {''sha256'', ''sha512''} \<and> h = hash_named v"
  by (auto simp: parse_hash_def hash_named_def Let_def)

text \<open>The token that a round reads.\<close>

definition next_token :: "string \<Rightarrow> string list \<Rightarrow> token" where
  "next_token a rest =
     (if a \<in> {''-d'', ''-t'', ''-E''} then Valued a (hd rest)
      else if prefix ''-'' a then Flag a else Plain a)"

text \<open>An ignored option changes nothing.\<close>

lemma add_ignored:
  assumes "f \<in> set ignored_add_flags"
  shows "add_step f rest st = Inr (st, rest)" and "add_eff (Flag f) st = st" and "mode_of (Flag f) = None"
    and "next_token f rest = Flag f"
proof -
  have "list_all (\<lambda>f. add_step f rest st = Inr (st, rest) \<and> add_eff (Flag f) st = st \<and> mode_of (Flag f) = None
      \<and> next_token f rest = Flag f) ignored_add_flags"
    by (simp add: ignored_add_flags_def add_step_def mode_flags_def next_token_def)
  with assms show "add_step f rest st = Inr (st, rest)" "add_eff (Flag f) st = st" "mode_of (Flag f) = None"
    "next_token f rest = Flag f"
    unfolding list_all_iff by blast+
qed

lemma add_step_path:
  "\<not> prefix ''-'' path \<Longrightarrow> add_step path rest st = Inr (st\<lparr>as_paths := as_paths st @ [path]\<rparr>, rest)"
  by (cases path) (auto simp: add_step_def ignored_add_flags_def)

lemma add_step_flag:
  assumes "add_fits (Flag f) st"
  shows "add_step f rest st = Inr (add_eff (Flag f) st, rest)"
proof (cases "f \<in> set ignored_add_flags")
  case False
  then have "f \<in> {''-l'', ''-L'', ''-D'', ''-x'', ''-X'', ''-c'', ''--biometric'', ''--no-biometric''}"
    using assms by (simp add: add_fits_def mode_flags_def)
  then show ?thesis
    using assms by (elim insertE emptyE) (simp_all add: add_fits_def mode_flags_def add_step_def set_mode_def)
qed (simp add: add_ignored del: add_eff.simps)

lemma add_step_valued:
  assumes "add_fits (Valued f v) st"
  shows "add_step f (v # rest) st = Inr (add_eff (Valued f v) st, rest)"
proof -
  consider "f = ''-d''" "as_mode st = None" | n where "f = ''-t''" "lifetime_seconds v = Some n"
    | "f = ''-E''" "parse_hash v = Inr (hash_named v)"
    using assms by (auto simp: add_fits_def parse_hash_Inr lifetime_seconds_def)
  then show ?thesis
    by cases (simp_all add: add_step_def take_arg_def set_mode_def parse_lifetime_Inr[THEN iffD2])
qed

lemma add_step_reads:
  assumes "add_step a rest st = Inr (st', rest')" and "a \<noteq> ''--''"
  defines "t \<equiv> next_token a rest"
  shows "add_fits t st \<and> a # rest = spell t @ rest' \<and> st' = add_eff t st"
proof (cases "a \<in> set ignored_add_flags")
  case True
  then show ?thesis
    using assms(1) by (simp add: t_def add_ignored add_fits_def del: add_eff.simps mode_of.simps)
next
  case False
  then show ?thesis
    using assms(1,2) unfolding t_def add_step_def next_token_def
    by (simp only: split: if_split_asm)
      (auto simp: add_fits_def mode_flags_def set_mode_Inr parse_lifetime_Inr parse_hash_Inr
        map_sum_Inr_iff take_arg_def lifetime_seconds_def split: sum.splits list.splits)
qed

interpretation add_loop: arg_scanner add_scan_args add_step add_fits add_eff
  "\<lambda>args st. st\<lparr>as_paths := as_paths st @ args\<rparr>"
proof (unfold_locales, goal_cases)
  case (3 a rest s s' rest')
  then show ?case by (rule add_step_shorter)
next
  case (4 rest s)
  then show ?case by (simp add: add_step_def ignored_add_flags_def)
next
  case (7 a s rest)
  then show ?case by (simp add: add_step_path add_fits_def)
next
  case (8 a rest s s' rest')
  then show ?case using add_step_reads by blast
qed (simp_all add: add_step_flag add_step_valued)

section \<open>The whole line\<close>

text \<open>The variables behind the loop, field by field.\<close>

lemma add_eff_fields:
  "as_hash (add_eff t st) = (case value_of ''-E'' t of None \<Rightarrow> as_hash st | Some v \<Rightarrow> hash_named v)"
  "as_lifetime (add_eff t st) = (case value_of ''-t'' t of None \<Rightarrow> as_lifetime st | Some v \<Rightarrow> lifetime_seconds v)"
  "as_confirm (add_eff t st) \<longleftrightarrow> as_confirm st \<or> t = Flag ''-c''"
  "as_biometric (add_eff t st) \<longleftrightarrow> as_biometric st \<or> t = Flag ''--biometric''"
  "as_no_biometric (add_eff t st) \<longleftrightarrow> as_no_biometric st \<or> t = Flag ''--no-biometric''"
  "as_mode (add_eff t st) = (case mode_of t of None \<Rightarrow> as_mode st | Some m \<Rightarrow> Some m)"
  "as_paths (add_eff t st) = as_paths st @ (case plain_of t of None \<Rightarrow> [] | Some a \<Rightarrow> [a])"
  by (cases t; simp add: mode_flags_def)+

lemma add_fold_fields:
  "as_hash (fold add_eff toks add_scan_start) = (case last_value ''-E'' toks of None \<Rightarrow> Sha256 | Some v \<Rightarrow> hash_named v)"
  "as_lifetime (fold add_eff toks add_scan_start) = Option.bind (last_value ''-t'' toks) lifetime_seconds"
  "as_confirm (fold add_eff toks add_scan_start) \<longleftrightarrow> Flag ''-c'' \<in> set toks"
  "as_biometric (fold add_eff toks add_scan_start) \<longleftrightarrow> Flag ''--biometric'' \<in> set toks"
  "as_no_biometric (fold add_eff toks add_scan_start) \<longleftrightarrow> Flag ''--no-biometric'' \<in> set toks"
  "as_mode (fold add_eff toks add_scan_start) = (if all_of mode_of toks = [] then None else Some (last (all_of mode_of toks)))"
  "as_paths (fold add_eff toks add_scan_start) = all_of plain_of toks"
  by (induction toks rule: rev_induct)
    (auto simp: add_eff_fields add_scan_start_def simp del: add_eff.simps split: option.splits)

lemma fits_tokens_ok: "fits add_fits add_eff toks add_scan_start \<longleftrightarrow> tokens_ok toks"
proof (induction toks rule: rev_induct)
  case (snoc t ts)
  then show ?case
    by (auto simp: fits_snoc add_fits_def add_fold_fields(6) tokens_ok_def simp del: add_eff.simps split: option.splits)
qed (simp add: tokens_ok_def)

lemma add_parsed_eq_iff:
  "(p :: add_parsed) = q \<longleftrightarrow> ap_mode p = ap_mode q \<and> ap_hash p = ap_hash q \<and> ap_lifetime p = ap_lifetime q
     \<and> ap_confirm p = ap_confirm q \<and> ap_biometric p = ap_biometric q \<and> ap_no_biometric p = ap_no_biometric q"
  by (cases p; cases q) auto

text \<open>What \<open>from_args\<close> makes of the variables behind the loop.\<close>

lemma add_parse_of_scan:
  assumes "add_scan_args args add_scan_start = Inr st"
  shows "fst (add_from_args args w) = Inr p \<longleftrightarrow>
    (case as_mode st of
       Some m \<Rightarrow> ap_mode p = m
     | None \<Rightarrow> if as_paths st \<noteq> [] then ap_mode p = ModeAdd (as_paths st)
              else (case fst (default_key_paths w) of Inl e \<Rightarrow> False | Inr ds \<Rightarrow> ap_mode p = ModeAdd ds)) \<and>
    ap_hash p = as_hash st \<and> ap_lifetime p = as_lifetime st \<and> ap_confirm p = as_confirm st \<and>
    ap_biometric p = as_biometric st \<and> ap_no_biometric p = as_no_biometric st \<and>
    \<not> (ap_biometric p \<and> ap_no_biometric p)"
proof -
  obtain q where q: "default_key_paths w = (q, w)"
    by (metis default_key_paths_world prod.collapse)
  show ?thesis
    unfolding add_from_args_def assms add_parsed_eq_iff
    by (cases "as_mode st"; cases q) (auto simp: effect_simps q add_parsed_eq_iff split: if_splits)
qed

lemma add_parse_iff:
  "fst (add_from_args args w) = Inr p \<longleftrightarrow>
     (\<exists>toks tail. args = arg_line toks tail \<and> tokens_ok toks \<and> reads_as toks tail w p)"
proof -
  have modes: "all_of mode_of toks = [] \<or> (\<exists>m. all_of mode_of toks = [m])" if "tokens_ok toks" for toks
    using that by (cases "all_of mode_of toks") (auto simp: tokens_ok_def)
  have reads: "fst (add_from_args args w) = Inr p \<longleftrightarrow> reads_as toks tail w p"
    if "tokens_ok toks" "add_scan_args args add_scan_start = Inr (case tail of None \<Rightarrow> fold add_eff toks add_scan_start
        | Some ps \<Rightarrow> (fold add_eff toks add_scan_start)\<lparr>as_paths := as_paths (fold add_eff toks add_scan_start) @ ps\<rparr>)"
    for toks tail
    unfolding add_parse_of_scan[OF that(2)] reads_as_def Let_def
    using modes[OF that(1)] by (cases tail; elim disjE exE) (simp_all add: add_fold_fields)
  show ?thesis
  proof
    assume parsed: "fst (add_from_args args w) = Inr p"
    then obtain st where "add_scan_args args add_scan_start = Inr st"
      by (auto simp: add_from_args_def effect_simps split: sum.splits prod.splits)
    then show "\<exists>toks tail. args = arg_line toks tail \<and> tokens_ok toks \<and> reads_as toks tail w p"
      using parsed reads add_loop.line_of_scan fits_tokens_ok by metis
  next
    assume "\<exists>toks tail. args = arg_line toks tail \<and> tokens_ok toks \<and> reads_as toks tail w p"
    then show "fst (add_from_args args w) = Inr p"
      using reads add_loop.scan_of_line fits_tokens_ok by metis
  qed
qed

end
