(* ===== verification/Vault_History.thy ===== *)
theory Vault_History
  imports Enrolment Add_Grammar
begin

text \<open>
  The contents of the vault over any history of commands. \<open>evolves I h R m\<close> says that a run of \<open>m\<close>
  keeps the invariant \<open>I\<close> of the keystore and changes the map \<open>h\<close> along \<open>R\<close>. The locale
  \<open>map_preorder\<close> asks of \<open>R\<close> what every such argument needs: doing nothing, doing two things in a
  row and dropping an entry are changes along \<open>R\<close>. In it all commands that use the vault are
  verified once, up to the one thing they may do besides: store a passphrase that has just
  decrypted a key that is on the disk. The two interpretations are \<open>attested\<close> (every entry that is
  new decrypts the key of a file that is there) and \<open>shrinking\<close> (no entry is new or changed).
\<close>

section \<open>Changes of the map\<close>

definition evolves ::
  "('x store \<Rightarrow> bool) \<Rightarrow> ('x store \<Rightarrow> keymap) \<Rightarrow> (keymap \<Rightarrow> keymap \<Rightarrow> bool) \<Rightarrow> ('x world \<Rightarrow> 'a \<times> 'x world) \<Rightarrow> bool" where
  "evolves I h R m \<longleftrightarrow> (\<forall>w. I (store_of w) \<longrightarrow>
     I (store_of (snd (m w))) \<and> R (h (store_of w)) (h (store_of (snd (m w)))))"

named_theorems evolves_intros \<open>how the map of the vault can change in a run\<close>

lemma evolvesI:
  "(\<And>w r u. I (store_of w) \<Longrightarrow> m w = (r, u) \<Longrightarrow> I (store_of u) \<and> R (h (store_of w)) (h (store_of u))) \<Longrightarrow> evolves I h R m"
  unfolding evolves_def by (metis prod.collapse)

lemma evolvesD:
  assumes "evolves I h R m" and "I (store_of w)" and "m w = (r, u)"
  shows "I (store_of u)" and "R (h (store_of w)) (h (store_of u))"
  using assms unfolding evolves_def by (metis snd_conv)+

lemma evolves_cases [evolves_intros]:
  "(\<And>a. r = Inl a \<Longrightarrow> evolves I h R (f1 a)) \<Longrightarrow> (\<And>b. r = Inr b \<Longrightarrow> evolves I h R (f2 b)) \<Longrightarrow>
   evolves I h R (case r of Inl a \<Rightarrow> f1 a | Inr b \<Rightarrow> f2 b)"
  "evolves I h R f3 \<Longrightarrow> (\<And>b. evolves I h R (f4 b)) \<Longrightarrow> evolves I h R (case q of None \<Rightarrow> f3 | Some b \<Rightarrow> f4 b)"
  "(\<And>a b. evolves I h R (f5 a b)) \<Longrightarrow> evolves I h R (case t of (a, b) \<Rightarrow> f5 a b)"
  "(c \<Longrightarrow> evolves I h R f6) \<Longrightarrow> (\<not> c \<Longrightarrow> evolves I h R f7) \<Longrightarrow> evolves I h R (if c then f6 else f7)"
  by (auto split: sum.splits option.splits prod.splits)

text \<open>What an enrolling command may do besides: store a passphrase that decrypts a key of the disk.\<close>

definition stores_checked ::
  "('x, 'k, 'p) deps \<Rightarrow> ('x store \<Rightarrow> bool) \<Rightarrow> ('x store \<Rightarrow> keymap) \<Rightarrow> (keymap \<Rightarrow> keymap \<Rightarrow> bool) \<Rightarrow> bool" where
  "stores_checked D I h R \<longleftrightarrow> (\<forall>w path key p. I (store_of w) \<longrightarrow> key_at (d_keys D) w path = Some key \<longrightarrow>
     \<not> isl (sk_decrypt (d_keys D) key p) \<longrightarrow> evolves I h R (v_store (d_vault D) (key_id (d_keys D) key) p))"

text \<open>The agent leaves what \<open>g\<close> observes alone.\<close>

definition agent_frame :: "('x, 'g, 'k, 'p) agent_ops \<Rightarrow> ('x store \<Rightarrow> 'b) \<Rightarrow> bool" where
  "agent_frame G g \<longleftrightarrow> frame_op g (ag_from_env G) \<and> (\<forall>a. frame_op g (ag_list G a)) \<and>
     (\<forall>a k l c. frame_op g (ag_add G a k l c)) \<and> (\<forall>a p. frame_op g (ag_remove G a p)) \<and>
     (\<forall>a. frame_op g (ag_remove_all G a)) \<and> (\<forall>a p. frame_op g (ag_lock G a p)) \<and> (\<forall>a p. frame_op g (ag_unlock G a p))"

locale map_preorder =
  fixes R :: "keymap \<Rightarrow> keymap \<Rightarrow> bool"
  assumes refl: "R m m"
    and trans: "R m m' \<Longrightarrow> R m' m'' \<Longrightarrow> R m m''"
    and drop: "R m (m(fp := None))"
begin

lemma evolves_frames: "frames (\<lambda>s. (I s, h s)) m \<Longrightarrow> evolves I h R m"
  unfolding frames_def evolves_def using refl by simp

lemma evolves_basic [evolves_intros]:
  "evolves I h R (ret a)" "evolves I h R (ok b)" "evolves I h R (fail e)" "evolves I h R (lift_res r)"
  "evolves I h R (get_s k)" "evolves I h R (emit ev)" "evolves I h R (println s)" "evolves I h R (eprintln s)"
  by (rule evolves_frames, rule frames_basic)+

lemma evolves_let_do_result:
  assumes "evolves I h R m" and "\<And>w a v. I (store_of w) \<Longrightarrow> m w = (a, v) \<Longrightarrow> evolves I h R (f a)"
  shows "evolves I h R (let_do m f)"
proof (rule evolvesI)
  fix w r u
  assume "I (store_of w)" and run: "let_do m f w = (r, u)"
  obtain a v where m: "m w = (a, v)" by fastforce
  with run have f: "f a v = (r, u)" by (simp add: let_do_def)
  note first = evolvesD[OF assms(1) \<open>I (store_of w)\<close> m]
  note second = evolvesD[OF assms(2)[OF \<open>I (store_of w)\<close> m] first(1) f]
  show "I (store_of u) \<and> R (h (store_of w)) (h (store_of u))"
    using second(1) trans[OF first(2) second(2)] by simp
qed

lemma evolves_let_do [evolves_intros]:
  "evolves I h R m \<Longrightarrow> (\<And>a. evolves I h R (f a)) \<Longrightarrow> evolves I h R (let_do m f)"
  by (rule evolves_let_do_result)

lemma evolves_try_let_result:
  "evolves I h R m \<Longrightarrow> (\<And>w a v. I (store_of w) \<Longrightarrow> m w = (Inr a, v) \<Longrightarrow> evolves I h R (f a)) \<Longrightarrow>
   evolves I h R (try_let m f)"
  unfolding try_let_as_let_do
  by (erule evolves_let_do_result) (auto intro: evolves_basic split: sum.splits)

lemma evolves_try_let [evolves_intros]:
  "evolves I h R m \<Longrightarrow> (\<And>a. evolves I h R (f a)) \<Longrightarrow> evolves I h R (try_let m f)"
  by (rule evolves_try_let_result)

text \<open>Behind a pure check the check has succeeded.\<close>

lemma evolves_checked:
  "(\<And>a. r = Inr a \<Longrightarrow> evolves I h R (f a)) \<Longrightarrow> evolves I h R (try_let (lift_res r) f)"
  unfolding try_let_def lift_res_def evolves_def using refl by (cases r) auto

lemma evolves_map_err [evolves_intros]: "evolves I h R m \<Longrightarrow> evolves I h R (map_err k m)"
  unfolding map_err_as_let_do by (auto intro!: evolves_intros)

lemma evolves_loops [evolves_intros]:
  "(\<And>i a. evolves I h R (body i a)) \<Longrightarrow> evolves I h R (for_do body is acc)"
  "(\<And>i a. evolves I h R (body' i a)) \<Longrightarrow> evolves I h R (for_try body' js acc')"
  by (induction "is" arbitrary: acc, simp_all add: evolves_intros)
    (induction js arbitrary: acc', simp_all add: evolves_intros)

lemma evolves_on_map:
  assumes "on_map I h m Q" and "\<And>a r b. Q a r b \<Longrightarrow> R a b"
  shows "evolves I h R m"
  using assms by (auto intro!: evolvesI dest: on_mapD)

lemma evolves_reads [evolves_intros]:
  "evolves I h R (read_to_string p)" "evolves I h R (read_to_string_q p)" "evolves I h R read_stdin"
  "evolves I h R (print_lines ls)" "evolves I h R (eprint_lines ls)" "evolves I h R (emit_data command data)"
  "evolves I h R (emit_json j)" "evolves I h R default_key_paths"
proof -
  show "evolves I h R (read_to_string p)" for p
    unfolding read_to_string_def by (intro evolves_intros)
  then show "evolves I h R (read_to_string_q p)"
    unfolding read_to_string_q_def by (intro evolves_intros)
  show "evolves I h R (print_lines ls)" "evolves I h R (eprint_lines ls)"
    unfolding print_lines_def eprint_lines_def by (intro evolves_intros)+
  show "evolves I h R (emit_data command data)" "evolves I h R (emit_json j)"
    unfolding emit_data_def emit_json_def by (intro evolves_intros)+
  show "evolves I h R read_stdin" "evolves I h R default_key_paths"
    by (simp_all add: evolves_def read_stdin_def store_of_def default_key_paths_def refl)
qed

section \<open>The vault\<close>

lemma evolves_vault:
  assumes "keymap_vault V I h"
  shows "evolves I h R (v_retrieve V (key_id K key))" "evolves I h R (v_delete V (key_id K key))"
    "evolves I h R (v_delete V (key_id_from_fingerprint fp))" "evolves I h R (v_list V)" "evolves I h R (v_is_available V)"
proof -
  note V = keymap_vaultD[OF assms]
  show "evolves I h R (v_delete V (key_id_from_fingerprint fp))" for fp
    by (rule evolves_on_map[OF V(3)])
      (auto simp: delete_post_def refl drop split: sum.splits biometric_error.splits)
  then show "evolves I h R (v_delete V (key_id K key))"
    by (simp add: key_id_of_fingerprint)
  show "evolves I h R (v_retrieve V (key_id K key))"
    unfolding key_id_of_fingerprint by (rule evolves_on_map[OF V(2)]) (simp add: retrieve_post_def refl)
  show "evolves I h R (v_list V)" "evolves I h R (v_is_available V)"
    by (rule evolves_on_map[OF V(4)], simp add: list_post_def refl) (rule evolves_on_map[OF V(5)], simp add: refl)
qed

lemma evolves_auto_unlock:
  assumes "keymap_vault V I h"
  shows "evolves I h R (auto_unlock_passphrase K V key)"
  unfolding auto_unlock_passphrase_def auto_unlock_def Let_def
  by (intro evolves_intros evolves_vault[OF assms]) (auto intro: evolves_intros split: biometric_error.split)

lemma evolves_prompts:
  assumes "prompts_frame D (\<lambda>s. (I s, h s))"
  shows "evolves I h R (prompt_passphrase_interactive D path)" "evolves I h R (add_prompt_passphrase D path)"
    "evolves I h R (prompt_password (d_ask D) q)"
proof -
  show ask: "evolves I h R (prompt_password (d_ask D) q)" for q
    using assms unfolding prompt_password_def prompts_frame_def
    by (intro evolves_frames frames_call) blast
  show "evolves I h R (prompt_passphrase_interactive D path)"
    by (rule evolves_frames[OF frames_prompt_passphrase_interactive[OF assms]])
  show "evolves I h R (add_prompt_passphrase D path)"
    unfolding add_prompt_passphrase_def passphrase_from_stdin_if_not_tty_def
    by (intro evolves_intros ask)
qed

lemma evolves_prompt_passphrase:
  assumes "keymap_vault (d_vault D) I h" and "prompts_frame D (\<lambda>s. (I s, h s))"
  shows "evolves I h R (prompt_passphrase D path)"
  unfolding prompt_passphrase_def biometric_auto_unlock_def
  by (intro evolves_intros evolves_prompts(1)[OF assms(2)] evolves_auto_unlock[OF assms(1)])
    (auto intro!: evolves_intros evolves_auto_unlock[OF assms(1)] split: auto_unlock_result.split)

text \<open>A key that has been read and parsed is on the disk.\<close>

lemma evolves_read_key:
  assumes "\<And>w key. I (store_of w) \<Longrightarrow> key_at K w path = Some key \<Longrightarrow> evolves I h R (f (Inr key))"
    and "\<And>e. evolves I h R (f (Inl e))"
  shows "evolves I h R (let_do (read_key K path) f)"
proof (rule evolves_let_do_result)
  show "evolves I h R (read_key K path)"
    unfolding read_key_def by (intro evolves_intros)
  fix w r v
  assume "I (store_of w)" and "read_key K path w = (r, v)"
  then show "evolves I h R (f r)"
    using read_key_at(2)[of K path w r v] assms by (cases r) auto
qed

lemma evolves_read_private:
  assumes "\<And>w key. I (store_of w) \<Longrightarrow> key_at K w path = Some key \<Longrightarrow> evolves I h R (f key)"
  shows "evolves I h R (try_let (read_to_string_q path) (\<lambda>pem. try_let (lift_res (parse_private K path pem)) f))"
proof (rule evolves_try_let_result)
  show "evolves I h R (read_to_string_q path)"
    by (intro evolves_intros)
  fix w pem v
  assume w: "I (store_of w)" and "read_to_string_q path w = (Inr pem, v)"
  then have pem: "read_text_at (w_fs w) path = Inr pem"
    by (auto simp: read_to_string_q_def read_to_string_def effect_simps split: sum.splits)
  show "evolves I h R (try_let (lift_res (parse_private K path pem)) f)"
  proof (rule evolves_checked)
    fix key
    assume "parse_private K path pem = Inr key"
    then show "evolves I h R (f key)"
      using assms[OF w] pem by (simp add: parse_private_def key_at_def split: sum.splits)
  qed
qed

section \<open>gitway biometric\<close>

lemma evolves_reports [evolves_intros]:
  "evolves I h R (emit_results mode command results verb)" "evolves I h R (emit_bio_error e mode command)"
  "evolves I h R (emit_unavailable t mode command)" "evolves I h R (read_key K path)"
  unfolding emit_results_def emit_unavailable_def emit_bio_error_def read_key_def Let_def
  by (auto intro!: evolves_intros split: output_mode.split)

lemma evolves_forget:
  assumes "keymap_vault V I h"
  shows "evolves I h R (run_forget K V args mode)"
  unfolding run_forget_def forget_enrolled_def forget_path_def Let_def
  by (auto intro!: evolves_intros evolves_vault[OF assms])

lemma evolves_bio_reports:
  assumes "keymap_vault V I h"
  shows "evolves I h R (bio_run_list V mode)" "evolves I h R (bio_run_status V mode)"
  unfolding bio_run_list_def bio_run_status_def Let_def
  by (auto intro!: evolves_intros evolves_vault[OF assms] split: output_mode.split)

lemma evolves_enroll:
  assumes "keymap_vault (d_vault D) I h" and "prompts_frame D (\<lambda>s. (I s, h s))" and "stores_checked D I h R"
  shows "evolves I h R (run_enroll D args mode)"
proof -
  have "evolves I h R (enroll_one D path)" for path
    using assms(3) unfolding enroll_one_def Let_def stores_checked_def
    by (intro evolves_read_key) (auto intro!: evolves_intros evolves_prompts(1)[OF assms(2)])
  then show ?thesis
    unfolding run_enroll_def enroll_step_def bio_resolve_paths_def Let_def
    by (auto intro!: evolves_intros evolves_vault(5)[OF assms(1)])
qed

section \<open>Adding keys to the agent\<close>

lemma evolves_load:
  assumes "keymap_vault (d_vault D) I h" and "prompts_frame D (\<lambda>s. (I s, h s))"
    and "unlock = UnlockEnroll \<Longrightarrow> stores_checked D I h R"
    and "I (store_of w)" and "key_at (d_keys D) w path' = Some key"
  shows "evolves I h R (load_private_key D path key unlock)" "evolves I h R (load_and_decrypt D path key unlock)"
proof -
  note prompts = evolves_prompts[OF assms(2)] and vault = evolves_auto_unlock[OF assms(1)]
  have store: "evolves I h R (v_store (d_vault D) (key_id (d_keys D) key) p)"
    if "unlock = UnlockEnroll" "sk_decrypt (d_keys D) key p = Inr k" for p k
    using assms(3)[OF that(1)] assms(4,5) that(2) unfolding stores_checked_def by fastforce
  show "evolves I h R (load_private_key D path key unlock)"
    unfolding load_private_key_def Let_def
    by (auto intro!: evolves_intros prompts vault evolves_checked store
        split: unlock_mode.split auto_unlock_result.split sum.splits)
  show "evolves I h R (load_and_decrypt D path key unlock)"
    unfolding load_and_decrypt_def add_decrypt_def Let_def
    by (auto intro!: evolves_intros prompts vault evolves_checked store
        split: unlock_mode.split auto_unlock_result.split sum.splits)
qed

lemma evolves_agent:
  assumes "agent_frame G (\<lambda>s. (I s, h s))"
  shows "evolves I h R (call ev (ag_from_env G))" "evolves I h R (call ev (ag_list G a))"
    "evolves I h R (call ev (ag_remove G a pk))" "evolves I h R (call ev (ag_remove_all G a))"
    "evolves I h R (call ev (ag_lock G a pp))" "evolves I h R (call ev (ag_unlock G a pp))"
    "evolves I h R (agent_add_call K G a k lifetime confirm)"
  using assms unfolding agent_frame_def agent_add_call_def by (intro evolves_frames frames_call; blast)+

lemma evolves_agent_add:
  assumes "keymap_vault (d_vault D) I h" and "prompts_frame D (\<lambda>s. (I s, h s))" and "agent_frame G (\<lambda>s. (I s, h s))"
    and "aa_biometric args \<Longrightarrow> stores_checked D I h R"
  shows "evolves I h R (agent_run_add D G args mode)"
proof -
  have "unlock_mode_from_flags (aa_biometric args) (aa_no_biometric args) = UnlockEnroll \<Longrightarrow> stores_checked D I h R"
    using assms(4) by (auto simp: unlock_mode_from_flags_def split: if_splits)
  note load = evolves_load(1)[OF assms(1,2) this]
  have path: "evolves I h R (agent_add_path D G agent lifetime confirm
      (unlock_mode_from_flags (aa_biometric args) (aa_no_biometric args)) loaded path acc)"
    for agent lifetime confirm loaded path acc
    unfolding agent_add_path_def Let_def
    by (cases acc) (auto intro!: evolves_read_private intro: evolves_intros evolves_agent[OF assms(3)] load)
  show ?thesis
    unfolding agent_run_add_def agent_add_files_def Let_def
    by (auto intro!: evolves_intros evolves_agent[OF assms(3)] path split: output_mode.split)
qed

lemma evolves_gitway_add:
  assumes "keymap_vault (d_vault D) I h" and "prompts_frame D (\<lambda>s. (I s, h s))" and "agent_frame G (\<lambda>s. (I s, h s))"
    and "''--biometric'' \<in> set args \<Longrightarrow> stores_checked D I h R"
  shows "evolves I h R (gitway_add_run D G args)"
proof -
  note steps = evolves_intros evolves_agent[OF assms(3)] evolves_prompts(3)[OF assms(2)]
  have modes: "evolves I h R (add_list (d_keys D) G agent full hash)" "evolves I h R (add_remove_one (d_keys D) G agent path)"
    "evolves I h R (add_remove_all G agent)" "evolves I h R (add_lock_unlock D G agent lock)" for agent full hash path lock
    unfolding add_list_def add_remove_one_def add_remove_all_def add_lock_unlock_def by (intro steps)+
  have keys: "evolves I h R (add_keys D G agent paths lifetime confirm (unlock_mode_from_flags b nb))"
    if "b \<Longrightarrow> ''--biometric'' \<in> set args" for agent paths lifetime confirm b nb
  proof -
    have "unlock_mode_from_flags b nb = UnlockEnroll \<Longrightarrow> stores_checked D I h R"
      using assms(4) that by (auto simp: unlock_mode_from_flags_def split: if_splits)
    note load = evolves_load(2)[OF assms(1,2) this]
    have "evolves I h R (add_one_path D G agent lifetime confirm (unlock_mode_from_flags b nb) loaded path)" for loaded path
      unfolding add_one_path_def by (rule evolves_read_private) (intro steps load)
    then show ?thesis
      unfolding add_keys_def Let_def by (intro steps)
  qed
  have parse: "evolves I h R (add_from_args args)"
    unfolding add_from_args_def by (intro evolves_intros)
  have flag: "''--biometric'' \<in> set args" if "add_from_args args w = (Inr p, v)" "ap_biometric p" for w v p
  proof -
    obtain toks tail where "args = arg_line toks tail" "reads_as toks tail w p"
      using add_parse_iff[of args w p] \<open>add_from_args args w = (Inr p, v)\<close> by auto
    then show ?thesis
      using \<open>ap_biometric p\<close> by (force simp: reads_as_def Let_def arg_line_def)
  qed
  show ?thesis
    unfolding gitway_add_run_def Let_def
    by (intro evolves_cases evolves_basic evolves_let_do evolves_try_let_result[OF parse] evolves_try_let
        evolves_agent(1)[OF assms(3)])
      (auto intro: modes keys flag split: add_mode.split)
qed

end

section \<open>Two orders\<close>

text \<open>Every entry that is new decrypts, under the fingerprint where it is filed, the key of a file
  of \<open>F\<close>.\<close>

definition attested :: "('k, 'p) ssh_key_ops \<Rightarrow> (string \<Rightarrow> 'k option) \<Rightarrow> keymap \<Rightarrow> keymap \<Rightarrow> bool" where
  "attested K F m m' \<longleftrightarrow> (\<forall>fp p. m' fp = Some p \<longrightarrow> m fp = Some p
     \<or> (\<exists>path key. F path = Some key \<and> key_fingerprint K key = fp \<and> \<not> isl (sk_decrypt K key p)))"

interpretation attested: map_preorder "attested K F" for K :: "('k, 'p) ssh_key_ops" and F
  by unfold_locales (auto simp: attested_def)

interpretation shrinking: map_preorder "\<lambda>m m'. m' \<subseteq>\<^sub>m m"
  by unfold_locales (auto intro: map_le_trans simp: map_le_def[of "_(_ := None)"])

lemma attested_stores_checked:
  assumes "keymap_vault (d_vault D) (\<lambda>s. I s \<and> disk (d_keys D) s = F) h"
  shows "stores_checked D (\<lambda>s. I s \<and> disk (d_keys D) s = F) h (attested (d_keys D) F)"
  unfolding stores_checked_def key_id_of_fingerprint key_at_disk
  by (intro allI impI attested.evolves_on_map[OF keymap_vaultD(1)[OF assms]])
    (auto simp: store_post_def attested_def split: sum.splits if_splits)

section \<open>Histories\<close>

text \<open>The commands that use the vault: \<open>gitway biometric\<close>, the two programs that add keys to the
  agent, and every other command by the one way in which it asks for a passphrase.\<close>

datatype vault_command =
    Biometric biometric_subcommand output_mode
  | AddToAgent agent_add_args output_mode
  | ShimAdd "string list"
  | AskPassphrase string

fun perform :: "('x, 'k, 'p) deps \<Rightarrow> ('x, 'g, 'k, 'p) agent_ops \<Rightarrow> vault_command \<Rightarrow> 'x world \<Rightarrow> 'x world" where
  "perform D G (Biometric sub mode) w = snd (biometric_run D sub mode w)"
| "perform D G (AddToAgent args mode) w = snd (agent_run_add D G args mode w)"
| "perform D G (ShimAdd args) w = snd (gitway_add_run D G args w)"
| "perform D G (AskPassphrase path) w = snd (prompt_passphrase D path w)"

fun enrols :: "vault_command \<Rightarrow> bool" where
  "enrols (Biometric sub mode) \<longleftrightarrow> (\<exists>args. sub = BioEnroll args)"
| "enrols (AddToAgent args mode) \<longleftrightarrow> aa_biometric args"
| "enrols (ShimAdd args) \<longleftrightarrow> ''--biometric'' \<in> set args"
| "enrols (AskPassphrase path) \<longleftrightarrow> False"

text \<open>Between two commands anything may happen to the world, the key files included, except to
  what \<open>g\<close> observes.\<close>

inductive history :: "('x, 'k, 'p) deps \<Rightarrow> ('x, 'g, 'k, 'p) agent_ops \<Rightarrow> ('x store \<Rightarrow> 'b) \<Rightarrow> 'x world \<Rightarrow> 'x world \<Rightarrow> bool"
  for D G g w0 where
  start: "history D G g w0 w0"
| command: "history D G g w0 w \<Longrightarrow> history D G g w0 (perform D G c w)"
| elsewhere: "history D G g w0 w \<Longrightarrow> g (store_of w') = g (store_of w) \<Longrightarrow> history D G g w0 w'"

context map_preorder
begin

lemma evolves_perform:
  assumes "keymap_vault (d_vault D) I h" and "prompts_frame D (\<lambda>s. (I s, h s))" and "agent_frame G (\<lambda>s. (I s, h s))"
    and "enrols c \<Longrightarrow> stores_checked D I h R" and "I (store_of w)"
  shows "I (store_of (perform D G c w)) \<and> R (h (store_of w)) (h (store_of (perform D G c w)))"
proof (cases c)
  case (Biometric sub mode)
  have "evolves I h R (biometric_run D sub mode)"
    using assms(4) Biometric
    by (cases sub) (auto intro!: evolves_intros evolves_enroll[OF assms(1,2)] evolves_forget[OF assms(1)]
        evolves_bio_reports[OF assms(1)])
  then show ?thesis using assms(5) Biometric by (simp add: evolves_def)
next
  case (AddToAgent args mode)
  then show ?thesis
    using evolves_agent_add[OF assms(1-3)] assms(4,5) by (simp add: evolves_def)
next
  case (ShimAdd args)
  then show ?thesis
    using evolves_gitway_add[OF assms(1-3)] assms(4,5) by (simp add: evolves_def)
next
  case (AskPassphrase path)
  then show ?thesis
    using evolves_prompt_passphrase[OF assms(1,2)] assms(5) by (simp add: evolves_def)
qed

end

lemma frame_op_comp: "frame_op g f \<Longrightarrow> (\<And>s. g' s = k (g s)) \<Longrightarrow> frame_op g' f"
  by (simp add: frame_op_def op_spec_def)

lemma prompts_frame_comp:
  assumes "prompts_frame D g" and "\<And>s. g' s = k (g s)"
  shows "prompts_frame D g'"
  unfolding prompts_frame_def
  by (intro conjI allI; rule frame_op_comp[where g' = g' and g = g and k = k, OF _ assms(2)])
    (use assms(1)[unfolded prompts_frame_def] in blast)+

lemma agent_frame_comp:
  assumes "agent_frame G g" and "\<And>s. g' s = k (g s)"
  shows "agent_frame G g'"
  unfolding agent_frame_def
  by (intro conjI allI; rule frame_op_comp[where g' = g' and g = g and k = k, OF _ assms(2)])
    (use assms(1)[unfolded agent_frame_def] in blast)+

text \<open>A passphrase that came into the vault on the way: an enrolling command found a key file of that
  fingerprint that it decrypts.\<close>

definition enrolled_on_the_way ::
  "('x, 'k, 'p) deps \<Rightarrow> ('x, 'g, 'k, 'p) agent_ops \<Rightarrow> ('x store \<Rightarrow> 'b) \<Rightarrow> 'x world \<Rightarrow> 'x world
   \<Rightarrow> string \<Rightarrow> string \<Rightarrow> bool" where
  "enrolled_on_the_way D G g w0 w fp p \<longleftrightarrow> (\<exists>u c path key.
     history D G g w0 u \<and> enrols c \<and> history D G g (perform D G c u) w
     \<and> key_at (d_keys D) u path = Some key \<and> key_fingerprint (d_keys D) key = fp
     \<and> \<not> isl (sk_decrypt (d_keys D) key p))"

lemma enrolled_on_the_way_step:
  "enrolled_on_the_way D G g w0 w fp p \<Longrightarrow> enrolled_on_the_way D G g w0 (perform D G c w) fp p"
  "enrolled_on_the_way D G g w0 w fp p \<Longrightarrow> g (store_of w') = g (store_of w) \<Longrightarrow>
   enrolled_on_the_way D G g w0 w' fp p"
  unfolding enrolled_on_the_way_def by (blast intro: history.command) (blast intro: history.elsewhere)

lemma perform_shrinks:
  assumes vault: "keymap_vault_beside (d_vault D) I h (disk (d_keys D))"
    and prompts: "prompts_frame D (\<lambda>s. (I s, h s, disk (d_keys D) s))"
    and agent: "agent_frame G (\<lambda>s. (I s, h s, disk (d_keys D) s))"
    and "\<not> enrols c" and "I (store_of w)"
  shows "h (store_of (perform D G c w)) \<subseteq>\<^sub>m h (store_of w)"
proof -
  have P: "prompts_frame D (\<lambda>s. (I s, h s))"
    by (rule prompts_frame_comp[OF prompts, of _ "\<lambda>(i, m, f). (i, m)"]) simp
  have A: "agent_frame G (\<lambda>s. (I s, h s))"
    by (rule agent_frame_comp[OF agent, of _ "\<lambda>(i, m, f). (i, m)"]) simp
  show ?thesis
    using shrinking.evolves_perform[OF keymap_vault_of_beside[OF vault] P A _ assms(5)] assms(4) by blast
qed

lemma perform_attested:
  assumes vault: "keymap_vault_beside (d_vault D) I h (disk (d_keys D))"
    and prompts: "prompts_frame D (\<lambda>s. (I s, h s, disk (d_keys D) s))"
    and agent: "agent_frame G (\<lambda>s. (I s, h s, disk (d_keys D) s))"
    and "I (store_of w)"
  shows "I (store_of (perform D G c w))
    \<and> attested (d_keys D) (key_at (d_keys D) w) (h (store_of w)) (h (store_of (perform D G c w)))"
proof -
  let ?F = "disk (d_keys D) (store_of w)"
  let ?I = "\<lambda>s. I s \<and> disk (d_keys D) s = ?F"
  have V: "keymap_vault (d_vault D) ?I h"
    using vault by (simp add: keymap_vault_beside_def)
  have P: "prompts_frame D (\<lambda>s. (?I s, h s))"
    by (rule prompts_frame_comp[OF prompts, of _ "\<lambda>(i, m, f). (i \<and> f = ?F, m)"]) simp
  have A: "agent_frame G (\<lambda>s. (?I s, h s))"
    by (rule agent_frame_comp[OF agent, of _ "\<lambda>(i, m, f). (i \<and> f = ?F, m)"]) simp
  show ?thesis
    using attested.evolves_perform[OF V P A attested_stores_checked[OF V], of w c] assms(4)
    by (simp add: key_at_disk)
qed

text \<open>In every world that a history can reach, what is in the vault was there at first or came there by
  an enrolment.\<close>

lemma history_attested:
  assumes vault: "keymap_vault_beside (d_vault D) I h (disk (d_keys D))"
    and prompts: "prompts_frame D (\<lambda>s. (I s, h s, disk (d_keys D) s))"
    and agent: "agent_frame G (\<lambda>s. (I s, h s, disk (d_keys D) s))"
    and "history D G (\<lambda>s. (I s, h s)) w0 w" and "I (store_of w0)"
  shows "I (store_of w) \<and> (\<forall>fp p. h (store_of w) fp = Some p \<longrightarrow> h (store_of w0) fp = Some p
    \<or> enrolled_on_the_way D G (\<lambda>s. (I s, h s)) w0 w fp p)"
  using assms(4)
proof induction
  case start
  then show ?case using assms(5) by simp
next
  case (command w c)
  note new_entries = perform_attested[OF vault prompts agent, of w c]
  have "h (store_of w0) fp = Some p \<or> enrolled_on_the_way D G (\<lambda>s. (I s, h s)) w0 (perform D G c w) fp p"
    if new: "h (store_of (perform D G c w)) fp = Some p" for fp p
  proof (cases "h (store_of w) fp = Some p")
    case True
    then show ?thesis
      using command.IH enrolled_on_the_way_step(1) by blast
  next
    case False
    then have "enrols c"
      using perform_shrinks[OF vault prompts agent, of c w] new command.IH by (metis domI map_le_def)
    moreover obtain path key where "key_at (d_keys D) w path = Some key"
      "key_fingerprint (d_keys D) key = fp" "\<not> isl (sk_decrypt (d_keys D) key p)"
      using new_entries command.IH new False unfolding attested_def by blast
    ultimately show ?thesis
      using command.hyps unfolding enrolled_on_the_way_def by (blast intro: history.start)
  qed
  then show ?case
    using new_entries command.IH by blast
next
  case (elsewhere w w')
  then show ?case
    using enrolled_on_the_way_step(2)[of D G "\<lambda>s. (I s, h s)" w0 w _ _ w'] by simp blast
qed

text \<open>A passphrase that no longer decrypts its key is never released; it is found stale and taken out,
  unless the keystore refuses.\<close>

lemma unlock_heals:
  assumes V: "keymap_vault V I h" and "I (store_of w)"
    and run: "auto_unlock_passphrase K V key w = (r, w')"
  shows "case r of
      Passphrase p \<Rightarrow> \<not> isl (sk_decrypt K key p) \<and> h (store_of w) (key_fingerprint K key) = Some p
        \<and> h (store_of w') = h (store_of w)
    | Stale \<Rightarrow> (\<exists>p. h (store_of w) (key_fingerprint K key) = Some p \<and> isl (sk_decrypt K key p))
        \<and> (h (store_of w') = (h (store_of w))(key_fingerprint K key := None) \<or> h (store_of w') = h (store_of w))
    | Fallback \<Rightarrow> h (store_of w') = h (store_of w)"
proof -
  obtain q u where q: "v_retrieve V (key_id K key) w = (q, u)" by fastforce
  note read = on_mapD[OF keymap_vaultD(2)[OF V] assms(2) q[unfolded key_id_of_fingerprint]]
  obtain d t where d: "v_delete V (key_id K key) u = (d, t)" by fastforce
  note del = on_mapD(2)[OF keymap_vaultD(3)[OF V] read(1) d[unfolded key_id_of_fingerprint]]
  show ?thesis
    using run q read(2) d del
    by (auto simp: auto_unlock_passphrase_cases retrieve_post_def delete_post_def
        split: sum.splits if_splits biometric_error.splits)
qed

end
