(* ===== verification/Demo.thy ===== *)
theory Demo
  imports Agent_Daemon
begin

text \<open>
  Concrete instances of the interfaces that properties make assumptions about, for their
  witnesses: a key format with one passphrase that keeps the documented laws of \<open>ssh_key\<close>, and
  an operating system whose clock moves by exactly what a sleep asks for.
\<close>

definition demo_keys :: "(bool, string) ssh_key_ops" where
  "demo_keys = \<lparr>
     sk_from_openssh = (\<lambda>s. if s = ''locked'' then Inr True else if s = ''open'' then Inr False else Inl ''bad key''),
     pk_from_openssh = (\<lambda>s. if s = ''public'' then Inr ''pk'' else Inl ''bad key''),
     sk_is_encrypted = (\<lambda>k. k),
     sk_decrypt = (\<lambda>k p. if p = ''secret'' then Inr False else Inl ''wrong passphrase''),
     sk_public = (\<lambda>k. ''pk''),
     pk_fingerprint = (\<lambda>p h. ''SHA256:'' @ p),
     pk_to_openssh = Inr,
     pk_comment = (\<lambda>p. ''demo''),
     pk_algorithm = (\<lambda>p. ''ssh-ed25519''),
     pk_anvil_fingerprint = (\<lambda>p h. ''SHA256:'' @ p)\<rparr>"

lemma demo_keys_laws: "ssh_key_laws demo_keys"
  by (auto simp: ssh_key_laws_def demo_keys_def split: if_splits)

definition demo_os :: "nat os_ops" where
  "demo_os = \<lparr>
     os_pid = 7,
     os_current_exe = (\<lambda>(fs, t). (Inr ''/usr/bin/gitway'', fs, t)),
     os_current_dir = (\<lambda>(fs, t). (Inr ''/'', fs, t)),
     os_create_dir_all = (\<lambda>d (fs, t). ((), fs, t)),
     os_set_mode = (\<lambda>d m (fs, t). ((), fs, t)),
     os_spawn = (\<lambda>e a v (fs, t). (Inr 8, fs, t)),
     os_now_millis = (\<lambda>(fs, t). (t, fs, t)),
     os_sleep_millis = (\<lambda>n (fs, t). ((), fs, t + n)),
     os_kill_term = (\<lambda>p (fs, t). (Inr (), fs, t)),
     os_setsid = (\<lambda>(fs, t). ((), fs, t)),
     os_chdir = (\<lambda>d (fs, t). ((), fs, t)),
     os_umask = (\<lambda>m (fs, t). ((), fs, t)),
     os_daemon = (\<lambda>c (fs, t). (Inr (), fs, t))\<rparr>"

lemma demo_clock: "clock_law demo_os id"
  by (simp add: clock_law_def demo_os_def)

definition demo_world :: "'x \<Rightarrow> 'x world" where
  "demo_world x = \<lparr>w_env = Map.empty, w_fs = Map.empty, w_write_error = Map.empty,
     w_stdin_tty = True, w_stdout_tty = True, w_stderr_tty = True, w_stdin = [],
     w_home = Some ''/home/u'', w_timestamp = ''2026-01-01T00:00:00Z'', w_trace = [], w_ext = x\<rparr>"

definition demo_deps :: "(unit, bool, string) deps" where
  "demo_deps = \<lparr>d_keys = demo_keys, d_vault = unsupported_vault False,
     d_ask = (\<lambda>s (fs, x). (Inr ''secret'', fs, x)),
     d_launch = (\<lambda>p s (fs, x). (Inl ''no program'', fs, x)), d_unix = True\<rparr>"

lemma demo_deps_laws: "ssh_key_laws (d_keys demo_deps)"
  by (simp add: demo_deps_def demo_keys_laws)

definition demo_add :: agent_add_args where
  "demo_add = \<lparr>aa_files = [''k''], aa_lifetime = None, aa_confirm = False, aa_biometric = False,
     aa_no_biometric = False\<rparr>"

definition demo_key_world :: "unit world" where
  "demo_key_world = (demo_world ())\<lparr>w_fs := [''k'' \<mapsto> File ''locked'' 384, ''k.pub'' \<mapsto> File ''public'' 420]\<rparr>"

lemma demo_key_halves:
  "read_text_at (w_fs demo_key_world) ''k'' = Inr ''locked''"
  "isl (pk_from_openssh demo_keys (trim ''locked''))"
  "sk_from_openssh demo_keys ''locked'' = Inr True"
  "read_text_at (w_fs demo_key_world) (''k'' @ ''.pub'') = Inr ''public''"
  "pk_from_openssh demo_keys (trim ''public'') = Inr (sk_public demo_keys True)"
proof -
  have "valid_utf8 ''locked''" "valid_utf8 ''public''" "trim ''locked'' = ''locked''" "trim ''public'' = ''public''"
    by code_simp+
  then show "read_text_at (w_fs demo_key_world) ''k'' = Inr ''locked''"
    "isl (pk_from_openssh demo_keys (trim ''locked''))"
    "sk_from_openssh demo_keys ''locked'' = Inr True"
    "read_text_at (w_fs demo_key_world) (''k'' @ ''.pub'') = Inr ''public''"
    "pk_from_openssh demo_keys (trim ''public'') = Inr (sk_public demo_keys True)"
    by (simp_all add: read_text_at_def read_bytes_at_def demo_keys_def demo_key_world_def)
qed

end
