(* ===== verification/Demo_Vault.thy ===== *)
theory Demo_Vault
  imports Demo Vault_History "HOL-Library.AList"
begin

text \<open>
  Concrete keystores that keep the documented laws of the Keychain, the Credential Locker and
  the Secret Service, and a run of \<open>enroll\<close> on one of them, for the witnesses.
\<close>

text \<open>The Keychain of a state is its items, all of them guarded, and the number of times that it has
  asked for the user's presence.\<close>

type_synonym demo_chain = "(string \<times> string) list \<times> nat"

definition demo_keychain :: "demo_chain keychain_ops" where
  "demo_keychain = \<lparr>
     kc_delete = (\<lambda>s a (fs, x, n). if map_of x a = None then (Inl err_sec_item_not_found, fs, x, n)
        else (Inr (), fs, AList.delete a x, n)),
     kc_set = (\<lambda>p opts (fs, x, n). if map_of x (pw_account opts) \<noteq> None \<or> pw_access_control opts = None
        then (Inl (- 25299), fs, x, n) else (Inr (), fs, (pw_account opts, p) # x, n)),
     kc_get = (\<lambda>opts (fs, x, n). case map_of x (pw_account opts) of
          None \<Rightarrow> (Inl err_sec_item_not_found, fs, x, n)
        | Some p \<Rightarrow> (Inr p, fs, x, n + 1)),
     kc_search = (\<lambda>opts (fs, x, n). if x = [] then (Inl err_sec_item_not_found, fs, x, n)
        else (Inr (map (\<lambda>e. Dict (Some [(''acct'', fst e)])) x), fs, x, n))\<rparr>"

definition demo_entries :: "demo_chain store \<Rightarrow> keymap" where
  "demo_entries s = map_of (fst (snd s))"

definition demo_guarded :: "demo_chain store \<Rightarrow> string set" where
  "demo_guarded s = dom (demo_entries s)"

definition demo_asked :: "demo_chain store \<Rightarrow> nat" where
  "demo_asked s = snd (snd s)"

lemma demo_keychain_law: "keychain_law demo_keychain demo_entries"
proof -
  have dicts: "\<exists>attrs. map (\<lambda>e. Dict (Some [(''acct'', fst e)])) x = map (Dict \<circ> Some) attrs \<and>
      (\<lambda>a. map_of a ''acct'') ` set attrs = Some ` dom (map_of x)" for x :: "(string \<times> string) list"
    by (rule exI[of _ "map (\<lambda>e. [(''acct'', fst e)]) x"]) (simp add: image_image dom_map_of_conv_image_fst)
  show ?thesis
    by (auto simp: keychain_law_def op_spec_def demo_keychain_def demo_entries_def new_generic_password_def
        delete_conv' dicts split: option.splits del: equalityI)
qed

lemma demo_presence_law: "presence_law demo_keychain demo_guarded demo_asked"
  by (auto simp: presence_law_def op_spec_def demo_keychain_def demo_guarded_def demo_asked_def demo_entries_def
      new_generic_password_def delete_conv' intro: access_control.exhaust split: option.splits)

lemma demo_keychain_frames:
  "frames fst (v_store (mac_vault demo_keychain) k p)" "frames fst (v_retrieve (mac_vault demo_keychain) k)"
  "frames fst (v_delete (mac_vault demo_keychain) k)" "frames fst (v_list (mac_vault demo_keychain))"
  "frames fst (v_is_available (mac_vault demo_keychain))"
proof -
  have ops: "frame_op fst (kc_delete demo_keychain s a)" "frame_op fst (kc_set demo_keychain p opts)"
    "frame_op fst (kc_get demo_keychain opts)" "frame_op fst (kc_search demo_keychain sopts)" for s a p opts sopts
    by (auto simp: frame_op_def op_spec_def demo_keychain_def split: option.splits)
  show "frames fst (v_store (mac_vault demo_keychain) k p)" "frames fst (v_retrieve (mac_vault demo_keychain) k)"
    "frames fst (v_delete (mac_vault demo_keychain) k)" "frames fst (v_list (mac_vault demo_keychain))"
    "frames fst (v_is_available (mac_vault demo_keychain))"
    unfolding mac_vault_def vault.simps mac_store_def mac_retrieve_def mac_delete_def mac_list_def
      search_event_def Let_def
    by (intro frames_intros ops)+
qed

definition demo_map :: "(string \<times> string) list store \<Rightarrow> keymap" where
  "demo_map s = map_of (snd s)"

definition demo_locker :: "((string \<times> string) list, string \<times> string) winrt_ops" where
  "demo_locker = \<lparr>
     wr_check_availability = Pair (Inr ([], [])),
     wr_availability = (\<lambda>h. Pair (Inr True)),
     wr_request_verification = (\<lambda>t. Pair (Inr ([], []))),
     wr_verified = (\<lambda>h. Pair (Inr True)),
     wr_locker = Pair (Inr ([], [])),
     wr_find = (\<lambda>l r a (fs, x). case map_of x a of
        None \<Rightarrow> (Inl \<lparr>we_code = error_not_found, we_text = ''element not found''\<rparr>, fs, x)
      | Some p \<Rightarrow> (Inr (a, p), fs, x)),
     wr_remove = (\<lambda>l c (fs, x). (Inr (), fs, AList.delete (fst c) x)),
     wr_create_credential = (\<lambda>r a p. Inr (a, p)),
     wr_add = (\<lambda>l c (fs, x). (Inr (), fs, c # x)),
     wr_password = (\<lambda>c. Pair (Inr (snd c))),
     wr_find_all = (\<lambda>l r (fs, x). (Inr x, fs, x)),
     wr_user_name = (\<lambda>c. Pair (Inr (fst c)))\<rparr>"

lemma demo_locker_law: "locker_law demo_locker id demo_map"
  by (auto simp: locker_law_def frame_op_def op_spec_def demo_locker_def demo_map_def delete_conv'
      dom_map_of_conv_image_fst split: option.splits del: equalityI)

definition demo_items :: "((string \<times> string) list \<times> string) list store \<Rightarrow> items" where
  "demo_items s = map_of (map (map_prod set id) (snd s))"

definition demo_keyring :: "(((string \<times> string) list \<times> string) list, (string \<times> string) list) linux_ops" where
  "demo_keyring = \<lparr>
     lx_runtime = Pair (Inr ()), lx_system_bus = Pair (Inr []), lx_manager = (\<lambda>c. Pair (Inr [])),
     lx_default_device = (\<lambda>m. Pair (Inr ''/device/0'')),
     lx_default_device_timed = (\<lambda>m. Pair (Done (Inr ''/device/0''))),
     lx_device_path = (\<lambda>c p. Inr []), lx_device_build = (\<lambda>b. Pair (Inr [])),
     lx_list_fingers = (\<lambda>d u. Pair (Inr [''right-index-finger''])),
     lx_claim = (\<lambda>d u. Pair (Inr ())), lx_release = (\<lambda>d. Pair (Inr ())),
     lx_subscribe = (\<lambda>d. Pair (Inr [])), lx_verify_start = (\<lambda>d f. Pair (Inr ())),
     lx_signals = (\<lambda>s. Pair ([Inr (''verify-match'', True)], False)),
     lx_verify_stop = (\<lambda>d. Pair (Inr ())),
     lx_keyring = Pair (Inr []), lx_keyring_timed = Pair (Done (Inr [])), lx_unlock = (\<lambda>k. Pair (Inr ())),
     lx_create_item = (\<lambda>k l as p r (fs, x). (Inr (), fs, (as, p) # x)),
     lx_search = (\<lambda>k q (fs, x). (Inr (map fst (filter (\<lambda>i. set q \<subseteq> set (fst i)) x)), fs, x)),
     lx_item_secret = (\<lambda>i s. case demo_items s (set i) of None \<Rightarrow> (Inl ''no such item'', s) | Some p \<Rightarrow> (Inr p, s)),
     lx_item_attributes = (\<lambda>i. Pair (if distinct (map fst i) then Inr i else Inl ''no such item'')),
     lx_delete_items = (\<lambda>k q (fs, x). (Inr (), fs, filter (\<lambda>i. \<not> set q \<subseteq> set (fst i)) x))\<rparr>"

lemma demo_items_search:
  "set ` fst ` {i \<in> set x. set q \<subseteq> set (fst i)} = {a \<in> dom (demo_items (fs, x)). set q \<subseteq> a}"
  by (force simp: demo_items_def dom_map_of_conv_image_fst)

lemma demo_items_delete:
  "demo_items (fs, filter (\<lambda>i. \<not> set q \<subseteq> set (fst i)) x)
   = (\<lambda>a. if set q \<subseteq> a then None else demo_items (fs, x) a)"
  by (induction x) (auto simp: demo_items_def fun_eq_iff)

lemma demo_keyring_law: "keyring_law demo_keyring set demo_items"
proof -
  have cons: "demo_items (fs, (as, p) # x) = (demo_items (fs, x))(set as \<mapsto> p)" for fs as p x
    by (simp add: demo_items_def)
  show ?thesis
    by (simp add: keyring_law_def frame_op_def op_spec_def demo_keyring_def cons demo_items_search
        demo_items_delete split: option.splits)
qed

section \<open>A run of enrolment\<close>

definition demo_vault_deps :: "(demo_chain, bool, string) deps" where
  "demo_vault_deps = \<lparr>d_keys = demo_keys, d_vault = mac_vault demo_keychain,
     d_ask = (\<lambda>s. Pair (Inr ''secret'')), d_launch = (\<lambda>p s. Pair (Inl ''no program'')), d_unix = True\<rparr>"

definition demo_vault_world :: "(string \<times> string) list \<Rightarrow> demo_chain world" where
  "demo_vault_world x = (demo_world (x, 0))\<lparr>w_fs := [''k'' \<mapsto> File ''locked'' 384]\<rparr>"

lemma demo_vault_deps_fields [simp]:
  "d_keys demo_vault_deps = demo_keys" "d_vault demo_vault_deps = mac_vault demo_keychain"
  by (simp_all add: demo_vault_deps_def)

lemma demo_vault_keymap: "keymap_vault (d_vault demo_vault_deps) (\<lambda>s. True) demo_entries"
  by (simp add: mac_keymap demo_keychain_law)

lemma demo_vault_beside: "keymap_vault_beside (d_vault demo_vault_deps) (\<lambda>s. True) demo_entries (disk demo_keys)"
proof -
  have disk: "frames fst m \<Longrightarrow> frames (disk demo_keys) m" for m :: "demo_chain world \<Rightarrow> 'a \<times> demo_chain world"
    by (simp add: frames_def disk_def[abs_def])
  show ?thesis
    by (rule keymap_vault_besideI[OF demo_vault_keymap]) (simp_all add: disk demo_keychain_frames)
qed

lemma demo_prompts_frame: "prompts_frame demo_vault_deps g"
  by (simp add: prompts_frame_def frame_op_def op_spec_def demo_vault_deps_def)

definition demo_agent :: "(demo_chain, unit, bool, string) agent_ops" where
  "demo_agent = \<lparr>ag_from_env = Pair (Inr ()), ag_list = (\<lambda>g. Pair (Inr [])), ag_add = (\<lambda>g k l c. Pair (Inr ())),
     ag_remove = (\<lambda>g p. Pair (Inr ())), ag_remove_all = (\<lambda>g. Pair (Inr ())), ag_lock = (\<lambda>g p. Pair (Inr ())),
     ag_unlock = (\<lambda>g p. Pair (Inr ()))\<rparr>"

lemma demo_agent_frame: "agent_frame demo_agent g"
  by (simp add: agent_frame_def frame_op_def op_spec_def demo_agent_def)

lemma demo_vault_key: "read_text_at (w_fs (demo_vault_world x)) ''k'' = Inr ''locked''"
  "key_at demo_keys (demo_vault_world x) ''k'' = Some True"
  "key_fingerprint demo_keys True = ''SHA256:pk''"
proof -
  have "valid_utf8 ''locked''" by code_simp
  then show "read_text_at (w_fs (demo_vault_world x)) ''k'' = Inr ''locked''"
    by (simp add: read_text_at_def read_bytes_at_def demo_vault_world_def)
  then show "key_at demo_keys (demo_vault_world x) ''k'' = Some True"
    by (simp add: key_at_def demo_keys_def)
  show "key_fingerprint demo_keys True = ''SHA256:pk''"
    by (simp add: key_fingerprint_def demo_keys_def)
qed

lemma demo_read_key:
  "read_key demo_keys ''k'' (demo_vault_world x) = (Inr True, (demo_vault_world x)\<lparr>w_trace := [FsRead ''k'']\<rparr>)"
proof -
  have "sk_from_openssh demo_keys ''locked'' = Inr True" "w_trace (demo_vault_world x) = []"
    by (simp_all add: demo_keys_def demo_vault_world_def demo_world_def)
  then show ?thesis
    by (simp add: read_key_def read_to_string_def demo_vault_key effect_simps)
qed

lemma demo_prompt:
  assumes "w_env u = Map.empty"
  shows "\<exists>es. prompt_passphrase_interactive demo_vault_deps path u = (Inr ''secret'', u\<lparr>w_trace := es\<rparr>)"
  using assms
  by (simp add: prompt_passphrase_interactive_def try_askpass_def var_os_def prompt_password_def call_def
      effect_simps Let_def demo_vault_deps_def) blast

lemma demo_key_id: "key_id demo_keys True = key_id_from_fingerprint ''SHA256:pk''"
  "sk_is_encrypted demo_keys True" "sk_decrypt demo_keys True ''secret'' = Inr False"
  by (simp_all add: key_id_of_fingerprint demo_vault_key(3)) (simp_all add: demo_keys_def)

lemma demo_enroll:
  "\<exists>w. enroll_one demo_vault_deps ''k'' (demo_vault_world []) = (Inr (outcome_ok ''k'' ''SHA256:pk''), w)"
proof -
  obtain es where es: "prompt_passphrase_interactive demo_vault_deps ''k'' ((demo_vault_world [])\<lparr>w_trace := [FsRead ''k'']\<rparr>)
      = (Inr ''secret'', (demo_vault_world [])\<lparr>w_trace := es\<rparr>)"
    using demo_prompt[of "(demo_vault_world [])\<lparr>w_trace := [FsRead ''k'']\<rparr>" "''k''"]
    by (auto simp: demo_vault_world_def demo_world_def)
  have "\<exists>t. v_store (mac_vault demo_keychain) (key_id_from_fingerprint ''SHA256:pk'') ''secret''
      ((demo_vault_world [])\<lparr>w_trace := es\<rparr>) = (Inr (), t)"
    by (simp add: mac_vault_def mac_store_def demo_keychain_def effect_simps call_def demo_vault_world_def
        demo_world_def)
  then show ?thesis
    using es by (auto simp: enroll_one_def demo_read_key effect_simps demo_key_id Let_def
        fingerprint_of_key_id_from)
qed

lemma demo_delete:
  "\<exists>t. v_delete (mac_vault demo_keychain) (key_id_from_fingerprint ''SHA256:pk'')
     ((demo_vault_world [(''SHA256:pk'', ''secret'')])\<lparr>w_trace := es\<rparr>) = (Inr (), t)"
  by (simp add: mac_vault_def mac_delete_def demo_keychain_def effect_simps call_def demo_vault_world_def
      demo_world_def)

lemma demo_list:
  "\<exists>es. v_list (mac_vault demo_keychain) (demo_vault_world [(''SHA256:pk'', ''secret'')])
     = (Inr [\<lparr>ek_fingerprint = ''SHA256:pk'', ek_comment = None\<rparr>],
        (demo_vault_world [(''SHA256:pk'', ''secret'')])\<lparr>w_trace := es\<rparr>)"
  by (simp add: mac_vault_def mac_list_def demo_keychain_def effect_simps call_def demo_vault_world_def
      demo_world_def)

lemma demo_forget:
  "\<exists>w. run_forget demo_keys (mac_vault demo_keychain) \<lparr>bf_files = (if all then [] else [''k'']), bf_all = all\<rparr> Human
     (demo_vault_world [(''SHA256:pk'', ''secret'')]) = (Inr exit_ok, w)"
proof -
  obtain es where l: "v_list (mac_vault demo_keychain) (demo_vault_world [(''SHA256:pk'', ''secret'')])
     = (Inr [\<lparr>ek_fingerprint = ''SHA256:pk'', ek_comment = None\<rparr>],
        (demo_vault_world [(''SHA256:pk'', ''secret'')])\<lparr>w_trace := es\<rparr>)"
    using demo_list by blast
  obtain t u where "v_delete (mac_vault demo_keychain) (key_id_from_fingerprint ''SHA256:pk'')
     ((demo_vault_world [(''SHA256:pk'', ''secret'')])\<lparr>w_trace := es\<rparr>) = (Inr (), t)"
    "v_delete (mac_vault demo_keychain) (key_id_from_fingerprint ''SHA256:pk'')
     ((demo_vault_world [(''SHA256:pk'', ''secret'')])\<lparr>w_trace := [FsRead ''k'']\<rparr>) = (Inr (), u)"
    using demo_delete by metis
  then show ?thesis
    using l by (cases all) (auto simp: run_forget_def forget_path_def forget_enrolled_def demo_read_key
        effect_simps demo_key_id Let_def emit_results_def eprint_lines_def eprintln_def)
qed

lemma demo_unlock:
  "\<exists>u. auto_unlock_passphrase demo_keys (mac_vault demo_keychain) True
     (demo_vault_world [(''SHA256:pk'', ''secret'')]) = (Passphrase ''secret'', u)"
proof -
  have "valid_utf8 ''secret''" by code_simp
  then have "\<exists>u. v_retrieve (mac_vault demo_keychain) (key_id demo_keys True)
      (demo_vault_world [(''SHA256:pk'', ''secret'')]) = (Inr ''secret'', u)"
    by (simp add: mac_vault_def mac_retrieve_def demo_keychain_def effect_simps call_def demo_vault_world_def
        demo_world_def demo_key_id new_generic_password_def Let_def)
  then show ?thesis
    using auto_unlock_passphrase_cases[of "mac_vault demo_keychain" demo_keys True] demo_key_id(3) by fastforce
qed

end
