(* ===== verification/Props_Biometric.thy ===== *)
theory Props_Biometric
  imports Biometric_Cmd Fprintd_Protocol Vault_History Demo_Vault
begin

text \<open>
  The properties of the biometric vault, of the unlocking of keys and of the collection of
  passphrases. A vault is that of an arbitrary build: \<open>backend feature os P\<close> for the cargo
  feature, the target and the libraries of the platform.
\<close>

section \<open>The Linux backend\<close>

text \<open>C1: On Linux a stored passphrase is released only at the end of a run that has gone through
  a whole fingerprint session (claim, subscribe, start, signals, stop, release, in the order of
  the fprintd protocol) whose last signal was a terminal \<open>verify-match\<close>, and that reads the
  secret as its very last step; for a key that is not enrolled the sensor is never claimed and
  nobody is asked.\<close>

theorem linux_secret_behind_session:
  "traced (linux_retrieve L kid) (\<lambda>r es. case r of
     Inr secret \<Rightarrow> gated_read kid es \<and> valid_utf8 secret
   | Inl NotEnrolled \<Rightarrow> list_all quiet es
   | Inl e \<Rightarrow> True)"
  by (rule linux_retrieve_protocol)

text \<open>C11: A fingerprint check never leaves the device claimed: either it failed before anything
  but the last step could claim the device, or its last two calls are \<open>VerifyStop\<close> and
  \<open>Release\<close>, whatever the sensor, the bus or the deadline did.\<close>

theorem device_always_released:
  "traced (verify_fingerprint L) (\<lambda>r es. list_all quiet (butlast es) \<and> isl r \<or> released es)"
  by (rule verify_fingerprint_releases)

section \<open>Every backend\<close>

text \<open>C20: A passphrase comes out of an automatic unlock only after the user's presence was asked for, and
  never on a build without a backend. On Linux and Windows the sensor was armed or the consent dialog
  raised. On macOS it is the system that asks, because of how the items were stored: \<open>store\<close> and the
  other methods keep every item of the program guarded by a user-presence control, and with all of
  them guarded the Keychain has asked once more when a passphrase is released. A key that is not
  enrolled costs the user nothing: \<open>NotEnrolled\<close> comes without a claim of the sensor, a scan, a
  dialog, a prompt or, on macOS, a question by the system.\<close>

theorem unlock_needs_presence:
  fixes P :: "('x, 'h) platform"
  assumes "keychain_law (pf_keychain P) items" and "presence_law (pf_keychain P) guarded asked"
  shows "(case auto_unlock_passphrase K (backend feature os P) key w of
       (Passphrase p, w') \<Rightarrow> feature \<and> (case os of
            Linux \<Rightarrow> \<exists>es. w_trace w' = w_trace w @ es \<and> Sensor VerifyStart \<in> set es
          | Macos \<Rightarrow> (if dom (items (store_of w)) \<subseteq> guarded (store_of w)
                     then asked (store_of w) < asked (store_of w') else True)
          | Windows \<Rightarrow> \<exists>es. w_trace w' = w_trace w @ es \<and> Sensor Consent \<in> set es
          | OtherOs \<Rightarrow> False)
     | _ \<Rightarrow> True)
   \<and> keymap_vault (backend True Macos P) (\<lambda>s. dom (items s) \<subseteq> guarded s) items
   \<and> (case v_retrieve (backend feature os P) kid v of
       (Inl NotEnrolled, v') \<Rightarrow> if feature \<and> os = Macos then asked (store_of v') = asked (store_of v)
          else \<exists>es. w_trace v' = w_trace v @ es \<and> list_all quiet es
     | _ \<Rightarrow> True)"
proof -
  have mac: "backend True Macos P = mac_vault (pf_keychain P)"
    by (simp add: backend_def)
  define gated where "gated w' \<longleftrightarrow> (case os of
      Linux \<Rightarrow> \<exists>es. w_trace w' = w_trace w @ es \<and> Sensor VerifyStart \<in> set es
    | Macos \<Rightarrow> (if dom (items (store_of w)) \<subseteq> guarded (store_of w)
               then asked (store_of w) < asked (store_of w') else True)
    | Windows \<Rightarrow> \<exists>es. w_trace w' = w_trace w @ es \<and> Sensor Consent \<in> set es
    | OtherOs \<Rightarrow> False)" for w'
  have "feature \<and> gated w'"
    if run: "auto_unlock_passphrase K (backend feature os P) key w = (Passphrase p, w')" for p w'
  proof
    show "feature"
      using unsupported_releases_nothing[of feature os K P key w] run by force
    then show "gated w'"
      using build.unlock_gated[OF run] mac_unlock_asks[OF assms, of w K key p w'] run mac
      by (cases os) (auto simp: gated_def release_gate_def list_ex_iff)
  qed
  then have "case auto_unlock_passphrase K (backend feature os P) key w of
      (Passphrase p, w') \<Rightarrow> feature \<and> gated w' | _ \<Rightarrow> True"
    by (auto split: prod.splits auto_unlock_result.splits)
  moreover have "if feature \<and> os = Macos then asked (store_of v') = asked (store_of v)
      else \<exists>es. w_trace v' = w_trace v @ es \<and> list_all quiet es"
    if run: "v_retrieve (backend feature os P) kid v = (Inl NotEnrolled, v')" for v'
  proof (cases "feature \<and> os = Macos")
    case True
    then show ?thesis
      using mac_not_enrolled_asks_nothing[OF assms(2)] run by (simp add: mac mac_vault_def)
  next
    case False
    then show ?thesis
      using run not_enrolled_quiet[OF run]
      by (cases feature) (auto simp: backend_def unsupported_vault_def unsupported_reason_def effect_simps)
  qed
  then have "case v_retrieve (backend feature os P) kid v of
      (Inl NotEnrolled, v') \<Rightarrow> if feature \<and> os = Macos then asked (store_of v') = asked (store_of v)
         else \<exists>es. w_trace v' = w_trace v @ es \<and> list_all quiet es
    | _ \<Rightarrow> True"
    by (auto simp del: if_split split: prod.splits sum.splits biometric_error.splits)
  ultimately show ?thesis
    using mac_guarded[OF assms] unfolding gated_def mac by blast
qed

theorem unlock_needs_presence_witness:
  "\<forall>(L :: (demo_chain, unit) linux_ops) (W :: (demo_chain, unit) winrt_ops). \<exists>u. auto_unlock_passphrase demo_keys (backend True Macos \<lparr>pf_linux = L, pf_keychain = demo_keychain, pf_winrt = W\<rparr>)
       True (demo_vault_world [(''SHA256:pk'', ''secret'')]) = (Passphrase ''secret'', u)
     \<and> demo_asked (store_of (demo_vault_world [(''SHA256:pk'', ''secret'')])) < demo_asked (store_of u)"
proof (intro allI)
  fix L :: "(demo_chain, unit) linux_ops" and W :: "(demo_chain, unit) winrt_ops"
  let ?P = "\<lparr>pf_linux = L, pf_keychain = demo_keychain, pf_winrt = W\<rparr>"
  obtain u where u: "auto_unlock_passphrase demo_keys (backend True Macos ?P) True
      (demo_vault_world [(''SHA256:pk'', ''secret'')]) = (Passphrase ''secret'', u)"
    using demo_unlock by (auto simp: backend_def)
  have laws: "keychain_law (pf_keychain ?P) demo_entries" "presence_law (pf_keychain ?P) demo_guarded demo_asked"
    by (simp_all add: demo_keychain_law demo_presence_law)
  show "\<exists>u. auto_unlock_passphrase demo_keys (backend True Macos ?P) True
      (demo_vault_world [(''SHA256:pk'', ''secret'')]) = (Passphrase ''secret'', u)
     \<and> demo_asked (store_of (demo_vault_world [(''SHA256:pk'', ''secret'')])) < demo_asked (store_of u)"
    using unlock_needs_presence[OF laws, where K = demo_keys and feature = True and os = Macos and key = True
        and w = "demo_vault_world [(''SHA256:pk'', ''secret'')]"] u
    by (auto simp: demo_guarded_def)
qed

text \<open>C30: \<open>biometric forget\<close>, \<open>list\<close> and \<open>status\<close> never ask for a finger, a consent or a
  passphrase and never read a stored secret, on any build; in particular they do not make the macOS
  Keychain ask for the user's presence.\<close>

theorem management_is_quiet:
  fixes P :: "('x, 'h) platform" and D :: "('x, 'k, 'p) deps"
  assumes "presence_law (pf_keychain P) guarded asked"
  shows "adds_only quiet (biometric_run (D\<lparr>d_vault := backend feature os P\<rparr>) (BioForget args) mode)
    \<and> adds_only quiet (biometric_run (D\<lparr>d_vault := backend feature os P\<rparr>) BioList mode)
    \<and> adds_only quiet (biometric_run (D\<lparr>d_vault := backend feature os P\<rparr>) BioStatus mode)
    \<and> frames asked (biometric_run (D\<lparr>d_vault := backend True Macos P\<rparr>) (BioForget args) mode)
    \<and> frames asked (biometric_run (D\<lparr>d_vault := backend True Macos P\<rparr>) BioList mode)
    \<and> frames asked (biometric_run (D\<lparr>d_vault := backend True Macos P\<rparr>) BioStatus mode)"
proof -
  have "d_vault (D\<lparr>d_vault := backend True Macos P\<rparr>) = mac_vault (pf_keychain P)"
    by (simp add: backend_def)
  then show ?thesis
    using management_frames[of asked "D\<lparr>d_vault := backend True Macos P\<rparr>"] mac_asks_nothing[OF assms]
    by (auto intro!: build.forget_quiet build.bio_list_quiet build.bio_status_quiet adds_let_do adds_ok)
qed

theorem management_is_quiet_witness:
  "\<forall>(L :: (demo_chain, unit) linux_ops) (W :: (demo_chain, unit) winrt_ops). frames demo_asked (biometric_run
      (demo_vault_deps\<lparr>d_vault := backend True Macos \<lparr>pf_linux = L, pf_keychain = demo_keychain, pf_winrt = W\<rparr>\<rparr>) BioList Human)"
proof (intro allI)
  fix L :: "(demo_chain, unit) linux_ops" and W :: "(demo_chain, unit) winrt_ops"
  have "presence_law (pf_keychain \<lparr>pf_linux = L, pf_keychain = demo_keychain, pf_winrt = W\<rparr>) demo_guarded demo_asked"
    by (simp add: demo_presence_law)
  then show "frames demo_asked (biometric_run
      (demo_vault_deps\<lparr>d_vault := backend True Macos \<lparr>pf_linux = L, pf_keychain = demo_keychain, pf_winrt = W\<rparr>\<rparr>) BioList Human)"
    using management_is_quiet by blast
qed

section \<open>Enrolment\<close>

text \<open>C6: \<open>biometric enroll\<close>, \<open>agent add --biometric\<close> and \<open>gitway-add --biometric\<close> store a secret
  under a key's name only when that secret has just decrypted that key: what the vault's store
  does for any other secret makes no difference to any run.\<close>

theorem enroll_stores_only_decrypting_secrets:
  "let D' = same_but_store D (\<lambda>kid secret.
        if \<exists>key. key_id (d_keys D) key = kid \<and> \<not> isl (sk_decrypt (d_keys D) key secret)
        then v_store (d_vault D) kid secret else other kid secret)
   in run_enroll D' args mode = run_enroll D args mode
      \<and> agent_run_add D' G add_args mode = agent_run_add D G add_args mode
      \<and> gitway_add_run D' G argv = gitway_add_run D G argv"
  unfolding Let_def
  by (intro conjI run_enroll_same_store agent_add_same_store gitway_add_same_store) auto


section \<open>The contents of the vault\<close>



text \<open>C3: Every backend implements a map from key fingerprints to passphrases: \<open>store\<close> updates it and a
  failed one touches no other key, \<open>retrieve\<close> and \<open>list\<close> read it and answer \<open>NotEnrolled\<close> only for
  keys that are not in it, \<open>delete\<close> removes a key that was in it. The store behind it is the
  Secret Service without foreign items under the program's attributes, the Keychain or the
  Credential Locker, each with its documented behaviour.\<close>

theorem backends_refine_keymap:
  assumes "keyring_law L at items" and "keychain_law M keychain" and "locker_law W cred locker"
  shows "keymap_vault (linux_vault L) (own_items \<circ> items) (entries \<circ> items)
    \<and> keymap_vault (mac_vault M) (\<lambda>s. True) keychain
    \<and> keymap_vault (windows_vault W) (\<lambda>s. True) locker"
  by (intro conjI linux_keymap[OF assms(1)] mac_keymap[OF assms(2)] win_keymap[OF assms(3)])

theorem backends_refine_keymap_witness:
  "keymap_vault (linux_vault demo_keyring) (own_items \<circ> demo_items) (entries \<circ> demo_items)
    \<and> keymap_vault (mac_vault demo_keychain) (\<lambda>s. True) demo_entries
    \<and> keymap_vault (windows_vault demo_locker) (\<lambda>s. True) demo_map"
  by (rule backends_refine_keymap[OF demo_keyring_law demo_keychain_law demo_locker_law])

text \<open>C7: A key that \<open>enroll\<close> reports as enrolled unlocks with the passphrase that \<open>enroll\<close> has just
  checked against it: as long as the contents of the vault stay as they are, an automatic
  unlock gives exactly that passphrase or falls back to asking, and never finds it stale. The
  entries of the other keys are untouched.\<close>

theorem enrolled_key_unlocks:
  assumes "keymap_vault (d_vault D) I h" and "prompts_frame D (\<lambda>s. (I s, h s))" and "I (store_of w)"
    and "enroll_one D path w = (Inr oc, w')" and "oc_ok oc"
    and "key_at (d_keys D) w path = Some key"
  shows "\<exists>p. \<not> isl (sk_decrypt (d_keys D) key p)
    \<and> h (store_of w') = (h (store_of w))(key_fingerprint (d_keys D) key \<mapsto> p)
    \<and> (\<forall>v. I (store_of v) \<and> h (store_of v) = h (store_of w') \<longrightarrow>
         fst (auto_unlock_passphrase (d_keys D) (d_vault D) key v) \<in> {Passphrase p, Fallback})"
proof -
  obtain p where p: "\<not> isl (sk_decrypt (d_keys D) key p)"
    and map: "h (store_of w') = (h (store_of w))(key_fingerprint (d_keys D) key \<mapsto> p)"
    using enroll_one_map[OF assms(1-5)] assms(6) by (metis option.inject)
  have "fst (auto_unlock_passphrase (d_keys D) (d_vault D) key v) \<in> {Passphrase p, Fallback}"
    if "I (store_of v)" "h (store_of v) = h (store_of w')" for v
    using unlock_reads_map[OF assms(1) that(1), of "d_keys D" key] p map that(2)
    by (cases "auto_unlock_passphrase (d_keys D) (d_vault D) key v") (auto split: auto_unlock_result.splits)
  with p map show ?thesis by blast
qed

theorem enrolled_key_unlocks_witness:
  "\<exists>w p. enroll_one demo_vault_deps ''k'' (demo_vault_world []) = (Inr (outcome_ok ''k'' ''SHA256:pk''), w)
    \<and> demo_entries (store_of w) = [''SHA256:pk'' \<mapsto> p]"
proof -
  obtain w where w: "enroll_one demo_vault_deps ''k'' (demo_vault_world []) = (Inr (outcome_ok ''k'' ''SHA256:pk''), w)"
    using demo_enroll by blast
  have "demo_entries (store_of (demo_vault_world [])) = Map.empty"
    by (simp add: demo_entries_def store_of_def demo_vault_world_def demo_world_def)
  with w enrolled_key_unlocks[OF demo_vault_keymap demo_prompts_frame TrueI w, of True]
  show ?thesis
    by (auto simp: demo_vault_key)
qed

text \<open>C8: What \<open>forget\<close> reports as done is done: \<open>forget --all\<close> that exits with 0 leaves the vault
  empty, and \<open>forget\<close> of any list of files that exits with 0 found a key in every file, all of them
  different and all of them enrolled, and has removed exactly their entries; no unlock of a forgotten
  key gives a passphrase or finds a stale one until it is enrolled again.\<close>

theorem forgotten_key_stays_locked:
  assumes "keymap_vault_beside V I h (disk K)" and "I (store_of w)"
    and "run_forget K V args mode w = (Inr exit_ok, w')"
  shows "let fps = map (\<lambda>f. key_fingerprint K (the (key_at K w f))) (bf_files args);
      gone = (if bf_all args then UNIV else set fps)
    in h (store_of w') = h (store_of w) |` (- gone)
      \<and> (if bf_all args then True else list_all (\<lambda>f. key_at K w f \<noteq> None) (bf_files args)
           \<and> distinct fps \<and> set fps \<subseteq> dom (h (store_of w)))
      \<and> (\<forall>key v. key_fingerprint K key \<in> gone \<longrightarrow> I (store_of v) \<longrightarrow> h (store_of v) = h (store_of w') \<longrightarrow>
           fst (auto_unlock_passphrase K V key v) = Fallback)"
proof -
  define fps where "fps = map (\<lambda>f. key_fingerprint K (the (key_at K w f))) (bf_files args)"
  define gone where "gone = (if bf_all args then UNIV else set fps)"
  note V = keymap_vault_of_beside[OF assms(1)]
  have map: "h (store_of w') = h (store_of w) |` (- gone)
    \<and> (if bf_all args then True else list_all (\<lambda>f. key_at K w f \<noteq> None) (bf_files args)
         \<and> distinct fps \<and> set fps \<subseteq> dom (h (store_of w)))"
    using forget_all_map[OF V assms(2,3)] forget_files_map[OF assms]
    by (auto simp: gone_def fps_def fingerprints_at_def key_at_disk)
  have "fst (auto_unlock_passphrase K V key v) = Fallback"
    if "key_fingerprint K key \<in> gone" "I (store_of v)" "h (store_of v) = h (store_of w')" for key v
    using unlock_reads_map[OF V that(2), of K key] map that
    by (cases "auto_unlock_passphrase K V key v") (auto split: auto_unlock_result.splits)
  with map show ?thesis
    unfolding Let_def fps_def[symmetric] gone_def[symmetric] by blast
qed

theorem forgotten_key_stays_locked_witness:
  "\<forall>all. \<exists>w. run_forget demo_keys (mac_vault demo_keychain)
       \<lparr>bf_files = (if all then [] else [''k'']), bf_all = all\<rparr> Human
       (demo_vault_world [(''SHA256:pk'', ''secret'')]) = (Inr exit_ok, w)
     \<and> demo_entries (store_of w) = Map.empty"
proof
  fix all
  let ?args = "\<lparr>bf_files = (if all then [] else [''k'']), bf_all = all\<rparr>"
  obtain w where w: "run_forget demo_keys (mac_vault demo_keychain) ?args Human
     (demo_vault_world [(''SHA256:pk'', ''secret'')]) = (Inr exit_ok, w)"
    using demo_forget by blast
  have map: "demo_entries (store_of (demo_vault_world [(''SHA256:pk'', ''secret'')])) = [''SHA256:pk'' \<mapsto> ''secret'']"
    by (simp add: demo_entries_def store_of_def demo_vault_world_def demo_world_def)
  have V: "keymap_vault_beside (mac_vault demo_keychain) (\<lambda>s. True) demo_entries (disk demo_keys)"
    using demo_vault_beside by simp
  have "demo_entries (store_of w) = Map.empty"
    using forgotten_key_stays_locked[OF V TrueI w] map
    by (cases all) (simp_all add: Let_def demo_vault_key restrict_map_def fun_eq_iff)
  with w show "\<exists>w. run_forget demo_keys (mac_vault demo_keychain) ?args Human
       (demo_vault_world [(''SHA256:pk'', ''secret'')]) = (Inr exit_ok, w)
     \<and> demo_entries (store_of w) = Map.empty"
    by blast
qed

section \<open>Passphrases\<close>

text \<open>C26: A passphrase costs at most one question. The key file and the vault come first, and a
  passphrase that they give decrypts the key in the file, was released behind the backend's gate and
  ends the search: neither the askpass program nor the terminal is asked. Otherwise exactly one of
  the two is asked, with the path in the question: the askpass program if the environment names a
  trusted one to be used, whose failure does not lead on to the terminal and whose answer is never
  empty; nobody, with an error, if it names one that is not to be trusted; the terminal else.\<close>

theorem passphrase_cascade:
  fixes P :: "('x, 'h) platform" and D :: "('x, 'k, 'p) deps"
  shows "let D' = D\<lparr>d_vault := backend feature os P\<rparr> in
    case biometric_auto_unlock D' path w of (unlocked, u) \<Rightarrow>
      runs w (prompt_passphrase D' path) (\<lambda>r es t. \<exists>vs qs. es = vs @ qs \<and> w_trace u = w_trace w @ vs
        \<and> list_all (\<lambda>e. vault_event e \<or> e = FsRead path) vs
        \<and> (case unlocked of
             Some p \<Rightarrow> r = Inr p \<and> qs = [] \<and> key_opens (d_keys D') w path p \<and> list_ex (release_gate os) vs
           | None \<Rightarrow> asks_once D' path u r qs))"
proof -
  have "d_vault (D\<lparr>d_vault := backend feature os P\<rparr>) = backend feature os P"
    by simp
  from build.cascade[OF this, where path = path and w = w] show ?thesis
    unfolding Let_def .
qed

text \<open>C17: The askpass program is run at most once, only when the environment names it by an
  absolute path that asks for its use and that not everybody may overwrite; the passphrase it
  gives is not empty and has no line end at its end.\<close>

theorem askpass_only_when_trusted:
  "case try_askpass D prompt w of (r, w') \<Rightarrow>
     w_trace w' = w_trace w @ (case trusted_askpass D w of
        None \<Rightarrow> [] | Some p \<Rightarrow> [Lib (Askpass p prompt)])
     \<and> (case r of
          Inr (Some s) \<Rightarrow> s \<noteq> [] \<and> last s \<noteq> newline \<and> trusted_askpass D w \<noteq> None
        | _ \<Rightarrow> True)"
  using try_askpass_trace[of D prompt w] try_askpass_passphrase[of D prompt w]
  by (auto split: prod.splits sum.splits option.splits)

end
