(* ===== verification/Add_Agreement.thy ===== *)
theory Add_Agreement
  imports Agent_Cmd Add_Grammar
begin

text \<open>
  \<open>gitway agent add\<close> and \<open>gitway-add\<close> are two programs for one job. The relation \<open>sim\<close> compares
  two runs from worlds that differ in the messages printed so far only, at a terminal without an
  askpass program: it says that they end in such worlds again, so that prompts, files, sensor,
  keystore and agent have seen the same events in the same order, and that their results are
  related. \<open>alike R\<close> relates results that fail together, with whatever error, or succeed with
  related values.
\<close>

section \<open>Runs up to messages\<close>

definition is_message :: "event \<Rightarrow> bool" where
  "is_message e \<longleftrightarrow> (case e of Out _ \<Rightarrow> True | Err _ \<Rightarrow> True | _ \<Rightarrow> False)"

definition deeds :: "event list \<Rightarrow> event list" where
  "deeds es = filter (\<lambda>e. \<not> is_message e) es"

definition at_terminal :: "'x world \<Rightarrow> bool" where
  "at_terminal w \<longleftrightarrow> w_stdin_tty w \<and> w_env w ''SSH_ASKPASS'' = None"

definition same_but_messages :: "'x world \<Rightarrow> 'x world \<Rightarrow> bool" where
  "same_but_messages w u \<longleftrightarrow> (\<exists>es. deeds es = deeds (w_trace w) \<and> u = w\<lparr>w_trace := es\<rparr>)"

definition sim :: "('a \<Rightarrow> 'b \<Rightarrow> bool) \<Rightarrow> ('x world \<Rightarrow> 'a \<times> 'x world) \<Rightarrow> ('x world \<Rightarrow> 'b \<times> 'x world) \<Rightarrow> bool" where
  "sim R m n \<longleftrightarrow> (\<forall>w u. at_terminal w \<and> same_but_messages w u \<longrightarrow>
     (case (m w, n u) of ((a, w'), (b, u')) \<Rightarrow> R a b \<and> at_terminal w' \<and> same_but_messages w' u'))"

definition alike :: "('a \<Rightarrow> 'b \<Rightarrow> bool) \<Rightarrow> 'e + 'a \<Rightarrow> 'd + 'b \<Rightarrow> bool" where
  "alike R r q \<longleftrightarrow> (case (r, q) of (Inl _, Inl _) \<Rightarrow> True | (Inr a, Inr b) \<Rightarrow> R a b | _ \<Rightarrow> False)"

named_theorems sim_intros \<open>runs that agree up to messages\<close>

lemma alike_simps [simp]: "alike R (Inr a) (Inr b) \<longleftrightarrow> R a b" "alike R (Inl d) (Inl e)"
  "\<not> alike R (Inr a) (Inl e)" "\<not> alike R (Inl e) (Inr b)"
  by (simp_all add: alike_def)

lemma deeds_simps [simp]: "deeds [] = []" "deeds (es @ fs) = deeds es @ deeds fs"
  "deeds [Out x] = []" "deeds [Err x] = []"
  by (simp_all add: deeds_def is_message_def)

lemma simI_worlds:
  assumes "\<And>w u. at_terminal w \<Longrightarrow> same_but_messages w u \<Longrightarrow>
    case (m w, n u) of ((a, w'), (b, u')) \<Rightarrow> R a b \<and> at_terminal w' \<and> same_but_messages w' u'"
  shows "sim R m n"
  using assms by (simp add: sim_def)

lemma simI:
  assumes "\<And>w es. at_terminal w \<Longrightarrow> deeds es = deeds (w_trace w) \<Longrightarrow>
    case (m w, n (w\<lparr>w_trace := es\<rparr>)) of ((a, w'), (b, u')) \<Rightarrow> R a b \<and> at_terminal w' \<and> same_but_messages w' u'"
  shows "sim R m n"
proof (rule simI_worlds, goal_cases)
  case (1 w u)
  then obtain es where "deeds es = deeds (w_trace w)" "u = w\<lparr>w_trace := es\<rparr>"
    unfolding same_but_messages_def by blast
  then show ?case
    using assms[of w es] 1 by simp
qed

lemma simE:
  assumes "sim R m n" and "at_terminal w" and "same_but_messages w u"
  obtains a b w' u' where "m w = (a, w')" and "n u = (b, u')" and "R a b" and "at_terminal w'"
    and "same_but_messages w' u'"
  using assms unfolding sim_def by (metis (no_types, lifting) case_prod_conv surj_pair)

lemma same_but_messages_self: "deeds es = deeds (w_trace w) \<Longrightarrow> same_but_messages w (w\<lparr>w_trace := es\<rparr>)"
  unfolding same_but_messages_def by blast

lemma sim_ret [sim_intros]: "R a b \<Longrightarrow> sim R (ret a) (ret b)"
  and sim_ok [sim_intros]: "S c d \<Longrightarrow> sim (alike S) (ok c) (ok d)"
  and sim_fail [sim_intros]: "sim (alike S) (fail e) (fail e')"
  and sim_lift_res [sim_intros]: "T r q \<Longrightarrow> sim T (lift_res r) (lift_res q)"
  by (simp_all add: sim_def effect_simps)

lemma sim_mono:
  assumes "sim R m n" and "\<And>a b. R a b \<Longrightarrow> S a b"
  shows "sim S m n"
proof (rule simI_worlds, goal_cases)
  case (1 w u)
  then show ?case
    by (rule simE[OF assms(1)]) (simp add: assms(2))
qed

lemma sim_let_do [sim_intros]:
  assumes "sim R m n" and "\<And>a b. R a b \<Longrightarrow> sim S (f a) (g b)"
  shows "sim S (let_do m f) (let_do n g)"
proof (rule simI_worlds, goal_cases)
  case (1 w u)
  then obtain a b w' u' where 2: "m w = (a, w')" "n u = (b, u')" "R a b" "at_terminal w'" "same_but_messages w' u'"
    by (rule simE[OF assms(1)])
  obtain c d w'' u'' where "f a w' = (c, w'')" "g b u' = (d, u'')" "S c d" "at_terminal w''" "same_but_messages w'' u''"
    using simE[OF assms(2)[OF 2(3)] 2(4,5)] .
  with 2 show ?case
    by (simp add: let_do_def)
qed

lemma sim_try_let [sim_intros]:
  assumes "sim (alike R) m n" and "\<And>a b. R a b \<Longrightarrow> sim (alike S) (f a) (g b)"
  shows "sim (alike S) (try_let m f) (try_let n g)"
  unfolding try_let_as_let_do
  by (rule sim_let_do[OF assms(1)]) (auto simp: alike_def intro: sim_fail assms(2) split: sum.splits)

lemma sim_map_err [sim_intros]: "sim (alike R) m n \<Longrightarrow> sim (alike R) (map_err k m) (map_err k' n)"
  unfolding map_err_as_let_do
  by (erule sim_let_do) (auto simp: alike_def intro!: sim_lift_res split: sum.splits)

text \<open>A message printed on either side leaves the worlds alike.\<close>

lemma same_but_messages_out:
  "at_terminal (w\<lparr>w_trace := es\<rparr>) \<longleftrightarrow> at_terminal w"
  "same_but_messages (w\<lparr>w_trace := w_trace w @ es\<rparr>) (w\<lparr>w_trace := fs @ gs\<rparr>) \<longleftrightarrow>
     deeds (fs @ gs) = deeds (w_trace w @ es)"
  "same_but_messages w (w\<lparr>w_trace := fs\<rparr>) \<longleftrightarrow> deeds fs = deeds (w_trace w)"
  "same_but_messages (w\<lparr>w_trace := w_trace w @ es\<rparr>) (w\<lparr>w_trace := fs\<rparr>) \<longleftrightarrow>
     deeds fs = deeds (w_trace w @ es)"
  by (cases w; auto simp: at_terminal_def same_but_messages_def)+

lemma sim_messages [sim_intros]:
  "sim (=) (println s) (println t)" "sim (=) (println s) (eprintln t)" "sim (=) (eprintln s) (println t)"
  "sim (=) (eprintln s) (eprintln t)" "sim (=) (println s) (ret ())" "sim (=) (ret ()) (println s)"
  "sim (=) (eprintln s) (ret ())" "sim (=) (ret ()) (eprintln s)"
  unfolding println_def eprintln_def
  by (rule simI; simp add: effect_simps same_but_messages_out)+

section \<open>Runs that do not depend on the messages\<close>

text \<open>\<open>blind m\<close>: messages printed before do not change what \<open>m\<close> does.\<close>

definition blind :: "('x world \<Rightarrow> 'a \<times> 'x world) \<Rightarrow> bool" where
  "blind m \<longleftrightarrow> sim (=) m m"

named_theorems blind_intros \<open>runs that do not depend on earlier messages\<close>

lemma blind_alike: "blind m \<Longrightarrow> sim (alike (=)) m m"
  unfolding blind_def by (erule sim_mono) (simp add: alike_def split: sum.splits)

lemma blind_emit [blind_intros]: "blind (emit e)"
  unfolding blind_def by (rule simI) (simp add: effect_simps same_but_messages_out)

lemma blind_call [blind_intros]: "blind (call ev f)"
  unfolding blind_def
proof (rule simI, goal_cases)
  case (1 w es)
  moreover have "same_but_messages (w\<lparr>w_fs := fs, w_ext := x, w_trace := w_trace w @ [ev]\<rparr>)
      (w\<lparr>w_fs := fs, w_ext := x, w_trace := es @ [ev]\<rparr>)" for fs x
    unfolding same_but_messages_def using 1 by (intro exI[of _ "es @ [ev]"]) simp
  ultimately show ?case
    by (auto simp: call_def at_terminal_def split: prod.splits)
qed

lemma blind_get_s: "(\<And>w es. g (w\<lparr>w_trace := es\<rparr>) = g w) \<Longrightarrow> blind (get_s g)"
  unfolding blind_def by (rule simI) (simp add: effect_simps same_but_messages_out)

lemma blind_ret [blind_intros]: "blind (ret a)" "blind (ok b)" "blind (fail e)" "blind (lift_res r)"
  by (simp_all add: blind_def sim_def effect_simps)

lemma blind_let_do [blind_intros]: "blind m \<Longrightarrow> (\<And>a. blind (f a)) \<Longrightarrow> blind (let_do m f)"
  unfolding blind_def by (erule sim_let_do) simp

lemma blind_sum [blind_intros]:
  "(\<And>a. blind (f a)) \<Longrightarrow> (\<And>b. blind (g b)) \<Longrightarrow> blind (case r of Inl a \<Rightarrow> f a | Inr b \<Rightarrow> g b)"
  by (cases r) auto

lemma blind_try_let [blind_intros]: "blind m \<Longrightarrow> (\<And>a. blind (f a)) \<Longrightarrow> blind (try_let m f)"
  unfolding try_let_as_let_do by (intro blind_intros)

lemma blind_map_err [blind_intros]: "blind m \<Longrightarrow> blind (map_err k m)"
  unfolding map_err_as_let_do by (intro blind_intros)

lemma blind_cases [blind_intros]:
  "blind m \<Longrightarrow> (\<And>b. blind (f b)) \<Longrightarrow> blind (case x of None \<Rightarrow> m | Some b \<Rightarrow> f b)"
  "blind m \<Longrightarrow> (\<And>b bs. blind (g b bs)) \<Longrightarrow> blind (case l of [] \<Rightarrow> m | b # bs \<Rightarrow> g b bs)"
  "(\<And>a b. blind (h a b)) \<Longrightarrow> blind (case p of (a, b) \<Rightarrow> h a b)"
  "blind m \<Longrightarrow> blind n \<Longrightarrow> blind (if c then m else n)"
  by (auto split: option.split list.split prod.split)

lemma blind_message [blind_intros]: "blind (println s)" "blind (eprintln s)"
  by (simp_all add: println_def eprintln_def blind_emit)

lemma blind_reads [blind_intros]: "blind (read_to_string_q p)"
  unfolding read_to_string_q_def read_to_string_def by (auto intro!: blind_intros blind_get_s)

section \<open>The vaults\<close>

lemma blind_hint [blind_intros]: "blind (hint m)"
  unfolding hint_def by (auto intro!: blind_intros blind_get_s)

lemma blind_scan_loop [blind_intros]: "blind (scan_loop sigs elapsed)"
  by (induction sigs) (auto intro!: blind_intros split: sum.split)

lemma blind_verify [blind_intros]: "blind (verify_fingerprint L)"
  unfolding verify_fingerprint_def claim_and_scan_def scan_def by (auto intro!: blind_intros)

lemma blind_linux [blind_intros]: "blind (linux_store L kid s)" "blind (linux_retrieve L kid)" "blind (linux_delete L kid)"
  unfolding linux_store_def linux_retrieve_def linux_delete_def run_blocking_def open_keyring_def Let_def
  by (auto intro!: blind_intros)

lemma blind_mac [blind_intros]: "blind (mac_store M kid s)" "blind (mac_retrieve M kid)" "blind (mac_delete M kid)"
  unfolding mac_store_def mac_retrieve_def mac_delete_def Let_def by (auto intro!: blind_intros)

lemma blind_windows [blind_intros]: "blind (win_store W kid s)" "blind (win_retrieve W kid)" "blind (win_delete W kid)"
  unfolding win_store_def win_retrieve_def win_delete_def win_locker_def verify_consent_def Let_def
  by (auto intro!: blind_intros)

lemma blind_backend [blind_intros]:
  "blind (v_store (backend feature os P) kid s)" "blind (v_retrieve (backend feature os P) kid)"
  "blind (v_delete (backend feature os P) kid)"
  by (auto simp: backend_def linux_vault_def mac_vault_def windows_vault_def unsupported_vault_def
      intro!: blind_intros split: target_os.split)

lemma blind_auto_unlock [blind_intros]:
  "blind (auto_unlock_passphrase K (backend feature os P) key)"
  unfolding auto_unlock_passphrase_def auto_unlock_def Let_def
  by (auto intro!: blind_intros split: sum.split biometric_error.split)

section \<open>The two loaders\<close>

text \<open>At a terminal both ask for the passphrase with the same words.\<close>

lemma sim_prompt [sim_intros]:
  "sim (alike (=)) (prompt_passphrase_interactive D path) (add_prompt_passphrase D path)"
proof (rule simI_worlds, goal_cases)
  case (1 w u)
  let ?ask = "prompt_password (d_ask D) (''Enter passphrase for '' @ path @ '': '')"
  have "prompt_passphrase_interactive D path w = map_err prompt_error ?ask w"
    using 1 by (simp add: prompt_passphrase_interactive_def try_askpass_def var_os_def at_terminal_def effect_simps)
  moreover have "add_prompt_passphrase D path u = map_err Io ?ask u"
    using 1 by (auto simp: add_prompt_passphrase_def passphrase_from_stdin_if_not_tty_def at_terminal_def
        same_but_messages_def effect_simps)
  moreover have "sim (alike (=)) (map_err prompt_error ?ask) (map_err Io ?ask)"
    unfolding prompt_password_def by (intro sim_map_err blind_alike blind_call)
  ultimately show ?case
    using 1 by (simp only: sim_def)
qed

lemma sim_decrypt [sim_intros]:
  "sim (alike (=)) (lift_res (case sk_decrypt K key pp of Inr k \<Rightarrow> Inr k | Inl e \<Rightarrow> Inl (Signing (t @ e))))
    (lift_res (add_decrypt K key pp))"
  by (rule sim_lift_res) (simp add: add_decrypt_def split: sum.split)

lemma sim_load [sim_intros]:
  "sim (alike (=)) (load_private_key (D\<lparr>d_vault := backend feature os P\<rparr>) path key unlock)
    (load_and_decrypt (D\<lparr>d_vault := backend feature os P\<rparr>) path key unlock)"
proof -
  let ?D = "D\<lparr>d_vault := backend feature os P\<rparr>"
  let ?dec = "\<lambda>pp. lift_res (case sk_decrypt (d_keys D) key pp of Inr k \<Rightarrow> Inr k
    | Inl e \<Rightarrow> Inl (Signing (''failed to decrypt '' @ path @ '': '' @ e)))"
  let ?dec' = "\<lambda>pp. lift_res (add_decrypt (d_keys D) key pp)"
  have dec: "sim (alike (=)) (?dec pp) (?dec' pp)" for pp
    by (rule sim_lift_res) (simp add: add_decrypt_def split: sum.split)
  have typed: "sim (alike (=)) (try_let (prompt_passphrase_interactive ?D path) ?dec)
      (try_let (add_prompt_passphrase ?D path) ?dec')"
    by (rule sim_try_let[OF sim_prompt]) (simp add: dec)
  let ?V = "backend feature os P"
  have auto: "sim (=) (auto_unlock_passphrase (d_keys D) ?V key) (auto_unlock_passphrase (d_keys D) ?V key)"
    using blind_auto_unlock[of "d_keys D" feature os P key] by (simp only: blind_def)
  have store: "sim (=) (v_store ?V kid pp) (v_store ?V kid pp)" for kid pp
    using blind_backend(1)[of feature os P kid pp] by (simp only: blind_def)
  show ?thesis
  proof (cases "sk_is_encrypted (d_keys D) key")
    case False
    then show ?thesis
      by (simp add: load_private_key_def load_and_decrypt_def sim_ok)
  next
    case True
    show ?thesis
    proof (cases unlock)
      case UnlockDisabled
      then show ?thesis
        using typed True by (simp add: load_private_key_def load_and_decrypt_def)
    next
      case UnlockEnroll
      have "sim (alike (=)) (try_let (?dec pp) (\<lambda>k. let_do (v_store ?V kid pp) (\<lambda>r.
            let_do (case r of Inr _ \<Rightarrow> eprintln s | Inl e \<Rightarrow> eprintln (f e)) (\<lambda>_. ok k))))
          (try_let (?dec' pp) (\<lambda>k. let_do (v_store ?V kid pp) (\<lambda>r.
            let_do (case r of Inr _ \<Rightarrow> eprintln s' | Inl e \<Rightarrow> eprintln (f' e)) (\<lambda>_. ok k))))"
        for pp kid s s' f f'
        by (rule sim_try_let[OF dec], rule sim_let_do[OF store], rule sim_let_do[of "(=)"])
          (auto intro: sim_intros split: sum.split)
      then show ?thesis
        using True UnlockEnroll
        by (auto simp: load_private_key_def load_and_decrypt_def Let_def intro!: sim_try_let[OF sim_prompt])
    next
      case UnlockAuto
      have "sim (alike (=)) (case r of Passphrase pp \<Rightarrow> ?dec pp
             | Stale \<Rightarrow> let_do (eprintln s) (\<lambda>_. try_let (prompt_passphrase_interactive ?D path) ?dec)
             | Fallback \<Rightarrow> try_let (prompt_passphrase_interactive ?D path) ?dec)
          (case r of Passphrase pp \<Rightarrow> ?dec' pp
             | Stale \<Rightarrow> let_do (eprintln s') (\<lambda>_. try_let (add_prompt_passphrase ?D path) ?dec')
             | Fallback \<Rightarrow> try_let (add_prompt_passphrase ?D path) ?dec')" for r s s'
        by (cases r) (simp_all add: dec typed sim_let_do[OF sim_messages(4)])
      then show ?thesis
        using True UnlockAuto
        by (auto simp: load_private_key_def load_and_decrypt_def Let_def intro!: sim_let_do[OF auto])
    qed
  qed
qed

section \<open>The two loops\<close>

abbreviation done_alike :: "'e + 'a \<Rightarrow> 'd + 'b \<Rightarrow> bool" where
  "done_alike \<equiv> alike (\<lambda>_ _. True)"

lemma let_do_ret [simp]: "let_do (ret a) f = f a"
  by (simp add: let_do_def ret_def)

lemma sim_right_message: "sim R m n \<Longrightarrow> sim R m (let_do (println s) (\<lambda>_. n))"
  using sim_let_do[OF sim_messages(6), of R "\<lambda>_. m" "\<lambda>_. n" s] by simp

lemma sim_right_done: "sim done_alike (ok a) (let_do (println s) ok)"
  using sim_right_message[OF sim_ok[of "\<lambda>_ _. True" a "()"], of s] by simp

lemma sim_left_lines: "sim R m n \<Longrightarrow> sim R (let_do (eprint_lines ls) (\<lambda>_. m)) n"
proof (induction ls)
  case (Cons l ls)
  then show ?case
    using sim_let_do[OF sim_messages(7), of R "\<lambda>_. let_do (eprint_lines ls) (\<lambda>_. m)" "\<lambda>_. n" l]
    by (simp add: eprint_lines_def let_do_assoc)
qed (simp add: eprint_lines_def)

lemma sim_left_data: "sim R m n \<Longrightarrow> sim R (let_do (emit_data command data) (\<lambda>_. m)) n"
proof -
  have "sim (=) (emit_data command data) (ret ())"
    unfolding emit_data_def emit_json_def
    by (rule simI) (simp add: effect_simps same_but_messages_out)
  then show "sim R m n \<Longrightarrow> ?thesis"
    using sim_let_do[of "(=)" "emit_data command data" "ret ()" R "\<lambda>_. m" "\<lambda>_. n"] by simp
qed

lemma sim_for_try:
  "(\<And>i a b. sim done_alike (body i a) (body' i b)) \<Longrightarrow> sim done_alike (for_try body is a) (for_try body' is b)"
  by (induction "is" arbitrary: a b) (auto intro!: sim_ok sim_try_let)

lemma sim_add_path:
  "sim done_alike (agent_add_path (D\<lparr>d_vault := backend feature os P\<rparr>) G agent lifetime confirm unlock loaded path acc)
    (add_one_path (D\<lparr>d_vault := backend feature os P\<rparr>) G agent lifetime confirm unlock loaded path)"
proof -
  have add: "sim (alike (=)) (agent_add_call K G agent k lifetime confirm) (agent_add_call K G agent k lifetime confirm)"
    for K :: "('b, 'c) ssh_key_ops" and k
    unfolding agent_add_call_def by (intro blind_alike blind_call)
  show ?thesis
    unfolding agent_add_path_def add_one_path_def
    by (cases acc)
      (auto intro!: sim_try_let[OF blind_alike[OF blind_reads]] sim_try_let[OF blind_alike[OF blind_ret(4)]]
        sim_try_let[OF sim_load] sim_try_let[OF add] sim_right_done sim_right_message sim_ok)
qed

section \<open>The two programs\<close>

text \<open>The \<open>gitway-add\<close> command line for the arguments of \<open>gitway agent add\<close>.\<close>

definition add_tokens :: "agent_add_args \<Rightarrow> token list" where
  "add_tokens args = (case aa_lifetime args of None \<Rightarrow> [] | Some n \<Rightarrow> [Valued ''-t'' (show_nat (unat n))])
     @ (if aa_confirm args then [Flag ''-c''] else [])
     @ (if aa_biometric args then [Flag ''--biometric''] else [])
     @ (if aa_no_biometric args then [Flag ''--no-biometric''] else [])"

definition add_line :: "agent_add_args \<Rightarrow> string list" where
  "add_line args = arg_line (add_tokens args) (Some (aa_files args))"

text \<open>Files with these names would be taken for a question for help, even behind \<open>--\<close>.\<close>

definition asks_help :: "string \<Rightarrow> bool" where
  "asks_help a \<longleftrightarrow> a \<in> {''-h'', ''--help'', ''-?''}"

lemma show_nat_is_no_help: "\<not> asks_help (show_nat n)"
  using show_nat_digits[of n] by (auto simp: asks_help_def is_digit_def)

lemma add_line_asks_no_help: "list_ex asks_help (add_line args) \<longleftrightarrow> list_ex asks_help (aa_files args)"
  using show_nat_is_no_help
  by (cases "aa_lifetime args")
    (simp_all add: add_line_def add_tokens_def arg_line_def, simp_all add: asks_help_def)

lemma add_scan_line:
  "add_scan_args (add_line args) add_scan_start = Inr \<lparr>as_hash = Sha256,
     as_lifetime = aa_lifetime args, as_confirm = aa_confirm args, as_biometric = aa_biometric args,
     as_no_biometric = aa_no_biometric args, as_mode = None, as_paths = aa_files args\<rparr>"
proof -
  have n: "parse_unsigned u64_max (show_nat (unat n)) = Some (unat n)" for n :: u64
    using unsigned_less[of n, where 'a = nat] by (intro parse_show_unsigned) (simp add: u64_max_def)
  have "fits add_fits add_eff (add_tokens args) add_scan_start"
    unfolding fits_tokens_ok by (auto simp: tokens_ok_def add_tokens_def mode_flags_def n split: option.splits)
  note scan = add_loop.scan_of_line[OF this, of "Some (aa_files args)", folded add_line_def]
  show ?thesis
    unfolding scan
    by (cases "aa_lifetime args")
      (auto simp: add_tokens_def add_scan_start_def mode_flags_def lifetime_seconds_def n)
qed

lemma add_from_line:
  assumes "agent_add_accepted args"
  shows "add_from_args (add_line args) =
    try_let (if aa_files args = [] then default_key_paths else ok (aa_files args)) (\<lambda>paths.
      ok \<lparr>ap_mode = ModeAdd paths, ap_hash = Sha256, ap_lifetime = aa_lifetime args, ap_confirm = aa_confirm args,
        ap_biometric = aa_biometric args, ap_no_biometric = aa_no_biometric args\<rparr>)"
  using assms
  by (auto simp: add_from_args_def add_scan_line agent_add_accepted_def fun_eq_iff effect_simps
      split: prod.splits sum.splits)

lemma blind_default_key_paths: "blind default_key_paths"
  unfolding blind_def by (rule simI) (simp add: default_key_paths_def same_but_messages_out cong: option.case_cong)

lemma try_let_ok [simp]: "try_let (ok a) f = f a"
  by (simp add: try_let_def ok_def)

lemma sim_add_files:
  "sim (alike (=)) (agent_add_files (D\<lparr>d_vault := backend feature os P\<rparr>) G args mode agent loaded paths)
    (try_let (for_try (\<lambda>path _. add_one_path (D\<lparr>d_vault := backend feature os P\<rparr>) G agent (aa_lifetime args)
        (aa_confirm args) (unlock_mode_from_flags (aa_biometric args) (aa_no_biometric args)) loaded path) paths ())
      (\<lambda>_. ok 0))"
  unfolding agent_add_files_def Let_def
  by (rule sim_try_let[OF sim_for_try[OF sim_add_path]])
    (auto intro!: sim_left_data sim_left_lines sim_ok split: output_mode.split)

lemma sim_add_programs:
  assumes "agent_add_accepted args" and "\<not> list_ex asks_help (aa_files args)"
  shows "sim (alike (=)) (agent_run_add (D\<lparr>d_vault := backend feature os P\<rparr>) G args mode)
    (gitway_add_run (D\<lparr>d_vault := backend feature os P\<rparr>) G (add_line args))"
proof -
  let ?paths = "if aa_files args = [] then default_key_paths else ok (aa_files args)"
  have paths: "sim (alike (=)) ?paths ?paths"
    by (simp add: blind_alike blind_default_key_paths blind_ret)
  have connect: "sim (alike (=)) (call (Agent AgConnect) (ag_from_env G)) (call (Agent AgConnect) (ag_from_env G))"
    by (intro blind_alike blind_call)
  have list: "sim (=) (call (Agent AgList) (ag_list G agent)) (call (Agent AgList) (ag_list G agent))" for agent
    using blind_call unfolding blind_def .
  have run: "gitway_add_run (D\<lparr>d_vault := backend feature os P\<rparr>) G (add_line args) =
    try_let ?paths (\<lambda>paths. try_let (call (Agent AgConnect) (ag_from_env G)) (\<lambda>agent.
      add_keys (D\<lparr>d_vault := backend feature os P\<rparr>) G agent paths (aa_lifetime args) (aa_confirm args)
        (unlock_mode_from_flags (aa_biometric args) (aa_no_biometric args))))"
    using add_line_asks_no_help[of args] assms
    by (simp add: gitway_add_run_def add_from_line[OF assms(1)] try_let_assoc asks_help_def[abs_def])
  show ?thesis
    unfolding run agent_run_add_def add_keys_def Let_def
    by (rule sim_try_let[OF paths], rule sim_try_let[OF connect], hypsubst, rule sim_let_do[OF list], hypsubst,
      rule sim_add_files)
qed

end
