(* ===== verification/Keygen_Cmd.thy ===== *)
theory Keygen_Cmd
  imports Key_Files
begin

text \<open>
  \<open>gitway-cli/src/keygen.rs\<close> and \<open>sign.rs\<close>: \<open>gitway keygen\<close> and \<open>gitway sign\<close> with their human
  and JSON answers. \<open>keygen_load_public_key\<close> and \<open>sign_load_and_decrypt\<close> are the functions
  that the sources call \<open>load_public_key\<close> and \<open>load_and_decrypt\<close>.
\<close>

section \<open>Passphrases of new keys\<close>

definition resolve_kind ::
  "key_alg \<Rightarrow> u32 option \<Rightarrow> anvil_error + (key_type \<times> u32 option)" where
  "resolve_kind alg bits = (case alg of
     Ed25519 \<Rightarrow> Inr (KtEd25519, None)
   | Rsa \<Rightarrow> Inr (KtRsa, bits)
   | Ecdsa \<Rightarrow>
       (let curve = (case bits of Some b \<Rightarrow> b | None \<Rightarrow> 256)
        in if curve = 256 then Inr (KtEcdsaP256, None)
           else if curve = 384 then Inr (KtEcdsaP384, None)
           else if curve = 521 then Inr (KtEcdsaP521, None)
           else Inl (InvalidConfig (''ECDSA curve size must be 256, 384, or 521 '' @ em_dash
             @ '' got '' @ show_nat (unat curve)))))"

definition prompt_new_passphrase :: "('x, 'k, 'p) deps \<Rightarrow> string \<Rightarrow> ('x world, string) eff" where
  "prompt_new_passphrase D path = let_do (get_s w_stderr_tty) (\<lambda>tty.
     if \<not> tty then prompt_passphrase D path
     else try_let (map_err Io (prompt_password (d_ask D)
         (''Enter new passphrase for '' @ path @ '' (empty for none): ''))) (\<lambda>first.
       if first = [] then ok []
       else try_let (map_err Io (prompt_password (d_ask D) ''Enter same passphrase again: '')) (\<lambda>confirm.
         if first \<noteq> confirm then
           fail (InvalidConfig (''passphrases did not match '' @ em_dash @ '' aborting''))
         else ok first)))"

definition resolve_new_passphrase ::
  "('x, 'k, 'p) deps \<Rightarrow> string \<Rightarrow> string option \<Rightarrow> bool \<Rightarrow> ('x world, string option) eff" where
  "resolve_new_passphrase D file explicit no_passphrase =
     (if no_passphrase then ok None
      else (case explicit of
        Some s \<Rightarrow> if s = [] then ok None else ok (Some s)
      | None \<Rightarrow> try_let (prompt_new_passphrase D file) (\<lambda>pp.
          if pp = [] then ok None else ok (Some pp))))"

section \<open>keygen\<close>

definition generate_data ::
  "('x, 'g, 'k, 'p, 'a, 't) sig_ops \<Rightarrow> generate_args \<Rightarrow> key_type \<Rightarrow> bool \<Rightarrow> string \<Rightarrow> string \<Rightarrow> json" where
  "generate_data Q args kind encrypted fp comment = JObj
     [(''private_key_path'', JStr (gen_file args)),
      (''public_key_path'', JStr (pub_path_for (gen_file args))),
      (''algorithm'', JStr (kg_cli_name Q kind)),
      (''encrypted'', JBool encrypted),
      (''fingerprint'', JStr fp),
      (''comment'', JStr comment)]"

definition keygen_run_generate ::
  "('x, 'k, 'p) deps \<Rightarrow> ('x, 'g, 'k, 'p, 'a, 't) sig_ops \<Rightarrow> generate_args \<Rightarrow> output_mode
   \<Rightarrow> ('x world, u32) eff" where
  "keygen_run_generate D Q args mode =
     try_let (lift_res (resolve_kind (gen_kind args) (gen_bits args))) (\<lambda>(kind, bits).
     let_do (get_s (\<lambda>w. case gen_comment args of Some c \<Rightarrow> c | None \<Rightarrow> default_comment w)) (\<lambda>comment.
     try_let (resolve_new_passphrase D (gen_file args) (gen_passphrase args) (gen_no_passphrase args)) (\<lambda>passphrase.
     try_let (call (Lib (Keygen ''generate'')) (kg_generate Q kind bits comment)) (\<lambda>key.
     try_let (call (Lib (Keygen ''write_keypair'')) (kg_write_keypair Q key (gen_file args) passphrase)) (\<lambda>_.
     let fp = pk_anvil_fingerprint (d_keys D) (sk_public (d_keys D) key) Sha256
     in case mode of
       JsonMode \<Rightarrow> let_do (emit_data ''gitway keygen generate''
           (generate_data Q args kind (passphrase \<noteq> None) fp comment)) (\<lambda>_. ok 0)
     | Human \<Rightarrow> let_do (eprint_lines
           [''gitway: generated '' @ kg_cli_name Q kind,
            ''gitway: wrote '' @ gen_file args,
            ''gitway: wrote '' @ pub_path_for (gen_file args),
            ''gitway: fingerprint '' @ fp]) (\<lambda>_. ok 0))))))"

definition keygen_load_public_key :: "('k, 'p) ssh_key_ops \<Rightarrow> string \<Rightarrow> ('x world, 'p) eff" where
  "keygen_load_public_key K path =
     try_let (read_to_string_q path) (\<lambda>raw.
     lift_res (parse_public_or_private K (''cannot parse key at '' @ path @ '': '') raw))"

definition keygen_run_fingerprint ::
  "('k, 'p) ssh_key_ops \<Rightarrow> fingerprint_args \<Rightarrow> output_mode \<Rightarrow> ('x world, u32) eff" where
  "keygen_run_fingerprint K args mode =
     try_let (keygen_load_public_key K (fp_file args)) (\<lambda>public.
     let fp = pk_anvil_fingerprint K public (fp_hash args)
     in case mode of
       JsonMode \<Rightarrow> let_do (emit_data ''gitway keygen fingerprint'' (JObj
           [(''path'', JStr (fp_file args)),
            (''fingerprint'', JStr fp),
            (''algorithm'', JStr (pk_algorithm K public)),
            (''comment'', JStr (pk_comment K public))])) (\<lambda>_. ok 0)
     | Human \<Rightarrow> let_do (println (fp @ '' '' @ pk_comment K public @ '' '' @ pk_algorithm K public)) (\<lambda>_. ok 0))"

definition keygen_run_extract_public ::
  "('x, 'g, 'k, 'p, 'a, 't) sig_ops \<Rightarrow> extract_public_args \<Rightarrow> output_mode \<Rightarrow> ('x world, u32) eff" where
  "keygen_run_extract_public Q args mode =
     try_let (call (Lib (Keygen ''extract_public'')) (kg_extract_public Q (ep_file args) (ep_output args))) (\<lambda>_.
     let out = (case ep_output args of Some p \<Rightarrow> p | None \<Rightarrow> pub_path_for (ep_file args))
     in case mode of
       JsonMode \<Rightarrow> let_do (emit_data ''gitway keygen extract-public'' (JObj
           [(''private_key_path'', JStr (ep_file args)), (''public_key_path'', JStr out)])) (\<lambda>_. ok 0)
     | Human \<Rightarrow> let_do (eprintln (''gitway: wrote '' @ out)) (\<lambda>_. ok 0))"

definition keygen_run_change_passphrase ::
  "('x, 'k, 'p) deps \<Rightarrow> ('x, 'g, 'k, 'p, 'a, 't) sig_ops \<Rightarrow> change_passphrase_args \<Rightarrow> output_mode
   \<Rightarrow> ('x world, u32) eff" where
  "keygen_run_change_passphrase D Q args mode =
     try_let (read_to_string_q (cp_file args)) (\<lambda>pem.
     try_let (map_err (\<lambda>e. InvalidConfig (''cannot parse private key: '' @ e))
        (lift_res (sk_from_openssh (d_keys D) pem))) (\<lambda>loaded.
     try_let (if sk_is_encrypted (d_keys D) loaded then
         (case cp_old_passphrase args of
            Some s \<Rightarrow> ok (Some s)
          | None \<Rightarrow> try_let (prompt_passphrase D (cp_file args)) (\<lambda>s. ok (Some s)))
       else ok None) (\<lambda>old.
     try_let (if cp_no_passphrase args then ok None
       else (case cp_new_passphrase args of
            Some s \<Rightarrow> ok (Some s)
          | None \<Rightarrow> try_let (prompt_new_passphrase D (cp_file args)) (\<lambda>s. ok (Some s)))) (\<lambda>new.
     try_let (call (Lib (Keygen ''change_passphrase''))
        (kg_change_passphrase Q (cp_file args) old new)) (\<lambda>_.
     case mode of
       JsonMode \<Rightarrow> let_do (emit_data ''gitway keygen change-passphrase'' (JObj
           [(''path'', JStr (cp_file args)), (''encrypted'', JBool (new \<noteq> None))])) (\<lambda>_. ok 0)
     | Human \<Rightarrow> let_do (eprintln (''gitway: updated passphrase for '' @ cp_file args)) (\<lambda>_. ok 0))))))"

definition keygen_run_verify ::
  "('x, 'g, 'k, 'p, 'a, 't) sig_ops \<Rightarrow> verify_args \<Rightarrow> output_mode \<Rightarrow> ('x world, u32) eff" where
  "keygen_run_verify Q args mode =
     try_let (read_to_string_q (vf_signature args)) (\<lambda>armored.
     try_let (call (Lib (Sshsig ''load_allowed'')) (ks_load_allowed Q (vf_allowed_signers args))) (\<lambda>allowed.
     try_let (open_input (vf_input args)) (\<lambda>data.
     try_let (lift_res (ks_verify Q data armored (vf_signer args) (vf_namespace args) allowed)) (\<lambda>verified.
     case mode of
       JsonMode \<Rightarrow> let_do (emit_data ''gitway keygen verify'' (JObj
           [(''verified'', JBool True),
            (''signer'', JStr (vs_principal verified)),
            (''fingerprint'', JStr (vs_fingerprint verified)),
            (''namespace'', JStr (vf_namespace args))])) (\<lambda>_. ok 0)
     | Human \<Rightarrow> let_do (emit_json_line (''Good '' @ quote_char @ vf_namespace args @ quote_char
           @ '' signature for '' @ vs_principal verified @ '' with ssh key '' @ vs_fingerprint verified))
           (\<lambda>_. ok 0)))))"

section \<open>sign\<close>

definition resolve_key_path :: "('x, 'c, 's) anvil_ops \<Rightarrow> string option \<Rightarrow> ('x world, string) eff" where
  "resolve_key_path A explicit = (case explicit of
     Some p \<Rightarrow> ok p
   | None \<Rightarrow> try_let (call (Ssh FindIdentity) (an_find_identity A (an_github A))) (\<lambda>r. case r of
       IdentityFound path \<Rightarrow> ok path
     | IdentityEncrypted path \<Rightarrow> ok path
     | IdentityNotFound \<Rightarrow> fail NoKeyFound))"

definition sign_load_and_decrypt :: "('x, 'k, 'p) deps \<Rightarrow> string \<Rightarrow> ('x world, 'k) eff" where
  "sign_load_and_decrypt D path =
     try_let (read_to_string_q path) (\<lambda>pem.
     try_let (map_err (\<lambda>e. InvalidConfig (''cannot parse '' @ path @ '': '' @ e))
        (lift_res (sk_from_openssh (d_keys D) pem))) (\<lambda>key.
     if \<not> sk_is_encrypted (d_keys D) key then ok key
     else try_let (prompt_passphrase D path) (\<lambda>pp.
       map_err (\<lambda>e. Signing (''failed to decrypt private key: '' @ e))
         (lift_res (sk_decrypt (d_keys D) key pp)))))"

definition sign_record ::
  "('k, 'p) ssh_key_ops \<Rightarrow> sign_args \<Rightarrow> 'k \<Rightarrow> string \<Rightarrow> 'x world \<Rightarrow> json" where
  "sign_record K args key armored w = data_envelope ''gitway sign'' (JObj
     [(''signer_fingerprint'', JStr (pk_anvil_fingerprint K (sk_public K key) Sha256)),
      (''namespace'', JStr (sg_namespace args)),
      (''hash'', JStr (case sg_hash args of Sha256 \<Rightarrow> ''sha256'' | Sha512 \<Rightarrow> ''sha512'')),
      (''sig_armored'', JStr armored),
      (''output'', JStr (case sg_output args of None \<Rightarrow> ''-'' | Some p \<Rightarrow> p))]) w"

definition sign_run ::
  "('x, 'k, 'p) deps \<Rightarrow> ('x, 'c, 's) anvil_ops \<Rightarrow> ('x, 'g, 'k, 'p, 'a, 't) sig_ops \<Rightarrow> sign_args
   \<Rightarrow> output_mode \<Rightarrow> ('x world, u32) eff" where
  "sign_run D A Q args mode =
     try_let (resolve_key_path A (sg_key args)) (\<lambda>key_path.
     try_let (sign_load_and_decrypt D key_path) (\<lambda>key.
     try_let (open_input (sg_input args)) (\<lambda>data.
     try_let (lift_res (ks_sign Q data key (sg_namespace args) (sg_hash args))) (\<lambda>armored.
     case mode of
       JsonMode \<Rightarrow>
         try_let (write_output (sg_output args) armored) (\<lambda>_.
         let_do (get_s (sign_record (d_keys D) args key armored)) (\<lambda>record.
         let_do (emit (Err (Json record))) (\<lambda>_. ok 0)))
     | Human \<Rightarrow> try_let (write_output (sg_output args) armored) (\<lambda>_. ok 0)))))"

fun keygen_run ::
  "('x, 'k, 'p) deps \<Rightarrow> ('x, 'c, 's) anvil_ops \<Rightarrow> ('x, 'g, 'k, 'p, 'a, 't) sig_ops
   \<Rightarrow> keygen_subcommand \<Rightarrow> output_mode \<Rightarrow> ('x world, u32) eff" where
  "keygen_run D A Q (KgGenerate args) mode = keygen_run_generate D Q args mode"
| "keygen_run D A Q (KgFingerprint args) mode = keygen_run_fingerprint (d_keys D) args mode"
| "keygen_run D A Q (KgExtractPublic args) mode = keygen_run_extract_public Q args mode"
| "keygen_run D A Q (KgChangePassphrase args) mode = keygen_run_change_passphrase D Q args mode"
| "keygen_run D A Q (KgSign args) mode = sign_run D A Q args mode"
| "keygen_run D A Q (KgVerify args) mode = keygen_run_verify Q args mode"

interpretation keygen_pub: public_loader K "keygen_load_public_key K" for K :: "('k, 'p) ssh_key_ops"
  by (rule public_loader_of_parse) (simp add: keygen_load_public_key_def)

section \<open>New passphrases\<close>

lemma resolve_new_passphrase_not_empty:
  "resolve_new_passphrase D file explicit no w = (Inr (Some p), w') \<Longrightarrow> p \<noteq> []"
  by (auto simp: resolve_new_passphrase_def effect_simps split: if_splits option.splits sum.splits prod.splits)

text \<open>On a terminal a new passphrase that is not empty has been typed twice.\<close>

lemma prompt_new_passphrase_confirmed:
  assumes "w_stderr_tty w" and "prompt_new_passphrase D path w = (Inr p, w')" and "p \<noteq> []"
  obtains u where "prompt_password (d_ask D) (''Enter new passphrase for '' @ path @ '' (empty for none): '') w = (Inr p, u)"
    and "prompt_password (d_ask D) ''Enter same passphrase again: '' u = (Inr p, w')"
  using assms
  by (auto simp: prompt_new_passphrase_def effect_simps split: if_splits sum.splits prod.splits)

text \<open>Where the passphrase of a new key comes from: the command line, two equal answers at a terminal,
  or one answer of the cascade when standard error is not a terminal.\<close>

lemma resolve_new_passphrase_source:
  assumes "resolve_new_passphrase D file explicit no w = (Inr (Some s), w')"
  shows "s \<noteq> [] \<and> \<not> no \<and> (case explicit of
      Some given \<Rightarrow> s = given \<and> w' = w
    | None \<Rightarrow>
        if w_stderr_tty w
        then \<exists>u. prompt_password (d_ask D) (''Enter new passphrase for '' @ file @ '' (empty for none): '') w = (Inr s, u)
          \<and> prompt_password (d_ask D) ''Enter same passphrase again: '' u = (Inr s, w')
        else prompt_passphrase D file w = (Inr s, w'))"
proof (cases explicit)
  case None
  then have new: "prompt_new_passphrase D file w = (Inr s, w')" and s: "s \<noteq> []" "\<not> no"
    using assms by (auto simp: resolve_new_passphrase_def effect_simps split: if_splits sum.splits prod.splits)
  show ?thesis
  proof (cases "w_stderr_tty w")
    case True
    from prompt_new_passphrase_confirmed[OF True new s(1)] show ?thesis
      using True None s by auto
  next
    case False
    then show ?thesis using new None s by (simp add: prompt_new_passphrase_def effect_simps)
  qed
qed (use assms in \<open>auto simp: resolve_new_passphrase_def effect_simps split: if_splits\<close>)

text \<open>The questions of \<open>gitway keygen generate\<close> at a terminal.\<close>

definition terminal_questions :: "string \<Rightarrow> event list set" where
  "terminal_questions path =
     (let new = Prompt (''Enter new passphrase for '' @ path @ '' (empty for none): '');
          again = Prompt ''Enter same passphrase again: ''
      in {[new], [new, again]})"

lemma prompt_new_passphrase_questions:
  "w_stderr_tty w \<Longrightarrow> runs w (prompt_new_passphrase D path) (\<lambda>r es u. filter secret_prompt es \<in> terminal_questions path)"
  unfolding prompt_new_passphrase_def prompt_password_def terminal_questions_def Let_def
  by (rule runs_let_do, rule runs_get_s) (auto intro!: runs_intros split: sum.splits)

lemma runs_questions:
  assumes "runs w m (\<lambda>r es u. filter secret_prompt es \<in> S)" and "\<And>a. adds_only (\<lambda>e. \<not> secret_prompt e) (f a)"
  shows "runs w (try_let m f) (\<lambda>r es u. filter secret_prompt es \<in> S)"
proof (rule runs_try_let, rule runs_mono[OF assms(1)])
  fix r es u
  assume es: "filter secret_prompt es \<in> S"
  have "runs u (f a) (\<lambda>b es' t. filter secret_prompt (es @ es') \<in> S)" for a
  proof (rule runs_of_traced[OF assms(2)[unfolded adds_only_traced]])
    fix b es' t
    assume "list_all (\<lambda>e. \<not> secret_prompt e) es'"
    then have "filter secret_prompt es' = []" by (simp add: filter_empty_conv list_all_iff)
    then show "filter secret_prompt (es @ es') \<in> S" using es by simp
  qed
  then show "case r of Inl e \<Rightarrow> filter secret_prompt es \<in> S
      | Inr a \<Rightarrow> runs u (f a) (\<lambda>b es' t. filter secret_prompt (es @ es') \<in> S)"
    using es by (simp split: sum.splits)
qed

lemma generate_questions:
  assumes "w_stderr_tty w" and "gen_passphrase args = None" and "\<not> gen_no_passphrase args"
  shows "runs w (keygen_run_generate D Q args mode) (\<lambda>r es u.
    if Lib (Keygen ''write_keypair'') \<in> set es then filter secret_prompt es \<in> terminal_questions (gen_file args) else True)"
proof (cases "resolve_kind (gen_kind args) (gen_bits args)")
  case (Inl e)
  then show ?thesis
    unfolding keygen_run_generate_def by (auto intro!: runs_intros)
next
  case (Inr kb)
  have resolve: "runs w (resolve_new_passphrase D (gen_file args) (gen_passphrase args) (gen_no_passphrase args))
      (\<lambda>r es u. filter secret_prompt es \<in> terminal_questions (gen_file args))"
    unfolding resolve_new_passphrase_def assms option.case
    by (simp add: assms(3)) (intro runs_questions prompt_new_passphrase_questions assms adds_if adds_ok)
  have "runs w (keygen_run_generate D Q args mode) (\<lambda>r es u. filter secret_prompt es \<in> terminal_questions (gen_file args))"
    unfolding keygen_run_generate_def
    by (rule runs_try_let, rule runs_lift_res, unfold Inr sum.case, rule runs_case_prod, unfold append_Nil,
        rule runs_let_do, rule runs_get_s, unfold append_Nil, rule runs_questions[OF resolve])
      (auto intro!: adds_intros split: output_mode.splits simp: Let_def)
  then show ?thesis by (rule runs_mono) simp
qed

text \<open>No key pair is ever written with an empty passphrase as its encryption.\<close>

lemma generate_never_empty_passphrase:
  "keygen_run_generate D (Q\<lparr>kg_write_keypair := \<lambda>key file pp.
      if pp = Some [] then other key file else kg_write_keypair Q key file pp\<rparr>) args mode
   = keygen_run_generate D Q args mode"
proof (rule ext)
  fix w
  show "keygen_run_generate D (Q\<lparr>kg_write_keypair := \<lambda>key file pp.
      if pp = Some [] then other key file else kg_write_keypair Q key file pp\<rparr>) args mode w
   = keygen_run_generate D Q args mode w"
    using resolve_new_passphrase_not_empty[of D "gen_file args" "gen_passphrase args" "gen_no_passphrase args" w]
    by (cases mode) (auto simp: keygen_run_generate_def generate_data_def effect_simps Let_def
        split: sum.splits prod.splits)
qed

section \<open>Signatures on standard output\<close>

definition goes_to_stdout :: "string option \<Rightarrow> bool" where
  "goes_to_stdout path \<longleftrightarrow> path = None \<or> path = Some ''-''"

lemma traced_write_output [traced_intros]:
  assumes "goes_to_stdout path \<Longrightarrow> Q (Inr ()) [Out (Text bytes)]"
    and "\<And>r p. path = Some p \<Longrightarrow> \<not> goes_to_stdout path \<Longrightarrow> Q r [FsWrite p]"
  shows "traced (write_output path bytes) Q"
  unfolding write_output_def using assms
  by (auto simp: goes_to_stdout_def intro!: traced_intros split: sum.splits)

lemma traced_open_input [traced_intros]:
  assumes "\<And>r es. list_all (\<lambda>e. e = StdinRead \<or> (\<exists>f. e = FsRead f)) es \<Longrightarrow> Q r es"
  shows "traced (open_input path) Q"
  unfolding open_input_def by (auto intro!: traced_intros assms split: sum.splits)

text \<open>The signature is the only thing on standard output, in JSON mode too; the record of JSON
  mode goes to standard error.\<close>

definition sign_answer :: "('x, 'g, 'k, 'p, 'a, 't) sig_ops \<Rightarrow> sign_args \<Rightarrow> payload list \<Rightarrow> bool" where
  "sign_answer Q args out \<longleftrightarrow> (\<exists>data key armored.
     ks_sign Q data key (sg_namespace args) (sg_hash args) = Inr armored
     \<and> out = (if goes_to_stdout (sg_output args) then [Text armored] else []))"

context quiet_vault
begin

lemma sign_run_stdout:
  assumes "d_vault D = V"
  shows "traced (sign_run D A Q args mode) (answers (sign_answer Q args))"
proof -
  have key: "adds_only (\<lambda>e. \<forall>j. e \<noteq> Out j) (resolve_key_path A (sg_key args))"
    unfolding resolve_key_path_def
    by (intro adds_case_option adds_ok adds_try_let adds_call)
      (auto split: identity_resolution.splits intro: adds_intros)
  have "adds_only (\<lambda>e. \<forall>j. e \<noteq> Out j) (prompt_passphrase D path)" for path
    by (rule adds_only_mono[OF prompt_passphrase_events[OF assms]]) auto
  then have load: "adds_only (\<lambda>e. \<forall>j. e \<noteq> Out j) (sign_load_and_decrypt D path)" for path
    unfolding sign_load_and_decrypt_def by (auto intro!: adds_intros)
  have input: "adds_only (\<lambda>e. \<forall>j. e \<noteq> Out j) (open_input (sg_input args))"
    unfolding open_input_def by (auto intro!: adds_intros)
  have written: "traced (case mode of
       JsonMode \<Rightarrow>
         try_let (write_output (sg_output args) armored) (\<lambda>_.
         let_do (get_s (sign_record (d_keys D) args key armored)) (\<lambda>record.
         let_do (emit (Err (Json record))) (\<lambda>_. ok 0)))
     | Human \<Rightarrow> try_let (write_output (sg_output args) armored) (\<lambda>_. ok 0)) (answers (sign_answer Q args))"
    if "ks_sign Q data key (sg_namespace args) (sg_hash args) = Inr armored" for data key armored
  proof -
    have "sign_answer Q args (if goes_to_stdout (sg_output args) then [Text armored] else [])"
      using that unfolding sign_answer_def by blast
    then show ?thesis
      by (cases mode) (auto simp: answers_def intro!: traced_intros split: sum.splits)
  qed
  show ?thesis
    unfolding sign_run_def by (intro answers_lift_res answers_step key load input written)
qed

end

section \<open>Verification\<close>

text \<open>Success is reported for a signature that the library has verified for this signer and
  namespace, and then with what the library reported.\<close>

definition verify_answer :: "('x, 'g, 'k, 'p, 'a, 't) sig_ops \<Rightarrow> verify_args \<Rightarrow> payload list \<Rightarrow> bool" where
  "verify_answer Q args out \<longleftrightarrow> (\<exists>data armored allowed v answer.
     ks_verify Q data armored (vf_signer args) (vf_namespace args) allowed = Inr v
     \<and> out = [answer]
     \<and> (case answer of Text s \<Rightarrow> suffix (vs_fingerprint v) s
        | Json j \<Rightarrow> Option.bind (jfield ''data'' j) (jfield ''fingerprint'') = Some (JStr (vs_fingerprint v))))"

lemma keygen_run_verify_stdout:
  fixes Q :: "('x, 'g, 'k, 'p, 'a, 't) sig_ops"
  shows "traced (keygen_run_verify Q args mode) (answers (verify_answer Q args))"
  unfolding keygen_run_verify_def
proof (intro answers_lift_res answers_step)
  show "adds_only (\<lambda>e. \<forall>j. e \<noteq> Out j) (open_input (vf_input args))"
    unfolding open_input_def by (auto intro!: adds_intros)
  fix data armored allowed v
  assume v: "ks_verify Q data armored (vf_signer args) (vf_namespace args) allowed = Inr v"
  have "answers (verify_answer Q args) (Inr 0) [Out answer]"
    if "case answer of Text s \<Rightarrow> suffix (vs_fingerprint v) s
       | Json j \<Rightarrow> Option.bind (jfield ''data'' j) (jfield ''fingerprint'') = Some (JStr (vs_fingerprint v))"
    for answer
    using v that unfolding answers_def verify_answer_def by auto
  then show "traced ((case mode of
       JsonMode \<Rightarrow> let_do (emit_data ''gitway keygen verify'' (JObj
           [(''verified'', JBool True),
            (''signer'', JStr (vs_principal v)),
            (''fingerprint'', JStr (vs_fingerprint v)),
            (''namespace'', JStr (vf_namespace args))])) (\<lambda>_. ok 0)
     | Human \<Rightarrow> let_do (emit_json_line (''Good '' @ quote_char @ vf_namespace args @ quote_char
           @ '' signature for '' @ vs_principal v @ '' with ssh key '' @ vs_fingerprint v))
           (\<lambda>_. ok 0)) :: ('x world, u32) eff) (answers (verify_answer Q args))"
    by (cases mode) (auto simp: emit_json_line_def suffix_def intro!: traced_intros)
qed (auto intro!: adds_intros)

end
