(* ===== verification/Keygen_Shim.thy ===== *)
theory Keygen_Shim
  imports Key_Files
begin

text \<open>
  \<open>gitway-cli/src/bin/gitway-keygen.rs\<close>: the \<open>ssh-keygen\<close> shim that Git calls, from its
  argument parser to the signing path with and without an agent. As in \<open>Gitway_Add\<close>, the
  index over the arguments becomes a recursion on the arguments not yet consumed.
\<close>

section \<open>Arguments\<close>

datatype keygen_mode = GenerateKey | PrintFingerprint | ExtractPublic | ChangePassphrase
  | SshSigSign | SshSigVerify | SshSigCheckNoValidate | SshSigFindPrincipals

record keygen_parsed =
  kp_mode :: keygen_mode
  kp_key_type :: "string option"
  kp_bits :: "u32 option"
  kp_file :: "string option"
  kp_new_passphrase :: "string option"
  kp_old_passphrase :: "string option"
  kp_comment :: "string option"
  kp_namespace :: "string option"
  kp_signer_identity :: "string option"
  kp_signature_file :: "string option"
  kp_allowed_signers :: "string option"
  kp_fingerprint_hash :: hash_kind
  kp_message_file :: "string option"

text \<open>The variables of the loop: the record under construction and the four locals.\<close>

record keygen_scan = keygen_parsed +
  ks_saw_list :: bool
  ks_saw_extract :: bool
  ks_saw_change :: bool
  ks_sshsig_op :: "string option"

definition keygen_scan_start :: keygen_scan where
  "keygen_scan_start = \<lparr>kp_mode = GenerateKey, kp_key_type = None, kp_bits = None, kp_file = None,
     kp_new_passphrase = None, kp_old_passphrase = None, kp_comment = None, kp_namespace = None,
     kp_signer_identity = None, kp_signature_file = None, kp_allowed_signers = None,
     kp_fingerprint_hash = Sha256, kp_message_file = None,
     ks_saw_list = False, ks_saw_extract = False, ks_saw_change = False, ks_sshsig_op = None\<rparr>"

definition take_value :: "string \<Rightarrow> string list \<Rightarrow> anvil_error + (string \<times> string list)" where
  "take_value flag rest = (case rest of
     [] \<Rightarrow> Inl (InvalidConfig (flag @ '' requires a value''))
   | v # rest' \<Rightarrow> Inr (v, rest'))"

definition parse_bits :: "string \<Rightarrow> anvil_error + u32" where
  "parse_bits v = (case parse_unsigned u32_max v of
     Some n \<Rightarrow> Inr (of_nat n)
   | None \<Rightarrow> Inl (InvalidConfig (''-b requires an integer, got '' @ debug_text v)))"

definition parse_fingerprint_hash :: "string \<Rightarrow> anvil_error + hash_kind" where
  "parse_fingerprint_hash v =
     (let h = to_lower v
      in if h = ''sha256'' then Inr Sha256
         else if h = ''sha512'' then Inr Sha512
         else Inl (InvalidConfig (''-E requires sha256 or sha512, got '' @ debug_text h)))"

definition packed_option :: "string \<Rightarrow> bool" where
  "packed_option a = (case strip_prefix ''-O'' a of Some r \<Rightarrow> r \<noteq> [] | None \<Rightarrow> False)"

definition with_value ::
  "string \<Rightarrow> string list \<Rightarrow> (string \<Rightarrow> anvil_error + keygen_scan)
   \<Rightarrow> anvil_error + (keygen_scan \<times> string list)" where
  "with_value flag rest f = (case take_value flag rest of
     Inl e \<Rightarrow> Inl e
   | Inr (v, rest') \<Rightarrow> (case f v of Inl e \<Rightarrow> Inl e | Inr p \<Rightarrow> Inr (p, rest')))"

definition keygen_step ::
  "string \<Rightarrow> string list \<Rightarrow> keygen_scan \<Rightarrow> anvil_error + (keygen_scan \<times> string list)" where
  "keygen_step a rest p =
     (if a = ''-t'' then with_value ''-t'' rest (\<lambda>v. Inr (p\<lparr>kp_key_type := Some v\<rparr>))
      else if a = ''-b'' then with_value ''-b'' rest (\<lambda>v. case parse_bits v of
          Inl e \<Rightarrow> Inl e | Inr n \<Rightarrow> Inr (p\<lparr>kp_bits := Some n\<rparr>))
      else if a = ''-f'' then with_value ''-f'' rest (\<lambda>v. Inr (p\<lparr>kp_file := Some v\<rparr>))
      else if a = ''-N'' then with_value ''-N'' rest (\<lambda>v. Inr (p\<lparr>kp_new_passphrase := Some v\<rparr>))
      else if a = ''-P'' then with_value ''-P'' rest (\<lambda>v. Inr (p\<lparr>kp_old_passphrase := Some v\<rparr>))
      else if a = ''-C'' then with_value ''-C'' rest (\<lambda>v. Inr (p\<lparr>kp_comment := Some v\<rparr>))
      else if a = ''-n'' then with_value ''-n'' rest (\<lambda>v. Inr (p\<lparr>kp_namespace := Some v\<rparr>))
      else if a = ''-I'' then with_value ''-I'' rest (\<lambda>v. Inr (p\<lparr>kp_signer_identity := Some v\<rparr>))
      else if a = ''-s'' then with_value ''-s'' rest (\<lambda>v. Inr (p\<lparr>kp_signature_file := Some v\<rparr>))
      else if a = ''-l'' then Inr (p\<lparr>ks_saw_list := True\<rparr>, rest)
      else if a = ''-y'' then Inr (p\<lparr>ks_saw_extract := True\<rparr>, rest)
      else if a = ''-p'' then Inr (p\<lparr>ks_saw_change := True\<rparr>, rest)
      else if a = ''-E'' then with_value ''-E'' rest (\<lambda>v. case parse_fingerprint_hash v of
          Inl e \<Rightarrow> Inl e | Inr h \<Rightarrow> Inr (p\<lparr>kp_fingerprint_hash := h\<rparr>))
      else if a = ''-Y'' then with_value ''-Y'' rest (\<lambda>v. Inr (p\<lparr>ks_sshsig_op := Some v\<rparr>))
      else if a = ''--allowed-signers'' then
        with_value ''--allowed-signers'' rest (\<lambda>v. Inr (p\<lparr>kp_allowed_signers := Some v\<rparr>))
      else if packed_option a then Inr (p, rest)
      else if a = ''-O'' then with_value ''-O'' rest (\<lambda>_. Inr p)
      else if a \<in> {''-q'', ''-v'', ''-vv'', ''-vvv''} then Inr (p, rest)
      else if a = ''--'' then Inr (p, [])
      else if prefix ''-'' a then Inl (InvalidConfig (''unsupported flag: '' @ a))
      else if kp_message_file p = None then Inr (p\<lparr>kp_message_file := Some a\<rparr>, rest)
      else if kp_file p = None then Inr (p\<lparr>kp_file := Some a\<rparr>, rest)
      else Inr (p, rest))"

lemma with_value_shorter: "with_value flag rest f = Inr (p, rest') \<Longrightarrow> length rest' < length rest"
  by (auto simp: with_value_def take_value_def split: list.splits sum.splits)

lemma keygen_step_shorter [termination_simp]:
  "keygen_step a rest p = Inr (p', rest') \<Longrightarrow> length rest' < Suc (length rest)"
  unfolding keygen_step_def
  by (auto dest!: with_value_shorter split: if_split_asm)

fun keygen_scan_args :: "string list \<Rightarrow> keygen_scan \<Rightarrow> anvil_error + keygen_scan" where
  "keygen_scan_args [] p = Inr p"
| "keygen_scan_args (a # rest) p = (case keygen_step a rest p of
     Inl e \<Rightarrow> Inl e
   | Inr (p', rest') \<Rightarrow> keygen_scan_args rest' p')"

definition sshsig_mode :: "string \<Rightarrow> anvil_error + keygen_mode" where
  "sshsig_mode op =
     (if op = ''sign'' then Inr SshSigSign
      else if op = ''verify'' then Inr SshSigVerify
      else if op = ''check-novalidate'' then Inr SshSigCheckNoValidate
      else if op = ''find-principals'' then Inr SshSigFindPrincipals
      else Inl (InvalidConfig (''-Y requires sign|verify|check-novalidate|find-principals, got ''
        @ debug_text op)))"

definition keygen_from_args :: "string list \<Rightarrow> anvil_error + keygen_parsed" where
  "keygen_from_args args = (case keygen_scan_args args keygen_scan_start of
     Inl e \<Rightarrow> Inl e
   | Inr p \<Rightarrow>
       (case (case ks_sshsig_op p of
           Some op \<Rightarrow> sshsig_mode op
         | None \<Rightarrow> Inr (if ks_saw_list p then PrintFingerprint
                       else if ks_saw_extract p then ExtractPublic
                       else if ks_saw_change p then ChangePassphrase
                       else GenerateKey)) of
         Inl e \<Rightarrow> Inl e
       | Inr m \<Rightarrow> Inr (keygen_parsed.truncate (p\<lparr>kp_mode := m\<rparr>))))"

section \<open>Helpers\<close>

definition parse_kind :: "string \<Rightarrow> u32 option \<Rightarrow> anvil_error + key_type" where
  "parse_kind s bits =
     (let t = to_lower s
      in if t = ''ed25519'' then Inr KtEd25519
         else if t = ''rsa'' then Inr KtRsa
         else if t = ''ecdsa'' then
           (let n = (case bits of Some b \<Rightarrow> b | None \<Rightarrow> 256)
            in if n = 256 then Inr KtEcdsaP256
               else if n = 384 then Inr KtEcdsaP384
               else if n = 521 then Inr KtEcdsaP521
               else Inl (InvalidConfig (''ECDSA requires -b 256|384|521, got '' @ show_nat (unat n))))
         else Inl (InvalidConfig (''unsupported key type: '' @ t)))"

definition load_public_key :: "('k, 'p) ssh_key_ops \<Rightarrow> string \<Rightarrow> ('x world, 'p) eff" where
  "load_public_key K path =
     try_let (read_to_string_q path) (\<lambda>raw.
     lift_res (parse_public_or_private K ''cannot parse key: '' raw))"

definition resolve_signing_key_path :: "('k, 'p) ssh_key_ops \<Rightarrow> string \<Rightarrow> ('x world, string) eff" where
  "resolve_signing_key_path K path = let_do (read_to_string path) (\<lambda>r. case r of
       Inl e \<Rightarrow> if io_kind_of e = IoNotFound then fail NoKeyFound else fail (Io e)
     | Inr raw \<Rightarrow>
         if \<not> isl (sk_from_openssh K raw) then ok path
         else if \<not> isl (pk_from_openssh K (trim raw)) then
           (case strip_suffix ''.pub'' path of
              Some candidate \<Rightarrow> let_do (path_exists candidate) (\<lambda>present.
                if present then ok candidate
                else fail (InvalidConfig (''public-key path '' @ path
                  @ '' given for signing, but no private key found at '' @ candidate
                  @ ''; load the key into an agent (phase 2) or pass the private-key path directly'')))
            | None \<Rightarrow> fail (InvalidConfig (''public-key path '' @ path
                @ '' given for signing, but does not end in `.pub`; cannot locate the matching private key'')))
         else fail (InvalidConfig (''file '' @ path @ '' is neither a private nor public OpenSSH key'')))"

definition passphrase_prompt_failed :: "string \<Rightarrow> io_error \<Rightarrow> anvil_error" where
  "passphrase_prompt_failed key_path e =
     (let root = (if raw_os_error e = Some 6 then ''no terminal attached''
                  else ''cannot read from the terminal'')
      in WithHint
        (InvalidConfig (''cannot prompt for the passphrase to decrypt '' @ key_path @ '': '' @ root
          @ '' ('' @ io_text e @ '')''))
        (''This is normal when git is invoked by an IDE, systemd, CI, or any non-interactive shell. Either load the key into the agent so gitway never needs the passphrase (`gitway-add ''
          @ key_path @ ''`), or set SSH_ASKPASS to a GUI passphrase helper such as ksshaskpass or ssh-askpass-gnome so the prompt opens a dialog.''))"

definition shim_load_and_decrypt ::
  "('x, 'k, 'p) deps \<Rightarrow> string \<Rightarrow> string option \<Rightarrow> ('x world, 'k) eff" where
  "shim_load_and_decrypt D path old_pp =
     try_let (read_to_string_q path) (\<lambda>pem.
     try_let (map_err (\<lambda>e. InvalidConfig (''cannot parse key: '' @ e))
        (lift_res (sk_from_openssh (d_keys D) pem))) (\<lambda>key.
     if \<not> sk_is_encrypted (d_keys D) key then ok key
     else try_let (case old_pp of
         Some s \<Rightarrow> ok s
       | None \<Rightarrow> map_err (passphrase_prompt_failed path)
           (prompt_password (d_ask D) (''Enter passphrase for '' @ path @ '': ''))) (\<lambda>pp.
       map_err (\<lambda>e. Signing (''decrypt failed: '' @ e)) (lift_res (sk_decrypt (d_keys D) key pp)))))"

definition usize_max :: nat where "usize_max = 18446744073709551615"

text \<open>\<open>u32::try_from(bytes.saturating_mul(8)).ok()\<close>.\<close>

definition rsa_modulus_bits :: "('x, 'g, 'k, 'p, 'a, 't) sig_ops \<Rightarrow> 'p \<Rightarrow> u32 option" where
  "rsa_modulus_bits Q pk = (case ks_rsa_modulus_bytes Q pk of
     None \<Rightarrow> None
   | Some bytes \<Rightarrow>
       (let bits = min (bytes * 8) usize_max
        in if bits \<le> u32_max then Some (of_nat bits) else None))"

definition public_bit_estimate :: "('x, 'g, 'k, 'p, 'a, 't) sig_ops \<Rightarrow> 'p \<Rightarrow> u32" where
  "public_bit_estimate Q pk = (case ks_public_alg Q pk of
     PubEd25519 \<Rightarrow> 256
   | PubEcdsaP256 \<Rightarrow> 256
   | PubEcdsaP384 \<Rightarrow> 384
   | PubEcdsaP521 \<Rightarrow> 521
   | PubRsa \<Rightarrow> (case rsa_modulus_bits Q pk of Some b \<Rightarrow> b | None \<Rightarrow> 0)
   | PubOther \<Rightarrow> 0)"

definition required :: "'v option \<Rightarrow> string \<Rightarrow> ('s, 'v) eff" where
  "required v message = lift_res (case v of Some a \<Rightarrow> Inr a | None \<Rightarrow> Inl (InvalidConfig message))"

definition non_empty :: "string \<Rightarrow> string option" where
  "non_empty pp = (if pp = [] then None else Some pp)"

section \<open>Generating and inspecting keys\<close>

definition shim_run_generate ::
  "('x, 'k, 'p) deps \<Rightarrow> ('x, 'g, 'k, 'p, 'a, 't) sig_ops \<Rightarrow> keygen_parsed \<Rightarrow> ('x world, u32) eff" where
  "shim_run_generate D Q p =
     try_let (required (kp_file p) ''-f FILE is required'') (\<lambda>file.
     try_let (lift_res (parse_kind (case kp_key_type p of Some t \<Rightarrow> t | None \<Rightarrow> ''ed25519'') (kp_bits p))) (\<lambda>kind.
     let_do (get_s (\<lambda>w. case kp_comment p of Some c \<Rightarrow> c | None \<Rightarrow> default_comment w)) (\<lambda>comment.
     try_let (case kp_new_passphrase p of
         Some s \<Rightarrow> ok (non_empty s)
       | None \<Rightarrow>
           try_let (map_err Io (prompt_password (d_ask D)
              (''Enter passphrase (empty for none) for '' @ file @ '': ''))) (\<lambda>pp. ok (non_empty pp))) (\<lambda>passphrase.
     try_let (call (Lib (Keygen ''generate'')) (kg_generate Q kind (kp_bits p) comment)) (\<lambda>key.
     try_let (call (Lib (Keygen ''write_keypair'')) (kg_write_keypair Q key file passphrase)) (\<lambda>_.
     let_do (print_lines
        [''Your identification has been saved in '' @ file,
         ''Your public key has been saved in '' @ file @ ''.pub'',
         ''The key fingerprint is:'',
         pk_anvil_fingerprint (d_keys D) (sk_public (d_keys D) key) Sha256 @ '' '' @ comment]) (\<lambda>_.
     ok 0)))))))"

text \<open>The shim asks once at most, and never writes a key pair with an empty passphrase as its
  encryption.\<close>

lemma shim_generate_asks_once:
  "traced (shim_run_generate D Q p) (\<lambda>r es. length (filter secret_prompt es) \<le> 1)"
proof -
  have lines: "traced (print_lines ls) (\<lambda>r es. filter secret_prompt es = [])" for ls
    by (rule traced_adds_only[where P = "\<lambda>e. \<not> secret_prompt e"])
      (auto intro!: adds_intros simp: filter_empty_conv list_all_iff)
  show ?thesis
    unfolding shim_run_generate_def required_def prompt_password_def
    by (auto intro!: traced_intros traced_mono[OF lines] split: sum.splits option.splits)
qed

lemma shim_generate_never_empty_passphrase:
  "shim_run_generate D (Q\<lparr>kg_write_keypair := \<lambda>key file pp.
      if pp = Some [] then other key file else kg_write_keypair Q key file pp\<rparr>) p
   = shim_run_generate D Q p"
  by (rule ext) (auto simp: shim_run_generate_def required_def non_empty_def effect_simps Let_def
      split: sum.splits prod.splits option.splits)

definition shim_run_fingerprint ::
  "('k, 'p) ssh_key_ops \<Rightarrow> ('x, 'g, 'k, 'p, 'a, 't) sig_ops \<Rightarrow> keygen_parsed \<Rightarrow> ('x world, u32) eff" where
  "shim_run_fingerprint K Q p =
     try_let (required (kp_file p) ''-f FILE is required'') (\<lambda>file.
     try_let (load_public_key K file) (\<lambda>public.
     let_do (println (show_nat (unat (public_bit_estimate Q public)) @ '' ''
        @ pk_anvil_fingerprint K public (kp_fingerprint_hash p) @ '' '' @ pk_comment K public @ '' (''
        @ to_upper (pk_algorithm K public) @ '')'')) (\<lambda>_.
     ok 0)))"

definition shim_run_extract_public ::
  "('x, 'k, 'p) deps \<Rightarrow> keygen_parsed \<Rightarrow> ('x world, u32) eff" where
  "shim_run_extract_public D p =
     try_let (required (kp_file p) ''-f FILE is required'') (\<lambda>file.
     try_let (read_to_string_q file) (\<lambda>pem.
     try_let (map_err (\<lambda>e. InvalidConfig (''cannot parse key: '' @ e))
        (lift_res (sk_from_openssh (d_keys D) pem))) (\<lambda>key.
     try_let (if sk_is_encrypted (d_keys D) key then
         try_let (case kp_old_passphrase p of
             Some s \<Rightarrow> ok s
           | None \<Rightarrow> map_err Io (prompt_password (d_ask D) (''Enter passphrase for '' @ file @ '': ''))) (\<lambda>pp.
         map_err (\<lambda>e. Signing (''decrypt failed: '' @ e)) (lift_res (sk_decrypt (d_keys D) key pp)))
       else ok key) (\<lambda>key.
     try_let (map_err (\<lambda>e. Signing (''serialize failed: '' @ e))
        (lift_res (pk_to_openssh (d_keys D) (sk_public (d_keys D) key)))) (\<lambda>public_line.
     let_do (println public_line) (\<lambda>_. ok 0))))))"

definition shim_run_change_passphrase ::
  "('x, 'k, 'p) deps \<Rightarrow> ('x, 'g, 'k, 'p, 'a, 't) sig_ops \<Rightarrow> keygen_parsed \<Rightarrow> ('x world, u32) eff" where
  "shim_run_change_passphrase D Q p =
     try_let (required (kp_file p) ''-f FILE is required'') (\<lambda>file.
     try_let (case kp_old_passphrase p of
         Some s \<Rightarrow> ok s
       | None \<Rightarrow> map_err Io (prompt_password (d_ask D) (''Enter old passphrase for '' @ file @ '': ''))) (\<lambda>old.
     try_let (case kp_new_passphrase p of
         Some s \<Rightarrow> ok (non_empty s)
       | None \<Rightarrow>
           try_let (map_err Io (prompt_password (d_ask D) ''Enter new passphrase (empty for none): '')) (\<lambda>pp.
           ok (non_empty pp))) (\<lambda>new.
     try_let (call (Lib (Keygen ''change_passphrase'')) (kg_change_passphrase Q file (Some old) new)) (\<lambda>_.
     let_do (println ''Your identification has been saved with the new passphrase.'') (\<lambda>_. ok 0)))))"

section \<open>Signing\<close>

definition load_public_key_for_signing :: "('k, 'p) ssh_key_ops \<Rightarrow> string \<Rightarrow> ('x world, 'p) eff" where
  "load_public_key_for_signing K path =
     try_let (map_err (\<lambda>e. if io_kind_of e = IoNotFound then NoKeyFound else Io e) (read_to_string path)) (\<lambda>raw.
     case pk_from_openssh K raw of
       Inr pk \<Rightarrow> ok pk
     | Inl _ \<Rightarrow>
         try_let (resolve_signing_key_path K path) (\<lambda>priv_path.
         try_let (read_to_string_q priv_path) (\<lambda>priv_raw.
         try_let (map_err (\<lambda>e. InvalidConfig (''cannot parse signing key: '' @ e))
            (lift_res (sk_from_openssh K priv_raw))) (\<lambda>privkey.
         ok (sk_public K privkey)))))"

definition agent_socket_set :: "'x world \<Rightarrow> bool" where
  "agent_socket_set w = (case var_os w ''SSH_AUTH_SOCK'' of None \<Rightarrow> False | Some v \<Rightarrow> v \<noteq> [])"

definition try_sign_via_agent ::
  "('k, 'p) ssh_key_ops \<Rightarrow> ('x, 'g, 'k, 'p) agent_ops \<Rightarrow> ('x, 'g, 'k, 'p, 'a, 't) sig_ops
   \<Rightarrow> string \<Rightarrow> string \<Rightarrow> string \<Rightarrow> ('x world, string option) eff" where
  "try_sign_via_agent K G Q key_path data ns =
     let_do (get_s agent_socket_set) (\<lambda>sock.
     if \<not> sock then ok None
     else let_do (load_public_key_for_signing K key_path) (\<lambda>pubkey. case pubkey of
       Inl _ \<Rightarrow> ok None
     | Inr pubkey \<Rightarrow> let_do (call (Agent AgConnect) (ag_from_env G)) (\<lambda>agent. case agent of
       Inl _ \<Rightarrow> ok None
     | Inr agent \<Rightarrow> let_do (call (Agent AgList) (ag_list G agent)) (\<lambda>identities. case identities of
       Inl _ \<Rightarrow> ok None
     | Inr identities \<Rightarrow>
         (let want = pk_fingerprint K pubkey Sha256
          in if \<not> list_ex (\<lambda>i. ai_fingerprint i = want) identities then ok None
             else try_let (call (Agent AgSign) (ks_sign_with_agent Q data agent pubkey ns Sha512)) (\<lambda>armored.
                  ok (Some armored)))))))"

definition write_sig_output :: "string \<Rightarrow> string option \<Rightarrow> ('x world, u32) eff" where
  "write_sig_output armored sig_out = (case sig_out of
     Some path \<Rightarrow> try_let (map_err Io (write_file path armored)) (\<lambda>_. ok 0)
   | None \<Rightarrow> let_do (emit (Out (Text armored))) (\<lambda>_. ok 0))"

definition sign_input :: "string option \<Rightarrow> ('x world, string \<times> string option) eff" where
  "sign_input message_file = (case message_file of
     Some msg \<Rightarrow> try_let (map_err Io (read_bytes msg)) (\<lambda>bytes. ok (bytes, Some (msg @ ''.sig'')))
   | None \<Rightarrow> let_do read_stdin (\<lambda>bytes. ok (bytes, None)))"

text \<open>The second half of \<open>run_sign\<close>: the private key on disk, when no agent has signed.\<close>

definition sign_with_key_file ::
  "('x, 'k, 'p) deps \<Rightarrow> ('x, 'g, 'k, 'p, 'a, 't) sig_ops \<Rightarrow> keygen_parsed
   \<Rightarrow> string \<Rightarrow> string \<Rightarrow> string \<Rightarrow> string option \<Rightarrow> ('x world, u32) eff" where
  "sign_with_key_file D Q p file ns data sig_out =
     try_let (resolve_signing_key_path (d_keys D) file) (\<lambda>key_file.
     try_let (shim_load_and_decrypt D key_file (kp_old_passphrase p)) (\<lambda>key.
     try_let (map_err (\<lambda>e. Signing (''sshsig sign failed: '' @ e))
        (lift_res (ks_raw_sign Q key ns Sha512 data))) (\<lambda>sig.
     try_let (map_err (\<lambda>e. Signing (''armor failed: '' @ e)) (lift_res (ks_to_pem Q sig))) (\<lambda>armored.
     write_sig_output armored sig_out))))"

definition shim_run_sign ::
  "('x, 'k, 'p) deps \<Rightarrow> ('x, 'g, 'k, 'p) agent_ops \<Rightarrow> ('x, 'g, 'k, 'p, 'a, 't) sig_ops
   \<Rightarrow> keygen_parsed \<Rightarrow> ('x world, u32) eff" where
  "shim_run_sign D G Q p =
     try_let (required (kp_file p) ''-f FILE is required for -Y sign'') (\<lambda>file.
     try_let (required (kp_namespace p) ''-n NAMESPACE is required for -Y sign'') (\<lambda>ns.
     try_let (sign_input (kp_message_file p)) (\<lambda>(data, sig_out).
     try_let (try_sign_via_agent (d_keys D) G Q file data ns) (\<lambda>via_agent. case via_agent of
       Some armored \<Rightarrow> write_sig_output armored sig_out
     | None \<Rightarrow> sign_with_key_file D Q p file ns data sig_out))))"

section \<open>Verifying\<close>

definition allowed_path :: "keygen_parsed \<Rightarrow> string option" where
  "allowed_path p = (case kp_allowed_signers p of Some a \<Rightarrow> Some a | None \<Rightarrow> kp_file p)"

definition shim_run_verify ::
  "('x, 'g, 'k, 'p, 'a, 't) sig_ops \<Rightarrow> keygen_parsed \<Rightarrow> ('x world, u32) eff" where
  "shim_run_verify Q p =
     try_let (required (kp_namespace p) ''-n NAMESPACE is required'') (\<lambda>ns.
     try_let (required (kp_signer_identity p) ''-I IDENTITY is required'') (\<lambda>signer.
     try_let (required (kp_signature_file p) ''-s SIG is required'') (\<lambda>sig_path.
     try_let (required (allowed_path p) ''-f or --allowed-signers is required'') (\<lambda>allowed_file.
     try_let (read_to_string_q sig_path) (\<lambda>armored.
     try_let (call (Lib (Sshsig ''load_allowed'')) (ks_load_allowed Q allowed_file)) (\<lambda>allowed.
     let_do read_stdin (\<lambda>data.
     try_let (lift_res (ks_verify Q data armored signer ns allowed)) (\<lambda>verified.
     let_do (println (''Good '' @ quote_char @ ns @ quote_char @ '' signature for '' @ signer
        @ '' with ssh key '' @ vs_fingerprint verified)) (\<lambda>_.
     ok 0)))))))))"

definition shim_run_check_novalidate ::
  "('x, 'g, 'k, 'p, 'a, 't) sig_ops \<Rightarrow> keygen_parsed \<Rightarrow> ('x world, u32) eff" where
  "shim_run_check_novalidate Q p =
     try_let (required (kp_namespace p) ''-n NAMESPACE is required'') (\<lambda>ns.
     try_let (required (kp_signature_file p) ''-s SIG is required'') (\<lambda>sig_path.
     try_let (read_to_string_q sig_path) (\<lambda>armored.
     let_do read_stdin (\<lambda>data.
     try_let (lift_res (ks_check_novalidate Q data armored ns)) (\<lambda>_.
     let_do (println (''Good '' @ quote_char @ ns @ quote_char
        @ '' signature (cryptographic check only)'')) (\<lambda>_.
     ok 0))))))"

definition shim_run_find_principals ::
  "('x, 'g, 'k, 'p, 'a, 't) sig_ops \<Rightarrow> keygen_parsed \<Rightarrow> ('x world, u32) eff" where
  "shim_run_find_principals Q p =
     try_let (required (kp_signature_file p) ''-s SIG is required'') (\<lambda>sig_path.
     try_let (required (allowed_path p) ''-f or --allowed-signers is required'') (\<lambda>allowed_file.
     try_let (read_to_string_q sig_path) (\<lambda>armored.
     try_let (call (Lib (Sshsig ''load_allowed'')) (ks_load_allowed Q allowed_file)) (\<lambda>allowed.
     try_let (lift_res (case kp_namespace p of
         Some ns \<Rightarrow> ks_find_principals Q armored allowed ns
       | None \<Rightarrow> ks_find_principals_any_ns Q armored allowed)) (\<lambda>principals.
     let_do (print_lines principals) (\<lambda>_. ok 0))))))"

section \<open>The program\<close>

definition keygen_help_text :: string where
  "keygen_help_text = join [newline]
     [''gitway-keygen '' @ em_dash @ '' ssh-keygen-compatible shim for git'' @ [CHR 0x27] @ ''s gpg.ssh.program slot'',
      [],
      ''Usage: gitway-keygen [OPTIONS]'',
      [],
      ''Key generation / inspection:'',
      ''  -t TYPE              Algorithm: ed25519 | ecdsa | rsa'',
      ''  -b BITS              RSA size or ECDSA curve'',
      ''  -f FILE              Output / input key path'',
      ''  -N PP                New passphrase ('' @ [CHR 0x27, CHR 0x27] @ '' = unencrypted)'',
      ''  -P PP                Old passphrase'',
      ''  -C CMT               Comment'',
      ''  -l                   Print the fingerprint of -f FILE'',
      ''  -y                   Print the public key from the private key at -f FILE'',
      ''  -p                   Change the passphrase of the key at -f FILE'',
      ''  -E sha256|sha512     Fingerprint hash'',
      [],
      ''SSHSIG (git commit / tag signing):'',
      ''  -Y sign              Produce an SSHSIG over stdin to stdout'',
      ''  -Y verify            Verify an SSHSIG against an allowed-signers file'',
      ''  -Y check-novalidate  Verify SSHSIG shape only'',
      ''  -Y find-principals   Find principals in allowed-signers for an SSHSIG'',
      ''  -n NAMESPACE         SSHSIG namespace (git uses '' @ [CHR 0x27] @ ''git'' @ [CHR 0x27] @ '')'',
      ''  -I IDENTITY          Signer identity for verify'',
      ''  -s SIG               Signature file for verify'',
      [],
      ''  --help, -?           Show this help and exit'',
      [],
      ''For the ergonomic native UX (subcommand verbs and --json), use `gitway keygen`.'']"

fun keygen_dispatch ::
  "('x, 'k, 'p) deps \<Rightarrow> ('x, 'g, 'k, 'p) agent_ops \<Rightarrow> ('x, 'g, 'k, 'p, 'a, 't) sig_ops
   \<Rightarrow> keygen_parsed \<Rightarrow> keygen_mode \<Rightarrow> ('x world, u32) eff" where
  "keygen_dispatch D G Q p GenerateKey = shim_run_generate D Q p"
| "keygen_dispatch D G Q p PrintFingerprint = shim_run_fingerprint (d_keys D) Q p"
| "keygen_dispatch D G Q p ExtractPublic = shim_run_extract_public D p"
| "keygen_dispatch D G Q p ChangePassphrase = shim_run_change_passphrase D Q p"
| "keygen_dispatch D G Q p SshSigSign = shim_run_sign D G Q p"
| "keygen_dispatch D G Q p SshSigVerify = shim_run_verify Q p"
| "keygen_dispatch D G Q p SshSigCheckNoValidate = shim_run_check_novalidate Q p"
| "keygen_dispatch D G Q p SshSigFindPrincipals = shim_run_find_principals Q p"

definition gitway_keygen_run ::
  "('x, 'k, 'p) deps \<Rightarrow> ('x, 'g, 'k, 'p) agent_ops \<Rightarrow> ('x, 'g, 'k, 'p, 'a, 't) sig_ops
   \<Rightarrow> string list \<Rightarrow> ('x world, u32) eff" where
  "gitway_keygen_run D G Q args =
     (if list_ex (\<lambda>a. a \<in> {''--help'', ''-?''}) args then
        let_do (println keygen_help_text) (\<lambda>_. ok 0)
      else
        try_let (lift_res (keygen_from_args args)) (\<lambda>p. keygen_dispatch D G Q p (kp_mode p)))"

definition keygen_exit_u8 :: "u32 \<Rightarrow> u8" where
  "keygen_exit_u8 code = (if unat code \<le> 255 then ucast code else 1)"

definition gitway_keygen_main ::
  "('x, 'k, 'p) deps \<Rightarrow> ('x, 'g, 'k, 'p) agent_ops \<Rightarrow> ('x, 'g, 'k, 'p, 'a, 't) sig_ops
   \<Rightarrow> ('x, 'c, 's) anvil_ops \<Rightarrow> string list \<Rightarrow> 'x world \<Rightarrow> u8 \<times> 'x world" where
  "gitway_keygen_main D G Q A args =
     let_do (gitway_keygen_run D G Q args) (\<lambda>r. case r of
       Inr code \<Rightarrow> ret (keygen_exit_u8 code)
     | Inl e \<Rightarrow>
         let_do (eprintln (''gitway-keygen: error: '' @ er_text A e)) (\<lambda>_.
         let_do (eprintln (''gitway-keygen: what to do: '' @ er_hint A e)) (\<lambda>_.
         let_do (eprintln (an_emit_diagnostic A e [])) (\<lambda>_.
         ret (keygen_exit_u8 (er_exit_code A e))))))"

section \<open>Laws of the argument parser\<close>

text \<open>Options that the shim ignores leave no mark on what was parsed.\<close>

definition ignored_option :: "string \<Rightarrow> bool" where
  "ignored_option a \<longleftrightarrow> packed_option a \<or> a \<in> {''-q'', ''-v'', ''-vv'', ''-vvv''}"

lemma packed_option_cases: "packed_option a \<Longrightarrow> \<exists>c r. a = CHR ''-'' # CHR ''O'' # c # r"
  by (auto simp: packed_option_def strip_prefix_Some_iff neq_Nil_conv split: option.splits)

lemma packed_option_step: "packed_option a \<Longrightarrow> keygen_step a rest p = Inr (p, rest)"
  using packed_option_cases[of a] unfolding keygen_step_def by fastforce

lemma ignored_option_step:
  assumes "ignored_option a"
  shows "keygen_step a rest p = Inr (p, rest)"
proof (cases "packed_option a")
  case False
  then have "a \<in> {''-q'', ''-v'', ''-vv'', ''-vvv''}"
    using assms by (simp add: ignored_option_def)
  then show ?thesis
    by (elim insertE emptyE) (simp_all add: keygen_step_def packed_option_def strip_prefix_def)
qed (rule packed_option_step)

section \<open>Laws of the signing path\<close>

lemma resolve_signing_key_path_result:
  assumes "resolve_signing_key_path K path w = (Inr q, w')"
  obtains raw where "read_text_at (w_fs w) path = Inr raw"
    and "q = path \<and> \<not> isl (sk_from_openssh K raw)
      \<or> path = q @ ''.pub'' \<and> w_fs w q \<noteq> None \<and> \<not> isl (pk_from_openssh K (trim raw))"
  using assms
  by (auto simp: resolve_signing_key_path_def read_to_string_def path_exists_def effect_simps
      strip_suffix_Some_iff split: sum.splits if_splits option.splits)

lemma adds_resolve_signing_key_path [adds_intros]:
  "P (FsRead path) \<Longrightarrow> adds_only P (resolve_signing_key_path K path)"
  unfolding resolve_signing_key_path_def by (auto intro!: adds_intros)

lemma traced_required [traced_intros]: "(\<And>r. Q r []) \<Longrightarrow> traced (required v m) Q"
  unfolding required_def by (intro traced_lift_res) simp

lemma traced_required_then:
  "(\<And>a. traced (f a) Q) \<Longrightarrow> Q (Inl (InvalidConfig m)) [] \<Longrightarrow> traced (try_let (required v m) f) Q"
  by (cases v) (auto simp: required_def traced_def effect_simps)

lemma adds_required [adds_intros]: "adds_only P (required v m)"
  unfolding required_def by (rule adds_lift_res)

text \<open>The attempt with the agent asks nobody for a passphrase and writes nothing, and it ends
  with the agent's signature or with no call to sign at all.\<close>

definition agent_attempt_event :: "event \<Rightarrow> bool" where
  "agent_attempt_event e \<longleftrightarrow> (\<exists>p. e = FsRead p) \<or> e \<in> Agent ` {AgConnect, AgList, AgSign}"

lemma load_public_key_for_signing_events:
  "adds_only (\<lambda>e. \<exists>p. e = FsRead p) (load_public_key_for_signing K path)"
  unfolding load_public_key_for_signing_def by (auto intro!: adds_intros)

lemma try_sign_via_agent_events:
  "traced (try_sign_via_agent K G Q path data ns) (\<lambda>r es. list_all agent_attempt_event es
     \<and> (r = Inr None \<longrightarrow> Agent AgSign \<notin> set es) \<and> ((\<exists>s. r = Inr (Some s)) \<longrightarrow> Agent AgSign \<in> set es))"
proof -
  have load: "traced (load_public_key_for_signing K path) R"
    if "\<And>r es. list_all agent_attempt_event es \<Longrightarrow> Agent AgSign \<notin> set es \<Longrightarrow> R r es" for R
    by (rule traced_adds_only[OF load_public_key_for_signing_events])
      (auto intro!: that simp: list_all_iff agent_attempt_event_def)
  show ?thesis
    unfolding try_sign_via_agent_def Let_def
    by (intro traced_intros load)
      (auto simp: agent_attempt_event_def split: sum.splits intro!: traced_intros)
qed

interpretation shim_pub: public_loader K "load_public_key K" for K :: "('k, 'p) ssh_key_ops"
  by (rule public_loader_of_parse) (simp add: load_public_key_def)

text \<open>Where a signature goes, and what else a signing run does.\<close>

definition output_event :: "event \<Rightarrow> bool" where
  "output_event e \<longleftrightarrow> (\<exists>j. e = Out j) \<or> (\<exists>f. e = FsWrite f)"

definition signature_target :: "keygen_parsed \<Rightarrow> event \<Rightarrow> bool" where
  "signature_target p e \<longleftrightarrow> (case kp_message_file p of
     Some msg \<Rightarrow> e = FsWrite (msg @ ''.sig'')
   | None \<Rightarrow> \<exists>s. e = Out (Text s))"

lemma output_event_simps [simp]:
  "output_event (Out j)" "output_event (FsWrite f)" "\<not> output_event (FsRead f)"
  "\<not> output_event StdinRead" "\<not> output_event (Agent c)" "\<not> output_event (Prompt s)"
  by (simp_all add: output_event_def)

lemma traced_sign_input:
  assumes Q: "\<And>r es. list_all (\<lambda>e. e = StdinRead \<or> (\<exists>f. e = FsRead f)) es \<Longrightarrow>
    (\<And>d out. r = Inr (d, out) \<Longrightarrow> out = map_option (\<lambda>m. m @ ''.sig'') msg) \<Longrightarrow> Q r es"
  shows "traced (sign_input msg) Q"
  unfolding sign_input_def by (auto intro!: traced_intros Q split: sum.splits)

lemma traced_write_sig_output:
  assumes Q: "\<And>r e. signature_target p e \<Longrightarrow> (\<And>c. r = Inr c \<Longrightarrow> c = 0) \<Longrightarrow>
    (\<And>j. e = Out j \<Longrightarrow> \<not> isl r) \<Longrightarrow> Q r [e]"
  shows "traced (write_sig_output armored (map_option (\<lambda>m. m @ ''.sig'') (kp_message_file p))) Q"
  unfolding write_sig_output_def
  by (cases "kp_message_file p")
    (auto simp: signature_target_def intro!: traced_intros Q split: sum.splits)

lemma shim_load_and_decrypt_events:
  "adds_only (\<lambda>e. (\<exists>f. e = FsRead f) \<or> secret_prompt e) (shim_load_and_decrypt D path old)"
  unfolding shim_load_and_decrypt_def by (auto intro!: adds_intros)

definition sign_outputs :: "keygen_parsed \<Rightarrow> anvil_error + u32 \<Rightarrow> event list \<Rightarrow> bool" where
  "sign_outputs p r es \<longleftrightarrow> (case r of
     Inl _ \<Rightarrow> \<not> (\<exists>j. Out j \<in> set es)
   | Inr c \<Rightarrow> c = 0 \<and> (\<exists>e. filter output_event es = [e] \<and> signature_target p e))"

abbreviation no_output :: "event list \<Rightarrow> bool" where
  "no_output es \<equiv> list_all (\<lambda>e. \<not> output_event e) es"

lemma sign_outputs_append: "no_output es \<Longrightarrow> sign_outputs p r (es @ es') = sign_outputs p r es'"
  by (auto simp: sign_outputs_def list_all_iff output_event_def filter_empty_conv split: sum.splits)

lemma sign_outputs_none: "no_output es \<Longrightarrow> sign_outputs p (Inl e) es"
  by (auto simp: sign_outputs_def list_all_iff)

lemma traced_write_sig_outputs:
  assumes "\<And>r e. sign_outputs p r [e] \<Longrightarrow> output_event e \<Longrightarrow> Q r [e]"
  shows "traced (write_sig_output armored (map_option (\<lambda>m. m @ ''.sig'') (kp_message_file p))) Q"
  by (rule traced_write_sig_output, rule assms)
    (auto simp: sign_outputs_def signature_target_def isl_def split: sum.splits option.splits)

definition sign_run_ok :: "keygen_parsed \<Rightarrow> anvil_error + u32 \<Rightarrow> event list \<Rightarrow> bool" where
  "sign_run_ok p r es \<longleftrightarrow>
     (Agent AgSign \<in> set es \<longrightarrow> \<not> list_ex secret_prompt es) \<and> sign_outputs p r es"

lemma traced_fallback_step:
  assumes "adds_only (\<lambda>e. (\<exists>f. e = FsRead f) \<or> secret_prompt e) m"
    and "\<And>a. traced (f a) (\<lambda>r es. Agent AgSign \<notin> set es \<and> sign_outputs p r es)"
  shows "traced (try_let m f) (\<lambda>r es. Agent AgSign \<notin> set es \<and> sign_outputs p r es)"
proof (rule traced_try_let, rule traced_adds_only[OF assms(1)])
  fix r :: "anvil_error + 'b" and es
  assume es: "list_all (\<lambda>e. (\<exists>f. e = FsRead f) \<or> secret_prompt e) es"
  then have "no_output es" "Agent AgSign \<notin> set es"
    by (auto simp: list_all_iff output_event_def secret_prompt_def)
  then show "case r of Inl e \<Rightarrow> Agent AgSign \<notin> set es \<and> sign_outputs p (Inl e) es
    | Inr a \<Rightarrow> traced (f a) (\<lambda>b es'. Agent AgSign \<notin> set (es @ es') \<and> sign_outputs p b (es @ es'))"
    using assms(2) by (cases r) (auto simp: sign_outputs_none sign_outputs_append)
qed

lemma sign_with_key_file_events:
  "traced (sign_with_key_file D Q p file ns data (map_option (\<lambda>m. m @ ''.sig'') (kp_message_file p)))
    (\<lambda>r es. Agent AgSign \<notin> set es \<and> sign_outputs p r es)"
  unfolding sign_with_key_file_def
  by (intro traced_fallback_step adds_resolve_signing_key_path shim_load_and_decrypt_events
      adds_map_err adds_lift_res traced_write_sig_outputs) auto

lemma sign_run_ok_append:
  "no_output es \<Longrightarrow> \<not> list_ex secret_prompt es \<Longrightarrow> Agent AgSign \<notin> set es \<Longrightarrow>
   sign_run_ok p r (es @ es') = sign_run_ok p r es'"
  by (auto simp: sign_run_ok_def sign_outputs_append)

lemma sign_by_agent_or_key:
  "traced (try_let (try_sign_via_agent (d_keys D) G Q file data ns) (\<lambda>via_agent. case via_agent of
       Some armored \<Rightarrow> write_sig_output armored (map_option (\<lambda>m. m @ ''.sig'') (kp_message_file p))
     | None \<Rightarrow> sign_with_key_file D Q p file ns data (map_option (\<lambda>m. m @ ''.sig'') (kp_message_file p))))
   (sign_run_ok p)"
proof (rule traced_try_let, rule traced_mono[OF try_sign_via_agent_events], elim conjE)
  fix r :: "anvil_error + string option" and es
  assume "list_all agent_attempt_event es" and r: "r = Inr None \<longrightarrow> Agent AgSign \<notin> set es"
  then have es: "no_output es" "\<not> list_ex secret_prompt es"
    by (auto simp: list_all_iff list_ex_iff agent_attempt_event_def)
  have by_key: "traced (sign_with_key_file D Q p file ns data (map_option (\<lambda>m. m @ ''.sig'') (kp_message_file p)))
      (\<lambda>b es'. sign_run_ok p b (es @ es'))" if "Agent AgSign \<notin> set es"
    by (rule traced_mono[OF sign_with_key_file_events])
      (use es that in \<open>simp add: sign_run_ok_append, simp add: sign_run_ok_def\<close>)
  have by_agent: "traced (write_sig_output a (map_option (\<lambda>m. m @ ''.sig'') (kp_message_file p)))
      (\<lambda>b es'. sign_run_ok p b (es @ es'))" for a
    by (rule traced_write_sig_outputs)
      (use es in \<open>auto simp: sign_run_ok_def sign_outputs_append output_event_def\<close>)
  show "case r of Inl e \<Rightarrow> sign_run_ok p (Inl e) es | Inr a \<Rightarrow> traced (case a of
      Some armored \<Rightarrow> write_sig_output armored (map_option (\<lambda>m. m @ ''.sig'') (kp_message_file p))
    | None \<Rightarrow> sign_with_key_file D Q p file ns data (map_option (\<lambda>m. m @ ''.sig'') (kp_message_file p)))
    (\<lambda>b es'. sign_run_ok p b (es @ es'))"
    using r by_key by_agent es
    by (auto simp: sign_run_ok_def sign_outputs_none split: sum.splits option.splits)
qed

lemma shim_run_sign_ok: "traced (shim_run_sign D G Q p) (sign_run_ok p)"
proof -
  have input: "sign_run_ok p (Inl e) es" "sign_run_ok p b (es @ es') = sign_run_ok p b es'"
    if "list_all (\<lambda>e. e = StdinRead \<or> (\<exists>f. e = FsRead f)) es" for e es b es'
  proof -
    from that have "no_output es" "\<not> list_ex secret_prompt es" "Agent AgSign \<notin> set es"
      by (auto simp: list_all_iff list_ex_iff)
    then show "sign_run_ok p (Inl e) es" "sign_run_ok p b (es @ es') = sign_run_ok p b es'"
      by (simp_all add: sign_run_ok_append) (simp add: sign_run_ok_def sign_outputs_none)
  qed
  have empty: "sign_run_ok p (Inl e) []" for e
    by (simp add: sign_run_ok_def sign_outputs_def)
  have from_input: "traced (try_let (sign_input (kp_message_file p)) (\<lambda>(data, sig_out).
      try_let (try_sign_via_agent (d_keys D) G Q f data ns) (\<lambda>via_agent. case via_agent of
        Some armored \<Rightarrow> write_sig_output armored sig_out
      | None \<Rightarrow> sign_with_key_file D Q p f ns data sig_out))) (sign_run_ok p)" for f ns
  proof (rule traced_try_let, rule traced_sign_input)
    fix r :: "anvil_error + string \<times> string option" and es
    assume es: "list_all (\<lambda>e. e = StdinRead \<or> (\<exists>f. e = FsRead f)) es"
      and out: "\<And>d out. r = Inr (d, out) \<Longrightarrow> out = map_option (\<lambda>m. m @ ''.sig'') (kp_message_file p)"
    show "case r of Inl e \<Rightarrow> sign_run_ok p (Inl e) es | Inr a \<Rightarrow> traced (case a of (data, sig_out) \<Rightarrow>
        try_let (try_sign_via_agent (d_keys D) G Q f data ns) (\<lambda>via_agent. case via_agent of
          Some armored \<Rightarrow> write_sig_output armored sig_out
        | None \<Rightarrow> sign_with_key_file D Q p f ns data sig_out)) (\<lambda>b es'. sign_run_ok p b (es @ es'))"
    proof (cases r)
      case (Inr a)
      then show ?thesis
        using out sign_by_agent_or_key by (cases a) (auto simp: input[OF es])
    qed (simp add: input[OF es])
  qed
  show ?thesis
    unfolding shim_run_sign_def by (intro traced_required_then from_input empty)
qed

end
