(* ===== verification/Front_Ends.thy ===== *)
theory Front_Ends
  imports Add_Agreement Keygen_Cmd Keygen_Shim
begin

text \<open>
  The subcommands of \<open>gitway\<close> and the OpenSSH shims as two front ends of the same operations:
  \<open>gitway agent list | remove\<close> beside \<open>gitway-add -l | -L | -d\<close>, \<open>gitway keygen generate |
  verify\<close> beside \<open>gitway-keygen\<close> with the corresponding options. \<open>agree w m n\<close>: run from the same
  world, \<open>m\<close> and \<open>n\<close> succeed or fail alike and do the same apart from messages.
\<close>

section \<open>Agreement\<close>

definition agree :: "'x world \<Rightarrow> ('x world \<Rightarrow> ('e + 'a) \<times> 'x world) \<Rightarrow> ('x world \<Rightarrow> ('d + 'a) \<times> 'x world) \<Rightarrow> bool" where
  "agree w m n \<longleftrightarrow> (case (m w, n w) of ((r, w'), (q, u)) \<Rightarrow> alike (=) r q \<and> same_but_messages w' u)"

lemma same_but_messages_refl [simp]: "same_but_messages w w"
  unfolding same_but_messages_def by (intro exI[of _ "w_trace w"]) simp

text \<open>Two programs with the same beginning agree if they do from there on.\<close>

lemma agree_begin:
  assumes "\<And>a u. m w = (Inr a, u) \<Longrightarrow> agree u (f a) (g a)"
  shows "agree w (try_let m f) (try_let m g)"
  using assms by (auto simp: agree_def effect_simps split: prod.splits sum.splits)

lemma agree_begin_do:
  assumes "\<And>a u. m w = (a, u) \<Longrightarrow> agree u (f a) (g a)"
  shows "agree w (let_do m f) (let_do m g)"
  using assms by (auto simp: agree_def effect_simps split: prod.splits)

text \<open>What is printed at the end does not matter.\<close>

definition only_messages :: "('x world \<Rightarrow> unit \<times> 'x world) \<Rightarrow> bool" where
  "only_messages m \<longleftrightarrow> (\<forall>w. \<exists>es. m w = ((), w\<lparr>w_trace := w_trace w @ es\<rparr>) \<and> deeds es = [])"

lemma agree_end:
  assumes "only_messages m" and "only_messages n"
  shows "agree w (let_do m (\<lambda>_. ok a)) (let_do n (\<lambda>_. ok a))"
proof -
  obtain es fs where "m w = ((), w\<lparr>w_trace := w_trace w @ es\<rparr>)" "deeds es = []"
    "n w = ((), w\<lparr>w_trace := w_trace w @ fs\<rparr>)" "deeds fs = []"
    using assms unfolding only_messages_def by meson
  then show ?thesis
    by (simp add: agree_def effect_simps same_but_messages_out)
qed

lemma only_messages_then:
  assumes "only_messages m" and "only_messages (f ())"
  shows "only_messages (let_do m f)"
  unfolding only_messages_def
proof
  fix w
  obtain es where es: "m w = ((), w\<lparr>w_trace := w_trace w @ es\<rparr>)" "deeds es = []"
    using assms(1) unfolding only_messages_def by blast
  obtain fs where "f () (w\<lparr>w_trace := w_trace w @ es\<rparr>) = ((), w\<lparr>w_trace := (w_trace w @ es) @ fs\<rparr>)" "deeds fs = []"
    using assms(2)[unfolded only_messages_def, rule_format, of "w\<lparr>w_trace := w_trace w @ es\<rparr>"] by auto
  with es show "\<exists>es. let_do m f w = ((), w\<lparr>w_trace := w_trace w @ es\<rparr>) \<and> deeds es = []"
    by (intro exI[of _ "es @ fs"]) (simp add: let_do_def)
qed

lemma only_messages_print [simp]: "only_messages (println s)" "only_messages (eprintln s)"
  "only_messages (emit_data command data)" "only_messages (ret ())"
  by (auto simp: only_messages_def println_def eprintln_def emit_data_def emit_json_def effect_simps
      intro: exI[of _ "[]"])

lemma only_messages_lines [simp]: "only_messages (print_lines ls)" "only_messages (eprint_lines ls)"
  unfolding print_lines_def eprint_lines_def by (induction ls) (auto intro: only_messages_then)

lemma try_let_lift_Inr [simp]: "try_let (lift_res (Inr a)) f = f a"
  by (simp add: try_let_def lift_res_def)

lemma try_let_read_ok [simp]: "try_let (let_do m ok) f = let_do m f"
  by (simp add: fun_eq_iff effect_simps split: prod.splits)

section \<open>Agent\<close>

fun hash_arg :: "hash_kind \<Rightarrow> string" where
  "hash_arg Sha256 = ''sha256''"
| "hash_arg Sha512 = ''sha512''"

definition list_line :: "agent_list_args \<Rightarrow> string list" where
  "list_line args = [if al_full args then ''-L'' else ''-l'', ''-E'', hash_arg (al_hash args)]"

lemma add_from_list_line:
  "add_from_args (list_line args) = ok \<lparr>ap_mode = ModeList (al_full args), ap_hash = al_hash args,
     ap_lifetime = None, ap_confirm = False, ap_biometric = False, ap_no_biometric = False\<rparr>"
proof -
  have lower: "to_lower ''sha256'' = ''sha256''" "to_lower ''sha512'' = ''sha512''"
    by code_simp+
  show ?thesis
    by (cases "al_hash args")
      (auto simp: list_line_def add_from_args_def add_step_def set_mode_def take_arg_def parse_hash_def lower
        add_scan_start_def lift_res_def ok_def try_let_def fun_eq_iff)
qed

lemma add_from_remove_line:
  "add_from_args [''-d'', path] = ok \<lparr>ap_mode = ModeRemoveOne path, ap_hash = Sha256,
     ap_lifetime = None, ap_confirm = False, ap_biometric = False, ap_no_biometric = False\<rparr>"
  by (simp add: add_from_args_def add_step_def set_mode_def take_arg_def add_scan_start_def lift_res_def
      ok_def try_let_def fun_eq_iff)

text \<open>Two loops that print the same lines and fail at the same place, with different words.\<close>

definition same_effect :: "('x world \<Rightarrow> ('e + unit) \<times> 'x world) \<Rightarrow> ('x world \<Rightarrow> ('d + unit) \<times> 'x world) \<Rightarrow> bool" where
  "same_effect m n \<longleftrightarrow> (\<forall>w. snd (m w) = snd (n w) \<and> isl (fst (m w)) = isl (fst (n w)))"

lemma same_effectD:
  assumes "same_effect m n"
  obtains (err) e d u where "m w = (Inl e, u)" and "n w = (Inl d, u)"
    | (fine) u where "m w = (Inr (), u)" and "n w = (Inr (), u)"
proof -
  obtain r u where m: "m w = (r, u)" by fastforce
  obtain q v where n: "n w = (q, v)" by fastforce
  show thesis
    using assms[unfolded same_effect_def, rule_format, of w] m n that by (cases r; cases q) auto
qed

lemma same_effect_try_let:
  assumes "same_effect m n" and "same_effect (f ()) (g ())"
  shows "same_effect (try_let m f) (try_let n g)"
  unfolding same_effect_def
proof
  fix w
  show "snd (try_let m f w) = snd (try_let n g w) \<and> isl (fst (try_let m f w)) = isl (fst (try_let n g w))"
    using assms(1)
  proof (cases rule: same_effectD[of m n w])
    case (fine u)
    then show ?thesis using assms(2) by (simp add: effect_simps same_effect_def)
  qed (simp add: effect_simps)
qed

lemma same_effect_loop:
  assumes "\<And>i. same_effect (body i ()) (body' i ())"
  shows "same_effect (for_try body is ()) (for_try body' is ())"
proof (induction "is")
  case Nil
  show ?case by (simp add: same_effect_def effect_simps)
next
  case (Cons i "is")
  show ?case
    unfolding for_try.simps by (rule same_effect_try_let[OF assms]) (rule Cons.IH)
qed

text \<open>A listing: the same lines, except that the shim, like \<open>ssh-add\<close>, reports an empty agent by
  exit code 1 and on standard output.\<close>

definition listings_agree ::
  "('x world \<Rightarrow> (anvil_error + u32) \<times> 'x world) \<Rightarrow> ('x world \<Rightarrow> (anvil_error + u32) \<times> 'x world) \<Rightarrow> 'x world \<Rightarrow> bool" where
  "listings_agree m n w \<longleftrightarrow> (case (m w, n w) of ((r, w'), (q, u)) \<Rightarrow>
     (isl r \<and> isl q \<or> r = Inr 0 \<and> q = Inr 0) \<and> u = w'
   \<or> r = Inr 0 \<and> q = Inr 1 \<and> (\<exists>v.
         w' = v\<lparr>w_trace := w_trace v @ [Err (Text ''gitway: the agent has no identities'')]\<rparr>
       \<and> u = v\<lparr>w_trace := w_trace v @ [Out (Text ''The agent has no identities.'')]\<rparr>))"

lemma listings_begin:
  assumes "\<And>a u. m w = (Inr a, u) \<Longrightarrow> listings_agree (f a) (g a) u"
  shows "listings_agree (try_let m f) (try_let m g) w"
  using assms by (auto simp: listings_agree_def effect_simps split: prod.splits sum.splits)

lemma hashkind_to_sshkey_id [simp]: "hashkind_to_sshkey h = h"
  by (cases h) simp_all

lemma listings_same_effect:
  assumes "same_effect m n"
  shows "listings_agree (try_let m (\<lambda>_. ok 0)) (try_let n (\<lambda>_. ok 0)) w"
  using assms by (cases rule: same_effectD[of m n w]) (simp_all add: listings_agree_def effect_simps)

lemma listing_agrees: "listings_agree (agent_run_list (d_keys D) G args Human) (gitway_add_run D G (list_line args)) w"
proof -
  let ?K = "d_keys D"
  have "\<not> list_ex (\<lambda>a. a \<in> {''-h'', ''--help'', ''-?''}) (list_line args)"
    by (cases "al_hash args") (simp_all add: list_line_def)
  then have run: "gitway_add_run D G (list_line args) = try_let (call (Agent AgConnect) (ag_from_env G)) (\<lambda>agent.
      add_list ?K G agent (al_full args) (al_hash args))"
    by (simp add: gitway_add_run_def add_from_list_line)
  have empty: "listings_agree (try_let (let_do (eprintln ''gitway: the agent has no identities'') (\<lambda>_. ok ())) (\<lambda>_. ok 0))
      (let_do (println ''The agent has no identities.'') (\<lambda>_. ok 1)) u" for u :: "'a world"
    by (auto simp: listings_agree_def effect_simps eprintln_def println_def)
  have full: "same_effect
      (try_let (map_err (\<lambda>e. Signing (t @ e)) (lift_res r)) (\<lambda>line. let_do (println line) (\<lambda>_. ok ())))
      (try_let (map_err (\<lambda>e. Signing (t' @ e)) (lift_res r)) (\<lambda>line. let_do (println line) (\<lambda>_. ok ())))"
    for t t' and r :: "string + string"
    by (cases r) (simp_all add: same_effect_def effect_simps)
  have short: "same_effect m m" for m :: "'a world \<Rightarrow> (anvil_error + unit) \<times> 'a world"
    by (simp add: same_effect_def)
  show ?thesis
    unfolding run agent_run_list_def add_list_def Let_def emit_json_line_def hashkind_to_sshkey_id
    by (rule listings_begin, rule listings_begin, simp only: output_mode.case split: if_split, intro conjI impI)
      (rule empty listings_same_effect same_effect_loop full short | simp only: simp_thms if_True if_False)+
qed

text \<open>A removal by file.\<close>

lemma removal_agrees:
  assumes "\<not> asks_help path"
  shows "agree w (agent_run_remove (d_keys D) G \<lparr>ar_file = Some path, ar_all = False\<rparr> mode)
    (gitway_add_run D G [''-d'', path])"
proof -
  have run: "gitway_add_run D G [''-d'', path] = try_let (call (Agent AgConnect) (ag_from_env G)) (\<lambda>agent.
      add_remove_one (d_keys D) G agent path)"
    using assms by (simp add: gitway_add_run_def add_from_remove_line asks_help_def)
  show ?thesis
    unfolding run agent_run_remove_def add_remove_one_def load_public_or_derive_def
    by (auto simp: try_let_assoc intro!: agree_begin agree_end split: output_mode.split)
qed

section \<open>Keys\<close>

lemma agree_pure:
  assumes "alike (=) r q" and "\<And>a. r = Inr a \<Longrightarrow> q = Inr a \<Longrightarrow> agree w (f a) (g a)"
  shows "agree w (try_let (lift_res r) f) (try_let (lift_res q) g)"
  using assms by (cases r; cases q) (auto simp: agree_def effect_simps)

definition asks_keygen_help :: "string \<Rightarrow> bool" where
  "asks_keygen_help a \<longleftrightarrow> a \<in> {''--help'', ''-?''}"

fun kind_arg :: "key_alg \<Rightarrow> string" where
  "kind_arg Ed25519 = ''ed25519''"
| "kind_arg Ecdsa = ''ecdsa''"
| "kind_arg Rsa = ''rsa''"

text \<open>The command lines of \<open>gitway-keygen\<close>; \<open>pp\<close> is the new passphrase.\<close>

definition generate_line :: "generate_args \<Rightarrow> string \<Rightarrow> string list" where
  "generate_line args pp = [''-t'', kind_arg (gen_kind args), ''-f'', gen_file args, ''-N'', pp]
     @ (case gen_bits args of None \<Rightarrow> [] | Some n \<Rightarrow> [''-b'', show_nat (unat n)])
     @ (case gen_comment args of None \<Rightarrow> [] | Some c \<Rightarrow> [''-C'', c])"

definition verify_line :: "verify_args \<Rightarrow> string list" where
  "verify_line args = [''-Y'', ''verify'', ''-n'', vf_namespace args, ''-I'', vf_signer args,
     ''-f'', vf_allowed_signers args, ''-s'', vf_signature args]"

definition fingerprint_line :: "fingerprint_args \<Rightarrow> string list" where
  "fingerprint_line args = [''-l'', ''-f'', fp_file args, ''-E'', hash_arg (fp_hash args)]"

lemma gitway_keygen_runs:
  assumes "keygen_from_args line = Inr p" and "\<not> list_ex asks_keygen_help line"
  shows "gitway_keygen_run D G Q line = keygen_dispatch D G Q p (kp_mode p)"
  using assms by (simp add: gitway_keygen_run_def asks_keygen_help_def[abs_def])

lemma parse_bits_show: "parse_bits (show_nat (unat (n :: u32))) = Inr n"
  using unsigned_less[of n, where 'a = nat]
  by (simp add: parse_bits_def parse_show_unsigned u32_max_def)

lemma keygen_generate_line:
  "keygen_from_args (generate_line args pp) = Inr
     \<lparr>kp_mode = GenerateKey, kp_key_type = Some (kind_arg (gen_kind args)), kp_bits = gen_bits args,
      kp_file = Some (gen_file args), kp_new_passphrase = Some pp, kp_old_passphrase = None,
      kp_comment = gen_comment args, kp_namespace = None, kp_signer_identity = None,
      kp_signature_file = None, kp_allowed_signers = None, kp_fingerprint_hash = Sha256, kp_message_file = None\<rparr>"
  by (cases "gen_bits args"; cases "gen_comment args")
    (simp_all add: generate_line_def keygen_from_args_def keygen_step_def with_value_def take_value_def
      keygen_scan_start_def parse_bits_show keygen_parsed.defs)

lemma keygen_verify_line:
  "keygen_from_args (verify_line args) = Inr
     \<lparr>kp_mode = SshSigVerify, kp_key_type = None, kp_bits = None, kp_file = Some (vf_allowed_signers args),
      kp_new_passphrase = None, kp_old_passphrase = None, kp_comment = None,
      kp_namespace = Some (vf_namespace args), kp_signer_identity = Some (vf_signer args),
      kp_signature_file = Some (vf_signature args), kp_allowed_signers = None, kp_fingerprint_hash = Sha256,
      kp_message_file = None\<rparr>"
  by (simp add: verify_line_def keygen_from_args_def keygen_step_def with_value_def take_value_def
      keygen_scan_start_def sshsig_mode_def keygen_parsed.defs)

lemma keygen_fingerprint_line:
  "keygen_from_args (fingerprint_line args) = Inr
     \<lparr>kp_mode = PrintFingerprint, kp_key_type = None, kp_bits = None, kp_file = Some (fp_file args),
      kp_new_passphrase = None, kp_old_passphrase = None, kp_comment = None, kp_namespace = None,
      kp_signer_identity = None, kp_signature_file = None, kp_allowed_signers = None,
      kp_fingerprint_hash = fp_hash args, kp_message_file = None\<rparr>"
proof -
  have lower: "to_lower ''sha256'' = ''sha256''" "to_lower ''sha512'' = ''sha512''"
    by code_simp+
  show ?thesis
    by (cases "fp_hash args")
      (simp_all add: fingerprint_line_def keygen_from_args_def keygen_step_def with_value_def take_value_def
        keygen_scan_start_def parse_fingerprint_hash_def lower keygen_parsed.defs)
qed

text \<open>The sizes that the two programs hand to the library differ for ECDSA, whose curve is part of
  the key type, and for Ed25519, where only the shim passes a size on.\<close>

definition same_size :: "generate_args \<Rightarrow> bool" where
  "same_size args \<longleftrightarrow> gen_kind args = Rsa \<or> gen_bits args = None"

lemma generate_agrees:
  assumes "same_size args" and "\<not> list_ex asks_keygen_help (generate_line args pp)"
    and "gen_passphrase args = Some pp \<and> \<not> gen_no_passphrase args \<or> pp = [] \<and> gen_no_passphrase args"
  shows "agree w (keygen_run_generate D Q args mode) (gitway_keygen_run D G Q (generate_line args pp))"
proof -
  have lower: "to_lower (kind_arg k) = kind_arg k" for k
    by (cases k) (simp_all, code_simp+)
  have kind: "case (resolve_kind (gen_kind args) (gen_bits args), parse_kind (kind_arg (gen_kind args)) (gen_bits args)) of
      (Inr (k, b), Inr k') \<Rightarrow> k = k' \<and> b = gen_bits args | (Inl e, Inl e') \<Rightarrow> True | _ \<Rightarrow> False"
    using assms(1) lower[of "gen_kind args"]
    by (cases "gen_kind args") (auto simp: same_size_def resolve_kind_def parse_kind_def)
  have pp: "resolve_new_passphrase D (gen_file args) (gen_passphrase args) (gen_no_passphrase args) = ok (non_empty pp)"
    using assms(3) by (auto simp: resolve_new_passphrase_def non_empty_def)
  note run = gitway_keygen_runs[OF keygen_generate_line assms(2)]
  show ?thesis
  proof (cases "resolve_kind (gen_kind args) (gen_bits args)")
    case (Inl e)
    with kind obtain e' where "parse_kind (kind_arg (gen_kind args)) (gen_bits args) = Inl e'"
      by (auto split: sum.splits)
    with Inl show ?thesis
      by (simp add: run keygen_run_generate_def shim_run_generate_def required_def agree_def effect_simps)
  next
    case (Inr kb)
    obtain k where "resolve_kind (gen_kind args) (gen_bits args) = Inr (k, gen_bits args)"
      and "parse_kind (kind_arg (gen_kind args)) (gen_bits args) = Inr k"
      using kind Inr by (cases kb) (auto split: sum.splits)
    then show ?thesis
      by (auto simp: run keygen_run_generate_def shim_run_generate_def required_def pp Let_def
          intro!: agree_begin agree_begin_do agree_end split: output_mode.split)
  qed
qed

lemma verify_agrees:
  assumes "vf_input args = None" and "\<not> list_ex asks_keygen_help (verify_line args)"
  shows "agree w (keygen_run_verify Q args mode) (gitway_keygen_run D G Q (verify_line args))"
proof -
  note run = gitway_keygen_runs[OF keygen_verify_line assms(2)]
  show ?thesis
    using assms(1)
    by (auto simp: run keygen_run_verify_def shim_run_verify_def required_def allowed_path_def open_input_def
        emit_json_line_def
        intro!: agree_begin agree_begin_do agree_end split: output_mode.split)
qed

lemma fingerprint_agrees:
  assumes "\<not> list_ex asks_keygen_help (fingerprint_line args)"
  shows "agree w (keygen_run_fingerprint (d_keys D) args mode) (gitway_keygen_run D G Q (fingerprint_line args))"
proof -
  note run = gitway_keygen_runs[OF keygen_fingerprint_line assms]
  have "alike (=) (parse_public_or_private K what raw) (parse_public_or_private K what' raw)"
    for K :: "('b, 'c) ssh_key_ops" and what what' raw
    by (simp add: parse_public_or_private_def split: sum.split)
  then show ?thesis
    by (auto simp: run keygen_run_fingerprint_def shim_run_fingerprint_def required_def Let_def
        keygen_load_public_key_def load_public_key_def try_let_assoc
        intro!: agree_begin agree_pure agree_end split: output_mode.split)
qed

end
