(* ===== verification/Props_Agent.thy ===== *)
theory Props_Agent
  imports Front_Ends Demo
begin

text \<open>
  The properties of \<open>gitway agent\<close>, of its daemon, and of the \<open>gitway-add\<close> shim.
\<close>

section \<open>Keys handed to the agent\<close>

text \<open>C5: \<open>gitway agent add\<close> and \<open>gitway-add\<close> hand the agent decrypted keys only, and, outside
  \<open>--biometric\<close>, none whose fingerprint is in the agent's own listing, taken in the world in which
  the command starts; this holds for every command line, every unlock mode and every build. (The
  listing is taken once: an agent that cannot list counts as an empty one, and a file named
  twice is added twice when the agent did not hold its key before.)\<close>

theorem agent_gets_good_keys:
  fixes D :: "('x, 'k, 'p) deps" and P :: "('x, 'h) platform"
  assumes "ssh_key_laws (d_keys D)"
  shows "runs w (agent_run_add (D\<lparr>d_vault := backend feature os P\<rparr>) G args mode) (\<lambda>r es u. list_all
      (good_addition (d_keys D) (unlock_mode_from_flags (aa_biometric args) (aa_no_biometric args)) (listed G w)) es)
    \<and> runs w (gitway_add_run (D\<lparr>d_vault := backend feature os P\<rparr>) G argv) (\<lambda>r es u. list_all
      (good_addition (d_keys D) (shim_unlock argv w) (listed G w)) es)"
  by (intro conjI agent_run_add_good[OF assms] gitway_add_run_good[OF assms])

theorem agent_gets_good_keys_witness:
  "\<forall>(G :: (unit, unit, bool, string) agent_ops) (P :: (unit, unit) platform) w.
     runs w (agent_run_add (demo_deps\<lparr>d_vault := backend True Linux P\<rparr>) G demo_add Human) (\<lambda>r es u.
       list_all (good_addition (d_keys demo_deps)
         (unlock_mode_from_flags (aa_biometric demo_add) (aa_no_biometric demo_add)) (listed G w)) es)
     \<and> runs w (gitway_add_run (demo_deps\<lparr>d_vault := backend True Linux P\<rparr>) G [''-t'', ''60'', ''k'', ''l'', ''k'']) (\<lambda>r es u.
       list_all (good_addition (d_keys demo_deps) (shim_unlock [''-t'', ''60'', ''k'', ''l'', ''k''] w) (listed G w)) es)"
  by (intro allI) (rule agent_gets_good_keys[OF demo_deps_laws])

text \<open>C39: With standard input piped, \<open>gitway-add\<close> takes the whole of it, less the line ends at its
  end, as the passphrase of the first encrypted key, and then gives the next key the empty
  passphrase without asking anybody.\<close>

theorem piped_passphrase_serves_one_key:
  "let w0 = w\<lparr>w_stdin_tty := False, w_stdin := s\<rparr> in
    case add_prompt_passphrase D path w0 of (r, w1) \<Rightarrow>
      (if valid_utf8 s
       then r = Inr (trim_end_matches newline s) \<and> fst (add_prompt_passphrase D path' w1) = Inr []
       else list_ex secret_prompt (drop (length (w_trace w)) (w_trace w1)))"
proof (cases "valid_utf8 s")
  case True
  then show ?thesis
    using add_prompt_piped[of "w\<lparr>w_stdin_tty := False, w_stdin := s\<rparr>" D path]
      add_prompt_piped_twice[of "w\<lparr>w_stdin_tty := False, w_stdin := s\<rparr>" D path]
    by (auto simp: Let_def split: prod.splits)
next
  case False
  then show ?thesis
    by (auto simp: Let_def add_prompt_passphrase_def passphrase_from_stdin_if_not_tty_def effect_simps
        read_stdin_def prompt_password_def call_def split: prod.splits sum.splits)
qed

text \<open>C13: \<open>gitway-add\<close> accepts exactly the command lines that are a sequence of options and paths, with at
  most one option that selects a mode, lifetimes that are 64-bit numbers and known hashes,
  perhaps followed by \<open>--\<close> and more paths, and not both biometric flags; and it reads them as what
  they say: the last lifetime and the last hash count, flags count wherever they stand, the
  paths keep their order, and without a mode the paths, or else the default keys, are added.\<close>

theorem gitway_add_language:
  "fst (add_from_args args w) = Inr p \<longleftrightarrow>
     (\<exists>toks tail. args = arg_line toks tail \<and> tokens_ok toks \<and> reads_as toks tail w p)"
  by (rule add_parse_iff)

text \<open>C14: \<open>gitway agent add\<close> and \<open>gitway-add\<close> are the same program up to their messages: for arguments
  that \<open>gitway agent add\<close> accepts, \<open>gitway-add\<close> with those arguments, run at a terminal without an
  askpass program, succeeds or fails as \<open>gitway agent add\<close> does, and both ask for the same
  passphrases, read the same files, and use sensor, keystore and agent by the same calls in the
  same order, on every build. (Files named like an option for help are left out: \<open>gitway-add\<close>
  would print its help.)\<close>

theorem add_commands_agree:
  fixes D :: "('x, 'k, 'p) deps" and P :: "('x, 'h) platform"
  assumes "agent_add_accepted args" and "\<not> list_ex asks_help (aa_files args)" and "at_terminal w"
  shows "case (agent_run_add (D\<lparr>d_vault := backend feature os P\<rparr>) G args mode w,
      gitway_add_run (D\<lparr>d_vault := backend feature os P\<rparr>) G (add_line args) w) of
    ((r, w'), (q, u)) \<Rightarrow> alike (=) r q \<and> same_but_messages w' u"
proof -
  have "same_but_messages w w"
    by (rule same_but_messages_refl)
  then show ?thesis
    by (rule simE[OF sim_add_programs[OF assms(1,2), where D = D and feature = feature and os = os and P = P
        and G = G and mode = mode] assms(3)]) simp
qed

theorem add_commands_agree_witness:
  "\<forall>G (P :: (unit, unit) platform).
     case (agent_run_add (demo_deps\<lparr>d_vault := backend True Linux P\<rparr>) G (demo_add\<lparr>aa_biometric := True\<rparr>) Human demo_key_world,
       gitway_add_run (demo_deps\<lparr>d_vault := backend True Linux P\<rparr>) G [''--biometric'', ''--'', ''k''] demo_key_world) of
     ((r, w'), (q, u)) \<Rightarrow> alike (=) r q \<and> same_but_messages w' u"
proof -
  let ?args = "demo_add\<lparr>aa_biometric := True\<rparr>"
  have line: "add_line ?args = [''--biometric'', ''--'', ''k'']"
    by (simp add: add_line_def add_tokens_def arg_line_def demo_add_def)
  have "agent_add_accepted ?args" "\<not> list_ex asks_help (aa_files ?args)" "at_terminal demo_key_world"
    by (simp_all add: demo_add_def agent_add_accepted_def asks_help_def at_terminal_def demo_key_world_def demo_world_def)
  note agree = add_commands_agree[OF this, unfolded line]
  show ?thesis
    by (intro allI) (rule agree)
qed

text \<open>C15: \<open>gitway-add -l\<close> and \<open>-L\<close> list what \<open>gitway agent list\<close> lists, line by line and with the same
  fate, except that an empty agent is an error for the shim alone, told on standard output; and
  \<open>gitway-add -d\<close> removes what \<open>gitway agent remove\<close> removes, by the same calls.\<close>

theorem agent_front_ends_agree:
  "listings_agree (agent_run_list (d_keys D) G args Human) (gitway_add_run D G (list_line args)) w
   \<and> (if asks_help path then True
      else agree w (agent_run_remove (d_keys D) G \<lparr>ar_file = Some path, ar_all = False\<rparr> mode)
        (gitway_add_run D G [''-d'', path]))"
  by (auto intro: listing_agrees removal_agrees)

section \<open>The daemon\<close>

text \<open>C27: The parent of a detached agent always stops waiting for the child's socket: the rounds that
  the model allots are enough for any clock that does not go back and that a sleep moves
  forward by what it asks for.\<close>

theorem start_stops_waiting:
  assumes "clock_law S clk"
  shows "fst (wait_for_socket poll_fuel S path (clk (w_ext w) + 5000) w) = Some ()"
  by (rule wait_for_socket_returns[OF assms])

theorem start_stops_waiting_witness:
  "fst (wait_for_socket poll_fuel demo_os ''/run/gitway.sock'' 5003 (demo_world 3)) = Some ()"
  using start_stops_waiting[OF demo_clock, of "''/run/gitway.sock''" "demo_world 3"]
  by (simp add: demo_world_def)

text \<open>C28: A background start that succeeds has seen the socket of the new agent in the file system,
  and the last thing it prints are the shell lines for exactly that socket.\<close>

theorem start_success_means_bound:
  "runs w (run_background_start S args) (\<lambda>r es u. isl r \<or> r = Inr 0 \<and>
     (\<exists>sock pid csh pre. w_fs u sock \<noteq> None
        \<and> es = pre @ map (\<lambda>l. Out (Text l)) (eval_lines sock pid csh)))"
  by (rule background_start_bound[unfolded announced_def])

text \<open>C38: \<open>agent stop\<close> with \<open>SSH_AGENT_PID\<close> set signals the number it holds, once and nobody else,
  provided that it is a 32-bit integer; there is no check of its sign, so 0 and negative
  numbers, which name process groups, are signalled too.\<close>

theorem stop_signals_env_pid:
  "case env_var w ''SSH_AGENT_PID'' of
     None \<Rightarrow> True
   | Some s \<Rightarrow> runs w (run_stop True S args mode) (\<lambda>r es u.
       case parse_signed i32_lim (trim s) of
         None \<Rightarrow> isl r \<and> es = []
       | Some pid \<Rightarrow> - 2147483648 \<le> pid \<and> pid < 2147483648
           \<and> es \<noteq> [] \<and> hd es = Lib (Signal pid) \<and> Lib ` Signal ` UNIV \<inter> set (tl es) = {})"
proof (cases "env_var w ''SSH_AGENT_PID''")
  case (Some s)
  show ?thesis
    unfolding Some option.case
    by (rule runs_mono[OF run_stop_env[OF Some]]) (auto split: option.splits dest: parse_i32_bound)
qed simp

text \<open>C29: \<open>agent stop\<close> finds the agent that \<open>agent start\<close> has started: in a shell that has run the lines
  \<open>start\<close> printed, which export the process number, it signals exactly that process; in any other
  shell of the same session (with a runtime directory and no flags) it reads the very file in
  which the agent keeps its number by default, whichever process asks. A number beyond the 31
  bits of a Unix process number is refused and nobody is signalled.\<close>

theorem stop_finds_started_agent:
  "runs (v\<lparr>w_env := (w_env w)(''SSH_AGENT_PID'' \<mapsto> show_u32 pid)\<rparr>) (run_stop True S args mode)
     (\<lambda>r es u. signals_pid pid r es)
   \<and> (let v' = v\<lparr>w_env := (w_env w)(''SSH_AGENT_PID'' := None), w_fs := (w_fs v)(p \<mapsto> File contents m)\<rparr>
      in if env_var w ''XDG_RUNTIME_DIR'' \<noteq> None
            \<and> default_pid_path True (fst (default_socket_path True S' w)) = Some p
            \<and> valid_utf8 contents \<and> trim contents = show_u32 pid
         then runs v' (run_stop True S (args\<lparr>ao_pid_file := None\<rparr>) mode) (\<lambda>r es u. signals_pid pid r es)
         else True)"
proof -
  have stop: "runs v' (run_stop True S (args\<lparr>ao_pid_file := None\<rparr>) mode) (\<lambda>r es u. signals_pid pid r es)"
    if v': "v' = v\<lparr>w_env := (w_env w)(''SSH_AGENT_PID'' := None), w_fs := (w_fs v)(p \<mapsto> File contents m)\<rparr>"
      and dir: "env_var w ''XDG_RUNTIME_DIR'' = Some dir"
      and p: "default_pid_path True (fst (default_socket_path True S' w)) = Some p"
      and c: "valid_utf8 contents" "trim contents = show_u32 pid" for v' dir
  proof (rule stop_by_file)
    let ?w = "w\<lparr>w_env := (w_env w)(''SSH_AGENT_PID'' := None)\<rparr>"
    have "fst (default_socket_path True S' ?w) = fst (default_socket_path True S' w)"
      using dir by (simp add: default_socket_path_def env_var_def effect_simps Let_def)
    then show "default_pid_path True (fst (default_socket_path True S v')) = Some p"
      using default_pid_path_same[of v' ?w S S'] p v' by simp
    show "env_var v' ''XDG_RUNTIME_DIR'' = Some dir"
      using dir v' by (simp add: env_var_def)
  qed (use v' c in \<open>simp_all add: env_var_def read_text_at_def read_bytes_at_def\<close>)
  then show ?thesis
    by (auto simp: Let_def intro: stop_by_exported_env)
qed

end
