(* ===== verification/Config_Cmd.thy ===== *)
theory Config_Cmd
  imports Anvil
begin

text \<open>
  \<open>gitway-cli/src/config.rs\<close>: \<open>gitway config show\<close>, the resolved \<open>ssh_config(5)\<close> as text
  lines and as JSON, with the paths of private keys redacted, and the known-hosts summary that
  \<open>--test --json\<close> shares.
\<close>

section \<open>Redaction\<close>

definition redacted_text :: string where
  "redacted_text = ''[REDACTED]''"

definition looks_like_private_key :: "string \<Rightarrow> bool" where
  "looks_like_private_key path = (case file_name path of
     None \<Rightarrow> False
   | Some name \<Rightarrow>
       if \<not> valid_utf8 name then False
       else if (case extension name of None \<Rightarrow> False | Some ext \<Rightarrow> eq_ignore_case ext ''pub'') then False
       else if \<not> sublist ''id_'' name then False
       else sublist ''.ssh'' path \<or> sublist ''/.config/gitway/keys'' path)"

definition display_path :: "string \<Rightarrow> bool \<Rightarrow> string" where
  "display_path path show_secrets =
     (if show_secrets \<or> \<not> looks_like_private_key path then path else redacted_text)"

section \<open>Rendering helpers\<close>

fun strict_label :: "strict_checking \<Rightarrow> string" where
  "strict_label StrictYes = ''yes''"
| "strict_label StrictNo = ''no''"
| "strict_label StrictAcceptNew = ''accept-new''"

definition yes_no :: "bool \<Rightarrow> string" where
  "yes_no b = (if b then ''yes'' else ''no'')"

definition is_none_word :: "string \<Rightarrow> bool" where
  "is_none_word s = eq_ignore_case s ''none''"

definition jump_hop_json :: "jump_host \<Rightarrow> json" where
  "jump_hop_json h = JObj [(''host'', JStr (jh_host h)), (''port'', JNum (uint (jh_port h))),
     (''user'', jopt JStr (jh_user h))]"

definition jump_chain_json :: "('x, 'c, 's) anvil_ops \<Rightarrow> string option \<Rightarrow> json" where
  "jump_chain_json A raw = (case raw of
     None \<Rightarrow> JNull
   | Some raw \<Rightarrow>
       if is_none_word raw then JNull
       else (case an_parse_jump_chain A raw of
           Inr chain \<Rightarrow> JArr (map jump_hop_json chain)
         | Inl _ \<Rightarrow> JNull))"

definition cert_and_revoked_json ::
  "('x, 'c, 's) anvil_ops \<Rightarrow> string \<Rightarrow> string option \<Rightarrow> string \<Rightarrow> 'x world \<Rightarrow> (json list \<times> json list) \<times> 'x world" where
  "cert_and_revoked_json A host custom_path scope_label =
     let_do (call (Lib (KnownHosts ''host_key_trust'')) (an_host_key_trust A host custom_path)) (\<lambda>r.
     case r of
       Inr trust \<Rightarrow> ret
         (map (\<lambda>ca. JObj [(''host_pattern'', JStr (ca_host_pattern ca)),
                           (''algorithm'', JStr (ca_algorithm ca)),
                           (''fingerprint'', JStr (ca_fingerprint ca))]) (ht_cert_authorities trust),
          map (\<lambda>e. JObj [(''host_pattern'', JStr (pe_host_pattern e)),
                          (''fingerprint'', JStr (pe_fingerprint e))]) (ht_revoked trust))
     | Inl e \<Rightarrow> let_do (eprintln (scope_label @ '': warning: known_hosts CA/revoked parse failed: ''
                 @ er_text A e)) (\<lambda>_. ret ([], [])))"

section \<open>config show\<close>

definition path_override :: "string option \<Rightarrow> string option \<Rightarrow> string option" where
  "path_override flag current = (case flag of
     None \<Rightarrow> current
   | Some p \<Rightarrow> if p = [] then None else Some p)"

definition ssh_config_paths_from_args :: "('x, 'c, 's) anvil_ops \<Rightarrow> config_show_args \<Rightarrow> config_paths" where
  "ssh_config_paths_from_args A args =
     (let paths = an_default_paths A
      in \<lparr>pt_user = path_override (cs_user_config args) (pt_user paths),
          pt_system = path_override (cs_system_config args) (pt_system paths)\<rparr>)"

text \<open>An optional directive: no line, or one.\<close>

definition opt_line :: "string \<Rightarrow> ('a \<Rightarrow> string) \<Rightarrow> 'a option \<Rightarrow> string list" where
  "opt_line name f v = (case v of None \<Rightarrow> [] | Some a \<Rightarrow> [name @ '' '' @ f a])"

fun hop_lines :: "nat \<Rightarrow> jump_host list \<Rightarrow> string list" where
  "hop_lines i [] = []"
| "hop_lines i (h # hs) =
     (''proxyjump_hop_'' @ show_nat (i + 1) @ ''_to ''
       @ (case jh_user h of None \<Rightarrow> [] | Some u \<Rightarrow> u @ ''@'')
       @ jh_host h @ '':'' @ show_nat (unat (jh_port h))) # hop_lines (i + 1) hs"

definition emit_human_show ::
  "('x, 'c, 's) anvil_ops \<Rightarrow> config_show_args \<Rightarrow> resolved_config \<Rightarrow> 'x world \<Rightarrow> unit \<times> 'x world" where
  "emit_human_show A args r =
     (let show_secrets = cs_show_secrets args
      in let_do (print_lines
           (opt_line ''hostname'' id (rc_hostname r)
            @ opt_line ''user'' id (rc_user r)
            @ opt_line ''port'' (\<lambda>p. show_nat (unat p)) (rc_port r)
            @ map (\<lambda>p. ''identityfile '' @ display_path p show_secrets) (rc_identity_files r)
            @ opt_line ''identitiesonly'' yes_no (rc_identities_only r)
            @ opt_line ''identityagent'' (\<lambda>p. display_path p show_secrets) (rc_identity_agent r)
            @ map (\<lambda>p. ''certificatefile '' @ display_path p True) (rc_certificate_files r)
            @ opt_line ''proxycommand'' id (rc_proxy_command r)
            @ opt_line ''proxyjump'' id (rc_proxy_jump r))) (\<lambda>_.
         let_do (case rc_proxy_jump r of
             None \<Rightarrow> ret ()
           | Some v \<Rightarrow>
               if is_none_word v then ret ()
               else (case an_parse_jump_chain A v of
                   Inr chain \<Rightarrow> print_lines (hop_lines 0 chain)
                 | Inl e \<Rightarrow> eprintln (''gitway config show: warning: ProxyJump unparsable: ''
                     @ er_text A e))) (\<lambda>_.
         print_lines
           (map (\<lambda>p. ''userknownhostsfile '' @ display_path p True) (rc_user_known_hosts_files r)
            @ opt_line ''stricthostkeychecking'' strict_label (rc_strict_host_key_checking r)
            @ opt_line ''hostkeyalgorithms'' id (rc_host_key_algorithms r)
            @ opt_line ''kexalgorithms'' id (rc_kex_algorithms r)
            @ opt_line ''ciphers'' id (rc_ciphers r)
            @ opt_line ''macs'' id (rc_macs r)
            @ opt_line ''connecttimeout'' (\<lambda>d. show_nat (unat d)) (rc_connect_timeout r)
            @ opt_line ''connectionattempts'' (\<lambda>n. show_nat (unat n)) (rc_connection_attempts r)))))"

definition provenance_json :: "provenance \<Rightarrow> json" where
  "provenance_json p = JObj [(''directive'', JStr (pv_directive p)), (''file'', JStr (pv_file p)),
     (''line'', JNum (int (pv_line p)))]"

definition redacted_names :: "config_show_args \<Rightarrow> resolved_config \<Rightarrow> string list" where
  "redacted_names args r =
     map (\<lambda>_. ''identityfile'')
       [p \<leftarrow> rc_identity_files r. display_path p (cs_show_secrets args) = redacted_text]
     @ (case rc_identity_agent r of
          None \<Rightarrow> []
        | Some p \<Rightarrow> if display_path p (cs_show_secrets args) = redacted_text
                   then [''identityagent''] else [])"

definition show_data ::
  "('x, 'c, 's) anvil_ops \<Rightarrow> config_show_args \<Rightarrow> resolved_config \<Rightarrow> json list \<Rightarrow> json list \<Rightarrow> json" where
  "show_data A args r cas revoked =
     (let s = cs_show_secrets args
      in JObj
        [(''host'', JStr (cs_host args)),
         (''hostname'', jopt JStr (rc_hostname r)),
         (''user'', jopt JStr (rc_user r)),
         (''port'', jopt (\<lambda>p. JNum (uint p)) (rc_port r)),
         (''identity_files'', JArr (map (\<lambda>p. JStr (display_path p s)) (rc_identity_files r))),
         (''identities_only'', jopt JBool (rc_identities_only r)),
         (''identity_agent'', jopt (\<lambda>p. JStr (display_path p s)) (rc_identity_agent r)),
         (''certificate_files'', JArr (map JStr (rc_certificate_files r))),
         (''proxy_command'', jopt JStr (rc_proxy_command r)),
         (''proxy_jump'', jopt JStr (rc_proxy_jump r)),
         (''proxy_jump_chain'', jump_chain_json A (rc_proxy_jump r)),
         (''user_known_hosts_files'', JArr (map JStr (rc_user_known_hosts_files r))),
         (''strict_host_key_checking'', jopt (\<lambda>p. JStr (strict_label p)) (rc_strict_host_key_checking r)),
         (''host_key_algorithms'', jopt JStr (rc_host_key_algorithms r)),
         (''kex_algorithms'', jopt JStr (rc_kex_algorithms r)),
         (''ciphers'', jopt JStr (rc_ciphers r)),
         (''macs'', jopt JStr (rc_macs r)),
         (''connect_timeout_secs'', jopt (\<lambda>d. JNum (uint d)) (rc_connect_timeout r)),
         (''connection_attempts'', jopt (\<lambda>n. JNum (uint n)) (rc_connection_attempts r)),
         (''cert_authorities'', JArr cas),
         (''revoked'', JArr revoked),
         (''provenance'', JArr (map provenance_json (rc_provenance r))),
         (''redacted'', JArr (map JStr (redacted_names args r)))])"

definition emit_json_show ::
  "('x, 'c, 's) anvil_ops \<Rightarrow> config_show_args \<Rightarrow> resolved_config \<Rightarrow> 'x world \<Rightarrow> unit \<times> 'x world" where
  "emit_json_show A args r =
     (let custom = (case rc_user_known_hosts_files r of [] \<Rightarrow> None | p # _ \<Rightarrow> Some p)
      in let_do (cert_and_revoked_json A (cs_host args) custom ''gitway config show'') (\<lambda>(cas, revoked).
         emit_data ''gitway config show'' (show_data A args r cas revoked)))"

definition config_run_show :: "('x, 'c, 's) anvil_ops \<Rightarrow> config_show_args \<Rightarrow> output_mode \<Rightarrow> ('x world, u32) eff" where
  "config_run_show A args mode =
     (let paths = ssh_config_paths_from_args A args
      in try_let (call (Lib (SshConfig (cs_host args))) (an_resolve A (cs_host args) paths)) (\<lambda>resolved.
         let_do (case mode of
             JsonMode \<Rightarrow> emit_json_show A args resolved
           | Human \<Rightarrow> emit_human_show A args resolved) (\<lambda>_.
         ok 0)))"

fun config_run :: "('x, 'c, 's) anvil_ops \<Rightarrow> config_subcommand \<Rightarrow> output_mode \<Rightarrow> ('x world, u32) eff" where
  "config_run A (ConfigShow args) mode = config_run_show A args mode"

section \<open>Redaction hides the paths\<close>

text \<open>What the redacted output may depend on: the configuration with the private-key paths of
  \<open>IdentityFile\<close> and \<open>IdentityAgent\<close> replaced.\<close>

definition redact_config :: "resolved_config \<Rightarrow> resolved_config" where
  "redact_config r = r\<lparr>rc_identity_files := map (\<lambda>p. display_path p False) (rc_identity_files r),
     rc_identity_agent := map_option (\<lambda>p. display_path p False) (rc_identity_agent r)\<rparr>"

lemma redacted_text_plain: "\<not> looks_like_private_key redacted_text"
  by code_simp

lemma display_path_idem: "display_path (display_path p False) False = display_path p False"
  using redacted_text_plain by (simp add: display_path_def)

lemma redacted_names_redact:
  "\<not> cs_show_secrets args \<Longrightarrow> redacted_names args (redact_config r) = redacted_names args r"
  by (simp add: redacted_names_def redact_config_def display_path_idem filter_map comp_def
      split: option.splits)

lemma emit_human_show_redact:
  "\<not> cs_show_secrets args \<Longrightarrow> emit_human_show A args (redact_config r) = emit_human_show A args r"
  by (simp add: emit_human_show_def redact_config_def opt_line_def display_path_idem comp_def
      split: option.splits)

lemma emit_json_show_redact:
  assumes "\<not> cs_show_secrets args"
  shows "emit_json_show A args (redact_config r) = emit_json_show A args r"
proof -
  have "show_data A args (redact_config r) = show_data A args r"
    using redacted_names_redact[OF assms, of r] assms
    by (auto simp: show_data_def redact_config_def display_path_idem jopt_def comp_def fun_eq_iff
        split: option.splits)
  then show ?thesis
    by (simp add: emit_json_show_def redact_config_def)
qed

lemma show_paths_override:
  "pt_user (ssh_config_paths_from_args A args) =
     (case cs_user_config args of None \<Rightarrow> pt_user (an_default_paths A)
      | Some p \<Rightarrow> if p = [] then None else Some p)"
  by (simp add: ssh_config_paths_from_args_def path_override_def Let_def split: option.splits)

end
