(* ===== verification/Hosts_Cmd.thy ===== *)
theory Hosts_Cmd
  imports Anvil
begin

text \<open>
  \<open>gitway-cli/src/hosts.rs\<close>: \<open>gitway hosts add | revoke | list\<close>. The known-hosts file is read
  and written by \<open>anvil_ssh\<close>; the model keeps the order of its calls, the confirmation and the
  exit codes.
\<close>

definition exit_user_declined :: u32 where "exit_user_declined = 73"
definition exit_needs_yes :: u32 where "exit_needs_yes = 78"

definition resolve_known_hosts_path :: "('x, 'c, 's) anvil_ops \<Rightarrow> string option \<Rightarrow> anvil_error + string" where
  "resolve_known_hosts_path A override_path = (case override_path of
     Some p \<Rightarrow> Inr p
   | None \<Rightarrow> (case an_default_known_hosts A of
         Some p \<Rightarrow> Inr p
       | None \<Rightarrow> Inl (InvalidConfig
           ''could not resolve default known_hosts path; pass --known-hosts to override'')))"

section \<open>add\<close>

definition probe_builder :: "string \<Rightarrow> string \<Rightarrow> builder" where
  "probe_builder host probe_known_hosts =
     bcall (BCustomKnownHosts probe_known_hosts) (bcall (BStrict StrictNo) (builder_for host))"

definition hash_choice :: "('x, 'c, 's) anvil_ops \<Rightarrow> hosts_add_args \<Rightarrow> string \<Rightarrow> ('x world, bool) eff" where
  "hash_choice A args path =
     (if ha_hash args then ok True
      else if ha_no_hash args then ok False
      else try_let (call (Lib (KnownHosts ''detect_hash_mode'')) (an_detect_hash_mode A path)) (\<lambda>m.
        ok (case m of Hashed \<Rightarrow> True | Plaintext \<Rightarrow> False | EmptyFile \<Rightarrow> False)))"

definition refusal_text :: "string \<Rightarrow> string" where
  "refusal_text host =
     ''gitway hosts add: refusing without --yes '' @ em_dash
     @ '' interactive confirmation required when stdin is not a TTY (or under --json / AI_AGENT=1).''
     @ [newline, newline] @ ''Tip: re-run with `--yes` to append unconditionally:''
     @ [newline, newline] @ ''gitway hosts add --yes '' @ host"

text \<open>The confirmation: \<open>None\<close> is consent, \<open>Some code\<close> the early return. (The source lower-cases all
  of Unicode; no character outside ASCII has a lower-case form made of the letters of \<open>yes\<close>, so the
  comparison is the same.)\<close>

definition confirm_add ::
  "hosts_add_args \<Rightarrow> output_mode \<Rightarrow> string \<Rightarrow> ('x world, u32 option) eff" where
  "confirm_add args mode path =
     (let prompt_required = (\<not> ha_yes args)
      in if \<not> prompt_required then ok None
         else let_do (get_s w_stdin_tty) (\<lambda>stdin_is_tty.
           if mode = JsonMode \<or> \<not> stdin_is_tty then
             let_do (eprintln (refusal_text (ha_host args))) (\<lambda>_. ok (Some exit_needs_yes))
           else
             let_do (emit (Err (Text (''Append this fingerprint to '' @ path @ ''? [y/N] '')))) (\<lambda>_.
             try_let (map_err (\<lambda>e. InvalidConfig (''could not read stdin: '' @ io_text e)) read_line) (\<lambda>response.
             let trimmed = to_lower (trim response)
             in if trimmed \<noteq> ''y'' \<and> trimmed \<noteq> ''yes'' then
                  let_do (eprintln ''gitway hosts add: declined; no changes written.'')
                    (\<lambda>_. ok (Some exit_user_declined))
                else ok None))))"

definition append_pin ::
  "('x, 'c, 's) anvil_ops \<Rightarrow> bool \<Rightarrow> string \<Rightarrow> string \<Rightarrow> string \<Rightarrow> ('x world, unit) eff" where
  "append_pin A hashed path host fp =
     (if hashed then call (Lib (KnownHosts ''append_hashed'')) (an_append_hashed A path host fp)
      else call (Lib (KnownHosts ''append'')) (an_append A path host fp))"

definition hosts_run_add :: "('x, 'c, 's) anvil_ops \<Rightarrow> hosts_add_args \<Rightarrow> output_mode \<Rightarrow> ('x world, u32) eff" where
  "hosts_run_add A args mode =
     try_let (lift_res (resolve_known_hosts_path A (ha_known_hosts args))) (\<lambda>path.
     try_let (map_err (\<lambda>e. InvalidConfig (''could not create temp dir for probe: '' @ e))
        (call (Lib (KnownHosts ''tempdir'')) (an_tempdir A))) (\<lambda>probe_dir.
     let probe_config = an_build A (probe_builder (ha_host args) (path_join probe_dir ''probe_known_hosts''))
     in try_let (call (Ssh (ConnectDirect (ha_host args))) (an_connect A probe_config)) (\<lambda>session.
     try_let (lift_res (case an_fingerprint A session of
         Some fp \<Rightarrow> Inr fp
       | None \<Rightarrow> Inl (InvalidConfig ''host-key fingerprint was not captured during probe (StrictHostKeyChecking::No path should always set it)''))) (\<lambda>fingerprint.
     try_let (call (Ssh CloseSession) (an_close A session)) (\<lambda>_.
     try_let (hash_choice A args path) (\<lambda>hashed.
     let_do (eprintln (''gitway hosts add: '' @ ha_host args @ '' '' @ em_dash @ '' fingerprint '' @ fingerprint)) (\<lambda>_.
     try_let (confirm_add args mode path) (\<lambda>refused. case refused of
       Some code \<Rightarrow> ok code
     | None \<Rightarrow>
         try_let (append_pin A hashed path (ha_host args) fingerprint) (\<lambda>_.
         let_do (if mode = JsonMode then
             emit_data ''gitway hosts add'' (JObj
               [(''host'', JStr (ha_host args)), (''fingerprint'', JStr fingerprint),
                (''known_hosts_path'', JStr path), (''hashed'', JBool hashed)])
           else eprintln (''gitway hosts add: appended '' @ ha_host args @ '' '' @ fingerprint
             @ '' to '' @ path @ '' ('' @ (if hashed then ''hashed'' else ''plaintext'') @ '')'')) (\<lambda>_.
         ok 0))))))))))"

section \<open>revoke\<close>

definition revoke_target ::
  "('x, 'c, 's) anvil_ops \<Rightarrow> string \<Rightarrow> string \<Rightarrow> ('x world, string \<times> string) eff" where
  "revoke_target A path input =
     (if prefix ''SHA256:'' input then ok (''*'', input)
      else try_let (call (Lib (KnownHosts ''host_key_trust'')) (an_host_key_trust A input (Some path))) (\<lambda>trust.
        case ht_fingerprints trust of
          [] \<Rightarrow> fail (InvalidConfig (''no fingerprints known for host '' @ [CHR 0x27] @ input @ [CHR 0x27]
             @ ''; nothing to revoke. Pass a SHA256:... fingerprint to revoke a specific key unconditionally, or run `gitway hosts add ''
             @ input @ ''` first.''))
        | fp # _ \<Rightarrow> ok (input, fp)))"

definition hosts_run_revoke :: "('x, 'c, 's) anvil_ops \<Rightarrow> hosts_revoke_args \<Rightarrow> output_mode \<Rightarrow> ('x world, u32) eff" where
  "hosts_run_revoke A args mode =
     try_let (lift_res (resolve_known_hosts_path A (hr_known_hosts args))) (\<lambda>path.
     let input = trim (hr_input args)
     in try_let (revoke_target A path input) (\<lambda>(host_pattern, fingerprint).
     try_let (call (Lib (KnownHosts ''prepend_revoked'')) (an_prepend_revoked A path host_pattern fingerprint)) (\<lambda>_.
     let_do (if mode = JsonMode then
         emit_data ''gitway hosts revoke'' (JObj
           [(''host_pattern'', JStr host_pattern), (''fingerprint'', JStr fingerprint),
            (''known_hosts_path'', JStr path)])
       else eprintln (''gitway hosts revoke: prepended @revoked '' @ host_pattern @ '' ''
         @ fingerprint @ '' to '' @ path)) (\<lambda>_.
     ok 0))))"

section \<open>list\<close>

definition empty_known_hosts :: known_hosts_file where
  "empty_known_hosts = \<lparr>kh_direct = [], kh_cert_authorities = [], kh_revoked = [], kh_hashed = []\<rparr>"

definition list_row :: "string \<Rightarrow> string \<Rightarrow> string \<Rightarrow> string" where
  "list_row host fp tag = pad_right 24 host @ '' '' @ pad_right 60 fp @ '' '' @ tag"

definition list_human :: "string \<Rightarrow> (string \<times> string \<times> string) list \<Rightarrow> known_hosts_file \<Rightarrow> string list" where
  "list_human path embedded parsed =
     ''# Embedded (built into anvil-ssh)'' # map (\<lambda>(h, fp, alg). list_row h fp alg) embedded
     @ [] # (''# User pins ('' @ path @ '')'')
     # map (\<lambda>e. list_row (pe_host_pattern e) (pe_fingerprint e) ''direct'') (kh_direct parsed)
     @ map (\<lambda>fp. list_row ''(hashed)'' fp ''direct'') (kh_hashed parsed)
     @ [] # ''# Cert authorities''
     # map (\<lambda>e. list_row (ca_host_pattern e) (ca_fingerprint e) ''ca'') (kh_cert_authorities parsed)
     @ [] # ''# Revoked''
     # map (\<lambda>e. list_row (pe_host_pattern e) (pe_fingerprint e) ''revoked'') (kh_revoked parsed)"

definition list_data :: "string \<Rightarrow> (string \<times> string \<times> string) list \<Rightarrow> known_hosts_file \<Rightarrow> json" where
  "list_data path embedded parsed = JObj
     [(''known_hosts_path'', JStr path),
      (''embedded'', JArr (map (\<lambda>(h, fp, alg). JObj [(''host'', JStr h), (''fingerprint'', JStr fp),
          (''algorithm'', JStr alg)]) embedded)),
      (''direct'', JArr (map (\<lambda>e. JObj [(''host_pattern'', JStr (pe_host_pattern e)),
          (''fingerprint'', JStr (pe_fingerprint e)), (''hashed'', JBool False)]) (kh_direct parsed)
        @ map (\<lambda>fp. JObj [(''host_pattern'', JStr ''(hashed)''), (''fingerprint'', JStr fp),
          (''hashed'', JBool True)]) (kh_hashed parsed))),
      (''cert_authorities'', JArr (map (\<lambda>e. JObj [(''host_pattern'', JStr (ca_host_pattern e)),
          (''fingerprint'', JStr (ca_fingerprint e)), (''algorithm'', JStr (ca_algorithm e))])
          (kh_cert_authorities parsed))),
      (''revoked'', JArr (map (\<lambda>e. JObj [(''host_pattern'', JStr (pe_host_pattern e)),
          (''fingerprint'', JStr (pe_fingerprint e))]) (kh_revoked parsed))),
      (''hashed_count'', JNum (int (length (kh_hashed parsed))))]"

definition hosts_run_list :: "('x, 'c, 's) anvil_ops \<Rightarrow> hosts_list_args \<Rightarrow> output_mode \<Rightarrow> ('x world, u32) eff" where
  "hosts_run_list A args mode =
     try_let (lift_res (resolve_known_hosts_path A (hl_known_hosts args))) (\<lambda>path.
     let_do (path_exists path) (\<lambda>present.
     try_let (if present then
         try_let (map_err (\<lambda>e. InvalidConfig (''could not read known_hosts '' @ path @ '': '' @ io_text e))
            (read_to_string path)) (\<lambda>content.
         lift_res (an_parse_known_hosts A content))
       else ok empty_known_hosts) (\<lambda>parsed.
     let embedded = an_all_embedded A
     in let_do (if mode = JsonMode then emit_data ''gitway hosts list'' (list_data path embedded parsed)
          else print_lines (list_human path embedded parsed)) (\<lambda>_.
        ok 0))))"

fun hosts_run :: "('x, 'c, 's) anvil_ops \<Rightarrow> hosts_subcommand \<Rightarrow> output_mode \<Rightarrow> ('x world, u32) eff" where
  "hosts_run A (HostsAdd args) mode = hosts_run_add A args mode"
| "hosts_run A (HostsRevoke args) mode = hosts_run_revoke A args mode"
| "hosts_run A (HostsList args) mode = hosts_run_list A args mode"

section \<open>Consent before writing\<close>

text \<open>The events that change a known-hosts file, and those that send credentials.\<close>

definition changes_known_hosts :: "event \<Rightarrow> bool" where
  "changes_known_hosts e \<longleftrightarrow> e \<in> {Lib (KnownHosts ''append''), Lib (KnownHosts ''append_hashed''),
     Lib (KnownHosts ''prepend_revoked'')}"

definition sends_credentials :: "event \<Rightarrow> bool" where
  "sends_credentials e \<longleftrightarrow> e = Ssh Auth \<or> (\<exists>p. e = Ssh (AuthPassphrase p)) \<or> e = Agent AgSign"

lemma changes_known_hosts_simps [simp]:
  "\<not> changes_known_hosts (Out j)" "\<not> changes_known_hosts (Err j)" "\<not> changes_known_hosts (Ssh c)"
  "\<not> changes_known_hosts StdinRead" "\<not> changes_known_hosts (FsRead f)"
  "changes_known_hosts (Lib (KnownHosts k)) \<longleftrightarrow> k \<in> {''append'', ''append_hashed'', ''prepend_revoked''}"
  by (simp_all add: changes_known_hosts_def)

lemma sends_credentials_simps [simp]:
  "\<not> sends_credentials (Out j)" "\<not> sends_credentials (Err j)" "\<not> sends_credentials (Lib c)"
  "\<not> sends_credentials StdinRead" "\<not> sends_credentials (FsRead f)"
  "\<not> sends_credentials (Ssh (ConnectDirect h))" "\<not> sends_credentials (Ssh CloseSession)"
  by (simp_all add: sends_credentials_def)

definition consents :: "string \<Rightarrow> bool" where
  "consents response \<longleftrightarrow> to_lower (trim response) \<in> {''y'', ''yes''}"

lemma hosts_add_no_credentials:
  "adds_only (\<lambda>e. \<not> sends_credentials e) (hosts_run_add A args mode)"
  unfolding hosts_run_add_def hash_choice_def confirm_add_def append_pin_def Let_def
  by (auto intro!: adds_intros)

text \<open>Consent is either the flag or an affirmative line typed at a terminal.\<close>

lemma confirm_add_result:
  assumes "confirm_add args mode path w = (Inr None, w')"
  shows "ha_yes args \<or> mode = Human \<and> w_stdin_tty w \<and> consents (first_line (w_stdin w))"
  using assms
  by (cases mode) (auto simp: confirm_add_def effect_simps eprintln_def read_line_def Let_def
      consents_def split: if_splits sum.splits prod.splits)

lemma confirm_add_events:
  "traced (confirm_add args mode path) (\<lambda>r es. list_all (\<lambda>e. \<not> changes_known_hosts e) es)"
  unfolding confirm_add_def Let_def by (auto intro!: traced_intros split: sum.splits)

text \<open>Only a run with consent changes the file.\<close>

definition add_consent :: "hosts_add_args \<Rightarrow> output_mode \<Rightarrow> 'x world \<Rightarrow> bool" where
  "add_consent args mode w \<longleftrightarrow>
     ha_yes args \<or> mode = Human \<and> w_stdin_tty w \<and> consents (first_line (w_stdin w))"

text \<open>The exit code says which way the confirmation went: 78 without \<open>--yes\<close> where nobody can
  be asked, 73 on a declined question, 0 only with consent.\<close>

definition refusal_code :: "output_mode \<Rightarrow> 'x world \<Rightarrow> u32" where
  "refusal_code mode w =
     (if mode = JsonMode \<or> \<not> w_stdin_tty w then exit_needs_yes else exit_user_declined)"

lemma confirm_add_code:
  assumes "confirm_add args mode path w = (Inr (Some c), w')"
  shows "\<not> add_consent args mode w \<and> c = refusal_code mode w"
  using assms
  by (auto simp: confirm_add_def effect_simps eprintln_def read_line_def Let_def refusal_code_def
      add_consent_def consents_def split: if_splits sum.splits prod.splits)

lemma runs_confirm_add [runs_intros]:
  assumes "\<And>r es u. list_all (\<lambda>e. \<not> changes_known_hosts e) es \<Longrightarrow>
    r = Inr None \<longrightarrow> add_consent args mode w \<Longrightarrow>
    \<forall>c. r = Inr (Some c) \<longrightarrow> \<not> add_consent args mode w \<and> c = refusal_code mode w \<Longrightarrow> Q r es u"
  shows "runs w (confirm_add args mode path) Q"
  by (rule runs_of_traced[OF confirm_add_events], rule assms)
    (auto simp: add_consent_def dest: confirm_add_result confirm_add_code)

lemma add_consent_update [simp]:
  "add_consent args mode (w\<lparr>w_fs := fs\<rparr>) = add_consent args mode w"
  "add_consent args mode (w\<lparr>w_ext := x\<rparr>) = add_consent args mode w"
  "add_consent args mode (w\<lparr>w_trace := t\<rparr>) = add_consent args mode w"
  by (simp_all add: add_consent_def)

lemma refusal_code_update [simp]:
  "refusal_code mode (w\<lparr>w_fs := fs\<rparr>) = refusal_code mode w"
  "refusal_code mode (w\<lparr>w_ext := x\<rparr>) = refusal_code mode w"
  "refusal_code mode (w\<lparr>w_trace := t\<rparr>) = refusal_code mode w"
  by (simp_all add: refusal_code_def)

lemma hosts_add_consent:
  "runs w (hosts_run_add A args mode)
     (\<lambda>r es u. list_ex changes_known_hosts es \<longrightarrow> add_consent args mode w)"
  unfolding hosts_run_add_def hash_choice_def append_pin_def Let_def
  by (auto intro!: runs_intros split: sum.splits simp: emit_data_def emit_json_def
      list_ex_iff list_all_iff)

lemma hosts_add_code:
  "runs w (hosts_run_add A args mode) (\<lambda>r es u. \<forall>c. r = Inr c \<longrightarrow>
     c = (if add_consent args mode w then 0 else refusal_code mode w))"
  unfolding hosts_run_add_def hash_choice_def append_pin_def Let_def
  by (auto intro!: runs_intros split: sum.splits simp: emit_data_def emit_json_def)

end
