(* ===== verification/Transport.thy ===== *)
theory Transport
  imports Passphrase Config_Cmd Hosts_Cmd
begin

text \<open>
  The SSH path of \<open>gitway-cli/src/main.rs\<close>: host argument, configuration builder, proxy
  precedence, the choice of connection, the passphrase collected before the connection is
  opened, authentication, and the \<open>--test\<close>, \<open>--install\<close> and relay commands. Sessions and
  configurations are those of \<open>anvil_ops\<close>; the model keeps which operation runs, in which
  order, with which arguments, and what becomes of its error.
\<close>

section \<open>Host argument and configuration\<close>

definition parse_user_host :: "string \<Rightarrow> string option \<times> string" where
  "parse_user_host raw = (case split_once (CHR ''@'') raw of
     Some (user, host) \<Rightarrow> if user \<noteq> [] then (Some user, host) else (None, host)
   | None \<Rightarrow> (None, raw))"

definition default_github_host :: string where
  "default_github_host = ''github.com''"

definition apply_alg_override ::
  "('x, 'c, 's) anvil_ops \<Rightarrow> alg_category \<Rightarrow> string option \<Rightarrow> builder \<Rightarrow> anvil_error + builder" where
  "apply_alg_override A category override_str b = (case override_str of
     None \<Rightarrow> Inr b
   | Some value \<Rightarrow> (case an_apply_overrides A category (an_default_algs A category) value of
       Inl e \<Rightarrow> Inl e
     | Inr resolved \<Rightarrow> Inr (bcall (BAlgorithms category resolved) b)))"

definition opt_call :: "('a \<Rightarrow> builder_call) \<Rightarrow> 'a option \<Rightarrow> builder \<Rightarrow> builder" where
  "opt_call f v b = (case v of None \<Rightarrow> b | Some a \<Rightarrow> bcall (f a) b)"

text \<open>The builder chain of \<open>run\<close> up to the algorithm overrides, and after them.\<close>

definition cli_base_builder :: "cli \<Rightarrow> string option \<Rightarrow> string \<Rightarrow> resolved_config option \<Rightarrow> builder" where
  "cli_base_builder c parsed_user host resolved =
     (let b = bcall (BVerbose (cli_verbose c > 0)) (builder_for host);
          b = opt_call BApplySshConfig resolved b;
          b = opt_call BPort (cli_port c) b;
          b = (if cli_insecure_skip_host_check c then bcall (BStrict StrictNo) b else b);
          b = (case cli_user c of
                 Some user \<Rightarrow> bcall (BUsername user) b
               | None \<Rightarrow> opt_call BUsername parsed_user b);
          b = opt_call BAddIdentity (cli_identity c) b
      in opt_call BCertFile (cli_cert c) b)"

definition cli_builder ::
  "('x, 'c, 's) anvil_ops \<Rightarrow> cli \<Rightarrow> string option \<Rightarrow> string \<Rightarrow> resolved_config option \<Rightarrow> anvil_error + builder" where
  "cli_builder A c parsed_user host resolved =
     (case apply_alg_override A CatKex (cli_kex c) (cli_base_builder c parsed_user host resolved) of
        Inl e \<Rightarrow> Inl e
      | Inr b \<Rightarrow> (case apply_alg_override A CatCipher (cli_ciphers c) b of
        Inl e \<Rightarrow> Inl e
      | Inr b \<Rightarrow> (case apply_alg_override A CatMac (cli_macs c) b of
        Inl e \<Rightarrow> Inl e
      | Inr b \<Rightarrow> (case apply_alg_override A CatHostKey (cli_host_key_algorithms c) b of
        Inl e \<Rightarrow> Inl e
      | Inr b \<Rightarrow>
          Inr (opt_call BMaxRetryWindow (cli_max_retry_window c)
            (opt_call BAttempts (cli_attempts c)
              (opt_call BConnectTimeout (cli_connect_timeout c) b)))))))"

section \<open>Proxies\<close>

definition resolve_proxy_directives ::
  "('x, 'c, 's) anvil_ops \<Rightarrow> cli \<Rightarrow> resolved_config option \<Rightarrow> anvil_error + (string option \<times> jump_host list)" where
  "resolve_proxy_directives A c resolved =
     (let proxy_command = (case cli_proxy_command c of
              Some p \<Rightarrow> Some p
            | None \<Rightarrow> Option.bind resolved rc_proxy_command);
          jump_chain =
            (if cli_jump_host c \<noteq> [] then
               (if length (cli_jump_host c) = 1 \<and> is_none_word (hd (cli_jump_host c)) then Inr []
                else an_parse_jump_chain A (join '','' (cli_jump_host c)))
             else (case resolved of
                 Some r \<Rightarrow> (case rc_proxy_jump r of
                     Some raw \<Rightarrow> if is_none_word raw then Inr [] else an_parse_jump_chain A raw
                   | None \<Rightarrow> Inr [])
               | None \<Rightarrow> Inr []))
      in (case jump_chain of Inl e \<Rightarrow> Inl e | Inr chain \<Rightarrow> Inr (proxy_command, chain)))"

definition connect_session ::
  "('x, 'c, 's) anvil_ops \<Rightarrow> 'c \<Rightarrow> string \<Rightarrow> string option \<Rightarrow> jump_host list \<Rightarrow> ('x world, 's) eff" where
  "connect_session A config alias proxy_command jump_hosts =
     (let effective_proxy = (case proxy_command of
            None \<Rightarrow> None
          | Some s \<Rightarrow> if \<not> is_none_word s then Some s else None)
      in case effective_proxy of
           Some template \<Rightarrow>
             call (Ssh (ConnectProxyCommand template)) (an_connect_proxy_command A config template alias)
         | None \<Rightarrow>
             if jump_hosts \<noteq> [] then
               call (Ssh (ConnectJump (length jump_hosts))) (an_connect_jump_hosts A config jump_hosts)
             else call (Ssh (ConnectDirect (an_host A config))) (an_connect A config))"

section \<open>Passphrases and authentication\<close>

definition agent_holds_keys ::
  "('x, 'c, 's) anvil_ops \<Rightarrow> ('x, 'k, 'p) deps \<Rightarrow> 'x world \<Rightarrow> bool \<times> 'x world" where
  "agent_holds_keys A D =
     (if \<not> d_unix D then ret False
      else let_do (call (Agent AgConnect) (an_agent_has_keys A)) (\<lambda>r. ret (r = Inr True)))"

definition maybe_collect_passphrase ::
  "('x, 'c, 's) anvil_ops \<Rightarrow> ('x, 'k, 'p) deps \<Rightarrow> 'c \<Rightarrow> ('x world, (string \<times> string) option) eff" where
  "maybe_collect_passphrase A D config =
     try_let (call (Ssh FindIdentity) (an_find_identity A config)) (\<lambda>identity. case identity of
       IdentityEncrypted path \<Rightarrow>
         let_do (agent_holds_keys A D) (\<lambda>in_agent.
         if in_agent then ok None
         else try_let (prompt_passphrase D path) (\<lambda>passphrase. ok (Some (passphrase, path))))
     | IdentityFound _ \<Rightarrow> ok None
     | IdentityNotFound \<Rightarrow> ok None)"

definition reclassify_no_key_found ::
  "('x, 'c, 's) anvil_ops \<Rightarrow> ('x, 'k, 'p) deps \<Rightarrow> 'c \<Rightarrow> anvil_error \<Rightarrow> 'x world \<Rightarrow> anvil_error \<times> 'x world" where
  "reclassify_no_key_found A D config err =
     let_do (call (Ssh FindIdentity) (an_find_identity A config)) (\<lambda>r.
     let key_on_disk = (case r of
           Inl _ \<Rightarrow> False | Inr IdentityNotFound \<Rightarrow> False | Inr _ \<Rightarrow> True)
     in let_do (agent_holds_keys A D) (\<lambda>agent_has_keys.
        ret (if key_on_disk \<or> agent_has_keys then AuthenticationFailed else err)))"

definition authenticate_with_prompt ::
  "('x, 'c, 's) anvil_ops \<Rightarrow> ('x, 'k, 'p) deps \<Rightarrow> 's \<Rightarrow> 'c \<Rightarrow> ('x world, unit) eff" where
  "authenticate_with_prompt A D session config =
     let_do (call (Ssh Auth) (an_auth_best A session config)) (\<lambda>r. case r of
       Inr _ \<Rightarrow> ok ()
     | Inl e \<Rightarrow>
         if er_is_key_encrypted A e then
           try_let (call (Ssh FindIdentity) (an_find_identity A config)) (\<lambda>identity. case identity of
             IdentityEncrypted path \<Rightarrow>
               try_let (prompt_passphrase D path) (\<lambda>passphrase.
               call (Ssh (AuthPassphrase path)) (an_auth_passphrase A session config path passphrase))
           | IdentityFound _ \<Rightarrow> fail NoKeyFound
           | IdentityNotFound \<Rightarrow> fail NoKeyFound)
         else if er_is_no_key_found A e then
           let_do (reclassify_no_key_found A D config e) fail
         else fail e)"

definition authenticate ::
  "('x, 'c, 's) anvil_ops \<Rightarrow> ('x, 'k, 'p) deps \<Rightarrow> 's \<Rightarrow> 'c \<Rightarrow> (string \<times> string) option \<Rightarrow> ('x world, unit) eff" where
  "authenticate A D session config pre_passphrase = (case pre_passphrase of
     Some (passphrase, path) \<Rightarrow>
       call (Ssh (AuthPassphrase path)) (an_auth_passphrase A session config path passphrase)
   | None \<Rightarrow> authenticate_with_prompt A D session config)"

section \<open>Relaying a Git command\<close>

definition run_exec ::
  "('x, 'c, 's) anvil_ops \<Rightarrow> ('x, 'k, 'p) deps \<Rightarrow> 'c \<Rightarrow> string list \<Rightarrow> string \<Rightarrow> string option
   \<Rightarrow> jump_host list \<Rightarrow> ('x world, u32) eff" where
  "run_exec A D config command_parts alias proxy_command jump_hosts =
     (let command = join '' '' command_parts
      in try_let (maybe_collect_passphrase A D config) (\<lambda>pre_passphrase.
         try_let (connect_session A config alias proxy_command jump_hosts) (\<lambda>session.
         try_let (authenticate A D session config pre_passphrase) (\<lambda>_.
         try_let (call (Ssh (Exec command)) (an_exec A session command)) (\<lambda>exit_code.
         try_let (call (Ssh CloseSession) (an_close A session)) (\<lambda>_.
         ok exit_code))))))"

section \<open>--test\<close>

definition millis_u64 :: "nat \<Rightarrow> nat" where
  "millis_u64 n = (if n \<le> u64_max then n else u64_max)"

definition retry_json :: "retry_attempt \<Rightarrow> json" where
  "retry_json a = JObj [(''attempt'', JNum (uint (rt_attempt a))), (''reason'', JStr (rt_reason a)),
     (''elapsed_ms'', JNum (int (millis_u64 (rt_elapsed_millis a))))]"

definition no_identity_message :: string where
  "no_identity_message = ''gitway: no identity key found '' @ em_dash
     @ '' use --identity to specify one, or ensure a key exists in ~/.ssh/''"

text \<open>The human-mode report on the authentication. \<open>Some e\<close> is the early return that keeps the
  error.\<close>

definition report_auth ::
  "('x, 'c, 's) anvil_ops \<Rightarrow> 's \<Rightarrow> anvil_error + unit \<Rightarrow> 'x world \<Rightarrow> anvil_error option \<times> 'x world" where
  "report_auth A session auth_result = (case auth_result of
     Inr _ \<Rightarrow>
       let_do (eprintln (''gitway: authentication successful '' @ check_mark)) (\<lambda>_.
       let_do (call (Ssh Banner) (an_auth_banner A session)) (\<lambda>banner.
       let_do (case banner of Some b \<Rightarrow> eprintln b | None \<Rightarrow> ret ()) (\<lambda>_.
       ret None)))
   | Inl e \<Rightarrow>
       if er_is_no_key_found A e then
         let_do (eprintln no_identity_message) (\<lambda>_. ret None)
       else let_do (call (Ssh CloseSession) (an_close A session)) (\<lambda>_. ret (Some e)))"

definition test_data ::
  "('x, 'c, 's) anvil_ops \<Rightarrow> 'c \<Rightarrow> 's \<Rightarrow> bool \<Rightarrow> string option \<Rightarrow> json list \<Rightarrow> json list \<Rightarrow> json" where
  "test_data A config session authenticated banner cas revoked = JObj
     [(''host'', JStr (an_host A config)),
      (''port'', JNum (uint (an_port A config))),
      (''host_key_verified'', JBool (an_fingerprint A session \<noteq> None)),
      (''fingerprint'', jopt JStr (an_fingerprint A session)),
      (''authenticated'', JBool authenticated),
      (''username'', JStr (an_username A config)),
      (''banner'', jopt JStr banner),
      (''cert_authorities'', JArr cas),
      (''revoked'', JArr revoked),
      (''retry_attempts'', JArr (map retry_json (an_retry_history A session)))]"

text \<open>What follows the authentication.\<close>

definition test_report ::
  "('x, 'c, 's) anvil_ops \<Rightarrow> 'c \<Rightarrow> output_mode \<Rightarrow> 's \<Rightarrow> anvil_error + unit \<Rightarrow> ('x world, u32) eff" where
  "test_report A config mode session auth_result =
     (let authenticated = (\<not> isl auth_result);
          no_key = (case auth_result of Inl e \<Rightarrow> er_is_no_key_found A e | Inr _ \<Rightarrow> False)
      in let_do (if mode = Human then report_auth A session auth_result else ret None) (\<lambda>early.
      case early of
        Some e \<Rightarrow> fail e
      | None \<Rightarrow>
          let_do (call (Ssh Banner) (an_auth_banner A session)) (\<lambda>banner.
          try_let (call (Ssh CloseSession) (an_close A session)) (\<lambda>_.
          if mode = JsonMode then
            let_do (cert_and_revoked_json A (an_host A config) (an_custom_known_hosts A config) ''gitway --test'') (\<lambda>(cas, revoked).
            let_do (emit_data (''gitway --test --host '' @ an_host A config)
               (test_data A config session authenticated banner cas revoked)) (\<lambda>_.
            case auth_result of
              Inl e \<Rightarrow> if \<not> no_key then fail e else ok 0
            | Inr _ \<Rightarrow> ok 0))
          else ok 0))))"

definition run_test ::
  "('x, 'c, 's) anvil_ops \<Rightarrow> ('x, 'k, 'p) deps \<Rightarrow> 'c \<Rightarrow> string \<Rightarrow> string option \<Rightarrow> jump_host list
   \<Rightarrow> output_mode \<Rightarrow> ('x world, u32) eff" where
  "run_test A D config alias proxy_command jump_hosts mode =
     try_let (maybe_collect_passphrase A D config) (\<lambda>pre_passphrase.
     let_do (if mode = Human then eprintln (''gitway: connecting to '' @ an_host A config @ '':''
         @ show_nat (unat (an_port A config)) @ ellipsis) else ret ()) (\<lambda>_.
     try_let (connect_session A config alias proxy_command jump_hosts) (\<lambda>session.
     let_do (if mode = Human then eprintln (''gitway: host-key verified '' @ check_mark) else ret ()) (\<lambda>_.
     let_do (authenticate A D session config pre_passphrase)
       (test_report A config mode session)))))"

section \<open>--install\<close>

text \<open>Running \<open>git config --global core.sshCommand gitway\<close>: the exit status, or the error of
  starting it.\<close>

definition install_argv :: "string list" where
  "install_argv = [''config'', ''--global'', ''core.sshCommand'', ''gitway'']"

definition run_install :: "(string \<Rightarrow> string list \<Rightarrow> ('x, io_error + bool) xop) \<Rightarrow> output_mode \<Rightarrow> ('x world, u32) eff" where
  "run_install spawn mode =
     try_let (map_err Io (call (Lib (Respawn ''git'' install_argv)) (spawn ''git'' install_argv))) (\<lambda>success.
     if success then
       let_do (case mode of
           JsonMode \<Rightarrow> emit_data ''gitway --install'' (JObj
             [(''configured'', JBool True), (''config_key'', JStr ''core.sshCommand''),
              (''config_value'', JStr ''gitway''), (''scope'', JStr ''global'')])
         | Human \<Rightarrow> eprintln (''gitway: set core.sshCommand = gitway in global Git config '' @ check_mark))
         (\<lambda>_. ok 0)
     else fail (InvalidConfig ''git config --global core.sshCommand failed''))"

section \<open>Laws of the host argument\<close>

lemma parse_user_host_iff:
  "parse_user_host raw = (u, h) \<longleftrightarrow>
     (case u of
        Some user \<Rightarrow> user \<noteq> [] \<and> CHR ''@'' \<notin> set user \<and> raw = user @ CHR ''@'' # h
      | None \<Rightarrow> raw = CHR ''@'' # h \<or> CHR ''@'' \<notin> set raw \<and> raw = h)"
  by (auto simp: parse_user_host_def split_once_None_iff split_once_append
      split: option.splits dest: split_once_SomeD) 

section \<open>Precedence of the command line over ssh\_config\<close>

definition is_config_call :: "builder_call \<Rightarrow> bool" where
  "is_config_call b \<longleftrightarrow> (\<exists>r. b = BApplySshConfig r)"

definition opt_list :: "'a option \<Rightarrow> 'a list" where
  "opt_list v = (case v of None \<Rightarrow> [] | Some a \<Rightarrow> [a])"

lemma bd_calls_bcall [simp]: "bd_calls (bcall c b) = bd_calls b @ [c]"
  by (simp add: bcall_def)

lemma bd_calls_opt_call [simp]: "bd_calls (opt_call f v b) = bd_calls b @ map f (opt_list v)"
  by (simp add: opt_call_def opt_list_def split: option.splits)

text \<open>What one algorithm flag contributes.\<close>

definition override_calls :: "('x, 'c, 's) anvil_ops \<Rightarrow> alg_category \<Rightarrow> string option \<Rightarrow> builder_call list" where
  "override_calls A cat v = (case v of
     None \<Rightarrow> []
   | Some s \<Rightarrow> (case an_apply_overrides A cat (an_default_algs A cat) s of
       Inl _ \<Rightarrow> [] | Inr l \<Rightarrow> [BAlgorithms cat l]))"

lemma apply_alg_override_calls:
  "apply_alg_override A cat v b = Inr b' \<Longrightarrow> bd_calls b' = bd_calls b @ override_calls A cat v"
  by (auto simp: apply_alg_override_def override_calls_def split: option.splits sum.splits)

text \<open>The overrides of the command line, in the order they are applied.\<close>

definition cli_overrides :: "('x, 'c, 's) anvil_ops \<Rightarrow> cli \<Rightarrow> string option \<Rightarrow> builder_call list" where
  "cli_overrides A c parsed_user =
     map BPort (opt_list (cli_port c))
     @ (if cli_insecure_skip_host_check c then [BStrict StrictNo] else [])
     @ map BUsername (opt_list (case cli_user c of Some u \<Rightarrow> Some u | None \<Rightarrow> parsed_user))
     @ map BAddIdentity (opt_list (cli_identity c)) @ map BCertFile (opt_list (cli_cert c))
     @ override_calls A CatKex (cli_kex c) @ override_calls A CatCipher (cli_ciphers c)
     @ override_calls A CatMac (cli_macs c) @ override_calls A CatHostKey (cli_host_key_algorithms c)
     @ map BConnectTimeout (opt_list (cli_connect_timeout c))
     @ map BAttempts (opt_list (cli_attempts c))
     @ map BMaxRetryWindow (opt_list (cli_max_retry_window c))"

lemma cli_base_builder_calls:
  "bd_calls (cli_base_builder c parsed_user host resolved) =
     BVerbose (cli_verbose c > 0) # map BApplySshConfig (opt_list resolved)
     @ map BPort (opt_list (cli_port c))
     @ (if cli_insecure_skip_host_check c then [BStrict StrictNo] else [])
     @ map BUsername (opt_list (case cli_user c of Some u \<Rightarrow> Some u | None \<Rightarrow> parsed_user))
     @ map BAddIdentity (opt_list (cli_identity c)) @ map BCertFile (opt_list (cli_cert c))"
  by (cases "cli_user c") (auto simp: cli_base_builder_def Let_def builder_for_def opt_list_def)

lemma cli_builder_calls:
  assumes "cli_builder A c parsed_user host resolved = Inr b"
  shows "bd_calls b = BVerbose (cli_verbose c > 0) # map BApplySshConfig (opt_list resolved)
     @ cli_overrides A c parsed_user"
proof -
  from assms obtain b1 b2 b3 b4 where
    b: "apply_alg_override A CatKex (cli_kex c) (cli_base_builder c parsed_user host resolved) = Inr b1"
      "apply_alg_override A CatCipher (cli_ciphers c) b1 = Inr b2"
      "apply_alg_override A CatMac (cli_macs c) b2 = Inr b3"
      "apply_alg_override A CatHostKey (cli_host_key_algorithms c) b3 = Inr b4"
      "b = opt_call BMaxRetryWindow (cli_max_retry_window c) (opt_call BAttempts (cli_attempts c)
            (opt_call BConnectTimeout (cli_connect_timeout c) b4))"
    by (auto simp: cli_builder_def split: sum.splits)
  show ?thesis
    by (simp add: b(5) b(1-4)[THEN apply_alg_override_calls] cli_base_builder_calls cli_overrides_def)
qed

lemma cli_overrides_no_config: "BApplySshConfig r \<notin> set (cli_overrides A c u)"
  by (auto simp: cli_overrides_def opt_list_def override_calls_def split: option.splits sum.splits)

text \<open>The algorithm flags in the order in which \<open>run\<close> applies them, and the errors with which the
  library rejects the given ones.\<close>

definition alg_flags :: "cli \<Rightarrow> (alg_category \<times> string option) list" where
  "alg_flags c = [(CatKex, cli_kex c), (CatCipher, cli_ciphers c), (CatMac, cli_macs c),
     (CatHostKey, cli_host_key_algorithms c)]"

definition rejection :: "('x, 'c, 's) anvil_ops \<Rightarrow> alg_category \<Rightarrow> string option \<Rightarrow> anvil_error list" where
  "rejection A cat v = (case v of
     None \<Rightarrow> []
   | Some s \<Rightarrow> (case an_apply_overrides A cat (an_default_algs A cat) s of Inl e \<Rightarrow> [e] | Inr l \<Rightarrow> []))"

definition rejections :: "('x, 'c, 's) anvil_ops \<Rightarrow> cli \<Rightarrow> anvil_error list" where
  "rejections A c = concat (map (\<lambda>(cat, v). rejection A cat v) (alg_flags c))"

lemma rejections_flags:
  "rejections A c = rejection A CatKex (cli_kex c) @ rejection A CatCipher (cli_ciphers c)
     @ rejection A CatMac (cli_macs c) @ rejection A CatHostKey (cli_host_key_algorithms c)"
  by (simp add: rejections_def alg_flags_def)

lemma apply_alg_override_rejection:
  "case apply_alg_override A cat v b of Inl e \<Rightarrow> rejection A cat v = [e] | Inr b' \<Rightarrow> rejection A cat v = []"
  by (simp add: apply_alg_override_def rejection_def split: option.splits sum.splits)

text \<open>The builder fails exactly when a list is rejected, with the first rejection.\<close>

lemma cli_builder_rejections:
  "case cli_builder A c parsed_user host resolved of
     Inl e \<Rightarrow> rejections A c \<noteq> [] \<and> e = hd (rejections A c) | Inr b \<Rightarrow> rejections A c = []"
  using apply_alg_override_rejection[of A CatKex "cli_kex c"]
    apply_alg_override_rejection[of A CatCipher "cli_ciphers c"]
    apply_alg_override_rejection[of A CatMac "cli_macs c"]
    apply_alg_override_rejection[of A CatHostKey "cli_host_key_algorithms c"]
  by (fastforce simp: cli_builder_def rejections_flags split: sum.splits)

section \<open>The route of a connection\<close>

text \<open>What counts of the values given for a proxy, the command line's before ssh\_config's: the
  first one, unless it is the word \<open>none\<close>.\<close>

definition chosen :: "string list \<Rightarrow> string option" where
  "chosen given = (case given of [] \<Rightarrow> None | t # _ \<Rightarrow> if is_none_word t then None else Some t)"

definition chosen_command :: "cli \<Rightarrow> resolved_config option \<Rightarrow> string option" where
  "chosen_command c resolved =
     chosen (opt_list (cli_proxy_command c) @ opt_list (Option.bind resolved rc_proxy_command))"

definition chosen_jumps :: "cli \<Rightarrow> resolved_config option \<Rightarrow> string option" where
  "chosen_jumps c resolved =
     chosen ((if cli_jump_host c = [] then [] else [join '','' (cli_jump_host c)])
       @ opt_list (Option.bind resolved rc_proxy_jump))"

lemma not_none_word_comma: "CHR '','' \<in> set s \<Longrightarrow> \<not> is_none_word s"
proof
  assume "CHR '','' \<in> set s" and "is_none_word s"
  then have "lower_char (CHR '','') \<in> set (to_lower ''none'')"
    unfolding is_none_word_def eq_ignore_case_def to_lower_def by (metis image_eqI set_map)
  moreover have "lower_char (CHR '','') \<notin> set (to_lower ''none'')" by code_simp
  ultimately show False by contradiction
qed

lemma proxy_directives_chosen:
  "resolve_proxy_directives A c resolved =
     (case (case chosen_jumps c resolved of None \<Rightarrow> Inr [] | Some spec \<Rightarrow> an_parse_jump_chain A spec) of
        Inl e \<Rightarrow> Inl e
      | Inr hops \<Rightarrow> Inr (case cli_proxy_command c of
          Some p \<Rightarrow> Some p | None \<Rightarrow> Option.bind resolved rc_proxy_command, hops))"
proof (cases "cli_jump_host c")
  case Nil
  then show ?thesis
    by (simp add: resolve_proxy_directives_def chosen_jumps_def chosen_def opt_list_def Let_def
        split: option.splits sum.splits)
next
  case (Cons j js)
  have "\<not> is_none_word (join '','' (j # js))" if "js \<noteq> []"
    by (rule not_none_word_comma) (cases js; use that in simp)
  with Cons show ?thesis
    by (cases "js = []") (simp_all add: resolve_proxy_directives_def chosen_jumps_def chosen_def Let_def)
qed

lemma connect_session_chosen:
  "connect_session A config alias (case cli_proxy_command c of
      Some p \<Rightarrow> Some p | None \<Rightarrow> Option.bind resolved rc_proxy_command) hops =
   (case chosen_command c resolved of
      Some t \<Rightarrow> call (Ssh (ConnectProxyCommand t)) (an_connect_proxy_command A config t alias)
    | None \<Rightarrow>
        if hops = [] then call (Ssh (ConnectDirect (an_host A config))) (an_connect A config)
        else call (Ssh (ConnectJump (length hops))) (an_connect_jump_hosts A config hops))"
  by (auto simp: connect_session_def chosen_command_def chosen_def opt_list_def split: option.splits)

text \<open>The connection that a proxy command and a jump chain select.\<close>

definition route :: "('x, 'c, 's) anvil_ops \<Rightarrow> 'c \<Rightarrow> string option \<Rightarrow> jump_host list \<Rightarrow> ssh_call" where
  "route A config proxy_command jumps = (case proxy_command of
     Some s \<Rightarrow> if \<not> is_none_word s then ConnectProxyCommand s
              else if jumps \<noteq> [] then ConnectJump (length jumps) else ConnectDirect (an_host A config)
   | None \<Rightarrow> if jumps \<noteq> [] then ConnectJump (length jumps) else ConnectDirect (an_host A config))"

lemma connect_session_route:
  "traced (connect_session A config alias pc jumps) (\<lambda>r es. es = [Ssh (route A config pc jumps)])"
  unfolding connect_session_def route_def Let_def by (auto intro!: traced_intros split: option.splits)

lemma traced_connect_session [traced_intros]:
  "(\<And>r. Q r [Ssh (route A config pc jumps)]) \<Longrightarrow> traced (connect_session A config alias pc jumps) Q"
  by (rule traced_mono[OF connect_session_route]) simp

fun is_connect :: "event \<Rightarrow> bool" where
  "is_connect (Ssh (ConnectDirect h)) = True"
| "is_connect (Ssh (ConnectProxyCommand t)) = True"
| "is_connect (Ssh (ConnectJump n)) = True"
| "is_connect _ = False"

lemma is_connect_route [simp]: "is_connect (Ssh (route A config pc jumps))"
  by (simp add: route_def split: option.splits)

section \<open>Authentication before execution\<close>

fun is_exec :: "event \<Rightarrow> bool" where
  "is_exec (Ssh (Exec c)) = True"
| "is_exec _ = False"

fun is_auth :: "event \<Rightarrow> bool" where
  "is_auth (Ssh Auth) = True"
| "is_auth (Ssh (AuthPassphrase p)) = True"
| "is_auth _ = False"

lemma passphrase_event_not_ssh:
  "passphrase_event e \<Longrightarrow> \<not> is_connect e \<and> \<not> is_exec e \<and> \<not> is_auth e"
  by (cases e) (auto simp: passphrase_event_def vault_event_def)

text \<open>Some authentication call of the library can succeed.\<close>

definition can_authenticate :: "('x, 'c, 's) anvil_ops \<Rightarrow> bool" where
  "can_authenticate A \<longleftrightarrow>
     (\<exists>s c st. fst (an_auth_best A s c st) = Inr ())
     \<or> (\<exists>s c path p st. fst (an_auth_passphrase A s c path p st) = Inr ())"

lemma can_authenticateI:
  "fst (an_auth_best A s c st) = Inr () \<Longrightarrow> can_authenticate A"
  "fst (an_auth_passphrase A s c path p st) = Inr () \<Longrightarrow> can_authenticate A"
  unfolding can_authenticate_def by blast+

lemma not_can_authenticate:
  "\<not> can_authenticate A \<Longrightarrow> fst (an_auth_best A s c st) \<noteq> Inr ()"
  "\<not> can_authenticate A \<Longrightarrow> fst (an_auth_passphrase A s c path p st) \<noteq> Inr ()"
  by (auto dest: can_authenticateI)

text \<open>The shape of a relay: nothing is sent before the one connection, which follows the
  passphrase collection; the command runs once, after an authentication, and is followed by
  the close of the session only. An authentication that goes beyond its first call started with
  the automatic one, so a passphrase collected beforehand is never asked for again.\<close>

definition relay_shape :: "string \<Rightarrow> ssh_call \<Rightarrow> event list \<Rightarrow> bool" where
  "relay_shape command via es \<longleftrightarrow>
     (\<exists>pre auth post. es = pre @ Ssh via # auth @ Ssh (Exec command) # post
        \<and> list_all (\<lambda>e. \<not> is_connect e \<and> \<not> is_exec e \<and> \<not> is_auth e) pre
        \<and> list_all (\<lambda>e. \<not> is_connect e \<and> \<not> is_exec e) auth \<and> auth \<noteq> [] \<and> is_auth (hd auth)
        \<and> (tl auth \<noteq> [] \<longrightarrow> hd auth = Ssh Auth)
        \<and> post \<in> {[], [Ssh CloseSession]})"

text \<open>The events \<open>es\<close> come right after the world in which an authentication of this run has
  returned \<open>Ok\<close>.\<close>

definition authenticated_before ::
  "('x, 'c, 's) anvil_ops \<Rightarrow> ('x, 'k, 'p) deps \<Rightarrow> 'c \<Rightarrow> event list \<Rightarrow> 'x world \<Rightarrow> bool" where
  "authenticated_before A D config es t \<longleftrightarrow> (\<exists>session pre u v.
     authenticate A D session config pre u = (Inr (), v) \<and> prefix (w_trace v @ es) (w_trace t))"

lemma authenticated_beforeI:
  "authenticate A D session config pre u = (Inr (), v) \<Longrightarrow> prefix (w_trace v @ es) (w_trace t) \<Longrightarrow>
   authenticated_before A D config es t"
  unfolding authenticated_before_def by blast

text \<open>\<open>--test\<close> sends no command, ends with code 0 or an error, and reports
  \<open>authenticated: true\<close> only if the library did.\<close>

definition claims_authenticated :: "event \<Rightarrow> bool" where
  "claims_authenticated e \<longleftrightarrow> (\<exists>j d. e = Out (Json j) \<and> jfield ''data'' j = Some d
     \<and> jfield ''authenticated'' d = Some (JBool True))"

lemma claims_authenticated_simps [simp]:
  "\<not> claims_authenticated (Ssh c)" "\<not> claims_authenticated (Lib l)"
  "\<not> claims_authenticated (Err p)" "\<not> claims_authenticated (Agent a)" "\<not> claims_authenticated (Out (Text s))" "passphrase_event e \<Longrightarrow> \<not> claims_authenticated e"
  by (auto simp: claims_authenticated_def)

lemma adds_cert_and_revoked [adds_intros]:
  "P (Lib (KnownHosts ''host_key_trust'')) \<Longrightarrow> (\<And>s. P (Err (Text s))) \<Longrightarrow>
   adds_only P (cert_and_revoked_json A host custom label)"
  unfolding cert_and_revoked_json_def by (auto intro!: adds_intros)

lemma report_auth_early:
  "traced (report_auth A session r) (\<lambda>early es.
    list_all (\<lambda>e. \<not> is_exec e \<and> \<not> claims_authenticated e) es
    \<and> (case r of Inr _ \<Rightarrow> early = None | Inl e \<Rightarrow> early = (if er_is_no_key_found A e then None else Some e)))"
  unfolding report_auth_def by (auto intro!: traced_intros split: sum.splits)

lemma test_data_authenticated:
  "jfield ''authenticated'' (test_data A config session au banner cas revk) = Some (JBool au)"
  by (simp add: test_data_def)

lemma test_steps_claims:
  "traced (connect_session A config alias pc jumps) (\<lambda>r es. list_all (\<lambda>e. \<not> is_exec e \<and> \<not> claims_authenticated e) es)"
  "traced (cert_and_revoked_json A host custom label) (\<lambda>r es. list_all (\<lambda>e. \<not> is_exec e \<and> \<not> claims_authenticated e) es)"
proof -
  show "traced (cert_and_revoked_json A host custom label) (\<lambda>r es. list_all (\<lambda>e. \<not> is_exec e \<and> \<not> claims_authenticated e) es)"
    by (rule traced_adds_only[where P = "\<lambda>e. \<not> is_exec e \<and> \<not> claims_authenticated e"])
      (auto intro!: adds_cert_and_revoked)
qed (auto intro!: traced_connect_session simp: route_def split: option.splits)

text \<open>The report never claims more than the authentication gave, and turns every failure other
  than a missing key into the result.\<close>

lemma test_report_result:
  "traced (test_report A config mode session auth_result) (\<lambda>r es.
    list_all (\<lambda>e. \<not> is_exec e) es \<and> (isl r \<or> r = Inr 0)
    \<and> (case auth_result of
         Inr _ \<Rightarrow> True
       | Inl e \<Rightarrow> \<not> list_ex claims_authenticated es \<and> (er_is_no_key_found A e \<or> isl r)))"
  unfolding test_report_def Let_def
  by (cases mode)
    (auto intro!: traced_intros traced_mono[OF report_auth_early] traced_mono[OF test_steps_claims(2)]
      split: sum.splits option.splits if_splits simp: list_all_iff list_ex_iff,
     auto simp: claims_authenticated_def test_data_authenticated)

lemma test_report_connects:
  "traced (test_report A config mode session r) (\<lambda>r es. list_all (\<lambda>e. \<not> is_connect e) es)"
  unfolding test_report_def report_auth_def Let_def
  by (rule traced_adds_only[where P = "\<lambda>e. \<not> is_connect e"])
    (auto intro!: adds_intros adds_cert_and_revoked split: sum.splits)

text \<open>An automatic authentication that found no key: the error, and what a person is told by
  \<open>--test\<close>, depend on whether a key was there.\<close>

definition key_was_there ::
  "('x, 'c, 's) anvil_ops \<Rightarrow> ('x, 'k, 'p) deps \<Rightarrow> 'c \<Rightarrow> 'x store \<Rightarrow> bool" where
  "key_was_there A D config s = (case an_find_identity A config s of (found, s') \<Rightarrow>
     (case found of Inr (IdentityFound p) \<Rightarrow> True | Inr (IdentityEncrypted p) \<Rightarrow> True | _ \<Rightarrow> False)
     \<or> (d_unix D \<and> fst (an_agent_has_keys A s') = Inr True))"

lemma authenticate_missing_key:
  assumes "an_auth_best A session config (store_of w) = (Inl e, s)"
    and "er_is_no_key_found A e" and "\<not> er_is_key_encrypted A e"
  shows "runs w (authenticate A D session config None) (\<lambda>r es u.
    r = Inl (if key_was_there A D config s then AuthenticationFailed else e)
    \<and> list_all (\<lambda>e. \<forall>p. e \<noteq> Err p) es)"
  using assms
  by (auto simp: authenticate_def authenticate_with_prompt_def reclassify_no_key_found_def
      agent_holds_keys_def key_was_there_def store_of_def intro!: runs_intros
      split: sum.splits identity_resolution.splits)

lemma test_report_missing_key:
  "traced (test_report A config Human session (Inl e)) (\<lambda>r es.
     if er_is_no_key_found A e then Err (Text no_identity_message) \<in> set es
     else r = Inl e \<and> Err (Text no_identity_message) \<notin> set es)"
  by (auto simp: test_report_def report_auth_def Let_def intro!: traced_intros split: sum.splits)

lemma missing_key_report:
  assumes "an_auth_best A session config (store_of w) = (Inl e, s)"
    and "er_is_no_key_found A e" and "\<not> er_is_key_encrypted A e"
    and e': "e' = (if key_was_there A D config s then AuthenticationFailed else e)"
  shows "fst (authenticate A D session config None w) = Inl e'"
    and "runs w (let_do (authenticate A D session config None) (test_report A config Human session)) (\<lambda>r es u.
      if er_is_no_key_found A e' then Err (Text no_identity_message) \<in> set es
      else r = Inl e' \<and> Err (Text no_identity_message) \<notin> set es)"
proof -
  note missing = authenticate_missing_key[OF assms(1-3), of D, folded e']
  show "fst (authenticate A D session config None w) = Inl e'"
    using missing by (auto simp: runs_def)
  show "runs w (let_do (authenticate A D session config None) (test_report A config Human session)) (\<lambda>r es u.
      if er_is_no_key_found A e' then Err (Text no_identity_message) \<in> set es
      else r = Inl e' \<and> Err (Text no_identity_message) \<notin> set es)"
    by (rule runs_let_do, rule runs_mono[OF missing])
      (auto simp: list_all_iff intro!: runs_of_traced[OF test_report_missing_key] split: if_splits)
qed

context quiet_vault
begin

lemma traced_prompt_passphrase:
  "d_vault D = V \<Longrightarrow> (\<And>r es. list_all passphrase_event es \<Longrightarrow> Q r es) \<Longrightarrow>
   traced (prompt_passphrase D path) Q"
  by (rule traced_adds_only[OF prompt_passphrase_events])

lemma maybe_collect_events:
  assumes "d_vault D = V"
  shows "traced (maybe_collect_passphrase A D config) (\<lambda>r es.
    list_all (\<lambda>e. \<not> is_connect e \<and> \<not> is_exec e \<and> \<not> is_auth e) es)"
  unfolding maybe_collect_passphrase_def agent_holds_keys_def
  by (auto intro!: traced_intros traced_prompt_passphrase[OF assms] split: sum.splits
      identity_resolution.splits simp: list_all_iff passphrase_event_not_ssh)

lemma authenticate_events:
  assumes "d_vault D = V"
  shows "traced (authenticate A D session config pre) (\<lambda>r es.
    list_all (\<lambda>e. \<not> is_connect e \<and> \<not> is_exec e) es \<and> es \<noteq> [] \<and> is_auth (hd es) \<and>
    (tl es \<noteq> [] \<longrightarrow> hd es = Ssh Auth) \<and> (r = Inr () \<longrightarrow> can_authenticate A))"
  unfolding authenticate_def authenticate_with_prompt_def reclassify_no_key_found_def
    agent_holds_keys_def Let_def
  by (cases "can_authenticate A")
    (auto intro!: traced_intros traced_prompt_passphrase[OF assms] split: sum.splits
      identity_resolution.splits simp: list_all_iff passphrase_event_not_ssh not_can_authenticate)

lemma run_exec_shape:
  assumes "d_vault D = V"
  shows "traced (run_exec A D config parts alias pc jumps) (\<lambda>r es.
    (if list_ex is_exec es
     then relay_shape (join '' '' parts) (route A config pc jumps) es \<and> can_authenticate A
     else isl r))"
proof -
  have "list_ex is_exec es \<longleftrightarrow> False" if "list_all (\<lambda>e. \<not> is_connect e \<and> \<not> is_exec e \<and> \<not> is_auth e) es" for es
    using that by (auto simp: list_ex_iff list_all_iff)
  moreover have "list_ex is_exec es \<longleftrightarrow> False" if "list_all (\<lambda>e. \<not> is_connect e \<and> \<not> is_exec e) es" for es
    using that by (auto simp: list_ex_iff list_all_iff)
  moreover have "\<not> is_exec (Ssh (route A config pc jumps))"
    by (simp add: route_def split: option.splits)
  moreover have "relay_shape c via (pre @ Ssh via # auth @ Ssh (Exec c) # post)"
    if "list_all (\<lambda>e. \<not> is_connect e \<and> \<not> is_exec e \<and> \<not> is_auth e) pre"
      "list_all (\<lambda>e. \<not> is_connect e \<and> \<not> is_exec e) auth" "auth \<noteq> []" "is_auth (hd auth)"
      "tl auth \<noteq> [] \<longrightarrow> hd auth = Ssh Auth"
      "post \<in> {[], [Ssh CloseSession]}" for c via pre auth post
    unfolding relay_shape_def using that by blast
  ultimately show ?thesis
    unfolding run_exec_def Let_def
    by (auto intro!: traced_intros traced_mono[OF maybe_collect_events[OF assms]]
        traced_mono[OF authenticate_events[OF assms]] split: sum.splits)
qed

lemma connects_once:
  assumes "d_vault D = V"
  shows "traced (run_exec A D config parts alias pc jumps) (\<lambda>r es.
      [e \<leftarrow> es. is_connect e] \<in> {[], [Ssh (route A config pc jumps)]})"
    and "traced (run_test A D config alias pc jumps mode) (\<lambda>r es.
      [e \<leftarrow> es. is_connect e] \<in> {[], [Ssh (route A config pc jumps)]})"
proof -
  have collect: "traced (maybe_collect_passphrase A D config) (\<lambda>r es. [e \<leftarrow> es. is_connect e] = [])"
    by (rule traced_mono[OF maybe_collect_events[OF assms]]) (auto simp: list_all_iff filter_empty_conv)
  have auth: "traced (authenticate A D session config pre) (\<lambda>r es. [e \<leftarrow> es. is_connect e] = [])" for session pre
    by (rule traced_mono[OF authenticate_events[OF assms]]) (auto simp: list_all_iff filter_empty_conv)
  have report: "traced (test_report A config mode session r) (\<lambda>r es. [e \<leftarrow> es. is_connect e] = [])" for session r mode
    by (rule traced_mono[OF test_report_connects]) (auto simp: list_all_iff filter_empty_conv)
  show "traced (run_exec A D config parts alias pc jumps) (\<lambda>r es.
      [e \<leftarrow> es. is_connect e] \<in> {[], [Ssh (route A config pc jumps)]})"
    unfolding run_exec_def Let_def
    by (auto intro!: traced_intros traced_mono[OF collect] traced_mono[OF auth] split: sum.splits)
  show "traced (run_test A D config alias pc jumps mode) (\<lambda>r es.
      [e \<leftarrow> es. is_connect e] \<in> {[], [Ssh (route A config pc jumps)]})"
    unfolding run_test_def
    by (auto intro!: traced_intros traced_mono[OF collect] traced_mono[OF auth] traced_mono[OF report] split: sum.splits)
qed

lemma run_exec_authenticated:
  assumes "d_vault D = V"
  shows "runs w (run_exec A D config parts alias pc jumps) (\<lambda>r es t.
    if list_ex is_exec es then authenticated_before A D config [Ssh (Exec (join '' '' parts))] t else isl r)"
  (is "runs w _ ?Q")
proof -
  have no_exec: "list_ex is_exec es \<longleftrightarrow> False" if "list_all (\<lambda>e. \<not> is_exec e) es" for es
    using that by (auto simp: list_all_iff list_ex_iff)
  have skip: "?Q r (es @ es') t" if "list_all (\<lambda>e. \<not> is_exec e) es" and "?Q r es' t" for r es es' t
    using that by (simp add: no_exec)
  have err: "?Q (Inl e) es t" if "list_all (\<lambda>e. \<not> is_exec e) es" for e es t
    using that by (simp add: no_exec)
  have collect: "traced (maybe_collect_passphrase A D config) (\<lambda>r es. list_all (\<lambda>e. \<not> is_exec e) es)"
    by (rule traced_mono[OF maybe_collect_events[OF assms]]) (auto simp: list_all_iff)
  have connect: "traced (connect_session A config alias pc jumps) (\<lambda>r es. list_all (\<lambda>e. \<not> is_exec e) es)"
    by (auto intro!: traced_connect_session simp: route_def split: option.splits)
  have auth: "traced (authenticate A D session config pre) (\<lambda>r es. list_all (\<lambda>e. \<not> is_exec e) es)"
    for session pre
    by (rule traced_mono[OF authenticate_events[OF assms]]) (auto simp: list_all_iff)
  have relay: "runs v (try_let (call (Ssh (Exec (join '' '' parts))) (an_exec A session (join '' '' parts))) (\<lambda>exit_code.
      try_let (call (Ssh CloseSession) (an_close A session)) (\<lambda>_. ok exit_code))) ?Q"
    if "authenticate A D session config pre u = (Inr (), v)" for session pre u v
    by (auto intro!: runs_intros authenticated_beforeI[OF that] split: sum.splits simp del: prefix_snoc)
  show ?thesis
    unfolding run_exec_def Let_def
    by (intro runs_skip_try[where Q = ?Q, OF collect _ skip err] runs_skip_try[where Q = ?Q, OF connect _ skip err]
        runs_skip_try[where Q = ?Q, OF auth _ skip err] relay) simp_all
qed

lemma authenticate_claims:
  assumes "d_vault D = V"
  shows "traced (authenticate A D session config pre) (\<lambda>r es.
    list_all (\<lambda>e. \<not> is_exec e \<and> \<not> claims_authenticated e) es \<and> (r = Inr () \<longrightarrow> can_authenticate A))"
  unfolding authenticate_def authenticate_with_prompt_def reclassify_no_key_found_def
    agent_holds_keys_def Let_def
  by (cases "can_authenticate A")
    (auto intro!: traced_intros traced_prompt_passphrase[OF assms] split: sum.splits
      identity_resolution.splits simp: list_all_iff passphrase_event_not_ssh not_can_authenticate)

lemma maybe_collect_claims:
  assumes "d_vault D = V"
  shows "traced (maybe_collect_passphrase A D config) (\<lambda>r es.
    list_all (\<lambda>e. \<not> is_exec e \<and> \<not> claims_authenticated e) es)"
  unfolding maybe_collect_passphrase_def agent_holds_keys_def
  by (auto intro!: traced_intros traced_prompt_passphrase[OF assms] split: sum.splits
      identity_resolution.splits simp: list_all_iff passphrase_event_not_ssh)

lemma run_test_result:
  assumes "d_vault D = V"
  shows "runs w (run_test A D config alias pc jumps mode) (\<lambda>r es t.
    list_all (\<lambda>e. \<not> is_exec e) es \<and> (isl r \<or> r = Inr 0) \<and>
    (if list_ex claims_authenticated es then authenticated_before A D config [] t else True))"
  (is "runs w _ ?Q")
proof -
  let ?silent = "\<lambda>e. \<not> is_exec e \<and> \<not> claims_authenticated e"
  have no_claim: "list_ex claims_authenticated es \<longleftrightarrow> False" "list_all (\<lambda>e. \<not> is_exec e) es"
    if "list_all ?silent es" for es
    using that by (auto simp: list_all_iff list_ex_iff)
  have skip: "?Q r (es @ es') t" if "list_all ?silent es" and "?Q r es' t" for r es es' t
    using that no_claim[OF that(1)] by simp
  have err: "?Q (Inl e) es t" if "list_all ?silent es" for e es t
    using no_claim[OF that] by simp
  have say: "traced (if mode = Human then eprintln s else ret ()) (\<lambda>r es. list_all ?silent es)" for s
    by (auto intro!: traced_intros)
  have auth: "traced (authenticate A D session config pre) (\<lambda>r es. list_all ?silent es)" for session pre
    by (rule traced_mono[OF authenticate_claims[OF assms]]) simp
  have reported: "runs v (test_report A config mode session auth_result) ?Q"
    if auth: "authenticate A D session config pre u = (auth_result, v)" for session pre u v auth_result
  proof -
    obtain r t where run: "test_report A config mode session auth_result v = (r, t)" by fastforce
    obtain es where es: "w_trace t = w_trace v @ es" and result: "list_all (\<lambda>e. \<not> is_exec e) es"
      "isl r \<or> r = Inr 0" "isl auth_result \<longrightarrow> \<not> list_ex claims_authenticated es"
      by (rule tracedE[OF test_report_result run]) (auto split: sum.splits)
    have "authenticated_before A D config [] t" if "\<not> isl auth_result"
      using that auth es by (cases auth_result) (auto intro!: authenticated_beforeI)
    then show ?thesis
      unfolding runs_def using run es result by auto
  qed
  show ?thesis
    unfolding run_test_def
    by (intro runs_skip_try[where Q = ?Q, OF maybe_collect_claims[OF assms] _ skip err] runs_skip_let[where Q = ?Q, OF say _ skip]
        runs_skip_try[where Q = ?Q, OF test_steps_claims(1) _ skip err] runs_skip_let[where Q = ?Q, OF auth _ skip] reported)
qed

end

end
