(* ===== verification/Algorithms_Cmd.thy ===== *)
theory Algorithms_Cmd
  imports Anvil
begin

text \<open>\<open>gitway-cli/src/algorithms.rs\<close>: the algorithm catalogue as text and as JSON.\<close>

definition format_entry :: "alg_entry \<Rightarrow> string" where
  "format_entry e =
     (let tag = (if ae_denylisted e then ''denylisted''
                 else if ae_is_default e then ''default'' else ''available'')
      in pad_right 44 (ae_name e) @ '' '' @ tag)"

definition entry_to_json :: "alg_entry \<Rightarrow> json" where
  "entry_to_json e = JObj [(''name'', JStr (ae_name e)), (''is_default'', JBool (ae_is_default e)),
     (''denylisted'', JBool (ae_denylisted e))]"

definition human_catalogue :: "catalogue \<Rightarrow> string list" where
  "human_catalogue c =
     ''# KEX'' # map format_entry (ct_kex c) @ [] # ''# Ciphers'' # map format_entry (ct_cipher c)
     @ [] # ''# MACs'' # map format_entry (ct_mac c)
     @ [] # ''# Host-key algorithms'' # map format_entry (ct_host_key c)"

definition emit_human_catalogue :: "catalogue \<Rightarrow> 'x world \<Rightarrow> unit \<times> 'x world" where
  "emit_human_catalogue c = print_lines (human_catalogue c)"

definition catalogue_json :: "catalogue \<Rightarrow> json" where
  "catalogue_json c = JObj
     [(''kex'', JArr (map entry_to_json (ct_kex c))),
      (''cipher'', JArr (map entry_to_json (ct_cipher c))),
      (''mac'', JArr (map entry_to_json (ct_mac c))),
      (''host_key'', JArr (map entry_to_json (ct_host_key c)))]"

definition emit_json_catalogue :: "catalogue \<Rightarrow> 'x world \<Rightarrow> unit \<times> 'x world" where
  "emit_json_catalogue c = emit_data ''gitway list-algorithms'' (catalogue_json c)"

definition algorithms_run :: "('x, 'c, 's) anvil_ops \<Rightarrow> output_mode \<Rightarrow> ('x world, u32) eff" where
  "algorithms_run A mode =
     (let cat = an_catalogue A
      in let_do (if mode = JsonMode then emit_json_catalogue cat else emit_human_catalogue cat)
           (\<lambda>_. ok 0))"

text \<open>The tag of a printed entry is its last word: a denied algorithm is never shown as a
  default, even if the catalogue marks it so.\<close>

lemma format_entry_tag:
  "suffix (if ae_denylisted e then '' denylisted'' else if ae_is_default e then '' default''
     else '' available'') (format_entry e)"
  by (auto simp: format_entry_def suffix_def)

end
