(* ===== verification/Schema.thy ===== *)
theory Schema
  imports Output_Mode
begin

text \<open>
  The two discovery documents of \<open>gitway-cli/src/main.rs\<close>, \<open>gitway schema\<close> and
  \<open>gitway describe\<close>: the literals key by key, and the two functions that print them. The long
  objects of the schema document are definitions of their own.
\<close>

definition jstrs :: "string list \<Rightarrow> json" where
  "jstrs xs = JArr (map JStr xs)"

section \<open>gitway schema\<close>

definition schema_commands :: json where
  "schema_commands = JArr [
      JObj [
        (''name'', JStr ''gitway <host> <command...>''),
        (''description'', JStr ''Relay a Git command over SSH to a hosting service''),
        (''supports_json'', JBool False),
        (''idempotent'', JBool True),
        (''args'', JObj [
            (''host'', JObj [
                (''type'', JStr ''string''),
                (''description'', JStr ''SSH hostname (e.g. github.com, gitlab.com, codeberg.org)'')]),
            (''command'', JObj [
                (''type'', JStr ''array''),
                (''items'', JObj [(''type'', JStr ''string'')]),
                (''description'', JStr ''Remote command tokens (e.g. git-upload-pack 'user/repo.git')'')])])],
      JObj [
        (''name'', JStr ''gitway --test''),
        (''description'', JStr ''Verify SSH connectivity and authentication''),
        (''supports_json'', JBool True),
        (''idempotent'', JBool True)],
      JObj [
        (''name'', JStr ''gitway --install''),
        (''description'', JStr ''Register gitway as git core.sshCommand globally''),
        (''supports_json'', JBool True),
        (''idempotent'', JBool True)],
      JObj [
        (''name'', JStr ''gitway schema''),
        (''description'', JStr ''Emit full JSON Schema for all commands''),
        (''supports_json'', JBool True),
        (''idempotent'', JBool True)],
      JObj [
        (''name'', JStr ''gitway describe''),
        (''description'', JStr ''Emit capability manifest for agent/CI discovery''),
        (''supports_json'', JBool True),
        (''idempotent'', JBool True)],
      JObj [
        (''name'', JStr ''gitway keygen <sub>''),
        (''description'', JStr ''Generate, inspect, and sign with SSH keys (ssh-keygen subset)''),
        (''supports_json'', JBool True),
        (''idempotent'', JBool False),
        (''subcommands'', jstrs [''generate'', ''fingerprint'', ''extract-public'', ''change-passphrase'',
            ''sign'', ''verify''])],
      JObj [
        (''name'', JStr ''gitway sign''),
        (''description'', JStr ''Produce an SSHSIG (OpenSSH file signature) on stdout''),
        (''supports_json'', JBool True),
        (''idempotent'', JBool True)],
      JObj [
        (''name'', JStr ''gitway agent <sub>''),
        (''description'', JStr ''Client operations against any SSH agent on $SSH_AUTH_SOCK (Unix-only)''),
        (''supports_json'', JBool True),
        (''idempotent'', JBool False),
        (''subcommands'', jstrs [''add'', ''list'', ''remove'', ''lock'', ''unlock''])],
      JObj [
        (''name'', JStr ''gitway config <sub>''),
        (''description'', JStr ''Inspect resolved ssh_config(5) (Gitway's `ssh -G`)''),
        (''supports_json'', JBool True),
        (''idempotent'', JBool True),
        (''subcommands'', jstrs [''show''])],
      JObj [
        (''name'', JStr ''gitway hosts <sub>''),
        (''description'', JStr ''Manage the user known_hosts file (M19, FR-85..FR-87)''),
        (''supports_json'', JBool True),
        (''idempotent'', JBool False),
        (''subcommands'', jstrs [''add'', ''revoke'', ''list''])],
      JObj [
        (''name'', JStr ''gitway list-algorithms''),
        (''description'', JStr ''Catalogue of supported algorithms (M17, FR-79)''),
        (''supports_json'', JBool True),
        (''idempotent'', JBool True)]]"

definition schema_binaries :: json where
  "schema_binaries = JArr [
      JObj [
        (''name'', JStr ''gitway-keygen''),
        (''description'', JStr ''Drop-in shim for `ssh-keygen -Y sign / verify` (byte-compatible stdout)''),
        (''supports_json'', JBool False),
        (''use_with'', JStr ''git -c gpg.format=ssh -c gpg.ssh.program=gitway-keygen'')],
      JObj [
        (''name'', JStr ''gitway-add''),
        (''description'', JStr ''Drop-in shim for `ssh-add` (Unix-only)''),
        (''supports_json'', JBool False),
        (''use_with'', JStr ''tools that invoke `ssh-add` by name (IDEs, credential managers)'')]]"

definition schema_global_flags :: json where
  "schema_global_flags = JObj [
      (''--json'', JObj [
          (''type'', JStr ''boolean''),
          (''description'', JStr ''Emit structured JSON output'')]),
      (''--format'', JObj [
          (''type'', JStr ''string''),
          (''enum'', jstrs [''json'']),
          (''description'', JStr ''Output format'')]),
      (''--no-color'', JObj [(''type'', JStr ''boolean''), (''description'', JStr ''Disable colored output'')]),
      (''--verbose'', JObj [
          (''type'', JStr ''integer''),
          (''description'', JStr ''Verbosity counter (-v / -vv / -vvv); FR-65..FR-69'')]),
      (''--debug-format'', JObj [
          (''type'', JStr ''string''),
          (''enum'', jstrs [''human'', ''json'']),
          (''description'', JStr ''Debug log format on stderr (FR-68)'')]),
      (''--debug-categories'', JObj [
          (''type'', JStr ''string''),
          (''description'', JStr ''Comma-separated debug categories: kex, auth, channel, config, retry, russh, anvil_ssh::* (FR-69)'')]),
      (''--identity'', JObj [(''type'', JStr ''string''), (''description'', JStr ''Path to SSH private key'')]),
      (''--cert'', JObj [
          (''type'', JStr ''string''),
          (''description'', JStr ''Path to OpenSSH certificate'')]),
      (''--user'', JObj [
          (''type'', JStr ''string''),
          (''default'', JStr ''git''),
          (''description'', JStr ''Remote SSH username (e.g. `aur` for AUR; default `git`)'')]),
      (''--port'', JObj [
          (''type'', JStr ''integer''),
          (''minimum'', JNum 1),
          (''maximum'', JNum 65535),
          (''description'', JStr ''SSH port (default: 22 or ssh_config Port)'')]),
      (''--insecure-skip-host-check'', JObj [
          (''type'', JStr ''boolean''),
          (''description'', JStr ''Skip host-key verification (danger)'')]),
      (''--no-config'', JObj [
          (''type'', JStr ''boolean''),
          (''description'', JStr ''Do not read any ssh_config(5) files'')]),
      (''--proxy-command'', JObj [
          (''type'', JStr ''string''),
          (''description'', JStr ''ProxyCommand template (overrides ssh_config; pass `none` to disable)'')]),
      (''--jump-host'', JObj [
          (''type'', JStr ''array''),
          (''items'', JObj [(''type'', JStr ''string'')]),
          (''description'', JStr ''ProxyJump bastion(s); repeatable; OpenSSH `-J`. Pass `none` to disable'')]),
      (''--connect-timeout'', JObj [
          (''type'', JStr ''integer''),
          (''minimum'', JNum 1),
          (''description'', JStr ''Per-attempt TCP connect deadline in seconds (FR-80)'')]),
      (''--attempts'', JObj [
          (''type'', JStr ''integer''),
          (''minimum'', JNum 1),
          (''description'', JStr ''Total connection attempts including the first (FR-80); 1 disables retry'')]),
      (''--max-retry-window'', JObj [
          (''type'', JStr ''integer''),
          (''minimum'', JNum 1),
          (''description'', JStr ''Hard ceiling on total retry wall-clock time in seconds (FR-81)'')]),
      (''--kex'', JObj [
          (''type'', JStr ''string''),
          (''description'', JStr ''Override KEX algorithm preference (+/-/^/replace; FR-77)'')]),
      (''--ciphers'', JObj [
          (''type'', JStr ''string''),
          (''description'', JStr ''Override cipher preference; see `gitway list-algorithms`'')]),
      (''--macs'', JObj [(''type'', JStr ''string''), (''description'', JStr ''Override MAC preference'')]),
      (''--host-key-algorithms'', JObj [
          (''type'', JStr ''string''),
          (''description'', JStr ''Override host-key algorithm preference'')])]"

definition schema_exit_codes :: json where
  "schema_exit_codes = JObj [
      (''0'', JStr ''Success''),
      (''1'', JStr ''General / unexpected error''),
      (''2'', JStr ''Usage error (bad arguments or configuration)''),
      (''3'', JStr ''Not found (no identity key, unknown host, key not enrolled for biometric)''),
      (''4'', JStr ''Permission denied (authentication failure, host key mismatch)''),
      (''73'', JStr ''User declined a confirmation prompt (gitway hosts add; biometric prompt cancelled or unmatched)''),
      (''78'', JStr ''Interactive input required but unavailable (gitway hosts add without --yes; biometric backend unavailable when requested)'')]"

definition schema_document :: json where
  "schema_document = JObj [
     (''$schema'', JStr ''https://json-schema.org/draft/2020-12/schema''),
     (''$id'', JStr ''https://github.com/Spacecraft-Software/Gitway/schema/v1''),
     (''title'', JStr ''gitway''),
     (''description'', JStr ''Pure-Rust SSH toolkit for Git: transport, keys, signing, agent''),
     (''schema_version'', JStr json_schema_version),
     (''version'', JStr cargo_pkg_version),
     (''commands'', schema_commands),
     (''binaries'', schema_binaries),
     (''global_flags'', schema_global_flags),
     (''exit_codes'', schema_exit_codes)]"

definition run_schema :: "'x world \<Rightarrow> u32 \<times> 'x world" where
  "run_schema = let_do (emit (Out (Json schema_document))) (\<lambda>_. ret 0)"

section \<open>gitway describe\<close>

definition describe_commands :: json where
  "describe_commands = JArr [
      JObj [
        (''name'', JStr ''gitway <host> <command...>''),
        (''description'', JStr ''Relay a Git command over SSH''),
        (''supports_json'', JBool False),
        (''idempotent'', JBool True)],
      JObj [
        (''name'', JStr ''gitway --test''),
        (''description'', JStr ''Verify SSH connectivity and authentication''),
        (''supports_json'', JBool True),
        (''idempotent'', JBool True)],
      JObj [
        (''name'', JStr ''gitway --install''),
        (''description'', JStr ''Register gitway as git core.sshCommand globally''),
        (''supports_json'', JBool True),
        (''idempotent'', JBool True)],
      JObj [
        (''name'', JStr ''gitway schema''),
        (''description'', JStr ''Emit full JSON Schema for all commands''),
        (''supports_json'', JBool True),
        (''idempotent'', JBool True)],
      JObj [
        (''name'', JStr ''gitway describe''),
        (''description'', JStr ''Emit capability manifest for agent/CI discovery''),
        (''supports_json'', JBool True),
        (''idempotent'', JBool True)],
      JObj [
        (''name'', JStr ''gitway keygen''),
        (''description'', JStr ''Generate / inspect / sign with SSH keys''),
        (''supports_json'', JBool True),
        (''idempotent'', JBool False)],
      JObj [
        (''name'', JStr ''gitway sign''),
        (''description'', JStr ''Produce an SSHSIG file signature''),
        (''supports_json'', JBool True),
        (''idempotent'', JBool True)],
      JObj [
        (''name'', JStr ''gitway agent''),
        (''description'', JStr ''Client operations against any SSH agent (Unix-only)''),
        (''supports_json'', JBool True),
        (''idempotent'', JBool False)],
      JObj [
        (''name'', JStr ''gitway config''),
        (''description'', JStr ''Inspect resolved ssh_config(5) (Gitway's `ssh -G`)''),
        (''supports_json'', JBool True),
        (''idempotent'', JBool True)],
      JObj [
        (''name'', JStr ''gitway hosts''),
        (''description'', JStr ''Manage user known_hosts file (M19, FR-85..FR-87)''),
        (''supports_json'', JBool True),
        (''idempotent'', JBool False)],
      JObj [
        (''name'', JStr ''gitway list-algorithms''),
        (''description'', JStr ''Catalogue of supported algorithms (M17, FR-79)''),
        (''supports_json'', JBool True),
        (''idempotent'', JBool True)]]"

definition describe_document :: json where
  "describe_document = JObj [
     (''tool'', JStr ''gitway''),
     (''schema_version'', JStr json_schema_version),
     (''version'', JStr cargo_pkg_version),
     (''description'', JStr ''Pure-Rust SSH toolkit for Git: transport, keys, signing, agent''),
     (''commands'', describe_commands),
     (''companion_binaries'', jstrs [''gitway-keygen'', ''gitway-add'']),
     (''global_flags'', jstrs [''--json'', ''--format'', ''--verbose'', ''--debug-format'',
        ''--debug-categories'', ''--no-color'', ''--insecure-skip-host-check'',
        ''--no-config'', ''--identity'', ''--cert'', ''--user'', ''--port'',
        ''--proxy-command'', ''--jump-host'', ''--connect-timeout'', ''--attempts'',
        ''--max-retry-window'', ''--kex'', ''--ciphers'', ''--macs'',
        ''--host-key-algorithms'']),
     (''output_formats'', jstrs [''json'']),
     (''mcp_available'', JBool False),
     (''agent_env_vars'', jstrs [''AI_AGENT'', ''AGENT'', ''CI'', ''CLAUDECODE'', ''CURSOR_AGENT'',
        ''GEMINI_CLI'']),
     (''providers'', jstrs [''github.com'', ''gitlab.com'', ''codeberg.org''])]"

definition run_describe :: "'x world \<Rightarrow> u32 \<times> 'x world" where
  "run_describe = let_do (emit (Out (Json describe_document))) (\<lambda>_. ret 0)"

section \<open>The documents agree\<close>

fun jitems :: "json \<Rightarrow> json list" where
  "jitems (JArr xs) = xs"
| "jitems _ = []"

fun jstring :: "json \<Rightarrow> string" where
  "jstring (JStr s) = s"
| "jstring _ = []"

definition command_entries :: "json \<Rightarrow> json list" where
  "command_entries doc = (case jfield ''commands'' doc of None \<Rightarrow> [] | Some cmds \<Rightarrow> jitems cmds)"

text \<open>The name of a command; the schema document marks one with subcommands by \<open>\<langle>sub\<rangle>\<close>.\<close>

definition command_name :: "json \<Rightarrow> string" where
  "command_name c = (case jfield ''name'' c of
     None \<Rightarrow> []
   | Some n \<Rightarrow> (case strip_suffix '' <sub>'' (jstring n) of Some s \<Rightarrow> s | None \<Rightarrow> jstring n))"

definition command_table :: "json \<Rightarrow> (string \<times> json option \<times> json option) list" where
  "command_table doc =
     map (\<lambda>c. (command_name c, jfield ''supports_json'' c, jfield ''idempotent'' c)) (command_entries doc)"

text \<open>The subcommands that a document lists for a command.\<close>

definition listed_subcommands :: "json \<Rightarrow> string \<Rightarrow> string list" where
  "listed_subcommands doc name = concat (map (\<lambda>c. if command_name c = name
     then (case jfield ''subcommands'' c of None \<Rightarrow> [] | Some l \<Rightarrow> map jstring (jitems l)) else [])
     (command_entries doc))"

text \<open>The word that selects a subcommand: \<open>clap\<close> derives it from the name of the variant.\<close>

fun subcommand_word :: "gitway_subcommand \<Rightarrow> string" where
  "subcommand_word Schema = ''schema''"
| "subcommand_word Describe = ''describe''"
| "subcommand_word (KeygenCmd cmd) = ''keygen''"
| "subcommand_word (SignCmd args) = ''sign''"
| "subcommand_word (AgentCmd cmd) = ''agent''"
| "subcommand_word (ConfigCmd cmd) = ''config''"
| "subcommand_word ListAlgorithms = ''list-algorithms''"
| "subcommand_word (HostsCmd cmd) = ''hosts''"
| "subcommand_word (BiometricCmd cmd) = ''biometric''"

fun keygen_word :: "keygen_subcommand \<Rightarrow> string" where
  "keygen_word (KgGenerate args) = ''generate''"
| "keygen_word (KgFingerprint args) = ''fingerprint''"
| "keygen_word (KgExtractPublic args) = ''extract-public''"
| "keygen_word (KgChangePassphrase args) = ''change-passphrase''"
| "keygen_word (KgSign args) = ''sign''"
| "keygen_word (KgVerify args) = ''verify''"

fun agent_word :: "agent_subcommand \<Rightarrow> string" where
  "agent_word (AgentAdd args) = ''add''"
| "agent_word (AgentListKeys args) = ''list''"
| "agent_word (AgentRemove args) = ''remove''"
| "agent_word (AgentLock args) = ''lock''"
| "agent_word (AgentUnlock args) = ''unlock''"
| "agent_word (AgentStart args) = ''start''"
| "agent_word (AgentStop args) = ''stop''"

fun config_word :: "config_subcommand \<Rightarrow> string" where
  "config_word (ConfigShow args) = ''show''"

fun hosts_word :: "hosts_subcommand \<Rightarrow> string" where
  "hosts_word (HostsAdd args) = ''add''"
| "hosts_word (HostsRevoke args) = ''revoke''"
| "hosts_word (HostsList args) = ''list''"

lemma table_of_documents:
  "command_table schema_document = command_table describe_document"
  "map fst (command_table describe_document) =
     [''gitway <host> <command...>'', ''gitway --test'', ''gitway --install'', ''gitway schema'',
      ''gitway describe'', ''gitway keygen'', ''gitway sign'', ''gitway agent'', ''gitway config'',
      ''gitway hosts'', ''gitway list-algorithms'']"
  by code_simp+

text \<open>The subcommands of \<open>gitway\<close>, \<open>biometric\<close> apart, are the commands of the documents.\<close>

lemma command_words:
  "{''gitway '' @ subcommand_word s | s. \<not> (\<exists>cmd. s = BiometricCmd cmd)} =
     {''gitway schema'', ''gitway describe'', ''gitway keygen'', ''gitway sign'', ''gitway agent'',
      ''gitway config'', ''gitway hosts'', ''gitway list-algorithms''}" (is "?words = ?names")
proof (intro equalityI subsetI)
  fix x assume "x \<in> ?words"
  then obtain s where s: "x = ''gitway '' @ subcommand_word s" "\<not> (\<exists>cmd. s = BiometricCmd cmd)" by blast
  then show "x \<in> ?names" by (cases s) auto
next
  fix x assume "x \<in> ?names"
  then have "x \<in> (\<lambda>s. ''gitway '' @ subcommand_word s) ` {Schema, Describe, KeygenCmd undefined, SignCmd undefined,
      AgentCmd undefined, ConfigCmd undefined, HostsCmd undefined, ListAlgorithms}"
    by simp
  then obtain s where "x = ''gitway '' @ subcommand_word s" and "s \<in> {Schema, Describe, KeygenCmd undefined,
      SignCmd undefined, AgentCmd undefined, ConfigCmd undefined, HostsCmd undefined, ListAlgorithms}"
    by blast
  moreover from this(2) have "\<not> (\<exists>cmd. s = BiometricCmd cmd)" by auto
  ultimately show "x \<in> ?words" by blast
qed

lemma schema_subcommands:
  "listed_subcommands schema_document ''gitway keygen'' =
     [''generate'', ''fingerprint'', ''extract-public'', ''change-passphrase'', ''sign'', ''verify'']"
  "listed_subcommands schema_document ''gitway agent'' = [''add'', ''list'', ''remove'', ''lock'', ''unlock'']"
  "listed_subcommands schema_document ''gitway config'' = [''show'']"
  "listed_subcommands schema_document ''gitway hosts'' = [''add'', ''revoke'', ''list'']"
  by code_simp+

lemma nested_words:
  "keygen_word kcmd \<in> set (listed_subcommands schema_document ''gitway keygen'')"
  "agent_word acmd \<in> set (listed_subcommands schema_document ''gitway agent'')
     \<longleftrightarrow> \<not> (\<exists>args. acmd = AgentStart args) \<and> \<not> (\<exists>args. acmd = AgentStop args)"
  "config_word ccmd \<in> set (listed_subcommands schema_document ''gitway config'')"
  "hosts_word hcmd \<in> set (listed_subcommands schema_document ''gitway hosts'')"
  unfolding schema_subcommands by ((cases kcmd; simp; fail) | (cases acmd; simp; fail) | (cases ccmd; simp; fail) | (cases hcmd; simp; fail))+

definition schema_flag_names :: "json list" where
  "schema_flag_names = map JStr (jkeys schema_global_flags)"

definition describe_flag_names :: "json list" where
  "describe_flag_names = (case jfield ''global_flags'' describe_document of
     None \<Rightarrow> [] | Some flags \<Rightarrow> jitems flags)"

lemma same_flags: "set schema_flag_names = set describe_flag_names"
proof -
  have "list_all (\<lambda>x. List.member describe_flag_names x) schema_flag_names"
    and "list_all (\<lambda>x. List.member schema_flag_names x) describe_flag_names"
    by code_simp+
  then show ?thesis by (auto simp: list_all_iff)
qed

end
