(* ===== verification/Main_Run.thy ===== *)
theory Main_Run
  imports Transport Algorithms_Cmd Schema Keygen_Cmd Agent_Cmd Biometric_Cmd
begin

text \<open>
  The dispatch of \<open>gitway-cli/src/main.rs\<close>: \<open>run\<close> from a parsed command line to the handler of
  a subcommand or to the SSH path, and \<open>main\<close> from the result of \<open>run\<close> to the error report
  and the exit code. Log records (\<open>log::warn!\<close> of a broken ssh\_config) are not part of the
  trace.
\<close>

section \<open>run\<close>

definition resolve_ssh_config ::
  "('x, 'c, 's) anvil_ops \<Rightarrow> cli \<Rightarrow> string \<Rightarrow> 'x world \<Rightarrow> resolved_config option \<times> 'x world" where
  "resolve_ssh_config A c host =
     (if cli_no_config c then ret None
      else let_do (call (Lib (SshConfig host)) (an_resolve A host (an_default_paths A))) (\<lambda>r. case r of
         Inr resolved \<Rightarrow> ret (Some resolved)
       | Inl _ \<Rightarrow> ret None))"

definition no_command_message :: string where
  "no_command_message = ''no remote command specified; pass a git-upload-pack / git-receive-pack command''"

text \<open>The part of \<open>run\<close> behind \<open>--install\<close>: everything that opens a connection.\<close>

definition run_ssh ::
  "('x, 'k, 'p) deps \<Rightarrow> ('x, 'c, 's) anvil_ops \<Rightarrow> cli \<Rightarrow> ('x world, u32) eff" where
  "run_ssh D A c =
     (let raw_host = (case cli_host c of Some h \<Rightarrow> h | None \<Rightarrow> default_github_host);
          (parsed_user, host) = parse_user_host raw_host
      in let_do (resolve_ssh_config A c host) (\<lambda>resolved.
         try_let (lift_res (cli_builder A c parsed_user host resolved)) (\<lambda>builder.
         let config = an_build A builder
         in try_let (lift_res (resolve_proxy_directives A c resolved)) (\<lambda>(proxy_command, jump_chain).
            if cli_test c then
              let_do (get_s (detect_output_mode c True)) (\<lambda>mode.
              run_test A D config raw_host proxy_command jump_chain mode)
            else if cli_command c = [] then fail (InvalidConfig no_command_message)
            else run_exec A D config (cli_command c) raw_host proxy_command jump_chain))))"

text \<open>Where a run connects to, as a function of command line and ssh\_config: the first error of
  flags and jump chain, or the one connection.\<close>

definition destination ::
  "('x, 'c, 's) anvil_ops \<Rightarrow> cli \<Rightarrow> string option \<Rightarrow> string \<Rightarrow> resolved_config option \<Rightarrow> anvil_error + ssh_call" where
  "destination A c user host resolved = (case cli_builder A c user host resolved of
     Inl e \<Rightarrow> Inl e
   | Inr b \<Rightarrow> (case (case chosen_jumps c resolved of None \<Rightarrow> Inr [] | Some spec \<Rightarrow> an_parse_jump_chain A spec) of
       Inl e \<Rightarrow> Inl e
     | Inr hops \<Rightarrow> Inr (case chosen_command c resolved of
         Some t \<Rightarrow> ConnectProxyCommand t
       | None \<Rightarrow> if hops = [] then ConnectDirect (an_host A (an_build A b)) else ConnectJump (length hops))))"

lemma resolve_ssh_config_runs:
  "runs w (resolve_ssh_config A c host) (\<lambda>resolved es u.
     resolved = fst (resolve_ssh_config A c host w) \<and> list_all (\<lambda>e. e = Lib (SshConfig host)) es)"
proof (rule runs_of_traced)
  show "traced (resolve_ssh_config A c host) (\<lambda>r es. list_all (\<lambda>e. e = Lib (SshConfig host)) es)"
    unfolding resolve_ssh_config_def by (auto intro!: traced_intros split: sum.splits)
qed simp

lemma run_ssh_rejected:
  assumes "rejections A c \<noteq> []"
  shows "traced (run_ssh D A c) (\<lambda>r es.
    r = Inl (hd (rejections A c)) \<and> list_all (\<lambda>e. \<exists>host. e = Lib (SshConfig host)) es)"
proof -
  have config: "traced (resolve_ssh_config A c host) (\<lambda>r es. list_all (\<lambda>e. \<exists>host. e = Lib (SshConfig host)) es)" for host
    unfolding resolve_ssh_config_def by (auto intro!: traced_intros split: sum.splits)
  have "\<exists>e. cli_builder A c user host resolved = Inl e \<and> e = hd (rejections A c)" for user host resolved
    using cli_builder_rejections[of A c user host resolved] assms by (auto split: sum.splits)
  then show ?thesis
    unfolding run_ssh_def Let_def
    by (auto intro!: traced_intros traced_mono[OF config] split: prod.splits sum.splits)
qed

context quiet_vault
begin

lemma run_ssh_destination:
  assumes "d_vault D = V"
  shows "case parse_user_host (case cli_host c of Some h \<Rightarrow> h | None \<Rightarrow> default_github_host) of (user, host) \<Rightarrow>
    runs w (run_ssh D A c) (\<lambda>r es u.
      case destination A c user host (fst (resolve_ssh_config A c host w)) of
        Inl e \<Rightarrow> r = Inl e \<and> [e \<leftarrow> es. is_connect e] = []
      | Inr via \<Rightarrow> [e \<leftarrow> es. is_connect e] \<in> {[], [Ssh via]})"
proof -
  obtain user host where uh:
    "parse_user_host (case cli_host c of Some h \<Rightarrow> h | None \<Rightarrow> default_github_host) = (user, host)"
    by fastforce
  have via: "route A config (case cli_proxy_command c of Some p \<Rightarrow> Some p | None \<Rightarrow> Option.bind resolved rc_proxy_command) hops
      = (case chosen_command c resolved of Some t \<Rightarrow> ConnectProxyCommand t
         | None \<Rightarrow> if hops = [] then ConnectDirect (an_host A config) else ConnectJump (length hops))"
    for config hops and resolved :: "resolved_config option"
    by (auto simp: route_def chosen_command_def chosen_def opt_list_def split: option.splits)
  have none: "[e \<leftarrow> es. is_connect e] = []" if "list_all (\<lambda>e. e = Lib (SshConfig host)) es" for es
    using that by (auto simp: filter_empty_conv list_all_iff)
  show ?thesis
    unfolding uh prod.case run_ssh_def Let_def
    by (rule runs_let_do, rule runs_mono[OF resolve_ssh_config_runs])
      (auto simp: destination_def proxy_directives_chosen via[symmetric] none
        intro!: runs_intros runs_of_traced[OF connects_once(1)[OF assms]] runs_of_traced[OF connects_once(2)[OF assms]]
        split: sum.splits)
qed

end

text \<open>The operations that the handlers take: agent, operating system, keys and signatures, and
  the launch of \<open>git config\<close>.\<close>

record ('x, 'g, 'k, 'p, 'a, 't) handler_ops =
  ho_agent :: "('x, 'g, 'k, 'p) agent_ops"
  ho_os :: "'x os_ops"
  ho_sig :: "('x, 'g, 'k, 'p, 'a, 't) sig_ops"
  ho_spawn :: "string \<Rightarrow> string list \<Rightarrow> ('x, io_error + bool) xop"

fun run_subcommand ::
  "('x, 'k, 'p) deps \<Rightarrow> ('x, 'c, 's) anvil_ops \<Rightarrow> ('x, 'g, 'k, 'p, 'a, 't) handler_ops
   \<Rightarrow> gitway_subcommand \<Rightarrow> output_mode \<Rightarrow> ('x world, u32) eff" where
  "run_subcommand D A H Schema mode = let_do run_schema ok"
| "run_subcommand D A H Describe mode = let_do run_describe ok"
| "run_subcommand D A H (KeygenCmd cmd) mode = keygen_run D A (ho_sig H) cmd mode"
| "run_subcommand D A H (SignCmd args) mode = sign_run D A (ho_sig H) args mode"
| "run_subcommand D A H (AgentCmd cmd) mode = agent_run D (ho_agent H) (ho_os H) cmd mode"
| "run_subcommand D A H (ConfigCmd cmd) mode = config_run A cmd mode"
| "run_subcommand D A H (HostsCmd cmd) mode = hosts_run A cmd mode"
| "run_subcommand D A H ListAlgorithms mode = algorithms_run A mode"
| "run_subcommand D A H (BiometricCmd cmd) mode = biometric_run D cmd mode"

definition gitway_run ::
  "('x, 'k, 'p) deps \<Rightarrow> ('x, 'c, 's) anvil_ops \<Rightarrow> ('x, 'g, 'k, 'p, 'a, 't) handler_ops
   \<Rightarrow> cli \<Rightarrow> ('x world, u32) eff" where
  "gitway_run D A H c =
     let_do (get_s (detect_output_mode c True)) (\<lambda>mode.
     case cli_subcommand c of
       Some subcommand \<Rightarrow> run_subcommand D A H subcommand mode
     | None \<Rightarrow>
         if cli_install c then
           let_do (get_s (detect_output_mode c True)) (run_install (ho_spawn H))
         else run_ssh D A c)"

section \<open>main\<close>

definition compute_config_sources :: "('x, 'c, 's) anvil_ops \<Rightarrow> cli \<Rightarrow> 'x world \<Rightarrow> string list" where
  "compute_config_sources A c w =
     (if cli_no_config c then []
      else (let paths = an_default_paths A;
                present = (\<lambda>v. case v of
                    Some p \<Rightarrow> if w_fs w p \<noteq> None then [p] else []
                  | None \<Rightarrow> [])
            in present (pt_user paths) @ present (pt_system paths)))"

definition error_envelope ::
  "('x, 'c, 's) anvil_ops \<Rightarrow> anvil_error \<Rightarrow> string \<Rightarrow> 'x world \<Rightarrow> json" where
  "error_envelope A e invocation w = JObj
     [(''metadata'', metadata_block (w_timestamp w) invocation),
      (''error'', JObj
        [(''code'', JStr (er_error_code A e)),
         (''exit_code'', JNum (uint (er_exit_code A e))),
         (''message'', JStr (er_text A e)),
         (''hint'', JStr (er_hint A e))])]"

definition report_error ::
  "('x, 'c, 's) anvil_ops \<Rightarrow> output_mode \<Rightarrow> string \<Rightarrow> string list \<Rightarrow> anvil_error \<Rightarrow> 'x world \<Rightarrow> unit \<times> 'x world" where
  "report_error A mode invocation config_sources e = (case mode of
     JsonMode \<Rightarrow> let_do (get_s (error_envelope A e invocation)) (\<lambda>j. emit (Err (Json j)))
   | Human \<Rightarrow>
       let_do (eprintln (''gitway: error: '' @ er_text A e)) (\<lambda>_.
       let_do (eprintln (''gitway: what to do: '' @ er_hint A e)) (\<lambda>_.
       eprintln (an_emit_diagnostic A e config_sources))))"

text \<open>\<open>main\<close> for the command line that \<open>clap\<close> has parsed, \<open>argv\<close> the raw one. The result is the
  argument of \<open>process::exit\<close>; the cast to \<open>i32\<close> keeps the bits.\<close>

definition gitway_main ::
  "('x, 'k, 'p) deps \<Rightarrow> ('x, 'c, 's) anvil_ops \<Rightarrow> ('x, 'g, 'k, 'p, 'a, 't) handler_ops
   \<Rightarrow> string list \<Rightarrow> cli \<Rightarrow> 'x world \<Rightarrow> u32 \<times> 'x world" where
  "gitway_main D A H argv c =
     let_do (get_s (detect_output_mode c False)) (\<lambda>error_mode.
     let_do (get_s (compute_config_sources A c)) (\<lambda>config_sources.
     let_do (gitway_run D A H c) (\<lambda>r. case r of
       Inr code \<Rightarrow> ret code
     | Inl e \<Rightarrow>
         let_do (report_error A error_mode (join '' '' argv) config_sources e) (\<lambda>_.
         ret (er_exit_code A e)))))"

section \<open>Subcommands and the network\<close>

text \<open>No subcommand authenticates or runs a remote command, and only \<open>hosts add\<close> opens a
  connection.\<close>

definition offline :: "gitway_subcommand \<Rightarrow> event \<Rightarrow> bool" where
  "offline sub e \<longleftrightarrow> \<not> is_exec e \<and> \<not> is_auth e
     \<and> (is_connect e \<longrightarrow> (case sub of HostsCmd (HostsAdd _) \<Rightarrow> True | _ \<Rightarrow> False))"

lemma offline_simps [simp]:
  "offline s (Out j)" "offline s (Err j)" "offline s (Prompt q)" "offline s StdinRead"
  "offline s (FsRead f)" "offline s (FsWrite f)" "offline s (Agent a)" "offline s (Lib l)"
  "offline s (Keystore k)" "offline s (Sensor c)" "offline s (Ssh FindIdentity)"
  "offline s (Ssh CloseSession)" "offline (HostsCmd (HostsAdd args)) (Ssh (ConnectDirect h))"
  by (simp_all add: offline_def)

lemma offline_passphrase: "passphrase_event e \<Longrightarrow> offline s e"
  and offline_vault: "vault_event e \<Longrightarrow> offline s e"
  by (cases e; simp add: passphrase_event_def vault_event_def)+

context quiet_vault
begin

lemma vault_ops_adds:
  assumes "\<And>e. vault_event e \<Longrightarrow> P e"
  shows "adds_only P (v_is_available V)" "adds_only P (v_store V kid secret)"
    "adds_only P (v_delete V kid)" "adds_only P (v_list V)"
    "adds_only P (auto_unlock_passphrase K V key)"
  by (rule adds_only_mono[OF probe_quiet] adds_only_mono[OF store_quiet] adds_only_mono[OF delete_quiet]
      adds_only_mono[OF list_quiet] adds_only_mono[OF auto_unlock_passphrase_events];
      simp add: assms)+

lemma prompt_adds:
  assumes "\<And>e. passphrase_event e \<Longrightarrow> P e"
  shows "d_vault D = V \<Longrightarrow> adds_only P (prompt_passphrase D path)"
    and "adds_only P (prompt_passphrase_interactive D path)"
  by (rule adds_only_mono[OF prompt_passphrase_events], simp_all add: assms)
    (rule adds_prompt_passphrase_interactive[OF assms])

lemma offline_vault_ops:
  "adds_only (offline s) (v_is_available V)" "adds_only (offline s) (v_store V kid secret)"
  "adds_only (offline s) (v_delete V kid)" "adds_only (offline s) (v_list V)"
  "adds_only (offline s) (auto_unlock_passphrase K V key)"
  by (rule vault_ops_adds; rule offline_vault; assumption)+

lemma offline_prompt: "d_vault D = V \<Longrightarrow> adds_only (offline s) (prompt_passphrase D path)"
  and offline_interactive: "adds_only (offline s) (prompt_passphrase_interactive D path)"
  by (rule prompt_adds; simp add: offline_passphrase)+

lemma offline_keygen:
  assumes "d_vault D = V"
  shows "adds_only (offline s) (keygen_run D A Q cmd mode)" and "adds_only (offline s) (sign_run D A Q args mode)"
proof -
  show sign: "adds_only (offline s) (sign_run D A Q args mode)" for args
    unfolding sign_run_def resolve_key_path_def sign_load_and_decrypt_def open_input_def write_output_def
    by (auto intro!: adds_intros offline_prompt[OF assms] split: output_mode.splits identity_resolution.splits)
  show "adds_only (offline s) (keygen_run D A Q cmd mode)"
    by (cases cmd)
      (auto simp: sign keygen_run_generate_def keygen_run_fingerprint_def keygen_run_extract_public_def
        keygen_run_change_passphrase_def keygen_run_verify_def resolve_new_passphrase_def
        prompt_new_passphrase_def keygen_load_public_key_def open_input_def emit_json_line_def Let_def
        intro!: adds_intros offline_prompt[OF assms] split: output_mode.splits)
qed

lemma offline_biometric:
  assumes "d_vault D = V"
  shows "adds_only (offline s) (biometric_run D cmd mode)"
  by (cases cmd)
    (auto simp: assms run_enroll_def enroll_step_def enroll_one_def run_forget_def forget_enrolled_def
      forget_path_def bio_run_list_def bio_run_status_def read_key_def bio_resolve_paths_def
      emit_results_def emit_bio_error_def emit_unavailable_def emit_json_def Let_def
      intro!: adds_intros offline_vault_ops offline_interactive split: output_mode.splits)

end

lemma offline_agent:
  fixes D :: "('x, 'k, 'p) deps" and P :: "('x, 'h) platform"
  shows "adds_only (offline s) (agent_run (D\<lparr>d_vault := backend feature os P\<rparr>) G S cmd mode)"
proof -
  have wait: "adds_only (offline s) (wait_for_socket n S path deadline)" for n path deadline
    by (induction n) (auto intro!: adds_intros)
  have load: "adds_only (offline s) (load_private_key (D\<lparr>d_vault := backend feature os P\<rparr>) path key unlock)"
    for path key unlock
    unfolding load_private_key_def Let_def
    by (auto intro!: adds_intros build.offline_vault_ops build.offline_prompt offline_passphrase
        split: unlock_mode.splits auto_unlock_result.splits)
  have add: "adds_only (offline s) (agent_run_add (D\<lparr>d_vault := backend feature os P\<rparr>) G args mode)" for args
    unfolding agent_run_add_def agent_add_files_def agent_add_path_def agent_add_call_def Let_def
    by (auto intro!: adds_intros load split: output_mode.splits)
  show ?thesis
    by (cases cmd)
      (auto simp: add agent_run_list_def agent_run_remove_def agent_run_lock_def prompt_lock_passphrase_def
        load_public_or_derive_def run_start_def run_background_start_def run_daemon_loop_def finalize_detach_def
        socket_or_default_def default_socket_path_def absolute_path_def emit_eval_def run_stop_def
        resolve_daemon_pid_def emit_json_line_def Let_def
        intro!: adds_intros wait split: output_mode.splits)
qed

lemma offline_plain:
  "adds_only (offline s) (config_run A ccmd mode)" "adds_only (offline s) (algorithms_run A mode)"
  by (cases ccmd)
    (auto simp: config_run_show_def emit_human_show_def emit_json_show_def cert_and_revoked_json_def
      algorithms_run_def emit_human_catalogue_def emit_json_catalogue_def Let_def
      intro!: adds_intros split: output_mode.splits)

lemma offline_hosts: "adds_only (offline (HostsCmd cmd)) (hosts_run A cmd mode)"
  by (cases cmd)
    (auto simp: hosts_run_add_def hash_choice_def confirm_add_def append_pin_def hosts_run_revoke_def
      revoke_target_def hosts_run_list_def Let_def intro!: adds_intros)

lemma subcommand_offline:
  fixes D :: "('x, 'k, 'p) deps" and P :: "('x, 'h) platform"
  shows "adds_only (offline sub) (run_subcommand (D\<lparr>d_vault := backend feature os P\<rparr>) A H sub mode)"
proof (cases sub)
  case (HostsCmd cmd)
  then show ?thesis by (simp add: offline_hosts)
qed (auto simp: run_schema_def run_describe_def
    intro!: adds_intros build.offline_keygen build.offline_biometric offline_agent offline_plain)

section \<open>Exit codes and reports of errors\<close>

text \<open>A failure ends with the code of its error, and the JSON report names the same code.\<close>

definition error_report :: "('x, 'c, 's) anvil_ops \<Rightarrow> output_mode \<Rightarrow> anvil_error \<Rightarrow> event list \<Rightarrow> bool" where
  "error_report A mode e es \<longleftrightarrow> (case mode of
     JsonMode \<Rightarrow> \<exists>j err. es = [Err (Json j)] \<and> jfield ''error'' j = Some err
       \<and> jfield ''exit_code'' err = Some (JNum (uint (er_exit_code A e)))
       \<and> jfield ''message'' err = Some (JStr (er_text A e))
   | Human \<Rightarrow> length es = 3 \<and> hd es = Err (Text (''gitway: error: '' @ er_text A e))
       \<and> stdout_of es = [])"

lemma traced_report_error:
  "(\<And>es. error_report A mode e es \<Longrightarrow> Q () es) \<Longrightarrow> traced (report_error A mode invocation sources e) Q"
  unfolding report_error_def
  by (cases mode) (auto simp: error_report_def error_envelope_def traced_def effect_simps eprintln_def)

lemma main_result:
  "gitway_main D A H argv c w = (case gitway_run D A H c w of
     (Inr code, u) \<Rightarrow> (code, u)
   | (Inl e, u) \<Rightarrow> (er_exit_code A e, snd (report_error A (detect_output_mode c False w) (join '' '' argv)
       (compute_config_sources A c w) e u)))"
  by (auto simp: gitway_main_def effect_simps split: prod.splits sum.splits)

end
