(* ===== verification/Envelopes.thy ===== *)
theory Envelopes
  imports Main_Run
begin

text \<open>
  The contract of the machine-readable output (\<open>metadata_block\<close>, \<open>JSON_SCHEMA_VERSION\<close> in
  \<open>gitway-cli/src/main.rs\<close>) over every handler of the program: a run writes at most one JSON
  document to standard output, and every JSON document of the run, those on standard error
  included, is a versioned envelope or a versioned discovery document. The judgement
  \<open>docs n m\<close> bounds the documents of a run by \<open>n\<close>; its rules add the bounds of a sequence and
  take the larger one of a choice.
\<close>

section \<open>Well-formed documents\<close>

definition documents :: "event list \<Rightarrow> json list" where
  "documents es = concat (map (\<lambda>e. case e of Out (Json j) \<Rightarrow> [j] | _ \<Rightarrow> []) es)"

lemma documents_append [simp]: "documents (es @ es') = documents es @ documents es'"
  by (simp add: documents_def)

text \<open>The contract that \<open>docs/json-schema.md\<close> freezes: the metadata block with the version of the
  schema, the error object, and an envelope of the metadata with either \<open>data\<close> or \<open>error\<close>.\<close>

definition metadata_ok :: "json \<Rightarrow> bool" where
  "metadata_ok m \<longleftrightarrow> (\<exists>version command timestamp. m = JObj [(''tool'', JStr ''gitway''),
     (''schema_version'', JStr ''1.0.0''), (''version'', JStr version), (''command'', JStr command),
     (''timestamp'', JStr timestamp)])"

definition error_ok :: "json \<Rightarrow> bool" where
  "error_ok e \<longleftrightarrow> (\<exists>code exit_code message hint. e = JObj [(''code'', JStr code),
     (''exit_code'', JNum exit_code), (''message'', JStr message), (''hint'', JStr hint)])"

definition envelope :: "json \<Rightarrow> bool" where
  "envelope j \<longleftrightarrow> (\<exists>m. metadata_ok m
     \<and> ((\<exists>d. j = JObj [(''metadata'', m), (''data'', d)])
        \<or> (\<exists>e. error_ok e \<and> j = JObj [(''metadata'', m), (''error'', e)])))"

text \<open>A discovery document names the tool and carries the versions at its top level.\<close>

definition discovery :: "json \<Rightarrow> bool" where
  "discovery j \<longleftrightarrow> jfield ''tool'' j = Some (JStr ''gitway'')
     \<and> jfield ''schema_version'' j = Some (JStr ''1.0.0'') \<and> (\<exists>v. jfield ''version'' j = Some (JStr v))"

definition frozen :: "event \<Rightarrow> bool" where
  "frozen e \<longleftrightarrow> (case e of
     Out (Json j) \<Rightarrow> envelope j \<or> discovery j
   | Err (Json j) \<Rightarrow> envelope j
   | _ \<Rightarrow> True)"

text \<open>The two documents that are not of the contract: the error object of \<open>biometric\<close>, which has
  neither \<open>code\<close> nor \<open>hint\<close>, and the schema document, which does not name the tool.\<close>

definition short_error :: "event \<Rightarrow> bool" where
  "short_error e \<longleftrightarrow> (\<exists>m exit_code message. metadata_ok m \<and> e = Out (Json (JObj [(''metadata'', m),
     (''error'', JObj [(''exit_code'', JNum exit_code), (''message'', JStr message)])])))"

definition deviation :: "gitway_subcommand option \<Rightarrow> event \<Rightarrow> bool" where
  "deviation sub e \<longleftrightarrow> (case sub of
     Some Schema \<Rightarrow> e = Out (Json schema_document)
   | Some (BiometricCmd cmd) \<Rightarrow> short_error e
   | _ \<Rightarrow> False)"

lemma deviations_are_deviations:
  "jfield ''tool'' schema_document = None" "short_error e \<Longrightarrow> \<not> frozen e"
  "\<not> frozen (Out (Json schema_document))"
  by (auto simp: schema_document_def short_error_def frozen_def envelope_def discovery_def error_ok_def)

definition no_document :: "event \<Rightarrow> bool" where
  "no_document e \<longleftrightarrow> (case e of Out (Json j) \<Rightarrow> False | Err (Json j) \<Rightarrow> False | _ \<Rightarrow> True)"

lemma no_document_simps [simp]:
  "no_document (Out (Text s))" "no_document (Err (Text s))" "no_document (Prompt q)"
  "no_document StdinRead" "no_document (FsRead f)" "no_document (FsWrite f)" "no_document (Sensor c)"
  "no_document (Keystore k)" "no_document (Agent a)" "no_document (Ssh s')" "no_document (Lib l)"
  by (simp_all add: no_document_def)

lemma no_document_passphrase: "passphrase_event e \<Longrightarrow> no_document e"
  and no_document_vault: "vault_event e \<Longrightarrow> no_document e"
  by (cases e; auto simp: passphrase_event_def vault_event_def split: payload.splits)+

lemma no_documents: "list_all no_document es \<Longrightarrow> documents es = [] \<and> list_all frozen es"
  by (induction es) (auto simp: documents_def no_document_def frozen_def split: event.splits payload.splits)

lemma metadata_block_ok [simp]: "metadata_ok (metadata_block ts command)"
  by (simp add: metadata_ok_def metadata_block_def json_schema_version_def)

lemma data_envelope_envelope: "envelope (data_envelope c d w)"
  by (auto simp: envelope_def data_envelope_def)

lemma describe_discovery: "discovery describe_document"
  by (simp add: discovery_def describe_document_def json_schema_version_def)

section \<open>The judgement\<close>

definition docs :: "(event \<Rightarrow> bool) \<Rightarrow> nat \<Rightarrow> ('x world \<Rightarrow> 'a \<times> 'x world) \<Rightarrow> bool" where
  "docs W n m \<longleftrightarrow> traced m (\<lambda>r es. length (documents es) \<le> n \<and> list_all (\<lambda>e. frozen e \<or> W e) es)"

named_theorems docs_intros \<open>bounds on the documents of a run\<close>

lemma docs_mono: "docs W k m \<Longrightarrow> k \<le> n \<Longrightarrow> docs W n m"
  unfolding docs_def by (elim traced_mono) auto

lemma docs_weaken: "docs W n m \<Longrightarrow> (\<And>e. W e \<Longrightarrow> W' e) \<Longrightarrow> docs W' n m"
  unfolding docs_def by (elim traced_mono) (auto simp: list_all_iff)

lemma docs_none: "adds_only no_document m \<Longrightarrow> docs W 0 m"
  unfolding docs_def by (elim traced_adds_only) (use no_documents in \<open>fastforce simp: list_all_iff\<close>)

lemma docs_let_do [docs_intros]:
  assumes "docs W a m" and "\<And>x. docs W b (f x)"
  shows "docs W (a + b) (let_do m f)"
  unfolding docs_def
  by (rule traced_let_do, rule traced_mono[OF assms(1)[unfolded docs_def]],
      rule traced_mono[OF assms(2)[unfolded docs_def]]) auto

lemma docs_try_let [docs_intros]:
  assumes "docs W a m" and "\<And>x. docs W b (f x)"
  shows "docs W (a + b) (try_let m f)"
  unfolding try_let_as_let_do
proof (rule docs_let_do[OF assms(1)])
  show "docs W b (case r of Inl e \<Rightarrow> fail e | Inr x \<Rightarrow> f x)" for r
    using assms(2) by (cases r) (auto intro: docs_mono[OF docs_none] adds_fail)
qed

lemma docs_if [docs_intros]: "docs W a f \<Longrightarrow> docs W b g \<Longrightarrow> docs W (max a b) (if c then f else g)"
  by (auto elim: docs_mono)

lemma docs_case_option [docs_intros]:
  "docs W a f \<Longrightarrow> (\<And>x. docs W b (g x)) \<Longrightarrow> docs W (max a b) (case v of None \<Rightarrow> f | Some x \<Rightarrow> g x)"
  by (cases v) (auto intro: docs_mono[of _ a] docs_mono[of _ b])

lemma docs_case_sum [docs_intros]:
  "(\<And>x. docs W a (f x)) \<Longrightarrow> (\<And>x. docs W b (g x)) \<Longrightarrow> docs W (max a b) (case v of Inl x \<Rightarrow> f x | Inr x \<Rightarrow> g x)"
  by (cases v) (auto intro: docs_mono[of _ a] docs_mono[of _ b])

lemma docs_case_mode [docs_intros]:
  "docs W a f \<Longrightarrow> docs W b g \<Longrightarrow> docs W (max a b) (case mode of Human \<Rightarrow> f | JsonMode \<Rightarrow> g)"
  by (cases mode) (auto elim: docs_mono)

lemma docs_case_prod [docs_intros]: "(\<And>x y. docs W a (f x y)) \<Longrightarrow> docs W a (case p of (x, y) \<Rightarrow> f x y)"
  by (cases p) auto

lemma docs_Let [docs_intros]: "docs W a (f v) \<Longrightarrow> docs W a (let x = v in f x)"
  by simp

lemma docs_emit_data [docs_intros]: "docs W 1 (emit_data c d)"
  by (simp add: docs_def traced_def emit_data_def emit_json_def effect_simps documents_def frozen_def
      data_envelope_envelope)

lemma docs_emit_out: "envelope j \<or> discovery j \<or> W (Out (Json j)) \<Longrightarrow> docs W 1 (emit (Out (Json j)))"
  and docs_emit_err: "envelope j \<Longrightarrow> docs W 0 (emit (Err (Json j)))"
  by (auto simp: docs_def traced_def effect_simps documents_def frozen_def)

section \<open>The handlers\<close>

text \<open>Every proof below computes the bound of a handler along its definition.\<close>

lemma docs_config_show: "docs W 1 (config_run_show A args mode)"
  unfolding config_run_show_def emit_human_show_def emit_json_show_def cert_and_revoked_json_def
  by (rule docs_mono, (rule docs_intros | (rule docs_none, (auto intro!: adds_intros)[1]))+) simp

lemma docs_algorithms: "docs W 1 (algorithms_run A mode)"
  unfolding algorithms_run_def emit_human_catalogue_def emit_json_catalogue_def
  by (rule docs_mono, (rule docs_intros | (rule docs_none, (auto intro!: adds_intros)[1]))+) simp

lemma docs_hosts_add: "docs W 1 (hosts_run_add A args mode)"
  unfolding hosts_run_add_def hash_choice_def confirm_add_def append_pin_def
  by (rule docs_mono, (rule docs_intros | (rule docs_none, (auto intro!: adds_intros)[1]))+) simp

lemma docs_hosts_revoke: "docs W 1 (hosts_run_revoke A args mode)"
  unfolding hosts_run_revoke_def revoke_target_def
  by (rule docs_mono, (rule docs_intros | (rule docs_none, (auto intro!: adds_intros)[1]))+) simp

lemma docs_hosts_list: "docs W 1 (hosts_run_list A args mode)"
  unfolding hosts_run_list_def
  by (rule docs_mono, (rule docs_intros | (rule docs_none, (auto intro!: adds_intros)[1]))+) simp

lemma docs_install: "docs W 1 (run_install spawn mode)"
  unfolding run_install_def
  by (rule docs_mono, (rule docs_intros | (rule docs_none, (auto intro!: adds_intros)[1]))+) simp

lemma docs_schema: "docs (\<lambda>e. e = Out (Json schema_document)) 1 (let_do run_schema ok)"
proof -
  have doc: "docs (\<lambda>e. e = Out (Json schema_document)) 1 (emit (Out (Json schema_document)))"
    by (rule docs_emit_out) simp
  show ?thesis
    unfolding run_schema_def
    by (rule docs_mono, (rule docs_intros doc | (rule docs_none, (auto intro!: adds_intros)[1]))+) simp
qed

lemma docs_describe: "docs W 1 (let_do run_describe ok)"
proof -
  have doc: "docs W 1 (emit (Out (Json describe_document)))"
    by (rule docs_emit_out) (simp add: describe_discovery)
  show ?thesis
    unfolding run_describe_def
    by (rule docs_mono, (rule docs_intros doc | (rule docs_none, (auto intro!: adds_intros)[1]))+) simp
qed

lemma docs_agent_list: "docs W 1 (agent_run_list K G args mode)"
  unfolding agent_run_list_def emit_json_line_def
  by (rule docs_mono, (rule docs_intros | (rule docs_none, (auto intro!: adds_intros)[1]))+) simp

lemma docs_agent_remove: "docs W 1 (agent_run_remove K G args mode)"
  unfolding agent_run_remove_def load_public_or_derive_def
  by (rule docs_mono, (rule docs_intros | (rule docs_none, (auto intro!: adds_intros)[1]))+) simp

lemma docs_agent_lock: "docs W 1 (agent_run_lock ask G args mode lock)"
  unfolding agent_run_lock_def prompt_lock_passphrase_def
  by (rule docs_mono, (rule docs_intros | (rule docs_none, (auto intro!: adds_intros)[1]))+) simp

lemma silent_start: "adds_only no_document (run_start unix S args)"
proof -
  have wait: "adds_only no_document (wait_for_socket n S path deadline)" for n path deadline
    by (induction n) (auto intro!: adds_intros)
  show ?thesis
    unfolding run_start_def run_background_start_def run_daemon_loop_def finalize_detach_def
      socket_or_default_def default_socket_path_def absolute_path_def emit_eval_def emit_json_line_def Let_def
    by (auto intro!: adds_intros wait)
qed

lemma docs_agent_stop: "docs W 1 (run_stop unix S args mode)"
  unfolding run_stop_def resolve_daemon_pid_def default_socket_path_def
  by (rule docs_mono, (rule docs_intros | (rule docs_none, (auto intro!: adds_intros)[1]))+) simp

lemma docs_verify: "docs W 1 (keygen_run_verify Q args mode)"
  unfolding keygen_run_verify_def open_input_def emit_json_line_def
  by (rule docs_mono, (rule docs_intros | (rule docs_none, (auto intro!: adds_intros)[1]))+) simp

lemma docs_fingerprint: "docs W 1 (keygen_run_fingerprint K args mode)"
  unfolding keygen_run_fingerprint_def keygen_load_public_key_def
  by (rule docs_mono, (rule docs_intros | (rule docs_none, (auto intro!: adds_intros)[1]))+) simp

lemma docs_extract_public: "docs W 1 (keygen_run_extract_public Q args mode)"
  unfolding keygen_run_extract_public_def
  by (rule docs_mono, (rule docs_intros | (rule docs_none, (auto intro!: adds_intros)[1]))+) simp

lemma docs_bio_error: "docs short_error 1 (emit_bio_error e mode command)"
proof -
  have out: "docs short_error 1 (emit (Out (Json (JObj [(''metadata'', metadata_block ts command),
      (''error'', JObj [(''exit_code'', JNum n), (''message'', JStr s)])]))))" for ts n s
    by (rule docs_emit_out) (auto simp: short_error_def)
  show ?thesis
    unfolding emit_bio_error_def emit_json_def
    by (rule docs_mono, (rule docs_intros out | (rule docs_none, (auto intro!: adds_intros)[1]))+) simp
qed

lemma docs_bio_results: "docs W 1 (emit_results mode command results verb)"
  unfolding emit_results_def
  by (rule docs_mono, (rule docs_intros | (rule docs_none, (auto intro!: adds_intros)[1]))+) simp

context quiet_vault
begin

lemma silent_vault_ops:
  "adds_only no_document (v_is_available V)" "adds_only no_document (v_store V kid secret)"
  "adds_only no_document (v_delete V kid)" "adds_only no_document (v_list V)"
  "adds_only no_document (auto_unlock_passphrase K V key)"
  by (rule vault_ops_adds; rule no_document_vault; assumption)+

lemma silent_prompt: "d_vault D = V \<Longrightarrow> adds_only no_document (prompt_passphrase D path)"
  and silent_interactive: "adds_only no_document (prompt_passphrase_interactive D path)"
  by (rule prompt_adds; simp add: no_document_passphrase)+

lemma docs_forget: "docs short_error 1 (run_forget K V args mode)"
  unfolding run_forget_def forget_enrolled_def forget_path_def read_key_def
  by (rule docs_mono, (rule docs_intros docs_bio_error docs_bio_results
      | (rule docs_none, (auto intro!: adds_intros silent_vault_ops)[1]))+) simp

lemma docs_enroll:
  assumes "d_vault D = V"
  shows "docs short_error 1 (run_enroll D args mode)"
  unfolding run_enroll_def enroll_step_def enroll_one_def read_key_def bio_resolve_paths_def emit_unavailable_def assms
  by (rule docs_mono, (rule docs_intros docs_bio_error docs_bio_results
      | (rule docs_none, (auto intro!: adds_intros silent_vault_ops silent_interactive)[1]))+) simp

lemma docs_bio_list: "docs short_error 1 (bio_run_list V mode)" 
  unfolding bio_run_list_def
  by (rule docs_mono, (rule docs_intros docs_bio_error
      | (rule docs_none, (auto intro!: adds_intros silent_vault_ops)[1]))+) simp

lemma docs_bio_status: "docs short_error 1 (bio_run_status V mode)"
  unfolding bio_run_status_def
  by (rule docs_mono, (rule docs_intros | (rule docs_none, (auto intro!: adds_intros silent_vault_ops)[1]))+) simp

lemma docs_biometric:
  assumes "d_vault D = V"
  shows "docs short_error 1 (biometric_run D cmd mode)"
proof -
  have "docs short_error (1 + 0) (let_do m ok)" if "docs short_error 1 m" for m :: "'x world \<Rightarrow> u32 \<times> 'x world"
    by (intro docs_let_do that docs_none adds_intros)
  then show ?thesis
    by (cases cmd) (auto simp: assms simp del: One_nat_def intro: docs_enroll docs_forget docs_bio_list docs_bio_status)
qed

lemma docs_generate:
  assumes "d_vault D = V"
  shows "docs W 1 (keygen_run_generate D Q args mode)"
  unfolding keygen_run_generate_def resolve_new_passphrase_def prompt_new_passphrase_def
  by (rule docs_mono, (rule docs_intros | (rule docs_none, (auto intro!: adds_intros silent_prompt[OF assms])[1]))+) simp

lemma docs_change_passphrase:
  assumes "d_vault D = V"
  shows "docs W 1 (keygen_run_change_passphrase D Q args mode)"
  unfolding keygen_run_change_passphrase_def prompt_new_passphrase_def
  by (rule docs_mono, (rule docs_intros | (rule docs_none, (auto intro!: adds_intros silent_prompt[OF assms])[1]))+) simp

lemma docs_sign:
  assumes "d_vault D = V"
  shows "docs W 1 (sign_run D A Q args mode)"
proof -
  have "docs W 0 (let_do (get_s (sign_record K args key armored)) (\<lambda>record. emit (Err (Json record))))"
    for K :: "('k, 'p) ssh_key_ops" and key armored
    by (simp add: docs_def traced_def effect_simps documents_def frozen_def sign_record_def
        data_envelope_envelope)
  note err = this
  have "let_do (get_s (sign_record K args key armored)) (\<lambda>record. let_do (emit (Err (Json record))) f)
      = let_do (let_do (get_s (sign_record K args key armored)) (\<lambda>record. emit (Err (Json record)))) f"
    for K :: "('k, 'p) ssh_key_ops" and key armored and f :: "unit \<Rightarrow> ('x world, u32) eff"
    by (simp add: let_do_assoc)
  note err_let = this
  show ?thesis
    unfolding sign_run_def resolve_key_path_def sign_load_and_decrypt_def open_input_def write_output_def err_let
    by (rule docs_mono, (rule docs_intros err | (rule docs_none, (auto intro!: adds_intros silent_prompt[OF assms]
        split: identity_resolution.splits)[1]))+) simp
qed

lemma docs_keygen:
  assumes "d_vault D = V"
  shows "docs W 1 (keygen_run D A Q cmd mode)"
  by (cases cmd) (auto simp del: One_nat_def intro: docs_generate docs_fingerprint docs_extract_public docs_change_passphrase
      docs_sign docs_verify assms)

lemma docs_agent_add:
  assumes "d_vault D = V"
  shows "docs W 1 (agent_run_add D G args mode)"
proof -
  have "adds_only no_document (load_private_key D path key unlock)" for path key unlock
    unfolding load_private_key_def Let_def
    by (auto simp: assms intro!: adds_intros silent_vault_ops silent_interactive
        split: unlock_mode.splits auto_unlock_result.splits)
  note load = this
  show ?thesis
    unfolding agent_run_add_def agent_add_files_def agent_add_path_def agent_add_call_def
    by (rule docs_mono, (rule docs_intros | (rule docs_none, (auto intro!: adds_intros load)[1]))+) simp
qed

lemma docs_agent:
  assumes "d_vault D = V"
  shows "docs W 1 (agent_run D G S cmd mode)"
  by (cases cmd) (auto simp del: One_nat_def intro: docs_agent_add docs_agent_list docs_agent_remove docs_agent_lock
      docs_agent_stop docs_mono[OF docs_none[OF silent_start]] assms)

section \<open>The SSH path and the whole program\<close>

lemma silent_authentication:
  assumes "d_vault D = V"
  shows "adds_only no_document (maybe_collect_passphrase A D config)"
    and "adds_only no_document (authenticate A D session config pre)"
    and "adds_only no_document (connect_session A config alias proxy_command jump_hosts)"
  unfolding maybe_collect_passphrase_def agent_holds_keys_def authenticate_def authenticate_with_prompt_def
    reclassify_no_key_found_def connect_session_def Let_def
  by (auto intro!: adds_intros silent_prompt[OF assms] split: identity_resolution.splits)

lemma docs_test:
  assumes "d_vault D = V"
  shows "docs W 1 (run_test A D config alias proxy_command jump_hosts mode)"
  unfolding run_test_def test_report_def report_auth_def cert_and_revoked_json_def
  by (rule docs_mono, (rule docs_intros docs_none[OF silent_authentication(1)[OF assms]]
      docs_none[OF silent_authentication(2)[OF assms]] docs_none[OF silent_authentication(3)[OF assms]]
      | (rule docs_none, (auto intro!: adds_intros)[1]))+) simp

lemma docs_ssh:
  assumes "d_vault D = V"
  shows "docs W 1 (run_ssh D A c)"
proof -
  have "docs W 1 (run_exec A D config command nick proxy_command jump_hosts)"
    for config command nick proxy_command jump_hosts
    unfolding run_exec_def Let_def
    by (rule docs_mono[OF docs_none]) (auto intro!: adds_intros silent_authentication[OF assms])
  note run = this docs_test[OF assms]
  show ?thesis
    unfolding run_ssh_def resolve_ssh_config_def
    by (rule docs_mono, (rule docs_intros run | (rule docs_none, (auto intro!: adds_intros)[1]))+) simp
qed

lemma docs_subcommand:
  assumes "d_vault D = V"
  shows "docs (deviation (Some sub)) 1 (run_subcommand D A H sub mode)"
proof -
  have "docs W 1 (config_run A cmd mode)" "docs W 1 (hosts_run A hcmd mode)" for W cmd hcmd
    by (cases cmd, simp del: One_nat_def add: docs_config_show)
      (cases hcmd; simp del: One_nat_def add: docs_hosts_add docs_hosts_revoke docs_hosts_list)
  then show ?thesis
    by (cases sub) (auto simp del: One_nat_def simp: deviation_def
        intro: docs_weaken[OF docs_schema] docs_describe docs_keygen docs_sign
        docs_agent docs_algorithms docs_weaken[OF docs_biometric] assms)
qed

lemma docs_run:
  assumes "d_vault D = V"
  shows "docs (deviation (cli_subcommand c)) 1 (gitway_run D A H c)"
proof (cases "cli_subcommand c")
  case (Some sub)
  have "docs (deviation (Some sub)) (0 + 1)
      (let_do (get_s (detect_output_mode c True)) (run_subcommand D A H sub))"
    by (intro docs_let_do docs_subcommand[OF assms] docs_none adds_intros)
  then show ?thesis by (simp add: gitway_run_def Some)
next
  case None
  show ?thesis
    unfolding gitway_run_def None option.case
    by (rule docs_mono, (rule docs_intros docs_ssh[OF assms] docs_install
        | (rule docs_none, (auto intro!: adds_intros)[1]))+) simp
qed

lemma docs_report_error: "docs W 0 (report_error A mode invocation sources e)"
  by (cases mode) (auto simp: docs_def traced_def report_error_def effect_simps eprintln_def documents_def
      frozen_def error_envelope_def envelope_def error_ok_def)

lemma docs_main:
  assumes "d_vault D = V"
  shows "docs (deviation (cli_subcommand c)) 1 (gitway_main D A H argv c)"
  unfolding gitway_main_def
  by (rule docs_mono, (rule docs_intros docs_run[OF assms] docs_report_error
      | (rule docs_none, (auto intro!: adds_intros)[1]))+) simp

end

section \<open>An answer for every success\<close>

text \<open>\<open>voiced m\<close>: every run of \<open>m\<close> writes a document. \<open>answered m\<close>: a run of \<open>m\<close> that ends with
  the exit code 0 has written one.\<close>

definition voiced :: "('x world \<Rightarrow> 'a \<times> 'x world) \<Rightarrow> bool" where
  "voiced m \<longleftrightarrow> traced m (\<lambda>r es. documents es \<noteq> [])"

definition answered :: "('x world, u32) eff \<Rightarrow> bool" where
  "answered m \<longleftrightarrow> traced m (\<lambda>r es. r = Inr 0 \<longrightarrow> documents es \<noteq> [])"

named_theorems answer_intros \<open>which runs end with a document\<close>

abbreviation any_events :: "('x world \<Rightarrow> 'a \<times> 'x world) \<Rightarrow> bool" where
  "any_events \<equiv> adds_only (\<lambda>e. True)"

lemma any_events_traced: "any_events m \<longleftrightarrow> traced m (\<lambda>r es. True)"
  by (simp add: adds_only_traced list_all_iff)

lemma voiced_emit_data [answer_intros]: "voiced (emit_data c d)"
  and voiced_emit_json [answer_intros]: "voiced (emit_json j)"
  and voiced_emit [answer_intros]: "voiced (emit (Out (Json j)))"
  by (simp_all add: voiced_def traced_def emit_data_def emit_json_def effect_simps documents_def)

lemma answered_fail [answer_intros]: "answered (fail e)"
  and answered_ok: "c \<noteq> 0 \<Longrightarrow> answered (ok c)"
  by (simp_all add: answered_def traced_def effect_simps)

text \<open>Sequences: the answer comes from the first part or from the rest.\<close>

lemma voiced_head:
  assumes "voiced m" and "\<And>a. any_events (f a)"
  shows "voiced (let_do m f)"
  unfolding voiced_def
  by (rule traced_let_do, rule traced_mono[OF assms(1)[unfolded voiced_def]],
      rule traced_mono[OF assms(2)[unfolded any_events_traced]]) simp

lemma voiced_tail:
  assumes "any_events m" and "\<And>a. voiced (f a)"
  shows "voiced (let_do m f)"
  unfolding voiced_def
  by (rule traced_let_do, rule traced_mono[OF assms(1)[unfolded any_events_traced]],
      rule traced_mono[OF assms(2)[unfolded voiced_def]]) simp

lemma voiced_case_sum: "(\<And>a. voiced (f a)) \<Longrightarrow> (\<And>b. voiced (g b)) \<Longrightarrow> voiced (case v of Inl a \<Rightarrow> f a | Inr b \<Rightarrow> g b)"
  and answered_case_sum:
    "(\<And>a. answered (h a)) \<Longrightarrow> (\<And>b. answered (k b)) \<Longrightarrow> answered (case v of Inl a \<Rightarrow> h a | Inr b \<Rightarrow> k b)"
  by (cases v; simp)+

lemma voiced_answered: "voiced m \<Longrightarrow> answered m"
  unfolding voiced_def answered_def by (elim traced_mono) simp

lemma answered_head: "voiced m \<Longrightarrow> (\<And>a. any_events (f a)) \<Longrightarrow> answered (let_do m f)"
  by (intro voiced_answered voiced_head)

lemma answered_tail:
  assumes "any_events m" and "\<And>a. answered (f a)"
  shows "answered (let_do m f)"
  unfolding answered_def
  by (rule traced_let_do, rule traced_mono[OF assms(1)[unfolded any_events_traced]],
      rule traced_mono[OF assms(2)[unfolded answered_def]]) simp

lemma answered_try_traced:
  assumes "traced m (\<lambda>r es. case r of Inl e \<Rightarrow> True | Inr a \<Rightarrow> answered (f a))"
  shows "answered (try_let m f)"
  unfolding answered_def
  by (rule traced_try_let, rule traced_mono[OF assms])
    (auto simp: answered_def elim!: traced_mono split: sum.splits)

lemma answered_try: "any_events m \<Longrightarrow> (\<And>a. answered (f a)) \<Longrightarrow> answered (try_let m f)"
  unfolding any_events_traced
  by (rule answered_try_traced, erule traced_mono) (simp split: sum.splits)

lemma answered_Let [answer_intros]: "answered (f v) \<Longrightarrow> answered (let x = v in f x)"
  and answered_if [answer_intros]: "answered g \<Longrightarrow> answered h \<Longrightarrow> answered (if c then g else h)"
  and answered_case_prod [answer_intros]: "(\<And>x y. answered (k x y)) \<Longrightarrow> answered (case p of (x, y) \<Rightarrow> k x y)"
  by (simp_all split: prod.splits)

lemmas answer_tails = answered_tail answered_try answered_Let answered_if answered_case_prod

lemma answered_config: "answered (config_run A cmd JsonMode)"
proof (cases cmd)
  case (ConfigShow args)
  have "voiced (emit_json_show A args resolved)" for resolved
    unfolding emit_json_show_def cert_and_revoked_json_def Let_def
    by (auto intro!: voiced_tail answer_intros adds_intros)
  then show ?thesis
    unfolding ConfigShow config_run.simps config_run_show_def
    by (auto intro!: answered_try answered_head adds_intros)
qed

lemma refl_True: "(x = x) = True"
  by simp

text \<open>Every proof below follows the definition of a handler to the document it writes.\<close>

lemma answered_algorithms: "answered (algorithms_run A JsonMode)"
  unfolding algorithms_run_def emit_json_catalogue_def output_mode.case refl_True if_True
  by (((rule answered_head, rule answer_intros) | rule answer_tails answered_fail | (auto intro!: adds_intros)[1])+)

lemma answered_hosts_revoke: "answered (hosts_run_revoke A args JsonMode)"
  unfolding hosts_run_revoke_def revoke_target_def output_mode.case refl_True if_True
  by (((rule answered_head, rule answer_intros) | rule answer_tails answered_fail | (auto intro!: adds_intros)[1])+)

lemma answered_hosts_list: "answered (hosts_run_list A args JsonMode)"
  unfolding hosts_run_list_def output_mode.case refl_True if_True
  by (((rule answered_head, rule answer_intros) | rule answer_tails answered_fail | (auto intro!: adds_intros)[1])+)

lemma answered_discovery: "answered (let_do run_schema ok)"
  unfolding run_schema_def let_do_assoc output_mode.case refl_True if_True
  by (((rule answered_head, rule answer_intros) | rule answer_tails answered_fail | (auto intro!: adds_intros)[1])+)

lemma answered_describe: "answered (let_do run_describe ok)"
  unfolding run_describe_def let_do_assoc output_mode.case refl_True if_True
  by (((rule answered_head, rule answer_intros) | rule answer_tails answered_fail | (auto intro!: adds_intros)[1])+)

lemma answered_agent_remove: "answered (agent_run_remove K G args JsonMode)"
  unfolding agent_run_remove_def load_public_or_derive_def output_mode.case refl_True if_True
  by (((rule answered_head, rule answer_intros) | rule answer_tails answered_fail | (auto intro!: adds_intros)[1])+)

lemma answered_agent_lock: "answered (agent_run_lock ask G args JsonMode lock)"
  unfolding agent_run_lock_def prompt_lock_passphrase_def output_mode.case refl_True if_True
  by (((rule answered_head, rule answer_intros) | rule answer_tails answered_fail | (auto intro!: adds_intros)[1])+)

lemma answered_agent_stop: "answered (run_stop unix S args JsonMode)"
  unfolding run_stop_def resolve_daemon_pid_def default_socket_path_def output_mode.case refl_True if_True
  by (((rule answered_head, rule answer_intros) | rule answer_tails answered_fail | (auto intro!: adds_intros)[1])+)

lemma answered_verify: "answered (keygen_run_verify Q args JsonMode)"
  unfolding keygen_run_verify_def open_input_def output_mode.case refl_True if_True
  by (((rule answered_head, rule answer_intros) | rule answer_tails answered_fail | (auto intro!: adds_intros)[1])+)

lemma answered_fingerprint: "answered (keygen_run_fingerprint K args JsonMode)"
  unfolding keygen_run_fingerprint_def keygen_load_public_key_def output_mode.case refl_True if_True
  by (((rule answered_head, rule answer_intros) | rule answer_tails answered_fail | (auto intro!: adds_intros)[1])+)

lemma answered_extract_public: "answered (keygen_run_extract_public Q args JsonMode)"
  unfolding keygen_run_extract_public_def output_mode.case refl_True if_True
  by (((rule answered_head, rule answer_intros) | rule answer_tails answered_fail | (auto intro!: adds_intros)[1])+)

text \<open>The refusals of \<open>hosts add\<close> leave with a code other than 0.\<close>

lemma refusal_codes:
  "traced (confirm_add args mode path) (\<lambda>r es. case r of Inl e \<Rightarrow> True | Inr v \<Rightarrow> v \<noteq> Some 0)"
  unfolding confirm_add_def Let_def
  by (auto intro!: traced_intros split: sum.splits simp: exit_needs_yes_def exit_user_declined_def)

lemma answered_hosts_add: "answered (hosts_run_add A args JsonMode)"
proof -
  have confirm: "answered (try_let (confirm_add args JsonMode path) (\<lambda>refused. case refused of
      Some code \<Rightarrow> ok code | None \<Rightarrow> f))" if "answered f" for path f
    by (rule answered_try_traced, rule traced_mono[OF refusal_codes])
      (use that in \<open>auto split: sum.splits option.splits intro!: answered_ok\<close>)
  show ?thesis
    unfolding hosts_run_add_def hash_choice_def append_pin_def refl_True if_True
    by (rule confirm | (rule answered_head, rule answer_intros) | rule answer_tails
        | (auto intro!: adds_intros)[1])+
qed

lemma answered_agent_list: "answered (agent_run_list K G args JsonMode)"
proof -
  have "try_let (let_do (emit_data c d) (\<lambda>_. ok ())) f = let_do (emit_data c d) (\<lambda>_. f ())"
    for c d and f :: "unit \<Rightarrow> ('x world, u32) eff"
    by (auto simp: fun_eq_iff effect_simps split: prod.splits)
  note flat = this
  show ?thesis
    unfolding agent_run_list_def output_mode.case flat
    by (((rule answered_head, rule answer_intros) | rule answer_tails answered_fail | (auto intro!: adds_intros)[1])+)
qed

lemma voiced_bio_error: "voiced (emit_bio_error e JsonMode command)"
  unfolding emit_bio_error_def Let_def output_mode.case
  by (intro voiced_head voiced_tail answer_intros adds_intros)

lemma voiced_bio_results: "voiced (emit_results JsonMode command results verb)"
  unfolding emit_results_def output_mode.case by (rule answer_intros)

lemma answered_install: "answered (run_install spawn JsonMode)"
  unfolding run_install_def output_mode.case
  by (((rule answered_head, rule answer_intros) | rule answer_tails answered_fail | (auto intro!: adds_intros)[1])+)

context quiet_vault
begin

lemmas any_vault_ops = vault_ops_adds[of "\<lambda>e. True", OF TrueI]
lemmas any_prompt = prompt_adds[of "\<lambda>e. True", OF TrueI]

lemma answered_generate:
  assumes "d_vault D = V"
  shows "answered (keygen_run_generate D Q args JsonMode)"
  unfolding keygen_run_generate_def resolve_new_passphrase_def prompt_new_passphrase_def output_mode.case refl_True if_True
  by (((rule answered_head, rule answer_intros) | rule answer_tails answered_fail | (auto intro!: adds_intros any_prompt(1)[OF assms])[1])+)

lemma answered_change_passphrase:
  assumes "d_vault D = V"
  shows "answered (keygen_run_change_passphrase D Q args JsonMode)"
  unfolding keygen_run_change_passphrase_def prompt_new_passphrase_def output_mode.case refl_True if_True
  by (((rule answered_head, rule answer_intros) | rule answer_tails answered_fail | (auto intro!: adds_intros any_prompt(1)[OF assms])[1])+)

lemma answered_agent_add:
  assumes "d_vault D = V"
  shows "answered (agent_run_add D G args JsonMode)"
proof -
  have "any_events (load_private_key D path key unlock)" for path key unlock
    unfolding load_private_key_def Let_def
    by (auto simp: assms intro!: adds_intros any_vault_ops any_prompt(2)
        split: unlock_mode.splits auto_unlock_result.splits)
  note load = this
  show ?thesis
    unfolding agent_run_add_def agent_add_files_def agent_add_path_def agent_add_call_def output_mode.case
    by ((rule answered_head, rule answer_intros) | rule answer_tails | (auto intro!: adds_intros load)[1])+
qed

lemma answered_enroll:
  assumes "d_vault D = V"
  shows "answered (run_enroll D args JsonMode)"
proof -
  have "any_events (for_try (enroll_step D) paths acc)" for paths acc
    unfolding enroll_step_def enroll_one_def read_key_def
    by (auto simp: assms Let_def intro!: adds_intros any_vault_ops any_prompt(2))
  note loop = this
  show ?thesis
    unfolding run_enroll_def bio_resolve_paths_def emit_unavailable_def assms
    by ((rule answered_head, rule voiced_bio_error voiced_bio_results) | rule answer_tails
        | (auto intro!: adds_intros loop any_vault_ops)[1])+
qed

lemma answered_forget: "answered (run_forget K V args JsonMode)"
proof -
  have "any_events (for_do (forget_enrolled V) keys acc)" "any_events (for_do (forget_path K V) paths acc)"
    for keys paths acc
    unfolding forget_enrolled_def forget_path_def read_key_def
    by (auto simp: Let_def intro!: adds_intros any_vault_ops)
  note loop = this
  have report: "answered (let_do (emit_results JsonMode command results verb) (\<lambda>_. ok exit))"
    for command results verb and exit :: u32
    by (intro answered_head voiced_bio_results adds_intros)
  show ?thesis
    unfolding run_forget_def
    by (rule report answered_case_sum answered_fail | (rule answered_head, rule voiced_bio_error) | rule answer_tails
        | (auto intro!: adds_intros loop any_vault_ops)[1])+
qed

lemma voiced_bio_list: "voiced (bio_run_list V JsonMode)"
proof -
  show ?thesis
    unfolding bio_run_list_def output_mode.case
    by (intro voiced_tail voiced_case_sum voiced_bio_error voiced_head answer_intros adds_intros any_vault_ops)
qed

lemma voiced_bio_status: "voiced (bio_run_status V JsonMode)"
  unfolding bio_run_status_def output_mode.case Let_def
  by (rule voiced_tail, rule any_vault_ops, rule voiced_tail)
    (auto intro!: voiced_head answer_intros adds_intros any_vault_ops)

lemma answered_biometric:
  assumes "d_vault D = V"
  shows "answered (biometric_run D cmd JsonMode)"
  by (cases cmd)
    (auto simp: assms intro!: answered_enroll answered_forget answered_head voiced_bio_list voiced_bio_status adds_intros)

end

text \<open>The subcommands whose answer goes to standard output; \<open>sign\<close> writes its record to standard
  error, and \<open>agent start\<close> prints shell lines.\<close>

definition answers_on_stdout :: "gitway_subcommand \<Rightarrow> bool" where
  "answers_on_stdout sub \<longleftrightarrow> (case sub of
     SignCmd _ \<Rightarrow> False
   | KeygenCmd (KgSign _) \<Rightarrow> False
   | AgentCmd (AgentStart _) \<Rightarrow> False
   | _ \<Rightarrow> True)"

context quiet_vault
begin

lemma answered_subcommand:
  assumes "d_vault D = V" and "answers_on_stdout sub"
  shows "answered (run_subcommand D A H sub JsonMode)"
proof -
  have keygen: "answered (keygen_run D A Q cmd JsonMode)" if "\<not> (\<exists>args. cmd = KgSign args)" for Q cmd
    using that by (cases cmd) (auto intro!: answered_generate answered_fingerprint answered_extract_public
        answered_change_passphrase answered_verify assms(1))
  have agent: "answered (agent_run D G S cmd JsonMode)" if "\<not> (\<exists>args. cmd = AgentStart args)" for G S cmd
    using that by (cases cmd) (auto intro!: answered_agent_add answered_agent_list answered_agent_remove
        answered_agent_lock answered_agent_stop assms(1))
  have hosts: "answered (hosts_run A cmd JsonMode)" for cmd
    by (cases cmd) (auto intro!: answered_hosts_add answered_hosts_revoke answered_hosts_list)
  show ?thesis
    using assms(2)
    by (cases sub) (auto simp: answers_on_stdout_def
        simp del: agent_run.simps keygen_run.simps hosts_run.simps biometric_run.simps config_run.simps
        intro!: keygen agent hosts answered_discovery answered_describe answered_config
        answered_algorithms answered_biometric assms(1) split: keygen_subcommand.splits agent_subcommand.splits)
qed

lemma subcommand_answer:
  assumes "d_vault D = V"
  shows "traced (run_subcommand D A H sub JsonMode) (\<lambda>r es.
    if r = Inr 0 \<and> answers_on_stdout sub then length (documents es) = 1 else True)"
proof (unfold traced_def, intro allI)
  fix w
  obtain r u where run: "run_subcommand D A H sub JsonMode w = (r, u)" by fastforce
  obtain es where es: "w_trace u = w_trace w @ es" "length (documents es) \<le> 1"
    using tracedE[OF docs_subcommand[OF assms(1), unfolded docs_def] run] by metis
  moreover have "documents es \<noteq> []" if "r = Inr 0" "answers_on_stdout sub"
    using tracedD[OF answered_subcommand[OF assms that(2), unfolded answered_def] run es(1)] that(1) by simp
  ultimately show "\<exists>es. w_trace (snd (run_subcommand D A H sub JsonMode w)) = w_trace w @ es
      \<and> (if fst (run_subcommand D A H sub JsonMode w) = Inr 0 \<and> answers_on_stdout sub
         then length (documents es) = 1 else True)"
    using run by (intro exI[of _ es]) (cases "documents es"; auto)
qed

lemma main_reports_failure:
  assumes "d_vault D = V"
  shows "runs w (gitway_main D A H argv c) (\<lambda>code es u. case gitway_run D A H c w of
     (Inr k, u') \<Rightarrow> code = k \<and> u = u'
   | (Inl e, u') \<Rightarrow> code = er_exit_code A e \<and> (\<exists>pre report. es = pre @ report
       \<and> w_trace u' = w_trace w @ pre \<and> error_report A (detect_output_mode c False w) e report))"
proof -
  obtain r u where run: "gitway_run D A H c w = (r, u)" by fastforce
  obtain pre where pre: "w_trace u = w_trace w @ pre"
    using tracedE[OF docs_run[OF assms, unfolded docs_def] run] by metis
  show ?thesis
  proof (cases r)
    case (Inr k)
    then show ?thesis using run pre by (simp add: runs_def main_result)
  next
    case (Inl e)
    have "traced (report_error A (detect_output_mode c False w) (join '' '' argv) (compute_config_sources A c w) e)
        (\<lambda>_ es. error_report A (detect_output_mode c False w) e es)"
      by (rule traced_report_error)
    then obtain report where "error_report A (detect_output_mode c False w) e report"
      "w_trace (snd (report_error A (detect_output_mode c False w) (join '' '' argv)
         (compute_config_sources A c w) e u)) = w_trace u @ report"
      unfolding traced_def by blast
    then show ?thesis using run pre Inl by (auto simp: runs_def main_result)
  qed
qed

end

end
