(* ===== verification/Props_Transport.thy ===== *)
theory Props_Transport
  imports Envelopes
begin

text \<open>
  The properties of the transport, of the dispatch and of the subcommands that inspect or manage
  configuration: the relay of a Git command, \<open>--test\<close>, precedence and proxies, \<open>hosts\<close>,
  \<open>config show\<close>, the discovery documents and the error report.
\<close>

section \<open>Relaying a command\<close>

text \<open>C2: A relay opens exactly one connection, the one that the proxies select, sends the joined
  command once, only behind an authentication call on that connection, and does nothing after
  it but close the session; the command is sent right after the world in which an
  authentication of this run has returned \<open>Ok\<close>, and a run that sends no command fails. Whatever
  can be asked of the user beforehand is asked before the connection.\<close>

theorem relay_authenticates_first:
  fixes D :: "('x, 'k, 'p) deps" and P :: "('x, 'h) platform"
  shows "let D' = D\<lparr>d_vault := backend feature os P\<rparr> in
    traced (run_exec A D' config parts alias pc jumps) (\<lambda>r es.
      if list_ex is_exec es then relay_shape (join '' '' parts) (route A config pc jumps) es else isl r)
    \<and> runs w (run_exec A D' config parts alias pc jumps) (\<lambda>r es t.
      if list_ex is_exec es then authenticated_before A D' config [Ssh (Exec (join '' '' parts))] t else isl r)"
  unfolding Let_def
  by (intro conjI traced_mono[OF build.run_exec_shape] build.run_exec_authenticated) auto

text \<open>C31: \<open>gitway --test\<close> never sends a command, ends with code 0 or an error, and reports
  \<open>authenticated: true\<close> only after an authentication of this run has returned \<open>Ok\<close>; an
  authentication that fails for another reason than a missing key is never reported as a
  success.\<close>

theorem connection_test_is_honest:
  fixes D :: "('x, 'k, 'p) deps" and P :: "('x, 'h) platform"
  shows "let D' = D\<lparr>d_vault := backend feature os P\<rparr> in
    runs w (run_test A D' config alias pc jumps mode) (\<lambda>r es t.
      list_all (\<lambda>e. \<not> is_exec e) es \<and> (isl r \<or> r = Inr 0)
      \<and> (if list_ex claims_authenticated es then authenticated_before A D' config [] t else True))
    \<and> traced (test_report A config mode session (Inl e)) (\<lambda>r es.
      \<not> list_ex claims_authenticated es \<and> (if er_is_no_key_found A e then True else isl r))"
  unfolding Let_def
  by (intro conjI build.run_test_result traced_mono[OF test_report_result]) auto

text \<open>C32: When the automatic authentication of a run finds no key, the run reports a rejected key if one
  was there to be rejected, on disk or (on Unix) in the agent, and keeps the error otherwise;
  accordingly \<open>--test\<close> tells a person that no identity was found, or fails with the rejection.\<close>

theorem rejected_key_is_not_a_missing_key:
  "case an_auth_best A session config (store_of w) of (r, s) \<Rightarrow> case r of
     Inr _ \<Rightarrow> True
   | Inl e \<Rightarrow>
       if er_is_no_key_found A e \<and> \<not> er_is_key_encrypted A e then
         (let e' = (if key_was_there A D config s then AuthenticationFailed else e)
          in fst (authenticate A D session config None w) = Inl e'
           \<and> runs w (let_do (authenticate A D session config None) (test_report A config Human session)) (\<lambda>r es u.
               if er_is_no_key_found A e' then Err (Text no_identity_message) \<in> set es
               else r = Inl e' \<and> Err (Text no_identity_message) \<notin> set es))
       else True"
proof (rule prod.exhaust[of "an_auth_best A session config (store_of w)"])
  fix r :: "anvil_error + unit" and s
  assume "an_auth_best A session config (store_of w) = (r, s)"
  then show ?thesis
    using missing_key_report[of A session config w _ s _ D]
    by (cases r) (simp_all add: Let_def del: split_paired_All)
qed

section \<open>The configuration of a connection\<close>

text \<open>C22: The builder is told of ssh_config once and before every flag, so that each flag of the
  command line has the last word, and the explicit user beats the user of the host argument. It
  is built exactly when the library accepts every algorithm list of the command line; the first
  rejected list, in the order of the flags, ends the run with the library's error before anything
  but ssh_config was consulted.\<close>

theorem flags_beat_config:
  "(case cli_builder A c parsed_user host resolved of
      Inr b \<Rightarrow> rejections A c = []
        \<and> bd_calls b = BVerbose (cli_verbose c > 0) # map BApplySshConfig (opt_list resolved)
            @ cli_overrides A c parsed_user
        \<and> (\<forall>r. BApplySshConfig r \<notin> set (cli_overrides A c parsed_user))
    | Inl e \<Rightarrow> rejections A c \<noteq> [] \<and> e = hd (rejections A c))
   \<and> (if rejections A c = [] then True
      else traced (run_ssh D A c) (\<lambda>r es.
        r = Inl (hd (rejections A c)) \<and> list_all (\<lambda>e. \<exists>host. e = Lib (SshConfig host)) es))"
  using cli_builder_rejections[of A c parsed_user host resolved] run_ssh_rejected[of A c D]
    cli_builder_calls[of A c parsed_user host resolved] cli_overrides_no_config
  by (auto split: sum.splits)

text \<open>C23: Which way a connection takes, for every combination of \<open>--proxy-command\<close>, \<open>-J\<close> hosts,
  \<open>ProxyCommand\<close> and \<open>ProxyJump\<close>. For the command and for the jump hosts the value of the command
  line counts before that of ssh_config, and the word \<open>none\<close> stands for no value; several \<open>-J\<close> are one
  chain. A jump chain that does not parse ends the run before any connection, even when a command
  would have been used; otherwise a command is used if there is one, then the jump hosts if there
  are any, and the connection is direct in the last case. (So a \<open>ProxyCommand\<close> of ssh_config is used
  although \<open>-J\<close> was given, and \<open>--proxy-command none\<close> alone does not force a direct
  connection: a \<open>ProxyJump\<close> of ssh_config is still followed.) No run opens any other connection, or
  more than one.\<close>

theorem proxy_precedence:
  fixes D :: "('x, 'k, 'p) deps" and P :: "('x, 'h) platform"
  shows "try_let (lift_res (resolve_proxy_directives A c resolved))
      (\<lambda>(proxy_command, jumps). connect_session A config alias proxy_command jumps) =
    (case (case chosen_jumps c resolved of None \<Rightarrow> Inr [] | Some spec \<Rightarrow> an_parse_jump_chain A spec) of
       Inl e \<Rightarrow> fail e
     | Inr hops \<Rightarrow> (case chosen_command c resolved of
         Some t \<Rightarrow> call (Ssh (ConnectProxyCommand t)) (an_connect_proxy_command A config t alias)
       | None \<Rightarrow>
           if hops = [] then call (Ssh (ConnectDirect (an_host A config))) (an_connect A config)
           else call (Ssh (ConnectJump (length hops))) (an_connect_jump_hosts A config hops)))
   \<and> (case parse_user_host (case cli_host c of Some h \<Rightarrow> h | None \<Rightarrow> default_github_host) of (user, host) \<Rightarrow>
       runs w (run_ssh (D\<lparr>d_vault := backend feature os P\<rparr>) A c) (\<lambda>r es u.
         case destination A c user host (fst (resolve_ssh_config A c host w)) of
           Inl e \<Rightarrow> r = Inl e \<and> [e \<leftarrow> es. is_connect e] = []
         | Inr via \<Rightarrow> [e \<leftarrow> es. is_connect e] \<in> {[], [Ssh via]}))"
  by (intro conjI build.run_ssh_destination)
    (auto simp: proxy_directives_chosen connect_session_chosen try_let_def lift_res_def fail_def
      split: sum.splits)

section \<open>Output\<close>

text \<open>C37: A run that succeeds ends with its own code and adds nothing; a run that fails ends with the
  exit code of its error, and behind whatever it had already done comes one report of that error,
  on standard error only, which in JSON mode names the same code.\<close>

theorem failure_is_reported:
  fixes D :: "('x, 'k, 'p) deps" and P :: "('x, 'h) platform"
  shows "let D' = D\<lparr>d_vault := backend feature os P\<rparr> in
    runs w (gitway_main D' A H argv c) (\<lambda>code es u. case gitway_run D' A H c w of
     (Inr k, u') \<Rightarrow> code = k \<and> u = u'
   | (Inl e, u') \<Rightarrow> code = er_exit_code A e \<and> (\<exists>pre report. es = pre @ report
       \<and> w_trace u' = w_trace w @ pre \<and> error_report A (detect_output_mode c False w) e report))"
  unfolding Let_def by (rule build.main_reports_failure) simp

text \<open>C40: \<open>gitway schema\<close> and \<open>gitway describe\<close> print one document each, in either output mode. Both
  list the same commands, by name, with the same traits and without duplicates, and the same global
  flags. What they list are the three uses without a subcommand and every subcommand that the
  command line has, \<open>biometric\<close> excepted; and the schema document lists, under \<open>keygen\<close>, \<open>agent\<close>,
  \<open>config\<close> and \<open>hosts\<close>, every subcommand of theirs, \<open>agent start\<close> and \<open>agent stop\<close> excepted.\<close>

theorem discovery_documents_agree:
  "traced (run_subcommand D A H Schema mode) (\<lambda>r es. r = Inr 0 \<and> es = [Out (Json schema_document)])
   \<and> traced (run_subcommand D A H Describe mode) (\<lambda>r es. r = Inr 0 \<and> es = [Out (Json describe_document)])
   \<and> command_table schema_document = command_table describe_document
   \<and> distinct (map fst (command_table describe_document))
   \<and> set schema_flag_names = set describe_flag_names \<and> length describe_flag_names = 21
   \<and> set (map fst (command_table describe_document)) =
       {''gitway <host> <command...>'', ''gitway --test'', ''gitway --install''}
       \<union> {''gitway '' @ subcommand_word s | s. \<not> (\<exists>cmd. s = BiometricCmd cmd)}
   \<and> keygen_word kcmd \<in> set (listed_subcommands schema_document ''gitway keygen'')
   \<and> (agent_word acmd \<in> set (listed_subcommands schema_document ''gitway agent'')
       \<longleftrightarrow> \<not> (\<exists>args. acmd = AgentStart args) \<and> \<not> (\<exists>args. acmd = AgentStop args))
   \<and> config_word ccmd \<in> set (listed_subcommands schema_document ''gitway config'')
   \<and> hosts_word hcmd \<in> set (listed_subcommands schema_document ''gitway hosts'')"
proof (intro conjI)
  show "length describe_flag_names = 21" by code_simp
  show "distinct (map fst (command_table describe_document))" unfolding table_of_documents(2) by simp
  show "set (map fst (command_table describe_document)) =
       {''gitway <host> <command...>'', ''gitway --test'', ''gitway --install''}
       \<union> {''gitway '' @ subcommand_word s | s. \<not> (\<exists>cmd. s = BiometricCmd cmd)}"
    unfolding table_of_documents(2) command_words by auto
qed (fact same_flags table_of_documents(1) nested_words
  | simp add: run_schema_def run_describe_def traced_def effect_simps)+

section \<open>Subcommands\<close>

text \<open>C24: No subcommand authenticates to a server or runs a remote command, and only
  \<open>hosts add\<close> opens a connection, on every build.\<close>

theorem subcommands_stay_offline:
  fixes D :: "('x, 'k, 'p) deps" and P :: "('x, 'h) platform"
  shows "adds_only (\<lambda>e. \<not> is_exec e \<and> \<not> is_auth e
      \<and> (if is_connect e then (\<exists>args. sub = HostsCmd (HostsAdd args)) else True))
    (run_subcommand (D\<lparr>d_vault := backend feature os P\<rparr>) A H sub mode)"
  by (rule adds_only_mono[OF subcommand_offline])
    (auto simp: offline_def split: gitway_subcommand.splits hosts_subcommand.splits)

text \<open>C10: \<open>hosts add\<close> changes the known-hosts file only with consent: \<open>--yes\<close>, or \<open>y\<close> or
  \<open>yes\<close> typed at a terminal in human mode; and it never sends credentials.\<close>

theorem pins_need_consent:
  "runs w (hosts_run_add A args mode) (\<lambda>r es u.
     (if list_ex changes_known_hosts es then add_consent args mode w else True))
   \<and> adds_only (\<lambda>e. \<not> sends_credentials e) (hosts_run_add A args mode)"
  by (intro conjI runs_mono[OF hosts_add_consent] hosts_add_no_credentials) auto

text \<open>C36: The exit code of \<open>hosts add\<close> says which way the confirmation went: 0 only with consent,
  78 without \<open>--yes\<close> where nobody can be asked, 73 on a declined question.\<close>

theorem pin_exit_codes:
  "runs w (hosts_run_add A args mode) (\<lambda>r es u. case r of
     Inl e \<Rightarrow> True
   | Inr c \<Rightarrow> c = (if add_consent args mode w then 0
       else if mode = Human \<and> w_stdin_tty w then 73 else 78))"
proof (rule runs_mono[OF hosts_add_code])
  fix r :: "anvil_error + u32"
  assume "\<forall>c. r = Inr c \<longrightarrow> c = (if add_consent args mode w then 0 else refusal_code mode w)"
  then show "case r of Inl e \<Rightarrow> True
      | Inr c \<Rightarrow> c = (if add_consent args mode w then 0 else if mode = Human \<and> w_stdin_tty w then 73 else 78)"
    by (cases r; cases mode) (simp_all add: refusal_code_def exit_needs_yes_def exit_user_declined_def)
qed

text \<open>C18: Without \<open>--show-secrets\<close> the two reports of \<open>config show\<close> are functions of the redacted
  configuration: the path of a private key makes no difference to anything the command does.\<close>

theorem redaction_hides_key_paths:
  "emit_human_show A (args\<lparr>cs_show_secrets := False\<rparr>) (redact_config r)
     = emit_human_show A (args\<lparr>cs_show_secrets := False\<rparr>) r
   \<and> emit_json_show A (args\<lparr>cs_show_secrets := False\<rparr>) (redact_config r)
     = emit_json_show A (args\<lparr>cs_show_secrets := False\<rparr>) r
   \<and> list_all (\<lambda>p. \<not> looks_like_private_key p) (rc_identity_files (redact_config r))"
  using emit_human_show_redact[of "args\<lparr>cs_show_secrets := False\<rparr>" A r]
    emit_json_show_redact[of "args\<lparr>cs_show_secrets := False\<rparr>" A r] redacted_text_plain
  by (auto simp: redact_config_def display_path_def list_all_iff)

section \<open>Machine-readable output\<close>

text \<open>C19: A run of \<open>gitway\<close>, whatever the command line, the build and the outcome, writes at most
  one JSON document to standard output. Every document of a run, those on standard error included,
  is of the shape that \<open>docs/json-schema.md\<close> freezes: the metadata block of \<open>schema_version\<close> 1.0.0
  with either \<open>data\<close> or an error of code, exit code, message and hint; or a discovery document that
  names tool and versions. The two exceptions are exact: the document of \<open>gitway schema\<close>, which
  does not name the tool, and the errors of \<open>gitway biometric\<close>, which lack code and hint. In JSON
  mode a subcommand that ends with code 0 has written exactly one document (\<open>sign\<close> and
  \<open>agent start\<close> apart, whose answers are not JSON on standard output).\<close>

theorem one_versioned_document:
  fixes D :: "('x, 'k, 'p) deps" and P :: "('x, 'h) platform"
  shows "traced (gitway_main (D\<lparr>d_vault := backend feature os P\<rparr>) A H argv c)
      (\<lambda>code es. length (documents es) \<le> 1 \<and> list_all (\<lambda>e. frozen e \<or> deviation (cli_subcommand c) e) es)
    \<and> \<not> frozen (Out (Json schema_document)) \<and> (if short_error e then \<not> frozen e else True)
    \<and> traced (run_subcommand (D\<lparr>d_vault := backend feature os P\<rparr>) A H sub JsonMode)
      (\<lambda>r es. if r = Inr 0 \<and> answers_on_stdout sub then length (documents es) = 1 else True)"
  by (intro conjI build.docs_main[unfolded docs_def] build.subcommand_answer)
    (simp_all add: deviations_are_deviations)

end
