(* ===== verification/Keygen_Grammar.thy ===== *)
theory Keygen_Grammar
  imports Keygen_Shim Arg_Grammar
begin

text \<open>
  The language of \<open>gitway-keygen\<close>'s command lines and its meaning, stated without the loop of
  \<open>Parsed::from_args\<close>: of several values of an option the last counts, \<open>-Y\<close> beats \<open>-l\<close> beats \<open>-y\<close>
  beats \<open>-p\<close>, the first plain argument is the message file, the second one is the key file unless
  \<open>-f\<close> names one, and everything behind \<open>--\<close> is dropped.
\<close>

section \<open>Tokens\<close>

definition value_options :: "string list" where
  "value_options = [''-t'', ''-b'', ''-f'', ''-N'', ''-P'', ''-C'', ''-n'', ''-I'', ''-s'', ''-E'', ''-Y'',
     ''--allowed-signers'', ''-O'']"

definition bits_of :: "string \<Rightarrow> u32 option" where
  "bits_of v = map_option of_nat (parse_unsigned u32_max v)"

definition fingerprint_hash_of :: "string \<Rightarrow> hash_kind option" where
  "fingerprint_hash_of v = (if to_lower v = ''sha256'' then Some Sha256
     else if to_lower v = ''sha512'' then Some Sha512 else None)"

fun keygen_token_ok :: "token \<Rightarrow> bool" where
  "keygen_token_ok (Valued f v) \<longleftrightarrow> f \<in> set value_options \<and>
     (if f = ''-b'' then bits_of v \<noteq> None else if f = ''-E'' then fingerprint_hash_of v \<noteq> None else True)"
| "keygen_token_ok (Flag f) \<longleftrightarrow> f \<in> {''-l'', ''-y'', ''-p''} \<or> ignored_option f"
| "keygen_token_ok (Plain a) \<longleftrightarrow> \<not> prefix ''-'' a"

section \<open>Meaning\<close>

definition keygen_reads_as :: "token list \<Rightarrow> keygen_parsed \<Rightarrow> bool" where
  "keygen_reads_as toks p \<longleftrightarrow>
     (case last_value ''-Y'' toks of
        Some op \<Rightarrow> sshsig_mode op = Inr (kp_mode p)
      | None \<Rightarrow> kp_mode p = (if Flag ''-l'' \<in> set toks then PrintFingerprint
          else if Flag ''-y'' \<in> set toks then ExtractPublic
          else if Flag ''-p'' \<in> set toks then ChangePassphrase else GenerateKey)) \<and>
     kp_key_type p = last_value ''-t'' toks \<and> kp_bits p = Option.bind (last_value ''-b'' toks) bits_of \<and>
     kp_new_passphrase p = last_value ''-N'' toks \<and> kp_old_passphrase p = last_value ''-P'' toks \<and>
     kp_comment p = last_value ''-C'' toks \<and> kp_namespace p = last_value ''-n'' toks \<and>
     kp_signer_identity p = last_value ''-I'' toks \<and> kp_signature_file p = last_value ''-s'' toks \<and>
     kp_allowed_signers p = last_value ''--allowed-signers'' toks \<and>
     Some (kp_fingerprint_hash p) = (case last_value ''-E'' toks of None \<Rightarrow> Some Sha256 | Some v \<Rightarrow> fingerprint_hash_of v) \<and>
     kp_message_file p = (case all_of plain_of toks of [] \<Rightarrow> None | m # _ \<Rightarrow> Some m) \<and>
     kp_file p = (case last_value ''-f'' toks of
        Some f \<Rightarrow> Some f
      | None \<Rightarrow> (case all_of plain_of toks of m # f # _ \<Rightarrow> Some f | _ \<Rightarrow> None))"

section \<open>The loop\<close>

fun keygen_eff :: "token \<Rightarrow> keygen_scan \<Rightarrow> keygen_scan" where
  "keygen_eff (Valued f v) p =
     (if f = ''-t'' then p\<lparr>kp_key_type := Some v\<rparr> else if f = ''-b'' then p\<lparr>kp_bits := bits_of v\<rparr>
      else if f = ''-f'' then p\<lparr>kp_file := Some v\<rparr> else if f = ''-N'' then p\<lparr>kp_new_passphrase := Some v\<rparr>
      else if f = ''-P'' then p\<lparr>kp_old_passphrase := Some v\<rparr> else if f = ''-C'' then p\<lparr>kp_comment := Some v\<rparr>
      else if f = ''-n'' then p\<lparr>kp_namespace := Some v\<rparr> else if f = ''-I'' then p\<lparr>kp_signer_identity := Some v\<rparr>
      else if f = ''-s'' then p\<lparr>kp_signature_file := Some v\<rparr>
      else if f = ''-E'' then p\<lparr>kp_fingerprint_hash := (case fingerprint_hash_of v of Some h \<Rightarrow> h | None \<Rightarrow> Sha256)\<rparr>
      else if f = ''-Y'' then p\<lparr>ks_sshsig_op := Some v\<rparr>
      else if f = ''--allowed-signers'' then p\<lparr>kp_allowed_signers := Some v\<rparr> else p)"
| "keygen_eff (Flag f) p =
     (if f = ''-l'' then p\<lparr>ks_saw_list := True\<rparr> else if f = ''-y'' then p\<lparr>ks_saw_extract := True\<rparr>
      else if f = ''-p'' then p\<lparr>ks_saw_change := True\<rparr> else p)"
| "keygen_eff (Plain a) p =
     (if kp_message_file p = None then p\<lparr>kp_message_file := Some a\<rparr>
      else if kp_file p = None then p\<lparr>kp_file := Some a\<rparr> else p)"

lemma parse_bits_Inr: "parse_bits v = Inr n \<longleftrightarrow> bits_of v = Some n"
  by (auto simp: parse_bits_def bits_of_def split: option.splits)

lemma parse_fingerprint_hash_Inr: "parse_fingerprint_hash v = Inr h \<longleftrightarrow> fingerprint_hash_of v = Some h"
  by (auto simp: parse_fingerprint_hash_def fingerprint_hash_of_def Let_def)

lemma with_value_Inr: "with_value flag rest f = Inr (p, rest') \<longleftrightarrow> (\<exists>v. rest = v # rest' \<and> f v = Inr p)"
  by (auto simp: with_value_def take_value_def split: list.splits sum.splits)

lemma case_result_Inr: "(case r of Inl e \<Rightarrow> Inl e | Inr n \<Rightarrow> Inr (f n)) = Inr x \<longleftrightarrow> (\<exists>n. r = Inr n \<and> x = f n)"
  by (auto split: sum.splits)

lemma packed_option_prefix: "packed_option a \<Longrightarrow> prefix ''-'' a"
  using packed_option_cases by fastforce

definition keygen_next_token :: "string \<Rightarrow> string list \<Rightarrow> token" where
  "keygen_next_token a rest =
     (if a \<in> set value_options then Valued a (hd rest) else if prefix ''-'' a then Flag a else Plain a)"

text \<open>An ignored option changes nothing.\<close>

lemma keygen_ignored:
  assumes "ignored_option f"
  shows "keygen_eff (Flag f) p = p" and "keygen_next_token f rest = Flag f"
proof -
  have "keygen_eff (Flag f) p = p \<and> keygen_next_token f rest = Flag f"
  proof (cases "packed_option f")
    case True
    then obtain c r where "f = CHR ''-'' # CHR ''O'' # c # r"
      using packed_option_cases by blast
    then show ?thesis by (simp add: keygen_next_token_def value_options_def)
  next
    case False
    then have "f \<in> {''-q'', ''-v'', ''-vv'', ''-vvv''}"
      using assms by (simp add: ignored_option_def)
    then show ?thesis by (elim insertE emptyE) (simp_all add: keygen_next_token_def value_options_def)
  qed
  then show "keygen_eff (Flag f) p = p" "keygen_next_token f rest = Flag f"
    by blast+
qed

lemma packed_not_literal [simp]: "\<not> packed_option [c, d]" "\<not> packed_option (CHR ''-'' # CHR ''-'' # r)"
  by (auto simp: packed_option_def strip_prefix_def)

lemma keygen_step_flag:
  assumes "keygen_token_ok (Flag f)"
  shows "keygen_step f rest p = Inr (keygen_eff (Flag f) p, rest)"
proof (cases "ignored_option f")
  case True
  then show ?thesis by (simp add: ignored_option_step keygen_ignored del: keygen_eff.simps)
next
  case False
  then have "f \<in> {''-l'', ''-y'', ''-p''}" using assms by simp
  then show ?thesis by (elim insertE emptyE) (simp_all add: keygen_step_def)
qed

lemma keygen_step_valued:
  assumes "keygen_token_ok (Valued f v)"
  shows "keygen_step f (v # rest) p = Inr (keygen_eff (Valued f v) p, rest)"
proof -
  have "f \<in> set value_options" using assms by simp
  then show ?thesis
    using assms unfolding value_options_def set_simps
    by (elim insertE emptyE) (auto simp: keygen_step_def with_value_Inr parse_bits_Inr
        parse_fingerprint_hash_Inr[THEN iffD2] parse_bits_Inr[THEN iffD2])
qed

lemma keygen_step_plain:
  "keygen_token_ok (Plain a) \<Longrightarrow> keygen_step a rest p = Inr (keygen_eff (Plain a) p, rest)"
  using packed_option_prefix[of a] by (cases a) (auto simp: keygen_step_def)

lemma keygen_step_reads:
  assumes "keygen_step a rest p = Inr (p', rest')" and "a \<noteq> ''--''"
  defines "t \<equiv> keygen_next_token a rest"
  shows "keygen_token_ok t \<and> a # rest = spell t @ rest' \<and> p' = keygen_eff t p"
proof (cases "ignored_option a")
  case True
  then show ?thesis
    using assms(1) by (simp add: t_def keygen_ignored ignored_option_step del: keygen_eff.simps)
next
  case False
  then have "\<not> packed_option a" "a \<notin> {''-q'', ''-v'', ''-vv'', ''-vvv''}"
    by (simp_all add: ignored_option_def)
  then show ?thesis
    using assms(1,2) unfolding t_def keygen_step_def keygen_next_token_def value_options_def set_simps
    by (simp only: split: if_split_asm)
      (auto simp: with_value_Inr case_result_Inr parse_bits_Inr parse_fingerprint_hash_Inr value_options_def)
qed

interpretation keygen_loop: arg_scanner keygen_scan_args keygen_step "\<lambda>t p. keygen_token_ok t" keygen_eff
  "\<lambda>args p. p"
proof (unfold_locales, goal_cases)
  case (3 a rest s s' rest')
  then show ?case by (rule keygen_step_shorter)
next
  case (4 rest s)
  then show ?case by (simp add: keygen_step_def)
next
  case (8 a rest s s' rest')
  then show ?case using keygen_step_reads by blast
qed (simp_all add: keygen_step_flag keygen_step_valued keygen_step_plain del: keygen_token_ok.simps keygen_eff.simps)

section \<open>The whole line\<close>

lemma keygen_eff_values:
  "kp_mode (keygen_eff t p) = kp_mode p"
  "kp_key_type (keygen_eff t p) = (case value_of ''-t'' t of None \<Rightarrow> kp_key_type p | Some v \<Rightarrow> Some v)"
  "kp_bits (keygen_eff t p) = (case value_of ''-b'' t of None \<Rightarrow> kp_bits p | Some v \<Rightarrow> bits_of v)"
  "kp_new_passphrase (keygen_eff t p) = (case value_of ''-N'' t of None \<Rightarrow> kp_new_passphrase p | Some v \<Rightarrow> Some v)"
  "kp_old_passphrase (keygen_eff t p) = (case value_of ''-P'' t of None \<Rightarrow> kp_old_passphrase p | Some v \<Rightarrow> Some v)"
  "kp_comment (keygen_eff t p) = (case value_of ''-C'' t of None \<Rightarrow> kp_comment p | Some v \<Rightarrow> Some v)"
  "kp_namespace (keygen_eff t p) = (case value_of ''-n'' t of None \<Rightarrow> kp_namespace p | Some v \<Rightarrow> Some v)"
  "kp_signer_identity (keygen_eff t p) = (case value_of ''-I'' t of None \<Rightarrow> kp_signer_identity p | Some v \<Rightarrow> Some v)"
  "kp_signature_file (keygen_eff t p) = (case value_of ''-s'' t of None \<Rightarrow> kp_signature_file p | Some v \<Rightarrow> Some v)"
  "kp_allowed_signers (keygen_eff t p) =
     (case value_of ''--allowed-signers'' t of None \<Rightarrow> kp_allowed_signers p | Some v \<Rightarrow> Some v)"
  "ks_sshsig_op (keygen_eff t p) = (case value_of ''-Y'' t of None \<Rightarrow> ks_sshsig_op p | Some v \<Rightarrow> Some v)"
  by (cases t; simp)+

lemma keygen_eff_others:
  "kp_fingerprint_hash (keygen_eff t p) = (case value_of ''-E'' t of None \<Rightarrow> kp_fingerprint_hash p
     | Some v \<Rightarrow> (case fingerprint_hash_of v of Some h \<Rightarrow> h | None \<Rightarrow> Sha256))"
  "ks_saw_list (keygen_eff t p) \<longleftrightarrow> ks_saw_list p \<or> t = Flag ''-l''"
  "ks_saw_extract (keygen_eff t p) \<longleftrightarrow> ks_saw_extract p \<or> t = Flag ''-y''"
  "ks_saw_change (keygen_eff t p) \<longleftrightarrow> ks_saw_change p \<or> t = Flag ''-p''"
  "kp_message_file (keygen_eff t p) = (case plain_of t of None \<Rightarrow> kp_message_file p
     | Some a \<Rightarrow> (case kp_message_file p of None \<Rightarrow> Some a | Some m \<Rightarrow> Some m))"
  "kp_file (keygen_eff t p) = (case value_of ''-f'' t of Some f \<Rightarrow> Some f
     | None \<Rightarrow> (case plain_of t of None \<Rightarrow> kp_file p
         | Some a \<Rightarrow> if kp_message_file p \<noteq> None \<and> kp_file p = None then Some a else kp_file p))"
  by (cases t; auto split: option.splits)+

definition keygen_end :: "token list \<Rightarrow> keygen_scan" where
  "keygen_end toks = fold keygen_eff toks keygen_scan_start"

lemma keygen_end_snoc [simp]: "keygen_end (ts @ [t]) = keygen_eff t (keygen_end ts)"
  "keygen_end [] = keygen_scan_start"
  by (simp_all add: keygen_end_def)

lemma keygen_end_values:
  "kp_mode (keygen_end toks) = GenerateKey"
  "kp_key_type (keygen_end toks) = last_value ''-t'' toks"
  "kp_bits (keygen_end toks) = Option.bind (last_value ''-b'' toks) bits_of"
  "kp_new_passphrase (keygen_end toks) = last_value ''-N'' toks"
  "kp_old_passphrase (keygen_end toks) = last_value ''-P'' toks"
  "kp_comment (keygen_end toks) = last_value ''-C'' toks"
  "kp_namespace (keygen_end toks) = last_value ''-n'' toks"
  "kp_signer_identity (keygen_end toks) = last_value ''-I'' toks"
  "kp_signature_file (keygen_end toks) = last_value ''-s'' toks"
  "kp_allowed_signers (keygen_end toks) = last_value ''--allowed-signers'' toks"
  "ks_sshsig_op (keygen_end toks) = last_value ''-Y'' toks"
  "ks_saw_list (keygen_end toks) \<longleftrightarrow> Flag ''-l'' \<in> set toks"
  "ks_saw_extract (keygen_end toks) \<longleftrightarrow> Flag ''-y'' \<in> set toks"
  "ks_saw_change (keygen_end toks) \<longleftrightarrow> Flag ''-p'' \<in> set toks"
  by (induction toks rule: rev_induct)
    (simp_all add: keygen_eff_values keygen_eff_others keygen_scan_start_def del: keygen_eff.simps
      split: option.splits, blast+)

lemma keygen_end_hash:
  "kp_fingerprint_hash (keygen_end toks) = (case last_value ''-E'' toks of None \<Rightarrow> Sha256
     | Some v \<Rightarrow> (case fingerprint_hash_of v of Some h \<Rightarrow> h | None \<Rightarrow> Sha256))"
  by (induction toks rule: rev_induct)
    (simp_all add: keygen_eff_others keygen_scan_start_def del: keygen_eff.simps split: option.splits)

lemma keygen_end_files:
  "kp_message_file (keygen_end toks) = (case all_of plain_of toks of [] \<Rightarrow> None | m # _ \<Rightarrow> Some m)
   \<and> kp_file (keygen_end toks) = (case last_value ''-f'' toks of
        Some f \<Rightarrow> Some f
      | None \<Rightarrow> (case all_of plain_of toks of m # f # _ \<Rightarrow> Some f | _ \<Rightarrow> None))"
proof (induction toks rule: rev_induct)
  case (snoc t ts)
  then show ?case
    by (cases t) (auto simp: keygen_eff_others simp del: keygen_eff.simps split: option.splits list.splits)
qed (simp add: keygen_scan_start_def)

lemma keygen_parsed_eq_iff:
  "(p :: keygen_parsed) = q \<longleftrightarrow> kp_mode p = kp_mode q \<and> kp_key_type p = kp_key_type q \<and> kp_bits p = kp_bits q
     \<and> kp_file p = kp_file q \<and> kp_new_passphrase p = kp_new_passphrase q \<and> kp_old_passphrase p = kp_old_passphrase q
     \<and> kp_comment p = kp_comment q \<and> kp_namespace p = kp_namespace q \<and> kp_signer_identity p = kp_signer_identity q
     \<and> kp_signature_file p = kp_signature_file q \<and> kp_allowed_signers p = kp_allowed_signers q
     \<and> kp_fingerprint_hash p = kp_fingerprint_hash q \<and> kp_message_file p = kp_message_file q"
  by (cases p; cases q) auto

text \<open>What \<open>from_args\<close> makes of the variables behind the loop.\<close>

lemma keygen_parse_of_end:
  assumes "list_all keygen_token_ok toks" and "keygen_scan_args args keygen_scan_start = Inr (keygen_end toks)"
  shows "keygen_from_args args = Inr p \<longleftrightarrow> keygen_reads_as toks p"
proof -
  have hash: "Some (kp_fingerprint_hash (keygen_end toks))
      = (case last_value ''-E'' toks of None \<Rightarrow> Some Sha256 | Some v \<Rightarrow> fingerprint_hash_of v)"
    using last_value_ok[OF assms(1)] by (force simp: keygen_end_hash split: option.splits)
  have mode: "(case (case ks_sshsig_op s of Some op \<Rightarrow> sshsig_mode op | None \<Rightarrow> Inr m) of
        Inl e \<Rightarrow> Inl e | Inr m \<Rightarrow> Inr (keygen_parsed.truncate (s\<lparr>kp_mode := m\<rparr>))) = Inr p \<longleftrightarrow>
      (case ks_sshsig_op s of Some op \<Rightarrow> sshsig_mode op = Inr (kp_mode p) | None \<Rightarrow> kp_mode p = m)
      \<and> p = keygen_parsed.truncate (s\<lparr>kp_mode := kp_mode p\<rparr>)" for s :: keygen_scan and m
    by (auto simp: keygen_parsed.defs split: option.splits sum.splits)
  show ?thesis
    unfolding keygen_from_args_def assms(2) sum.case mode keygen_reads_as_def hash[symmetric]
    by (auto simp: keygen_end_values keygen_end_files keygen_parsed_eq_iff keygen_parsed.defs)
qed

lemma keygen_parse_iff:
  "keygen_from_args args = Inr p \<longleftrightarrow>
     (\<exists>toks tail. args = arg_line toks tail \<and> list_all keygen_token_ok toks \<and> keygen_reads_as toks p)"
proof
  assume parsed: "keygen_from_args args = Inr p"
  then obtain s where "keygen_scan_args args keygen_scan_start = Inr s"
    by (auto simp: keygen_from_args_def split: sum.splits)
  then show "\<exists>toks tail. args = arg_line toks tail \<and> list_all keygen_token_ok toks \<and> keygen_reads_as toks p"
    using parsed keygen_loop.line_of_scan keygen_parse_of_end
    by (fastforce simp: fits_list_all keygen_end_def[symmetric] split: option.splits)
next
  assume "\<exists>toks tail. args = arg_line toks tail \<and> list_all keygen_token_ok toks \<and> keygen_reads_as toks p"
  then obtain toks tail where line: "args = arg_line toks tail" and ok: "list_all keygen_token_ok toks"
    and reads: "keygen_reads_as toks p" by blast
  have "keygen_scan_args args keygen_scan_start = Inr (keygen_end toks)"
    using keygen_loop.scan_of_line[of toks keygen_scan_start tail] ok
    by (simp add: line fits_list_all keygen_end_def split: option.splits)
  with reads show "keygen_from_args args = Inr p"
    by (simp add: keygen_parse_of_end[OF ok])
qed

end
