(* ===== verification/Props_Keygen.thy ===== *)
theory Props_Keygen
  imports Keygen_Grammar Front_Ends Demo
begin

text \<open>
  The properties of \<open>gitway keygen\<close>, \<open>gitway sign\<close> and the \<open>gitway-keygen\<close> shim that Git calls,
  and those that the key-handling programs share.
\<close>

section \<open>Signing for Git\<close>

text \<open>C9: A run of \<open>gitway-keygen -Y sign\<close> in which the agent is asked to sign never prompts for a
  passphrase; a run that succeeds exits with 0 and has made exactly one output, the signature
  beside the message file, or on standard output when the message came from standard input;
  a run that fails has printed nothing on standard output.\<close>

theorem git_signing_is_clean:
  "traced (shim_run_sign D G Q p) (\<lambda>r es.
     (if Agent AgSign \<in> set es then \<not> list_ex secret_prompt es else True)
     \<and> (case r of
          Inl _ \<Rightarrow> \<not> (\<exists>j. Out j \<in> set es)
        | Inr c \<Rightarrow> c = 0 \<and> (\<exists>e. filter output_event es = [e] \<and> signature_target p e)))"
  by (rule traced_mono[OF shim_run_sign_ok]) (auto simp: sign_run_ok_def sign_outputs_def)

text \<open>C33: The key that \<open>-Y sign\<close> falls back to is the given file when it parses as a private key, and
  otherwise, for a public key, the existing file without its \<open>.pub\<close>. The error says why there is
  none: \<open>no key found\<close> for a given file that is not there (even when the file without its \<open>.pub\<close> is
  there, which the function's comment counts as found), the input error of another unreadable file,
  and a usage error for a file that is neither a private key nor a public key with its private key
  beside it.\<close>

theorem signing_key_lookup:
  "case resolve_signing_key_path K path w of
     (Inr q, w') \<Rightarrow> \<exists>raw. read_text_at (w_fs w) path = Inr raw
       \<and> (q = path \<and> \<not> isl (sk_from_openssh K raw)
          \<or> path = q @ ''.pub'' \<and> w_fs w q \<noteq> None \<and> \<not> isl (pk_from_openssh K (trim raw)))
   | (Inl e, w') \<Rightarrow> (case read_text_at (w_fs w) path of
       Inl err \<Rightarrow> e = (if io_kind_of err = IoNotFound then NoKeyFound else Io err)
     | Inr raw \<Rightarrow> (\<exists>s. e = InvalidConfig s) \<and> isl (sk_from_openssh K raw)
         \<and> \<not> (\<exists>q. path = q @ ''.pub'' \<and> w_fs w q \<noteq> None \<and> \<not> isl (pk_from_openssh K (trim raw))))"
proof (cases "resolve_signing_key_path K path w")
  case (Pair r w')
  show ?thesis
  proof (cases r)
    case (Inr q)
    obtain raw where "read_text_at (w_fs w) path = Inr raw"
      "q = path \<and> \<not> isl (sk_from_openssh K raw)
       \<or> path = q @ ''.pub'' \<and> w_fs w q \<noteq> None \<and> \<not> isl (pk_from_openssh K (trim raw))"
      using resolve_signing_key_path_result[OF Pair[unfolded Inr]] .
    then show ?thesis by (simp add: Pair Inr)
  next
    case (Inl e)
    then show ?thesis
      using Pair by (auto simp: resolve_signing_key_path_def read_to_string_def path_exists_def effect_simps
          text_laws split: sum.splits if_splits option.splits)
  qed
qed

text \<open>C12: \<open>gitway-keygen\<close> accepts exactly the command lines that are a sequence of its options, with their
  values, ignored options and plain arguments, perhaps followed by \<open>--\<close> and arguments that are
  dropped, whose bit counts, hashes and \<open>-Y\<close> operation are known; and it reads them as what they
  say: of several values of an option the last counts, \<open>-Y\<close> beats \<open>-l\<close> beats \<open>-y\<close> beats \<open>-p\<close>, the
  first plain argument is the message file, the second the key file unless \<open>-f\<close> names one.\<close>

theorem keygen_language:
  "keygen_from_args args = Inr p \<longleftrightarrow>
     (\<exists>toks tail. args = arg_line toks tail \<and> list_all keygen_token_ok toks \<and> keygen_reads_as toks p)"
  by (rule keygen_parse_iff)

section \<open>gitway sign and gitway keygen\<close>

text \<open>C21: \<open>gitway sign\<close> prints on standard output a signature of the library for the given namespace
  and hash, or nothing when the signature goes to a file; nothing else, in JSON mode too, and
  nothing at all when it fails. \<open>gitway keygen verify\<close> exits with 0 only for a signature that the
  library has verified for the signer and the namespace asked for, and answers with the fingerprint
  of the key it reported; otherwise it prints no answer.\<close>

theorem sign_and_verify_answers:
  fixes D :: "('x, 'k, 'p) deps" and P :: "('x, 'h) platform"
  shows "traced (sign_run (D\<lparr>d_vault := backend feature os P\<rparr>) A Q args mode) (answers (sign_answer Q args))
    \<and> traced (keygen_run_verify Q vargs mode) (answers (verify_answer Q vargs))"
  by (intro conjI build.sign_run_stdout keygen_run_verify_stdout) simp

text \<open>C34: No key pair is written with an empty passphrase, by \<open>gitway keygen generate\<close> or by
  \<open>gitway-keygen\<close>. A passphrase that \<open>gitway keygen generate\<close> gives a new key is the one of the
  command line; or, when standard error is a terminal, it has been typed twice in the same way, and a
  key pair is written after these two questions only, or after the first one was left empty; or, when
  standard error is redirected, it is one unconfirmed answer of the ordinary passphrase cascade.
  \<open>gitway-keygen\<close> does not ask for a confirmation: it asks once at most.\<close>

theorem new_keys_get_confirmed_passphrases:
  "keygen_run_generate D (Q\<lparr>kg_write_keypair := \<lambda>key file pp.
      if pp = Some [] then other key file else kg_write_keypair Q key file pp\<rparr>) args mode
   = keygen_run_generate D Q args mode
   \<and> shim_run_generate D (Q\<lparr>kg_write_keypair := \<lambda>key file pp.
      if pp = Some [] then other key file else kg_write_keypair Q key file pp\<rparr>) p
   = shim_run_generate D Q p
   \<and> (case resolve_new_passphrase D file explicit no w of
        (Inr (Some s), w') \<Rightarrow> s \<noteq> [] \<and> \<not> no \<and> (case explicit of
          Some given \<Rightarrow> s = given \<and> w' = w
        | None \<Rightarrow>
            if w_stderr_tty w
            then \<exists>u. prompt_password (d_ask D) (''Enter new passphrase for '' @ file @ '' (empty for none): '') w = (Inr s, u)
              \<and> prompt_password (d_ask D) ''Enter same passphrase again: '' u = (Inr s, w')
            else prompt_passphrase D file w = (Inr s, w'))
      | _ \<Rightarrow> True)
   \<and> (if w_stderr_tty w \<and> gen_passphrase args = None \<and> \<not> gen_no_passphrase args
      then runs w (keygen_run_generate D Q args mode) (\<lambda>r es u.
        if Lib (Keygen ''write_keypair'') \<in> set es then filter secret_prompt es \<in> terminal_questions (gen_file args)
        else True)
      else True)
   \<and> traced (shim_run_generate D Q p) (\<lambda>r es. length (filter secret_prompt es) \<le> 1)"
proof (intro conjI generate_never_empty_passphrase shim_generate_never_empty_passphrase shim_generate_asks_once)
  show "case resolve_new_passphrase D file explicit no w of
        (Inr (Some s), w') \<Rightarrow> s \<noteq> [] \<and> \<not> no \<and> (case explicit of
          Some given \<Rightarrow> s = given \<and> w' = w
        | None \<Rightarrow>
            if w_stderr_tty w
            then \<exists>u. prompt_password (d_ask D) (''Enter new passphrase for '' @ file @ '' (empty for none): '') w = (Inr s, u)
              \<and> prompt_password (d_ask D) ''Enter same passphrase again: '' u = (Inr s, w')
            else prompt_passphrase D file w = (Inr s, w'))
      | _ \<Rightarrow> True"
  proof (cases "resolve_new_passphrase D file explicit no w")
    case (Pair r w')
    then show ?thesis
      by (cases r rule: sum.exhaust; cases "case r of Inl _ \<Rightarrow> None | Inr v \<Rightarrow> v")
        (auto dest!: resolve_new_passphrase_source split: option.split_asm)
  qed
qed (simp add: generate_questions)

section \<open>What the programs share\<close>

text \<open>C16: \<open>gitway keygen generate\<close>, \<open>verify\<close> and \<open>fingerprint\<close> and the \<open>gitway-keygen\<close> command lines for
  the same arguments are the same up to their messages: they succeed or fail alike, and hand the
  library the same keys, passphrases, comments, signatures and data, in the same order. For
  \<open>generate\<close> the passphrase is given on the command line, and a key size only where both
  programs pass it on (RSA); no argument may be a word that asks the shim for its help.\<close>

theorem keygen_front_ends_agree:
  "(if same_size ga \<and> \<not> list_ex asks_keygen_help (generate_line ga pp)
       \<and> (gen_passphrase ga = Some pp \<and> \<not> gen_no_passphrase ga \<or> pp = [] \<and> gen_no_passphrase ga)
     then agree w (keygen_run_generate D Q ga mode) (gitway_keygen_run D G Q (generate_line ga pp)) else True)
   \<and> (if vf_input va = None \<and> \<not> list_ex asks_keygen_help (verify_line va)
     then agree w (keygen_run_verify Q va mode) (gitway_keygen_run D G Q (verify_line va)) else True)
   \<and> (if \<not> list_ex asks_keygen_help (fingerprint_line fa)
     then agree w (keygen_run_fingerprint (d_keys D) fa mode) (gitway_keygen_run D G Q (fingerprint_line fa)) else True)"
  by (auto intro: generate_agrees verify_agrees fingerprint_agrees)

text \<open>C35: A private key, encrypted or not, and the public file beside it give the same public key, and
  so the same fingerprint, in \<open>gitway keygen\<close>, in \<open>gitway agent remove\<close> and in \<open>gitway-keygen\<close>.\<close>

theorem key_halves_agree:
  assumes "read_text_at (w_fs w) path = Inr pem" and "isl (pk_from_openssh K (trim pem))"
    and "sk_from_openssh K pem = Inr sk"
    and "read_text_at (w_fs w) (path @ ''.pub'') = Inr pub"
    and "pk_from_openssh K (trim pub) = Inr (sk_public K sk)"
  shows "fst (keygen_load_public_key K path w) = fst (keygen_load_public_key K (path @ ''.pub'') w)
    \<and> fst (load_public_or_derive K path w) = fst (load_public_or_derive K (path @ ''.pub'') w)
    \<and> fst (load_public_key K path w) = fst (load_public_key K (path @ ''.pub'') w)
    \<and> fst (load_public_key K path w) = Inr (sk_public K sk)"
  using keygen_pub.either_half[OF assms] agent_pub.either_half[OF assms] shim_pub.either_half[OF assms]
    shim_pub.loads_private[OF assms(1-3)]
  by simp

theorem key_halves_agree_witness:
  "fst (keygen_load_public_key demo_keys ''k'' demo_key_world)
      = fst (keygen_load_public_key demo_keys (''k'' @ ''.pub'') demo_key_world)
    \<and> fst (load_public_or_derive demo_keys ''k'' demo_key_world)
      = fst (load_public_or_derive demo_keys (''k'' @ ''.pub'') demo_key_world)
    \<and> fst (load_public_key demo_keys ''k'' demo_key_world)
      = fst (load_public_key demo_keys (''k'' @ ''.pub'') demo_key_world)
    \<and> fst (load_public_key demo_keys ''k'' demo_key_world) = Inr (sk_public demo_keys True)"
  by (rule key_halves_agree[OF demo_key_halves])

end
