(* ===== verification/Spec2Isabelle.thy ===== *)
theory Spec2Isabelle
  imports Props_Biometric Props_Agent Props_Transport Props_Keygen
begin

text \<open>
  A verification development for Gitway, the Rust SSH client for Git
  (\<open>src/gitway-cli/src\<close>): the binary \<open>gitway\<close> with its transport and its subcommands, and the
  shims \<open>gitway-keygen\<close> and \<open>gitway-add\<close> that stand in for \<open>ssh-keygen\<close> and \<open>ssh-add\<close>.

  The program and its model. A run is a function from a \<open>world\<close> to a result and a world
  (theory Effects). The world has what the code reads and changes: environment, file system,
  terminals, standard input, and the state of everything outside the repository, of an
  arbitrary type; it records every observable step in a trace of events (output, prompts,
  files, keystore, sensor, agent and SSH calls). Errors are \<open>anvil_error\<close> values on the left
  of a sum, so that each \<open>?\<close> of the source is a \<open>try_let\<close>. Three relations carry the proofs:
  \<open>adds_only\<close> (every event added satisfies a predicate), \<open>traced\<close> (the result and the added
  events satisfy a relation) and \<open>runs\<close> (a weakest precondition from a given world), each with
  one rule per combinator; \<open>wp\<close> and \<open>frames\<close> do the same for the state of the libraries.

  Theories and sources.
  \<^item> Rust_Std: the parts of the standard library that the sources use (trimming, splitting,
    parsing and printing of integers, paths, UTF-8).
  \<^item> Effects, Output_Mode, Cli_Args: combinators; the output mode, log filter and envelopes of
    \<open>main.rs\<close>; the argument types of \<open>cli.rs\<close> with the conflicts that clap enforces.
  \<^item> Ssh_Key, Anvil: the crates \<open>ssh_key\<close>, \<open>rpassword\<close> and \<open>anvil_ssh\<close> as records of functions.
  \<^item> Biometric, Biometric_Linux, Biometric_Native, Fprintd_Protocol: \<open>biometric/*.rs\<close>. The trait
    is the record \<open>vault\<close>; its promises are the locales \<open>quiet_vault\<close> and \<open>gated_vault\<close>, which
    each backend and the choice of a backend (\<open>build\<close>) interpret. Fprintd_Protocol is the
    device protocol as a step relation, which the Linux backend refines.
  \<^item> Vault_Map: the abstract vault, a map from fingerprints to passphrases (\<open>keymap_vault\<close>), and
    the proofs that the three backends implement it over the documented behaviour of their
    keystores (\<open>keyring_law\<close>, \<open>keychain_law\<close>, \<open>locker_law\<close>). \<open>keymap_vault_beside\<close> adds that
    the vault leaves something else alone, such as the key files (\<open>disk\<close>). \<open>presence_law\<close> is the
    documented behaviour of guarded Keychain items: the system asks for the user's presence
    whenever the data of one is read. Enrolment: what \<open>enroll\<close> and \<open>forget\<close> get out of that
    contract, and what any enrolment stores. Vault_History: the contents of the vault over any
    sequence of commands, as an inductive relation between worlds; the locale \<open>map_preorder\<close>
    verifies every command that uses the vault once, for two orders on its contents, and
    \<open>enrolled_on_the_way\<close> leads an entry back to the command and the key file it came from.
  \<^item> Biometric_Cmd: \<open>biometric_cmd.rs\<close>. Passphrase: the passphrase cascade of \<open>main.rs\<close>.
  \<^item> Transport, Main_Run, Schema: the SSH path, \<open>--test\<close>, \<open>--install\<close>, the discovery
    documents, \<open>run\<close> and \<open>main\<close> of \<open>main.rs\<close>. Envelopes: the contract of the JSON output
    (\<open>docs/json-schema.md\<close>) over all handlers, with the documents that deviate from it.
  \<^item> Config_Cmd, Hosts_Cmd, Algorithms_Cmd: \<open>config.rs\<close>, \<open>hosts.rs\<close>, \<open>algorithms.rs\<close>.
  \<^item> Agent_Client, Agent_Cmd, Agent_Daemon: \<open>agent.rs\<close>. Gitway_Add: \<open>bin/gitway-add.rs\<close>.
  \<^item> Key_Files, Keygen_Cmd, Keygen_Shim: \<open>keygen.rs\<close>, \<open>sign.rs\<close>, \<open>bin/gitway-keygen.rs\<close>; the
    loaders of public keys interpret the locale \<open>public_loader\<close>.
  \<^item> Arg_Grammar, Add_Grammar, Keygen_Grammar: the languages of the two shims' command lines and
    their meaning, given declaratively. The locale \<open>arg_scanner\<close> is the contract of one round of
    an argument loop and is interpreted on both loops.
  \<^item> Add_Agreement: \<open>gitway agent add\<close> and \<open>gitway-add\<close> run side by side, with the relation \<open>sim\<close>
    of runs that differ in their messages only. Front_Ends: the other subcommands that have a
    counterpart in a shim (\<open>agent list\<close>, \<open>agent remove\<close>, \<open>keygen generate\<close>, \<open>verify\<close>,
    \<open>fingerprint\<close>).
  \<^item> Props_Biometric, Props_Agent, Props_Transport, Props_Keygen: the properties; Demo and
    Demo_Vault hold the concrete instances for their witnesses.

  A function of the source keeps its name; where several files use the same name the model's
  name says which one is meant (\<open>agent_run_list\<close>, \<open>keygen_run_verify\<close>, \<open>shim_run_sign\<close>).

  Interaction. \<open>gitway_main\<close> runs \<open>gitway_run\<close>, which dispatches a subcommand
  (\<open>run_subcommand\<close>) or the SSH path (\<open>run_ssh\<close>); the SSH path, \<open>sign\<close>, \<open>keygen\<close> and
  \<open>agent add\<close> collect passphrases with \<open>prompt_passphrase\<close>, which asks the vault first. The
  properties hold for \<open>backend feature os P\<close>, the vault of an arbitrary build.

  What the groups of lemmas show. Biometric: presence before every release of a secret, release
  of the device, silence towards users whose key is not enrolled, the vault as a map (enroll,
  then unlock; forget, then nothing; in any history only entries that decrypted the key file of
  their enrolment, and entries gone stale are found out), batches and their exit codes.
  Passphrases: at most one question, and the trust in an askpass program. Transport: one
  connection, authentication before execution, precedence of flags, rejected algorithm lists,
  proxies, missing and rejected keys. Known hosts and
  configuration: consent, redaction. Keys: what the agent is given, what a signing run prints,
  agreement between the programs (public keys; adding, listing and removing agent keys;
  generating keys, fingerprints, verifying signatures). Arguments: the
  language and the meaning of the hand-written parsers. Daemon: termination of the wait loop, success means a bound socket.

  Bounds. Integers of the code with a width are words (\<open>u32\<close> and so on); \<open>millis_u64\<close> and
  \<open>rsa_modulus_bits\<close> write the saturation out. The only loop of the sources whose end depends on
  the outside is the wait for the socket of a background agent: it polls every 50 ms until a
  deadline of 5000 ms, so \<open>poll_fuel\<close> is 101, and \<open>start_stops_waiting\<close> shows that this is
  enough for every clock that does not go back and that a sleep moves forward. Argument parsers
  terminate by the number of arguments left.

  Not modelled. The crate \<open>anvil_ssh\<close> and what it contains (SSH protocol, agent protocol and the
  daemon's loop, key generation, SSHSIG, the ssh_config resolver, the known-hosts file format),
  \<open>ssh_key\<close>, clap's parsing of the command line, zbus, oo7, Keychain, WinRT, tokio: their calls
  are parameters, arbitrary functions of the file system and the outside state, with
  hypotheses only where a property names them (\<open>ssh_key_laws\<close>, \<open>clock_law\<close>, the three laws of the
  keystores, \<open>presence_law\<close>, \<open>prompts_frame\<close>, \<open>agent_frame\<close>). Log and tracing
  records are not part of the trace, zeroing of memory has no effect on values, and standard
  output does not fail. \<open>gitway-lib\<close> re-exports \<open>anvil_ssh\<close>; \<open>lib.rs\<close> declares modules; the
  fuzz targets and tests are not part of the program.
\<close>

end
